(* ===== verification/Prelude.thy ===== *)
theory Prelude
  imports Main "HOL-Library.Word"
begin

text \<open>
  What every other theory of the development shares: the type of a computation of the contract
  (a function of the state it runs in, ending in an error or in a value and the next state), its
  composition, and a few facts on lists and on decimal numerals that the standard library of Rust
  prints.

  A Rust expression statement is one step of \<open>bind_c\<close>; \<open>return_c\<close> is the value of a block;
  \<open>revert_c\<close> ends the call with an error and, as on the chain, without a next state.
\<close>

named_theorems run_simps \<open>equations that execute a step of a computation\<close>

type_synonym u8 = "8 word"
type_synonym u16 = "16 word"
type_synonym u32 = "32 word"
type_synonym u64 = "64 word"
type_synonym bytes = "8 word list"

section \<open>Computations that may revert\<close>

type_synonym ('s, 'e, 'a) computation = "'s \<Rightarrow> 'e + 'a \<times> 's"

definition return_c :: "'a \<Rightarrow> ('s, 'e, 'a) computation" where
  "return_c a s = Inr (a, s)"

definition revert_c :: "'e \<Rightarrow> ('s, 'e, 'a) computation" where
  "revert_c e s = Inl e"

definition bind_c ::
  "('s, 'e, 'a) computation \<Rightarrow> ('a \<Rightarrow> ('s, 'e, 'b) computation) \<Rightarrow> ('s, 'e, 'b) computation" where
  "bind_c m f s = (case m s of Inl e \<Rightarrow> Inl e | Inr (a, s') \<Rightarrow> f a s')"

text \<open>A guard: \<open>if b { revert(e) }\<close>.\<close>

definition revert_if :: "bool \<Rightarrow> 'e \<Rightarrow> ('s, 'e, unit) computation" where
  "revert_if b e = (if b then revert_c e else return_c ())"

lemma return_c_run [run_simps, simp]: "return_c a s = Inr (a, s)"
  by (simp add: return_c_def)

lemma revert_c_run [run_simps, simp]: "revert_c e s = Inl e"
  by (simp add: revert_c_def)

lemma revert_if_run [run_simps, simp]: "revert_if b e s = (if b then Inl e else Inr ((), s))"
  by (simp add: revert_if_def)

lemma bind_c_Inr: "m s = Inr (a, s') \<Longrightarrow> bind_c m f s = f a s'"
  by (simp add: bind_c_def)

lemma bind_c_Inl: "m s = Inl e \<Longrightarrow> bind_c m f s = Inl e"
  by (simp add: bind_c_def)

lemma bind_c_return [run_simps, simp]: "bind_c (return_c a) f s = f a s"
  by (simp add: bind_c_def)

lemma bind_c_revert [run_simps, simp]: "bind_c (revert_c e) f s = Inl e"
  by (simp add: bind_c_def)

lemma bind_c_revert_if [run_simps, simp]:
  "bind_c (revert_if b e) f s = (if b then Inl e else f () s)"
  by (simp add: bind_c_def)

lemma bind_c_if [run_simps]:
  "bind_c (if b then m else n) f s = (if b then bind_c m f s else bind_c n f s)"
  by simp

lemma bind_c_assoc [run_simps]: "bind_c (bind_c m f) g s = bind_c m (\<lambda>a. bind_c (f a) g) s"
  by (simp add: bind_c_def split: sum.splits prod.splits)

text \<open>Inversion: a composed computation that returns has run both parts.\<close>

lemma bind_c_InrE:
  assumes "bind_c m f s = Inr r"
  obtains a s' where "m s = Inr (a, s')" and "f a s' = Inr r"
  using assms by (auto simp: bind_c_def split: sum.splits)

lemma bind_c_eq_Inr_iff:
  "bind_c m f s = Inr r \<longleftrightarrow> (\<exists>a s'. m s = Inr (a, s') \<and> f a s' = Inr r)"
  by (auto simp: bind_c_def split: sum.splits)

text \<open>An iterator's \<open>map(f).collect()\<close> and a \<open>for\<close> loop, where \<open>f\<close> may revert.\<close>

primrec map_c :: "('a \<Rightarrow> ('s, 'e, 'b) computation) \<Rightarrow> 'a list \<Rightarrow> ('s, 'e, 'b list) computation" where
  "map_c f [] = return_c []"
| "map_c f (x # xs) = bind_c (f x) (\<lambda>y. bind_c (map_c f xs) (\<lambda>ys. return_c (y # ys)))"

primrec for_c :: "('a \<Rightarrow> ('s, 'e, unit) computation) \<Rightarrow> 'a list \<Rightarrow> ('s, 'e, unit) computation" where
  "for_c f [] = return_c ()"
| "for_c f (x # xs) = bind_c (f x) (\<lambda>_. for_c f xs)"

lemma map_c_pure: "(\<And>x. x \<in> set xs \<Longrightarrow> f x s = Inr (g x, s)) \<Longrightarrow> map_c f xs s = Inr (map g xs, s)"
  by (induction xs) (simp_all add: bind_c_Inr [where s' = s])

section \<open>Lists\<close>

text \<open>The first position of an element, as Rust's \<open>iter().position\<close> finds it.\<close>

primrec position :: "'a \<Rightarrow> 'a list \<Rightarrow> nat option" where
  "position x [] = None"
| "position x (y # ys) = (if y = x then Some 0 else map_option Suc (position x ys))"

text \<open>\<open>Vec::remove\<close>: the element at an index leaves, the later ones move up.\<close>

definition remove_at :: "nat \<Rightarrow> 'a list \<Rightarrow> 'a list" where
  "remove_at n xs = take n xs @ drop (Suc n) xs"

lemma position_None [simp]: "position x xs = None \<longleftrightarrow> x \<notin> set xs"
  by (induction xs) auto

lemma remove_at_position: "position x xs = Some n \<Longrightarrow> remove_at n xs = remove1 x xs"
  by (induction xs arbitrary: n) (auto simp: remove_at_def split: if_splits)

lemma position_Some_mem: "position x xs = Some n \<Longrightarrow> x \<in> set xs"
  by (metis option.distinct(1) position_None)

lemma position_mem: "x \<in> set xs \<Longrightarrow> \<exists>n. position x xs = Some n \<and> remove_at n xs = remove1 x xs"
  by (metis not_None_eq position_None remove_at_position)

section \<open>Decimal numerals\<close>

text \<open>
  \<open>u64::to_string\<close>: the decimal digits of a number, most significant first, with no leading
  zero. It names the token of an ordinal index in every dictionary of the contract, so that two
  indices must never share a name.
\<close>

definition digit_char :: "nat \<Rightarrow> char" where
  "digit_char d = char_of (48 + d)"

fun decimal :: "nat \<Rightarrow> string" where
  "decimal n = (if n < 10 then [digit_char n] else decimal (n div 10) @ [digit_char (n mod 10)])"

declare decimal.simps [simp del]

definition u64_to_string :: "u64 \<Rightarrow> string" where
  "u64_to_string w = decimal (unat w)"

lemma digit_char_inj: "a < 10 \<Longrightarrow> b < 10 \<Longrightarrow> digit_char a = digit_char b \<longleftrightarrow> a = b"
proof -
  assume "a < 10" and "b < 10"
  then have "(48 + a) mod 256 = 48 + a" and "(48 + b) mod 256 = 48 + b" by simp_all
  then show ?thesis
    unfolding digit_char_def by (metis add_left_cancel of_char_of)
qed

lemma decimal_nonempty [simp]: "decimal n \<noteq> []" "[] \<noteq> decimal n"
  by (subst decimal.simps, simp)+

lemma decimal_inj: "decimal a = decimal b \<longleftrightarrow> a = b"
proof (induction a arbitrary: b rule: decimal.induct)
  case (1 a)
  show ?case
  proof (cases "a < 10")
    case True
    then show ?thesis
      by (subst decimal.simps [of a], subst decimal.simps [of b])
        (auto simp: digit_char_inj)
  next
    case False
    then have IH: "decimal (a div 10) = decimal (b div 10) \<longleftrightarrow> a div 10 = b div 10" for b
      using "1.IH" by blast
    have "decimal a = decimal b \<longleftrightarrow> \<not> b < 10 \<and> a div 10 = b div 10 \<and> a mod 10 = b mod 10"
      using False IH
      by (subst decimal.simps [of a], subst decimal.simps [of b])
        (auto simp: digit_char_inj)
    also have "\<dots> \<longleftrightarrow> a = b"
      using False by (metis div_less div_mult_mod_eq less_nat_zero_code linorder_neqE_nat
          div_eq_0_iff zero_neq_numeral)
    finally show ?thesis .
  qed
qed

lemma length_decimal: "n < 10 ^ k \<Longrightarrow> 0 < k \<Longrightarrow> length (decimal n) \<le> k"
proof (induction n arbitrary: k rule: decimal.induct)
  case (1 n)
  show ?case
  proof (cases "n < 10")
    case True
    then show ?thesis using 1(3) by (subst decimal.simps) simp
  next
    case False
    then obtain l where k: "k = Suc l" and "0 < l"
      using 1(2,3) by (cases k; cases "k - 1") auto
    have "length (decimal (n div 10)) \<le> l"
      by (rule 1(1) [OF False]) (use 1(2) \<open>0 < l\<close> in \<open>simp_all add: k less_mult_imp_div_less\<close>)
    then show ?thesis using False by (subst decimal.simps) (simp add: k)
  qed
qed

lemma length_u64_to_string: "length (u64_to_string w) \<le> 20"
proof -
  have "unat w < 10 ^ 20" by (rule order.strict_trans2 [OF unsigned_less]) simp
  then show ?thesis unfolding u64_to_string_def by (rule length_decimal) simp
qed

lemma u64_to_string_inj [simp]: "u64_to_string a = u64_to_string b \<longleftrightarrow> a = b"
  by (simp add: u64_to_string_def decimal_inj word_unat_eq_iff)

section \<open>Words\<close>

lemma unat_Suc_u64: "w < b \<Longrightarrow> unat (w + 1) = Suc (unat w)" for w b :: u64
proof -
  assume "w < b"
  then have "unat w < unat b" by (simp add: word_less_nat_alt)
  moreover have "unat b < 2 ^ 64" by (rule order_less_le_trans [OF unsigned_less]) simp
  ultimately show ?thesis by (simp add: unat_word_ariths)
qed

end
