(* ===== verification/Errors.thy ===== *)
theory Errors
  imports Prelude
begin

text \<open>
  The errors a call can end with: the contract's own \<open>NFTCoreError\<close> of
  \<open>contract/src/error.rs\<close>, with the code each is reported under, the errors of the platform
  (\<open>ApiError\<close>) that the code tells apart or passes on, and a Rust panic (a failed \<open>unwrap\<close>).
\<close>

datatype (plugins only: ) nft_core_error =
    InvalidAccount
  | MissingInstaller
  | InvalidInstaller
  | UnexpectedKeyVariant
  | MissingTokenOwner
  | InvalidTokenOwner
  | FailedToGetArgBytes
  | FailedToCreateDictionary
  | MissingStorageUref
  | InvalidStorageUref
  | MissingOwnersUref
  | InvalidOwnersUref
  | FailedToAccessStorageDictionary
  | FailedToAccessOwnershipDictionary
  | DuplicateMinted
  | FailedToConvertToCLValue
  | MissingCollectionName
  | InvalidCollectionName
  | FailedToSerializeMetaData
  | MissingAccount
  | MissingMintingStatus
  | InvalidMintingStatus
  | MissingCollectionSymbol
  | InvalidCollectionSymbol
  | MissingTotalTokenSupply
  | InvalidTotalTokenSupply
  | MissingTokenID
  | InvalidTokenIdentifier
  | MissingTokenOwners
  | MissingAccountHash
  | InvalidAccountHash
  | TokenSupplyDepleted
  | MissingOwnedTokensDictionary
  | TokenAlreadyBelongsToMinterFatal
  | FatalTokenIdDuplication
  | InvalidMinter
  | MissingMintingMode
  | InvalidMintingMode
  | MissingInstallerKey
  | FailedToConvertToAccountHash
  | InvalidBurner
  | PreviouslyBurntToken
  | MissingAllowMinting
  | InvalidAllowMinting
  | MissingNumberOfMintedTokens
  | InvalidNumberOfMintedTokens
  | MissingTokenMetaData
  | InvalidTokenMetaData
  | MissingApprovedAccountHash
  | InvalidApprovedAccountHash
  | MissingApprovedTokensDictionary
  | TokenAlreadyApproved
  | MissingApproveAll
  | InvalidApproveAll
  | MissingOperator
  | InvalidOperator
  | PhantomError
  | ContractAlreadyInitialized
  | MintingIsPaused
  | FailureToParseAccountHash
  | VacantValueInDictionary
  | MissingOwnershipMode
  | InvalidOwnershipMode
  | InvalidTokenMinter
  | MissingOwnedTokens
  | InvalidAccountKeyInDictionary
  | MissingJsonSchema
  | InvalidJsonSchema
  | InvalidKey
  | InvalidOwnedTokens
  | MissingTokenURI
  | InvalidTokenURI
  | MissingNftKind
  | InvalidNftKind
  | MissingHolderMode
  | InvalidHolderMode
  | MissingWhitelistMode
  | InvalidWhitelistMode
  | MissingContractWhiteList
  | InvalidContractWhitelist
  | UnlistedContractHash
  | InvalidContract
  | EmptyContractWhitelist
  | MissingReceiptName
  | InvalidReceiptName
  | InvalidJsonMetadata
  | InvalidJsonFormat
  | FailedToParseCep99Metadata
  | FailedToParse721Metadata
  | FailedToParseCustomMetadata
  | InvalidCEP99Metadata
  | FailedToJsonifyCEP99Metadata
  | InvalidNFT721Metadata
  | FailedToJsonifyNFT721Metadata
  | InvalidCustomMetadata
  | MissingNFTMetadataKind
  | InvalidNFTMetadataKind
  | MissingIdentifierMode
  | InvalidIdentifierMode
  | FailedToParseTokenId
  | MissingMetadataMutability
  | InvalidMetadataMutability
  | FailedToJsonifyCustomMetadata
  | ForbiddenMetadataUpdate
  | MissingAccountWhiteList
  | InvalidAccountWhitelist
  | UnlistedAccountHash

text \<open>The discriminants of the \<open>#[repr(u16)]\<close> enum: \<open>e as u16\<close>.\<close>

primrec error_code :: "nft_core_error \<Rightarrow> u16" where
  "error_code InvalidAccount = 1"
| "error_code MissingInstaller = 2"
| "error_code InvalidInstaller = 3"
| "error_code UnexpectedKeyVariant = 4"
| "error_code MissingTokenOwner = 5"
| "error_code InvalidTokenOwner = 6"
| "error_code FailedToGetArgBytes = 7"
| "error_code FailedToCreateDictionary = 8"
| "error_code MissingStorageUref = 9"
| "error_code InvalidStorageUref = 10"
| "error_code MissingOwnersUref = 11"
| "error_code InvalidOwnersUref = 12"
| "error_code FailedToAccessStorageDictionary = 13"
| "error_code FailedToAccessOwnershipDictionary = 14"
| "error_code DuplicateMinted = 15"
| "error_code FailedToConvertToCLValue = 16"
| "error_code MissingCollectionName = 17"
| "error_code InvalidCollectionName = 18"
| "error_code FailedToSerializeMetaData = 19"
| "error_code MissingAccount = 20"
| "error_code MissingMintingStatus = 21"
| "error_code InvalidMintingStatus = 22"
| "error_code MissingCollectionSymbol = 23"
| "error_code InvalidCollectionSymbol = 24"
| "error_code MissingTotalTokenSupply = 25"
| "error_code InvalidTotalTokenSupply = 26"
| "error_code MissingTokenID = 27"
| "error_code InvalidTokenIdentifier = 28"
| "error_code MissingTokenOwners = 29"
| "error_code MissingAccountHash = 30"
| "error_code InvalidAccountHash = 31"
| "error_code TokenSupplyDepleted = 32"
| "error_code MissingOwnedTokensDictionary = 33"
| "error_code TokenAlreadyBelongsToMinterFatal = 34"
| "error_code FatalTokenIdDuplication = 35"
| "error_code InvalidMinter = 36"
| "error_code MissingMintingMode = 37"
| "error_code InvalidMintingMode = 38"
| "error_code MissingInstallerKey = 39"
| "error_code FailedToConvertToAccountHash = 40"
| "error_code InvalidBurner = 41"
| "error_code PreviouslyBurntToken = 42"
| "error_code MissingAllowMinting = 43"
| "error_code InvalidAllowMinting = 44"
| "error_code MissingNumberOfMintedTokens = 45"
| "error_code InvalidNumberOfMintedTokens = 46"
| "error_code MissingTokenMetaData = 47"
| "error_code InvalidTokenMetaData = 48"
| "error_code MissingApprovedAccountHash = 49"
| "error_code InvalidApprovedAccountHash = 50"
| "error_code MissingApprovedTokensDictionary = 51"
| "error_code TokenAlreadyApproved = 52"
| "error_code MissingApproveAll = 53"
| "error_code InvalidApproveAll = 54"
| "error_code MissingOperator = 55"
| "error_code InvalidOperator = 56"
| "error_code PhantomError = 57"
| "error_code ContractAlreadyInitialized = 58"
| "error_code MintingIsPaused = 59"
| "error_code FailureToParseAccountHash = 60"
| "error_code VacantValueInDictionary = 61"
| "error_code MissingOwnershipMode = 62"
| "error_code InvalidOwnershipMode = 63"
| "error_code InvalidTokenMinter = 64"
| "error_code MissingOwnedTokens = 65"
| "error_code InvalidAccountKeyInDictionary = 66"
| "error_code MissingJsonSchema = 67"
| "error_code InvalidJsonSchema = 68"
| "error_code InvalidKey = 69"
| "error_code InvalidOwnedTokens = 70"
| "error_code MissingTokenURI = 71"
| "error_code InvalidTokenURI = 72"
| "error_code MissingNftKind = 73"
| "error_code InvalidNftKind = 74"
| "error_code MissingHolderMode = 75"
| "error_code InvalidHolderMode = 76"
| "error_code MissingWhitelistMode = 77"
| "error_code InvalidWhitelistMode = 78"
| "error_code MissingContractWhiteList = 79"
| "error_code InvalidContractWhitelist = 80"
| "error_code UnlistedContractHash = 81"
| "error_code InvalidContract = 82"
| "error_code EmptyContractWhitelist = 83"
| "error_code MissingReceiptName = 84"
| "error_code InvalidReceiptName = 85"
| "error_code InvalidJsonMetadata = 86"
| "error_code InvalidJsonFormat = 87"
| "error_code FailedToParseCep99Metadata = 88"
| "error_code FailedToParse721Metadata = 89"
| "error_code FailedToParseCustomMetadata = 90"
| "error_code InvalidCEP99Metadata = 91"
| "error_code FailedToJsonifyCEP99Metadata = 92"
| "error_code InvalidNFT721Metadata = 93"
| "error_code FailedToJsonifyNFT721Metadata = 94"
| "error_code InvalidCustomMetadata = 95"
| "error_code MissingNFTMetadataKind = 96"
| "error_code InvalidNFTMetadataKind = 97"
| "error_code MissingIdentifierMode = 98"
| "error_code InvalidIdentifierMode = 99"
| "error_code FailedToParseTokenId = 100"
| "error_code MissingMetadataMutability = 101"
| "error_code InvalidMetadataMutability = 102"
| "error_code FailedToJsonifyCustomMetadata = 103"
| "error_code ForbiddenMetadataUpdate = 104"
| "error_code MissingAccountWhiteList = 105"
| "error_code InvalidAccountWhitelist = 106"
| "error_code UnlistedAccountHash = 107"

text \<open>
  The platform's errors that the code names (\<open>ApiError::None\<close> of a failed \<open>unwrap_or_revert\<close> on
  an option, missing or ill-formed arguments, missing keys, missing values, trailing bytes); any
  other one is passed on as it comes.
\<close>

datatype api_error =
    Api_None | Api_MissingArgument | Api_InvalidArgument | Api_MissingKey | Api_ValueNotFound
  | Api_LeftOverBytes | Api_DictionaryItemKeyExceedsLength | Api_Other u32

datatype error = User nft_core_error | Api api_error | Panic

text \<open>\<open>impl From<NFTCoreError> for ApiError\<close>: the code under which the platform reports an error
  of the contract.\<close>

datatype reported = Reported_user u16 | Reported_api api_error | Reported_trap

primrec report :: "error \<Rightarrow> reported" where
  "report (User e) = Reported_user (error_code e)"
| "report (Api e) = Reported_api e"
| "report Panic = Reported_trap"

type_synonym ('s, 'a) contract = "('s, error, 'a) computation"

section \<open>Results turned into computations\<close>

text \<open>\<open>Result::unwrap_or_revert\<close> on an error of the contract.\<close>

definition unwrap_or_revert :: "nft_core_error + 'a \<Rightarrow> ('s, 'a) contract" where
  "unwrap_or_revert r = (case r of Inl e \<Rightarrow> revert_c (User e) | Inr a \<Rightarrow> return_c a)"

text \<open>\<open>Option::unwrap_or_revert_with\<close>.\<close>

definition unwrap_or_revert_with :: "error \<Rightarrow> 'a option \<Rightarrow> ('s, 'a) contract" where
  "unwrap_or_revert_with e r = (case r of None \<Rightarrow> revert_c e | Some a \<Rightarrow> return_c a)"

lemma unwrap_or_revert_run [run_simps, simp]:
  "unwrap_or_revert (Inl e) s = Inl (User e)"
  "unwrap_or_revert (Inr a) s = Inr (a, s)"
  by (simp_all add: unwrap_or_revert_def)

lemma bind_unwrap_or_revert [run_simps, simp]:
  "bind_c (unwrap_or_revert (Inl e)) f s = Inl (User e)"
  "bind_c (unwrap_or_revert (Inr a)) f s = f a s"
  by (simp_all add: unwrap_or_revert_def)

lemma unwrap_or_revert_with_run [run_simps, simp]:
  "unwrap_or_revert_with e None s = Inl e"
  "unwrap_or_revert_with e (Some a) s = Inr (a, s)"
  by (simp_all add: unwrap_or_revert_with_def)

lemma bind_unwrap_or_revert_with [run_simps, simp]:
  "bind_c (unwrap_or_revert_with e None) f s = Inl e"
  "bind_c (unwrap_or_revert_with e (Some a)) f s = f a s"
  by (simp_all add: unwrap_or_revert_with_def)

section \<open>The codes are distinct\<close>

text \<open>The constructor at a code, for the inverse of \<open>error_code\<close>: a table in source order.\<close>

definition error_table :: "nft_core_error list" where
  "error_table = [
    InvalidAccount, MissingInstaller, InvalidInstaller,
    UnexpectedKeyVariant, MissingTokenOwner, InvalidTokenOwner,
    FailedToGetArgBytes, FailedToCreateDictionary, MissingStorageUref,
    InvalidStorageUref, MissingOwnersUref, InvalidOwnersUref,
    FailedToAccessStorageDictionary, FailedToAccessOwnershipDictionary, DuplicateMinted,
    FailedToConvertToCLValue, MissingCollectionName, InvalidCollectionName,
    FailedToSerializeMetaData, MissingAccount, MissingMintingStatus,
    InvalidMintingStatus, MissingCollectionSymbol, InvalidCollectionSymbol,
    MissingTotalTokenSupply, InvalidTotalTokenSupply, MissingTokenID,
    InvalidTokenIdentifier, MissingTokenOwners, MissingAccountHash,
    InvalidAccountHash, TokenSupplyDepleted, MissingOwnedTokensDictionary,
    TokenAlreadyBelongsToMinterFatal, FatalTokenIdDuplication, InvalidMinter,
    MissingMintingMode, InvalidMintingMode, MissingInstallerKey,
    FailedToConvertToAccountHash, InvalidBurner, PreviouslyBurntToken,
    MissingAllowMinting, InvalidAllowMinting, MissingNumberOfMintedTokens,
    InvalidNumberOfMintedTokens, MissingTokenMetaData, InvalidTokenMetaData,
    MissingApprovedAccountHash, InvalidApprovedAccountHash, MissingApprovedTokensDictionary,
    TokenAlreadyApproved, MissingApproveAll, InvalidApproveAll,
    MissingOperator, InvalidOperator, PhantomError,
    ContractAlreadyInitialized, MintingIsPaused, FailureToParseAccountHash,
    VacantValueInDictionary, MissingOwnershipMode, InvalidOwnershipMode,
    InvalidTokenMinter, MissingOwnedTokens, InvalidAccountKeyInDictionary,
    MissingJsonSchema, InvalidJsonSchema, InvalidKey,
    InvalidOwnedTokens, MissingTokenURI, InvalidTokenURI,
    MissingNftKind, InvalidNftKind, MissingHolderMode,
    InvalidHolderMode, MissingWhitelistMode, InvalidWhitelistMode,
    MissingContractWhiteList, InvalidContractWhitelist, UnlistedContractHash,
    InvalidContract, EmptyContractWhitelist, MissingReceiptName,
    InvalidReceiptName, InvalidJsonMetadata, InvalidJsonFormat,
    FailedToParseCep99Metadata, FailedToParse721Metadata, FailedToParseCustomMetadata,
    InvalidCEP99Metadata, FailedToJsonifyCEP99Metadata, InvalidNFT721Metadata,
    FailedToJsonifyNFT721Metadata, InvalidCustomMetadata, MissingNFTMetadataKind,
    InvalidNFTMetadataKind, MissingIdentifierMode, InvalidIdentifierMode,
    FailedToParseTokenId, MissingMetadataMutability, InvalidMetadataMutability,
    FailedToJsonifyCustomMetadata, ForbiddenMetadataUpdate, MissingAccountWhiteList,
    InvalidAccountWhitelist, UnlistedAccountHash]"

text \<open>
  Each error's code is its place in the source, counted from 1, so that no two errors are
  reported alike.
\<close>

lemma error_table_codes: "map error_code error_table = map word_of_nat [1..<108]"
  by (simp add: error_table_def upt_rec)

lemma error_table_complete: "e \<in> set error_table"
  by (cases e) (simp_all add: error_table_def)

lemma error_code_inj: "error_code e = error_code e' \<longleftrightarrow> e = e'"
proof -
  have "distinct (map error_code error_table)"
    unfolding error_table_codes
    by (simp add: distinct_map inj_on_def of_nat_eq_iff word_of_nat_eq_iff take_bit_nat_eq_self)
  then have "inj_on error_code (set error_table)"
    by (simp add: distinct_map)
  then show ?thesis by (auto simp: inj_on_def error_table_complete)
qed

end
