(* ===== verification/Casper.thy ===== *)
theory Casper
  imports Errors
begin

text \<open>
  The interface of the contract to what is not in the repository: the data types of
  \<open>casper_types\<close> that the code takes apart, the arguments of one call, and the functions of
  \<open>casper_contract\<close>, \<open>casper_types\<close> and \<open>casper_serde_json_wasm\<close> that it calls. The functions are
  parameters of the model: the fields of the record \<open>casper\<close>, over an unknown type \<open>'h\<close> of host
  states. The locale \<open>casper_host\<close> states what their documentation promises and the contract
  relies on.
\<close>

section \<open>Hashes, keys and call stacks\<close>

datatype account_hash = AccountHash (account_value: "256 word")
datatype contract_hash = ContractHash (contract_value: "256 word")
datatype uref = URef "256 word"

text \<open>
  \<open>casper_types::Key\<close>: the variants the contract tells apart; the others carry their tag and
  their bytes.
\<close>

datatype key =
    Key_Account account_hash
  | Key_Hash "256 word"
  | Key_URef uref
  | Key_Other u8 bytes

fun into_account :: "key \<Rightarrow> account_hash option" where
  "into_account (Key_Account a) = Some a"
| "into_account _ = None"

fun into_hash :: "key \<Rightarrow> 256 word option" where
  "into_hash (Key_Hash a) = Some a"
| "into_hash _ = None"

lemma into_hash_Some: "into_hash k = Some a \<longleftrightarrow> k = Key_Hash a"
  by (cases k) auto

fun into_uref :: "key \<Rightarrow> uref option" where
  "into_uref (Key_URef u) = Some u"
| "into_uref _ = None"

datatype call_stack_element =
    Session account_hash
  | StoredSession account_hash "256 word" contract_hash
  | StoredContract "256 word" contract_hash

section \<open>One call\<close>

text \<open>
  What the host tells the code about the call it serves: \<open>runtime::get_caller\<close>,
  \<open>runtime::get_call_stack\<close>, for each name the size and the bytes of the argument or the error
  of the lookup, and what \<open>runtime::get_named_arg\<close> makes of the argument at each type the code
  asks for.
\<close>

record invocation =
  get_caller :: account_hash
  get_call_stack :: "call_stack_element list"
  named_arg_size :: "string \<Rightarrow> api_error + nat"
  named_arg_bytes :: "string \<Rightarrow> api_error + bytes"
  get_named_arg_key :: "string \<Rightarrow> api_error + key"
  get_named_arg_string :: "string \<Rightarrow> api_error + string"
  get_named_arg_bool :: "string \<Rightarrow> api_error + bool"
  get_named_arg_u64 :: "string \<Rightarrow> api_error + u64"

section \<open>Serialisation\<close>

text \<open>
  \<open>ToBytes\<close> and \<open>FromBytes\<close> of one type: \<open>from_bytes\<close> reads a value off the front of the bytes
  and returns the rest.
\<close>

datatype 'a codec =
  Codec (to_bytes: "'a \<Rightarrow> bytes") (from_bytes: "bytes \<Rightarrow> api_error + 'a \<times> bytes")

definition codec_ok :: "'a codec \<Rightarrow> bool" where
  "codec_ok c \<longleftrightarrow> (\<forall>v r. from_bytes c (to_bytes c v @ r) = Inr (v, r))"

text \<open>\<open>bytesrepr::deserialize\<close>: the value must use up the bytes.\<close>

definition deserialize :: "'a codec \<Rightarrow> bytes \<Rightarrow> api_error + 'a" where
  "deserialize c bs =
     (case from_bytes c bs of
        Inl e \<Rightarrow> Inl e
      | Inr (v, r) \<Rightarrow> if r = [] then Inr v else Inl Api_LeftOverBytes)"

lemma deserialize_to_bytes: "codec_ok c \<Longrightarrow> deserialize c (to_bytes c v) = Inr v"
  by (metis (mono_tags, lifting) append_Nil2 case_prod_conv codec_ok_def deserialize_def
      sum.case(2))

lemma to_bytes_inj: "codec_ok c \<Longrightarrow> to_bytes c v = to_bytes c w \<longleftrightarrow> v = w"
  by (metis deserialize_to_bytes sum.inject(2))

section \<open>The structures that are read from and written to JSON\<close>

record metadata_schema_property =
  property_name :: string
  property_description :: string
  property_required :: bool

text \<open>A \<open>BTreeMap<String, _>\<close> is the list of its entries; no key occurs twice.\<close>

type_synonym 'v btree_map = "(string \<times> 'v) list"

record custom_metadata_schema =
  schema_properties :: "metadata_schema_property btree_map"

record metadata_nft721 =
  nft721_name :: string
  nft721_symbol :: string
  nft721_token_uri :: string

record metadata_cep78 =
  cep78_name :: string
  cep78_token_uri :: string
  cep78_checksum :: string

record custom_metadata =
  custom_attributes :: "string btree_map"

section \<open>What a call may return\<close>

datatype ret_value =
    Ret_Unit
  | Ret_U64 u64
  | Ret_String string
  | Ret_Key key
  | Ret_Option_Key "key option"
  | Ret_Mint_Receipt string key string
  | Ret_Transfer_Receipt string key

section \<open>The functions the contract calls\<close>

record 'h casper =
  \<comment> \<open>\<open>casper_contract::ext_ffi\<close>: a lookup of a named key; the size of a value and, after its
    size has been asked for, the contents of the host buffer\<close>
  casper_get_key :: "string \<Rightarrow> 'h \<Rightarrow> api_error + bytes"
  casper_read_value :: "key \<Rightarrow> 'h \<Rightarrow> api_error + nat"
  casper_read_host_buffer :: "key \<Rightarrow> nat \<Rightarrow> 'h \<Rightarrow> api_error + bytes"
  \<comment> \<open>\<open>casper_contract::contract_api::runtime\<close>\<close>
  runtime_get_key :: "string \<Rightarrow> 'h \<Rightarrow> key option"
  runtime_put_key :: "string \<Rightarrow> key \<Rightarrow> 'h \<Rightarrow> 'h"
  \<comment> \<open>\<open>casper_contract::contract_api::storage\<close>\<close>
  storage_new_uref :: "bytes \<Rightarrow> 'h \<Rightarrow> uref \<times> 'h"
  storage_write :: "uref \<Rightarrow> bytes \<Rightarrow> 'h \<Rightarrow> 'h"
  storage_new_dictionary :: "string \<Rightarrow> 'h \<Rightarrow> api_error + uref \<times> 'h"
  storage_dictionary_get :: "uref \<Rightarrow> string \<Rightarrow> 'h \<Rightarrow> api_error + bytes option"
  storage_dictionary_put :: "uref \<Rightarrow> string \<Rightarrow> bytes \<Rightarrow> 'h \<Rightarrow> api_error + 'h"
  \<comment> \<open>\<open>DICTIONARY_ITEM_KEY_MAX_LENGTH\<close>: how many bytes the key of a dictionary item may have\<close>
  dictionary_item_key_max_length :: nat
  \<comment> \<open>\<open>casper_types\<close>: how hashes print, the address of a dictionary item, \<open>CLValue::from_t\<close>\<close>
  account_hash_to_string :: "account_hash \<Rightarrow> string"
  contract_hash_to_string :: "contract_hash \<Rightarrow> string"
  key_dictionary :: "uref \<Rightarrow> string \<Rightarrow> key"
  cl_value_from_t :: "ret_value \<Rightarrow> bytes option"
  \<comment> \<open>\<open>casper_types::bytesrepr\<close> at each type the code uses it\<close>
  c_unit :: "unit codec"
  c_bool :: "bool codec"
  c_u8 :: "u8 codec"
  c_u64 :: "u64 codec"
  c_string :: "string codec"
  c_key :: "key codec"
  c_option_key :: "key option codec"
  c_option_bool :: "bool option codec"
  c_option_u8 :: "u8 option codec"
  c_vec_u64 :: "u64 list codec"
  c_vec_string :: "string list codec"
  c_vec_account_hash :: "account_hash list codec"
  c_vec_contract_hash :: "contract_hash list codec"
  c_option_vec_account_hash :: "account_hash list option codec"
  c_option_vec_contract_hash :: "contract_hash list option codec"
  c_btree_map :: "metadata_schema_property codec \<Rightarrow> metadata_schema_property btree_map codec"
  \<comment> \<open>\<open>casper_serde_json_wasm::from_str\<close> and \<open>to_string_pretty\<close>\<close>
  from_str_schema :: "string \<Rightarrow> custom_metadata_schema option"
  from_str_cep78 :: "string \<Rightarrow> metadata_cep78 option"
  from_str_nft721 :: "string \<Rightarrow> metadata_nft721 option"
  from_str_attributes :: "string \<Rightarrow> string btree_map option"
  to_string_pretty_cep78 :: "metadata_cep78 \<Rightarrow> string option"
  to_string_pretty_nft721 :: "metadata_nft721 \<Rightarrow> string option"
  to_string_pretty_attributes :: "string btree_map \<Rightarrow> string option"

text \<open>The bytes behind a URef, as the two calls of the host that read them deliver them.\<close>

definition uref_bytes :: "'h casper \<Rightarrow> uref \<Rightarrow> 'h \<Rightarrow> api_error + bytes" where
  "uref_bytes H u h =
     (case casper_read_value H (Key_URef u) h of
        Inl e \<Rightarrow> Inl e
      | Inr n \<Rightarrow> casper_read_host_buffer H (Key_URef u) n h)"

text \<open>Whether a string is short enough to be the key of a dictionary item; a character is a byte.\<close>

definition fits :: "'h casper \<Rightarrow> string \<Rightarrow> bool" where
  "fits H j \<longleftrightarrow> length j \<le> dictionary_item_key_max_length H"

abbreviation too_long :: api_error where
  "too_long \<equiv> Api_DictionaryItemKeyExceedsLength"

text \<open>A URef is live when the host has a value behind it.\<close>

definition live :: "'h casper \<Rightarrow> uref \<Rightarrow> 'h \<Rightarrow> bool" where
  "live H u h \<longleftrightarrow> (\<exists>bs. uref_bytes H u h = Inr bs)"

text \<open>How many URefs are not in use: an address has 32 bytes, so there are finitely many.\<close>

definition spare :: "'h casper \<Rightarrow> 'h \<Rightarrow> nat" where
  "spare H h = card {u. \<not> live H u h}"

lemma finite_urefs: "finite (A :: uref set)"
proof (rule finite_subset)
  show "A \<subseteq> range URef" by (metis UNIV_I image_eqI subsetI uref.exhaust)
qed simp

section \<open>What the contract relies on\<close>

text \<open>
  Values of the types the contract stores are read back as they were written.
\<close>

locale casper_codecs =
  fixes H :: "'h casper"
  assumes codec_unit: "codec_ok (c_unit H)"
    and codec_bool: "codec_ok (c_bool H)"
    and codec_u8: "codec_ok (c_u8 H)"
    and codec_u64: "codec_ok (c_u64 H)"
    and codec_string: "codec_ok (c_string H)"
    and codec_key: "codec_ok (c_key H)"
    and codec_option_key: "codec_ok (c_option_key H)"
    and codec_vec_u64: "codec_ok (c_vec_u64 H)"
    and codec_vec_string: "codec_ok (c_vec_string H)"
    and codec_vec_account_hash: "codec_ok (c_vec_account_hash H)"
    and codec_vec_contract_hash: "codec_ok (c_vec_contract_hash H)"
    and codec_btree_map: "codec_ok c \<Longrightarrow> codec_ok (c_btree_map H c)"
begin

lemmas codecs =
  codec_unit codec_bool codec_u8 codec_u64 codec_string codec_key codec_option_key codec_vec_u64
  codec_vec_string codec_vec_account_hash codec_vec_contract_hash

end

text \<open>
  The storage: a named key that was put is found, a value that was written is read, a dictionary
  item that was put is looked up, each operation leaves every other entry alone, and a new URef is
  none of those that hold a value, as long as there is one. The laws on \<open>write\<close> and
  \<open>dictionary_put\<close> are asked for live URefs only, those on values of the result type for the types
  the contract returns. Dictionaries are read and written under short keys only; the digits of a
  \<open>u64\<close>, twenty at most, and the printed hashes are short.
\<close>

locale casper_host = casper_codecs H for H :: "'h casper" +
  assumes get_key_put_key:
      "casper_get_key H n (runtime_put_key H m k h) =
         (if n = m then Inr (to_bytes (c_key H) k) else casper_get_key H n h)"
    and get_key_new_uref: "storage_new_uref H bs h = (u, h') \<Longrightarrow>
      casper_get_key H n h' = casper_get_key H n h"
    and get_key_write: "casper_get_key H n (storage_write H u bs h) = casper_get_key H n h"
    and get_key_new_dictionary: "storage_new_dictionary H m h = Inr (u, h') \<Longrightarrow>
      casper_get_key H n h' =
        (if n = m then Inr (to_bytes (c_key H) (Key_URef u)) else casper_get_key H n h)"
    and get_key_dictionary_put: "storage_dictionary_put H u j bs h = Inr h' \<Longrightarrow>
      casper_get_key H n h' = casper_get_key H n h"
    and runtime_get_key_found: "casper_get_key H n h = Inr (to_bytes (c_key H) k) \<Longrightarrow>
      runtime_get_key H n h = Some k"
    and bytes_put_key: "uref_bytes H u (runtime_put_key H n k h) = uref_bytes H u h"
    and bytes_new_uref: "storage_new_uref H bs h = (u, h') \<Longrightarrow>
      uref_bytes H v h' = (if v = u then Inr bs else uref_bytes H v h)"
    and bytes_write: "live H u h \<Longrightarrow>
      uref_bytes H v (storage_write H u bs h) = (if v = u then Inr bs else uref_bytes H v h)"
    and bytes_new_dictionary: "storage_new_dictionary H n h = Inr (u, h') \<Longrightarrow>
      uref_bytes H v h' = (if v = u then Inr (to_bytes (c_unit H) ()) else uref_bytes H v h)"
    and bytes_dictionary_put: "storage_dictionary_put H u j bs h = Inr h' \<Longrightarrow> live H v h \<Longrightarrow>
      uref_bytes H v h' = uref_bytes H v h"
    and fresh_new_uref: "storage_new_uref H bs h = (u, h') \<Longrightarrow> spare H h \<noteq> 0 \<Longrightarrow> \<not> live H u h"
    and fresh_new_dictionary: "storage_new_dictionary H n h = Inr (u, h') \<Longrightarrow> spare H h \<noteq> 0 \<Longrightarrow>
      \<not> live H u h"
    and new_dictionary_succeeds: "casper_get_key H n h = Inl Api_MissingKey \<Longrightarrow>
      \<exists>u h'. storage_new_dictionary H n h = Inr (u, h')"
    and item_put_key: "storage_dictionary_get H u j (runtime_put_key H n k h) =
      storage_dictionary_get H u j h"
    and item_new_uref: "storage_new_uref H bs h = (v, h') \<Longrightarrow> live H u h \<Longrightarrow>
      storage_dictionary_get H u j h' = storage_dictionary_get H u j h"
    and item_write: "live H u h \<Longrightarrow>
      storage_dictionary_get H u j (storage_write H v bs h) = storage_dictionary_get H u j h"
    and item_new_dictionary: "storage_new_dictionary H n h = Inr (v, h') \<Longrightarrow>
      u = v \<or> live H u h \<Longrightarrow> fits H j \<Longrightarrow>
      storage_dictionary_get H u j h' = (if u = v then Inr None else storage_dictionary_get H u j h)"
    and item_dictionary_put: "storage_dictionary_put H u j bs h = Inr h' \<Longrightarrow> live H u h \<Longrightarrow>
      live H v h \<Longrightarrow> storage_dictionary_get H v j' h' =
        (if v = u \<and> j' = j then Inr (Some bs) else storage_dictionary_get H v j' h)"
    and dictionary_put_succeeds: "live H u h \<Longrightarrow> fits H j \<Longrightarrow>
      \<exists>h'. storage_dictionary_put H u j bs h = Inr h'"
    and dictionary_too_long: "\<not> fits H j \<Longrightarrow> storage_dictionary_get H u j h = Inl too_long"
      "\<not> fits H j \<Longrightarrow> storage_dictionary_put H u j bs h = Inl too_long"
    and digits_fit: "20 \<le> dictionary_item_key_max_length H"
    and account_hash_fits: "fits H (account_hash_to_string H a)"
    and contract_hash_fits: "fits H (contract_hash_to_string H c)"
    and cl_value_converts: "cl_value_from_t H r \<noteq> None"

text \<open>
  JSON: what a pretty printer writes, the parser reads back as the same structure.
\<close>

locale casper_json =
  fixes H :: "'h casper"
  assumes json_cep78: "to_string_pretty_cep78 H m = Some s \<Longrightarrow> from_str_cep78 H s = Some m"
    and json_nft721: "to_string_pretty_nft721 H n = Some s \<Longrightarrow> from_str_nft721 H s = Some n"
    and json_attributes:
      "from_str_attributes H t = Some a \<Longrightarrow> to_string_pretty_attributes H a = Some s \<Longrightarrow>
        from_str_attributes H s = Some a"

end
