(* ===== verification/Constants.thy ===== *)
theory Constants
  imports Casper
begin

text \<open>
  The names of \<open>contract/src/constants.rs\<close>: of the arguments (\<open>ARG_\<close>), of the named keys and
  dictionaries the contract keeps, and of its entry points (\<open>ENTRY_POINT_\<close>). Two names may be
  the same string, as \<open>ARG_JSON_SCHEMA\<close> and \<open>JSON_SCHEMA\<close> are, which the code relies on.
\<close>

named_theorems constant_defs \<open>the string behind each name\<close>

definition ARG_COLLECTION_NAME :: string where [constant_defs]: "ARG_COLLECTION_NAME = ''collection_name''"
definition ARG_COLLECTION_SYMBOL :: string where [constant_defs]: "ARG_COLLECTION_SYMBOL = ''collection_symbol''"
definition ARG_TOTAL_TOKEN_SUPPLY :: string where [constant_defs]: "ARG_TOTAL_TOKEN_SUPPLY = ''total_token_supply''"
definition ARG_TOKEN_ID :: string where [constant_defs]: "ARG_TOKEN_ID = ''token_id''"
definition ARG_TOKEN_HASH :: string where [constant_defs]: "ARG_TOKEN_HASH = ''token_hash''"
definition ARG_TOKEN_ID_HASH :: string where [constant_defs]: "ARG_TOKEN_ID_HASH = ''token_id_hash''"
definition ARG_TOKEN_OWNER :: string where [constant_defs]: "ARG_TOKEN_OWNER = ''token_owner''"
definition ARG_TARGET_KEY :: string where [constant_defs]: "ARG_TARGET_KEY = ''target_key''"
definition ARG_SOURCE_KEY :: string where [constant_defs]: "ARG_SOURCE_KEY = ''source_key''"
definition ARG_ALLOW_MINTING :: string where [constant_defs]: "ARG_ALLOW_MINTING = ''allow_minting''"
definition ARG_MINTING_MODE :: string where [constant_defs]: "ARG_MINTING_MODE = ''minting_mode''"
definition ARG_TOKEN_META_DATA :: string where [constant_defs]: "ARG_TOKEN_META_DATA = ''token_meta_data''"
definition ARG_APPROVE_ALL :: string where [constant_defs]: "ARG_APPROVE_ALL = ''approve_all''"
definition ARG_OPERATOR :: string where [constant_defs]: "ARG_OPERATOR = ''operator''"
definition ARG_OWNERSHIP_MODE :: string where [constant_defs]: "ARG_OWNERSHIP_MODE = ''ownership_mode''"
definition ARG_HOLDER_MODE :: string where [constant_defs]: "ARG_HOLDER_MODE = ''holder_mode''"
definition ARG_WHITELIST_MODE :: string where [constant_defs]: "ARG_WHITELIST_MODE = ''whitelist_mode''"
definition ARG_NFT_KIND :: string where [constant_defs]: "ARG_NFT_KIND = ''nft_kind''"
definition ARG_JSON_SCHEMA :: string where [constant_defs]: "ARG_JSON_SCHEMA = ''json_schema''"
definition ARG_RECEIPT_NAME :: string where [constant_defs]: "ARG_RECEIPT_NAME = ''receipt_name''"
definition ARG_CONTRACT_WHITELIST :: string where [constant_defs]: "ARG_CONTRACT_WHITELIST = ''contract_whitelist''"
definition ARG_ACCOUNT_WHITELIST :: string where [constant_defs]: "ARG_ACCOUNT_WHITELIST = ''account_whitelist''"
definition ARG_NFT_METADATA_KIND :: string where [constant_defs]: "ARG_NFT_METADATA_KIND = ''nft_metadata_kind''"
definition ARG_IDENTIFIER_MODE :: string where [constant_defs]: "ARG_IDENTIFIER_MODE = ''identifier_mode''"
definition ARG_METADATA_MUTABILITY :: string where [constant_defs]: "ARG_METADATA_MUTABILITY = ''metadata_mutability''"
definition OPERATOR :: string where [constant_defs]: "OPERATOR = ''operator''"
definition NUMBER_OF_MINTED_TOKENS :: string where [constant_defs]: "NUMBER_OF_MINTED_TOKENS = ''number_of_minted_tokens''"
definition INSTALLER :: string where [constant_defs]: "INSTALLER = ''installer''"
definition JSON_SCHEMA :: string where [constant_defs]: "JSON_SCHEMA = ''json_schema''"
definition METADATA_SCHEMA :: string where [constant_defs]: "METADATA_SCHEMA = ''metadata_schema''"
definition CONTRACT_NAME :: string where [constant_defs]: "CONTRACT_NAME = ''nft_contract''"
definition HASH_KEY_NAME :: string where [constant_defs]: "HASH_KEY_NAME = ''nft_contract_package''"
definition ACCESS_KEY_NAME :: string where [constant_defs]: "ACCESS_KEY_NAME = ''nft_contract_package_access''"
definition CONTRACT_VERSION :: string where [constant_defs]: "CONTRACT_VERSION = ''contract_version''"
definition COLLECTION_NAME :: string where [constant_defs]: "COLLECTION_NAME = ''collection_name''"
definition COLLECTION_SYMBOL :: string where [constant_defs]: "COLLECTION_SYMBOL = ''collection_symbol''"
definition TOTAL_TOKEN_SUPPLY :: string where [constant_defs]: "TOTAL_TOKEN_SUPPLY = ''total_token_supply''"
definition OWNERSHIP_MODE :: string where [constant_defs]: "OWNERSHIP_MODE = ''ownership_mode''"
definition NFT_KIND :: string where [constant_defs]: "NFT_KIND = ''nft_kind''"
definition ALLOW_MINTING :: string where [constant_defs]: "ALLOW_MINTING = ''allow_minting''"
definition MINTING_MODE :: string where [constant_defs]: "MINTING_MODE = ''minting_mode''"
definition HOLDER_MODE :: string where [constant_defs]: "HOLDER_MODE = ''holder_mode''"
definition WHITELIST_MODE :: string where [constant_defs]: "WHITELIST_MODE = ''whitelist_mode''"
definition TOKEN_OWNERS :: string where [constant_defs]: "TOKEN_OWNERS = ''token_owners''"
definition TOKEN_ISSUERS :: string where [constant_defs]: "TOKEN_ISSUERS = ''token_issuers''"
definition OWNED_TOKENS :: string where [constant_defs]: "OWNED_TOKENS = ''owned_tokens''"
definition BURNT_TOKENS :: string where [constant_defs]: "BURNT_TOKENS = ''burnt_tokens''"
definition TOKEN_COUNTS :: string where [constant_defs]: "TOKEN_COUNTS = ''balances''"
definition CONTRACT_WHITELIST :: string where [constant_defs]: "CONTRACT_WHITELIST = ''contract_whitelist''"
definition ACCOUNT_WHITELIST :: string where [constant_defs]: "ACCOUNT_WHITELIST = ''account_whitelist''"
definition RECEIPT_NAME :: string where [constant_defs]: "RECEIPT_NAME = ''receipt_name''"
definition NFT_METADATA_KIND :: string where [constant_defs]: "NFT_METADATA_KIND = ''nft_metadata_kind''"
definition IDENTIFIER_MODE :: string where [constant_defs]: "IDENTIFIER_MODE = ''identifier_mode''"
definition METADATA_MUTABILITY :: string where [constant_defs]: "METADATA_MUTABILITY = ''metadata_mutability''"
definition METADATA_CUSTOM_VALIDATED :: string where [constant_defs]: "METADATA_CUSTOM_VALIDATED = ''metadata_custom_validated''"
definition METADATA_CEP78 :: string where [constant_defs]: "METADATA_CEP78 = ''metadata_cep78''"
definition METADATA_NFT721 :: string where [constant_defs]: "METADATA_NFT721 = ''metadata_nft721''"
definition METADATA_RAW :: string where [constant_defs]: "METADATA_RAW = ''metadata_raw''"
definition ENTRY_POINT_INIT :: string where [constant_defs]: "ENTRY_POINT_INIT = ''init''"
definition ENTRY_POINT_SET_VARIABLES :: string where [constant_defs]: "ENTRY_POINT_SET_VARIABLES = ''set_variables''"
definition ENTRY_POINT_ADD_TO_ACCOUNT_WHITELIST :: string where [constant_defs]: "ENTRY_POINT_ADD_TO_ACCOUNT_WHITELIST = ''add_to_account_whitelist''"
definition ENTRY_POINT_REMOVE_FROM_ACCOUNT_WHITELIST :: string where [constant_defs]: "ENTRY_POINT_REMOVE_FROM_ACCOUNT_WHITELIST = ''remove_from_account_whitelist''"
definition ENTRY_POINT_MINT :: string where [constant_defs]: "ENTRY_POINT_MINT = ''mint''"
definition ENTRY_POINT_BURN :: string where [constant_defs]: "ENTRY_POINT_BURN = ''burn''"
definition ENTRY_POINT_TRANSFER :: string where [constant_defs]: "ENTRY_POINT_TRANSFER = ''transfer''"
definition ENTRY_POINT_APPROVE :: string where [constant_defs]: "ENTRY_POINT_APPROVE = ''approve''"
definition ENTRY_POINT_BALANCE_OF :: string where [constant_defs]: "ENTRY_POINT_BALANCE_OF = ''balance_of''"
definition ENTRY_POINT_OWNER_OF :: string where [constant_defs]: "ENTRY_POINT_OWNER_OF = ''owner_of''"
definition ENTRY_POINT_GET_APPROVED :: string where [constant_defs]: "ENTRY_POINT_GET_APPROVED = ''get_approved''"
definition ENTRY_POINT_METADATA :: string where [constant_defs]: "ENTRY_POINT_METADATA = ''metadata''"
definition ENTRY_POINT_SET_APPROVE_FOR_ALL :: string where [constant_defs]: "ENTRY_POINT_SET_APPROVE_FOR_ALL = ''set_approval_for_all''"
definition ENTRY_POINT_SET_TOKEN_METADATA :: string where [constant_defs]: "ENTRY_POINT_SET_TOKEN_METADATA = ''set_token_metadata''"

end
