(* ===== verification/Utils.thy ===== *)
theory Utils
  imports Constants
begin

text \<open>
  \<open>contract/src/utils.rs\<close> but for the metadata: the modes of a contract and their codes, reading
  arguments, named keys, stored values and dictionary items with the errors the caller names, who
  the verified caller is, and token identifiers. Every function that may revert or touches the
  host is a computation over the host's state; a Rust \<open>Result\<close> it returns is a sum.
\<close>

section \<open>The modes of a contract\<close>

datatype whitelist_mode = Unlocked | Locked

primrec whitelist_mode_as_u8 :: "whitelist_mode \<Rightarrow> u8" where
  "whitelist_mode_as_u8 Unlocked = 0"
| "whitelist_mode_as_u8 Locked = 1"

definition whitelist_mode_try_from :: "u8 \<Rightarrow> nft_core_error + whitelist_mode" where
  "whitelist_mode_try_from v =
     (if v = 0 then Inr Unlocked else if v = 1 then Inr Locked else Inl InvalidWhitelistMode)"

datatype nft_holder_mode = Accounts | Contracts | Mixed

primrec nft_holder_mode_as_u8 :: "nft_holder_mode \<Rightarrow> u8" where
  "nft_holder_mode_as_u8 Accounts = 0"
| "nft_holder_mode_as_u8 Contracts = 1"
| "nft_holder_mode_as_u8 Mixed = 2"

definition nft_holder_mode_try_from :: "u8 \<Rightarrow> nft_core_error + nft_holder_mode" where
  "nft_holder_mode_try_from v =
     (if v = 0 then Inr Accounts else if v = 1 then Inr Contracts else if v = 2 then Inr Mixed
      else Inl InvalidHolderMode)"

datatype minting_mode = Installer | Public

primrec minting_mode_as_u8 :: "minting_mode \<Rightarrow> u8" where
  "minting_mode_as_u8 Installer = 0"
| "minting_mode_as_u8 Public = 1"

definition minting_mode_try_from :: "u8 \<Rightarrow> nft_core_error + minting_mode" where
  "minting_mode_try_from v =
     (if v = 0 then Inr Installer else if v = 1 then Inr Public else Inl InvalidMintingMode)"

datatype nft_kind = Physical | Digital | Virtual

primrec nft_kind_as_u8 :: "nft_kind \<Rightarrow> u8" where
  "nft_kind_as_u8 Physical = 0"
| "nft_kind_as_u8 Digital = 1"
| "nft_kind_as_u8 Virtual = 2"

text \<open>The error of an unknown kind is the one of the ownership mode, as in the source.\<close>

definition nft_kind_try_from :: "u8 \<Rightarrow> nft_core_error + nft_kind" where
  "nft_kind_try_from v =
     (if v = 0 then Inr Physical else if v = 1 then Inr Digital else if v = 2 then Inr Virtual
      else Inl InvalidOwnershipMode)"

datatype nft_metadata_kind = CEP78 | NFT721 | Raw | CustomValidated

primrec nft_metadata_kind_as_u8 :: "nft_metadata_kind \<Rightarrow> u8" where
  "nft_metadata_kind_as_u8 CEP78 = 0"
| "nft_metadata_kind_as_u8 NFT721 = 1"
| "nft_metadata_kind_as_u8 Raw = 2"
| "nft_metadata_kind_as_u8 CustomValidated = 3"

definition nft_metadata_kind_try_from :: "u8 \<Rightarrow> nft_core_error + nft_metadata_kind" where
  "nft_metadata_kind_try_from v =
     (if v = 0 then Inr CEP78 else if v = 1 then Inr NFT721 else if v = 2 then Inr Raw
      else if v = 3 then Inr CustomValidated else Inl InvalidNFTMetadataKind)"

datatype ownership_mode = Minter | Assigned | Transferable

primrec ownership_mode_as_u8 :: "ownership_mode \<Rightarrow> u8" where
  "ownership_mode_as_u8 Minter = 0"
| "ownership_mode_as_u8 Assigned = 1"
| "ownership_mode_as_u8 Transferable = 2"

definition ownership_mode_try_from :: "u8 \<Rightarrow> nft_core_error + ownership_mode" where
  "ownership_mode_try_from v =
     (if v = 0 then Inr Minter else if v = 1 then Inr Assigned else if v = 2 then Inr Transferable
      else Inl InvalidOwnershipMode)"

datatype nft_identifier_mode = Ordinal | Hash

primrec nft_identifier_mode_as_u8 :: "nft_identifier_mode \<Rightarrow> u8" where
  "nft_identifier_mode_as_u8 Ordinal = 0"
| "nft_identifier_mode_as_u8 Hash = 1"

definition nft_identifier_mode_try_from :: "u8 \<Rightarrow> nft_core_error + nft_identifier_mode" where
  "nft_identifier_mode_try_from v =
     (if v = 0 then Inr Ordinal else if v = 1 then Inr Hash else Inl InvalidIdentifierMode)"

datatype metadata_mutability = Immutable | Mutable

primrec metadata_mutability_as_u8 :: "metadata_mutability \<Rightarrow> u8" where
  "metadata_mutability_as_u8 Immutable = 0"
| "metadata_mutability_as_u8 Mutable = 1"

definition metadata_mutability_try_from :: "u8 \<Rightarrow> nft_core_error + metadata_mutability" where
  "metadata_mutability_try_from v =
     (if v = 0 then Inr Immutable else if v = 1 then Inr Mutable else Inl InvalidMetadataMutability)"

text \<open>A mode survives being stored as its code and read back.\<close>

lemma mode_round_trips [simp]:
  "whitelist_mode_try_from (whitelist_mode_as_u8 a) = Inr a"
  "nft_holder_mode_try_from (nft_holder_mode_as_u8 b) = Inr b"
  "minting_mode_try_from (minting_mode_as_u8 c) = Inr c"
  "nft_kind_try_from (nft_kind_as_u8 d) = Inr d"
  "nft_metadata_kind_try_from (nft_metadata_kind_as_u8 e) = Inr e"
  "ownership_mode_try_from (ownership_mode_as_u8 f) = Inr f"
  "nft_identifier_mode_try_from (nft_identifier_mode_as_u8 g) = Inr g"
  "metadata_mutability_try_from (metadata_mutability_as_u8 k) = Inr k"
  by (cases a, auto simp: whitelist_mode_try_from_def)
    (cases b, auto simp: nft_holder_mode_try_from_def,
     cases c, auto simp: minting_mode_try_from_def,
     cases d, auto simp: nft_kind_try_from_def,
     cases e, auto simp: nft_metadata_kind_try_from_def,
     cases f, auto simp: ownership_mode_try_from_def,
     cases g, auto simp: nft_identifier_mode_try_from_def,
     cases k, auto simp: metadata_mutability_try_from_def)

text \<open>A code is accepted exactly if it is the one of the mode.\<close>

lemma try_from_codes:
  "whitelist_mode_try_from v = Inr a \<longleftrightarrow> v = whitelist_mode_as_u8 a"
  "nft_holder_mode_try_from v = Inr b \<longleftrightarrow> v = nft_holder_mode_as_u8 b"
  "minting_mode_try_from v = Inr c \<longleftrightarrow> v = minting_mode_as_u8 c"
  "nft_kind_try_from v = Inr d \<longleftrightarrow> v = nft_kind_as_u8 d"
  "nft_metadata_kind_try_from v = Inr e \<longleftrightarrow> v = nft_metadata_kind_as_u8 e"
  "ownership_mode_try_from v = Inr f \<longleftrightarrow> v = ownership_mode_as_u8 f"
  "nft_identifier_mode_try_from v = Inr g \<longleftrightarrow> v = nft_identifier_mode_as_u8 g"
  "metadata_mutability_try_from v = Inr k \<longleftrightarrow> v = metadata_mutability_as_u8 k"
proof -
  show "whitelist_mode_try_from v = Inr a \<longleftrightarrow> v = whitelist_mode_as_u8 a"
    by (cases a) (auto simp: whitelist_mode_try_from_def)
  show "nft_holder_mode_try_from v = Inr b \<longleftrightarrow> v = nft_holder_mode_as_u8 b"
    by (cases b) (auto simp: nft_holder_mode_try_from_def)
  show "minting_mode_try_from v = Inr c \<longleftrightarrow> v = minting_mode_as_u8 c"
    by (cases c) (auto simp: minting_mode_try_from_def)
  show "nft_kind_try_from v = Inr d \<longleftrightarrow> v = nft_kind_as_u8 d"
    by (cases d) (auto simp: nft_kind_try_from_def)
  show "nft_metadata_kind_try_from v = Inr e \<longleftrightarrow> v = nft_metadata_kind_as_u8 e"
    by (cases e) (auto simp: nft_metadata_kind_try_from_def)
  show "ownership_mode_try_from v = Inr f \<longleftrightarrow> v = ownership_mode_as_u8 f"
    by (cases f) (auto simp: ownership_mode_try_from_def)
  show "nft_identifier_mode_try_from v = Inr g \<longleftrightarrow> v = nft_identifier_mode_as_u8 g"
    by (cases g) (auto simp: nft_identifier_mode_try_from_def)
  show "metadata_mutability_try_from v = Inr k \<longleftrightarrow> v = metadata_mutability_as_u8 k"
    by (cases k) (auto simp: metadata_mutability_try_from_def)
qed

section \<open>Named keys\<close>

definition get_key_with_user_errors ::
  "'h casper \<Rightarrow> string \<Rightarrow> nft_core_error \<Rightarrow> nft_core_error \<Rightarrow> ('h, key) contract" where
  "get_key_with_user_errors H name missing invalid h =
     (case casper_get_key H name h of
        Inl e \<Rightarrow> if e = Api_MissingKey then Inl (User missing) else Inl (Api e)
      | Inr key_bytes \<Rightarrow>
          (case deserialize (c_key H) key_bytes of
             Inl _ \<Rightarrow> Inl (User invalid)
           | Inr key \<Rightarrow> Inr (key, h)))"

definition get_account_hash ::
  "'h casper \<Rightarrow> string \<Rightarrow> nft_core_error \<Rightarrow> nft_core_error \<Rightarrow> ('h, account_hash) contract" where
  "get_account_hash H name missing invalid =
     bind_c (get_key_with_user_errors H name missing invalid) (\<lambda>key.
     unwrap_or_revert_with (User UnexpectedKeyVariant) (into_account key))"

definition get_uref ::
  "'h casper \<Rightarrow> string \<Rightarrow> nft_core_error \<Rightarrow> nft_core_error \<Rightarrow> ('h, uref) contract" where
  "get_uref H name missing invalid =
     bind_c (get_key_with_user_errors H name missing invalid) (\<lambda>key.
     unwrap_or_revert_with (User UnexpectedKeyVariant) (into_uref key))"

definition named_uref_exists :: "'h casper \<Rightarrow> string \<Rightarrow> 'h \<Rightarrow> bool" where
  "named_uref_exists H name h = (case casper_get_key H name h of Inl _ \<Rightarrow> False | Inr _ \<Rightarrow> True)"

section \<open>Stored values\<close>

definition read_with_user_errors ::
  "'h casper \<Rightarrow> 'a codec \<Rightarrow> uref \<Rightarrow> nft_core_error \<Rightarrow> nft_core_error \<Rightarrow> ('h, 'a) contract" where
  "read_with_user_errors H c uref missing invalid h =
     (let key = Key_URef uref
      in case casper_read_value H key h of
           Inl e \<Rightarrow> if e = Api_ValueNotFound then Inl (User missing) else Inl (Api e)
         | Inr value_size \<Rightarrow>
             (case casper_read_host_buffer H key value_size h of
                Inl e \<Rightarrow> Inl (Api e)
              | Inr value_bytes \<Rightarrow>
                  (case deserialize c value_bytes of
                     Inl _ \<Rightarrow> Inl (User invalid)
                   | Inr v \<Rightarrow> Inr (v, h))))"

definition get_stored_value_with_user_errors ::
  "'h casper \<Rightarrow> 'a codec \<Rightarrow> string \<Rightarrow> nft_core_error \<Rightarrow> nft_core_error \<Rightarrow> ('h, 'a) contract" where
  "get_stored_value_with_user_errors H c name missing invalid =
     bind_c (get_uref H name missing invalid) (\<lambda>uref.
     read_with_user_errors H c uref missing invalid)"

text \<open>\<open>storage::write\<close> and \<open>storage::dictionary_put\<close> of a value: its bytes go to the host, which
  rejects the key of an item that is too long.\<close>

definition write_c :: "'h casper \<Rightarrow> 'a codec \<Rightarrow> uref \<Rightarrow> 'a \<Rightarrow> ('h, unit) contract" where
  "write_c H c uref v h = Inr ((), storage_write H uref (to_bytes c v) h)"

definition dictionary_put_c ::
  "'h casper \<Rightarrow> 'a codec \<Rightarrow> uref \<Rightarrow> string \<Rightarrow> 'a \<Rightarrow> ('h, unit) contract" where
  "dictionary_put_c H c uref item v h =
     (case storage_dictionary_put H uref item (to_bytes c v) h of
        Inl e \<Rightarrow> Inl (Api e) | Inr h' \<Rightarrow> Inr ((), h'))"

text \<open>\<open>storage::dictionary_get::<T>\<close>: an error, also one of the deserialisation, reverts.\<close>

definition dictionary_get_c ::
  "'h casper \<Rightarrow> 'a codec \<Rightarrow> uref \<Rightarrow> string \<Rightarrow> ('h, 'a option) contract" where
  "dictionary_get_c H c uref item h =
     (case storage_dictionary_get H uref item h of
        Inl e \<Rightarrow> Inl (Api e)
      | Inr None \<Rightarrow> Inr (None, h)
      | Inr (Some bs) \<Rightarrow>
          (case deserialize c bs of Inl e \<Rightarrow> Inl (Api e) | Inr v \<Rightarrow> Inr (Some v, h)))"

definition upsert_dictionary_value_from_key ::
  "'h casper \<Rightarrow> 'a codec \<Rightarrow> string \<Rightarrow> string \<Rightarrow> 'a \<Rightarrow> ('h, unit) contract" where
  "upsert_dictionary_value_from_key H c dictionary_name item v =
     bind_c (get_uref H dictionary_name MissingStorageUref InvalidStorageUref) (\<lambda>seed_uref.
     bind_c (dictionary_get_c H c seed_uref item) (\<lambda>_.
     dictionary_put_c H c seed_uref item v))"

definition get_dictionary_value_from_key ::
  "'h casper \<Rightarrow> 'a codec \<Rightarrow> string \<Rightarrow> string \<Rightarrow> ('h, 'a option) contract" where
  "get_dictionary_value_from_key H c dictionary_name item =
     bind_c (get_uref H dictionary_name MissingStorageUref InvalidStorageUref) (\<lambda>seed_uref.
     dictionary_get_c H c seed_uref item)"

section \<open>Arguments\<close>

definition get_named_arg_size :: "invocation \<Rightarrow> string \<Rightarrow> ('s, nat option) contract" where
  "get_named_arg_size i name =
     (case named_arg_size i name of
        Inr n \<Rightarrow> return_c (Some n)
      | Inl e \<Rightarrow> if e = Api_MissingArgument then return_c None else revert_c (Api e))"

definition get_named_arg_with_user_errors ::
  "'a codec \<Rightarrow> invocation \<Rightarrow> string \<Rightarrow> nft_core_error \<Rightarrow> nft_core_error \<Rightarrow>
   ('s, nft_core_error + 'a) contract" where
  "get_named_arg_with_user_errors c i name missing invalid =
     bind_c (get_named_arg_size i name) (\<lambda>arg_size.
     case arg_size of
       None \<Rightarrow> return_c (Inl missing)
     | Some n \<Rightarrow>
         bind_c
           (if n > 0 then
              (case named_arg_bytes i name of
                 Inl _ \<Rightarrow> revert_c (User FailedToGetArgBytes)
               | Inr data \<Rightarrow> return_c data)
            else return_c []) (\<lambda>arg_bytes.
         return_c
           (case deserialize c arg_bytes of Inl _ \<Rightarrow> Inl invalid | Inr v \<Rightarrow> Inr v)))"

text \<open>An optional argument is the option its bytes encode; a missing or ill-formed one is \<open>None\<close>.\<close>

definition get_optional_named_arg_with_user_errors ::
  "'a option codec \<Rightarrow> invocation \<Rightarrow> string \<Rightarrow> nft_core_error \<Rightarrow> ('s, 'a option) contract" where
  "get_optional_named_arg_with_user_errors c i name invalid =
     bind_c (get_named_arg_with_user_errors c i name PhantomError invalid) (\<lambda>r.
     case r of Inr val \<Rightarrow> return_c val | Inl _ \<Rightarrow> return_c None)"

text \<open>\<open>runtime::get_named_arg\<close>: a missing or ill-formed argument reverts with the platform's error.\<close>

definition get_named_arg_c :: "api_error + 'a \<Rightarrow> ('s, 'a) contract" where
  "get_named_arg_c r = (case r of Inl e \<Rightarrow> revert_c (Api e) | Inr v \<Rightarrow> return_c v)"

section \<open>Modes and the verified caller\<close>

definition get_ownership_mode :: "'h casper \<Rightarrow> ('h, nft_core_error + ownership_mode) contract" where
  "get_ownership_mode H =
     bind_c (get_stored_value_with_user_errors H (c_u8 H) OWNERSHIP_MODE
       MissingOwnershipMode InvalidOwnershipMode) (\<lambda>v.
     return_c (ownership_mode_try_from v))"

definition get_holder_mode :: "'h casper \<Rightarrow> ('h, nft_core_error + nft_holder_mode) contract" where
  "get_holder_mode H =
     bind_c (get_stored_value_with_user_errors H (c_u8 H) HOLDER_MODE
       MissingHolderMode InvalidHolderMode) (\<lambda>v.
     return_c (nft_holder_mode_try_from v))"

text \<open>\<open>iter().nth_back(1)\<close>: the last element but one, the immediate caller.\<close>

definition nth_back_1 :: "'a list \<Rightarrow> 'a option" where
  "nth_back_1 xs = (case rev xs of _ # x # _ \<Rightarrow> Some x | _ \<Rightarrow> None)"

text \<open>Which key the immediate caller has, given the kinds of holders the contract admits.\<close>

fun caller_key :: "nft_holder_mode \<Rightarrow> call_stack_element \<Rightarrow> nft_core_error + key" where
  "caller_key holder_mode (Session calling_account_hash) =
     (if holder_mode = Contracts then Inl InvalidHolderMode
      else Inr (Key_Account calling_account_hash))"
| "caller_key holder_mode (StoredSession _ _ contract_hash) =
     (if holder_mode = Accounts then Inl InvalidHolderMode
      else Inr (Key_Hash (contract_value contract_hash)))"
| "caller_key holder_mode (StoredContract _ contract_hash) =
     (if holder_mode = Accounts then Inl InvalidHolderMode
      else Inr (Key_Hash (contract_value contract_hash)))"

definition get_verified_caller ::
  "'h casper \<Rightarrow> invocation \<Rightarrow> ('h, nft_core_error + key) contract" where
  "get_verified_caller H i =
     bind_c (get_holder_mode H) (\<lambda>r.
     case r of
       Inl e \<Rightarrow> return_c (Inl e)
     | Inr holder_mode \<Rightarrow>
         bind_c (unwrap_or_revert_with (Api Api_None) (nth_back_1 (get_call_stack i))) (\<lambda>element.
         return_c (caller_key holder_mode element)))"

section \<open>Token identifiers\<close>

datatype token_identifier = Index u64 | TokenHash string

definition new_index :: "u64 \<Rightarrow> token_identifier" where
  "new_index index = Index index"

definition new_hash :: "string \<Rightarrow> token_identifier" where
  "new_hash hash = TokenHash hash"

fun get_index :: "token_identifier \<Rightarrow> u64 option" where
  "get_index (Index index) = Some index"
| "get_index _ = None"

fun get_hash :: "token_identifier \<Rightarrow> string option" where
  "get_hash (TokenHash hash) = Some hash"
| "get_hash _ = None"

fun get_dictionary_item_key :: "token_identifier \<Rightarrow> string" where
  "get_dictionary_item_key (Index token_index) = u64_to_string token_index"
| "get_dictionary_item_key (TokenHash hash) = hash"

definition get_token_identifier_from_runtime_args ::
  "'h casper \<Rightarrow> invocation \<Rightarrow> nft_identifier_mode \<Rightarrow> ('s, token_identifier) contract" where
  "get_token_identifier_from_runtime_args H i identifier_mode =
     (case identifier_mode of
        Ordinal \<Rightarrow>
          bind_c (get_named_arg_with_user_errors (c_u64 H) i ARG_TOKEN_ID
            MissingTokenID InvalidTokenIdentifier) (\<lambda>r.
          unwrap_or_revert (map_sum id new_index r))
      | Hash \<Rightarrow>
          bind_c (get_named_arg_with_user_errors (c_string H) i ARG_TOKEN_HASH
            MissingTokenID InvalidTokenIdentifier) (\<lambda>r.
          unwrap_or_revert (map_sum id new_hash r)))"

text \<open>Under which item an owner's tokens and balance are kept: the hash, without the kind of key.\<close>

definition get_owned_tokens_dictionary_item_key ::
  "'h casper \<Rightarrow> key \<Rightarrow> ('s, string) contract" where
  "get_owned_tokens_dictionary_item_key H token_owner_key =
     (case token_owner_key of
        Key_Account token_owner_account_hash \<Rightarrow>
          return_c (account_hash_to_string H token_owner_account_hash)
      | Key_Hash token_owner_hash_addr \<Rightarrow>
          return_c (contract_hash_to_string H (ContractHash token_owner_hash_addr))
      | _ \<Rightarrow> revert_c (User InvalidKey))"

definition get_token_identifiers_from_dictionary ::
  "'h casper \<Rightarrow> nft_identifier_mode \<Rightarrow> string \<Rightarrow> ('h, token_identifier list option) contract" where
  "get_token_identifiers_from_dictionary H identifier_mode owners_item_key =
     (case identifier_mode of
        Ordinal \<Rightarrow>
          bind_c (get_dictionary_value_from_key H (c_vec_u64 H) OWNED_TOKENS owners_item_key)
            (\<lambda>r. return_c (map_option (map new_index) r))
      | Hash \<Rightarrow>
          bind_c (get_dictionary_value_from_key H (c_vec_string H) OWNED_TOKENS owners_item_key)
            (\<lambda>r. return_c (map_option (map new_hash) r)))"

definition upsert_token_identifiers ::
  "'h casper \<Rightarrow> nft_identifier_mode \<Rightarrow> string \<Rightarrow> token_identifier list \<Rightarrow>
   ('h, nft_core_error + unit) contract" where
  "upsert_token_identifiers H identifier_mode owners_item_key token_identifiers =
     (case identifier_mode of
        Ordinal \<Rightarrow>
          bind_c (map_c (\<lambda>t. unwrap_or_revert_with (User InvalidIdentifierMode) (get_index t))
            token_identifiers) (\<lambda>token_indices.
          bind_c (upsert_dictionary_value_from_key H (c_vec_u64 H) OWNED_TOKENS owners_item_key
            token_indices) (\<lambda>_.
          return_c (Inr ())))
      | Hash \<Rightarrow>
          bind_c (map_c (\<lambda>t. unwrap_or_revert_with (User InvalidIdentifierMode) (get_hash t))
            token_identifiers) (\<lambda>token_hashes.
          bind_c (upsert_dictionary_value_from_key H (c_vec_string H) OWNED_TOKENS owners_item_key
            token_hashes) (\<lambda>_.
          return_c (Inr ()))))"

end
