(* ===== verification/Metadata.thy ===== *)
theory Metadata
  imports Utils "HOL-Library.List_Lexorder" "HOL-Library.Char_ord"
begin

text \<open>
  The metadata of tokens, from the second half of \<open>contract/src/utils.rs\<close>: the schema of each kind
  of metadata, the validation of a token's metadata against it, and the serialisation of a schema.
  JSON is parsed and printed by \<open>casper_serde_json_wasm\<close>, a parameter.
\<close>

section \<open>Ordered maps\<close>

text \<open>\<open>BTreeMap::insert\<close> and \<open>BTreeMap::get\<close> on the list of entries in the order of the keys.\<close>

fun btree_insert :: "string \<Rightarrow> 'v \<Rightarrow> 'v btree_map \<Rightarrow> 'v btree_map" where
  "btree_insert k v [] = [(k, v)]"
| "btree_insert k v ((k', v') # m) =
     (if k = k' then (k, v) # m
      else if k < k' then (k, v) # (k', v') # m
      else (k', v') # btree_insert k v m)"

definition btree_get :: "'v btree_map \<Rightarrow> string \<Rightarrow> 'v option" where
  "btree_get m k = map_of m k"

lemma btree_get_insert: "btree_get (btree_insert k v m) j = (if j = k then Some v else btree_get m j)"
  by (induction k v m rule: btree_insert.induct) (auto simp: btree_get_def)

lemma btree_get_Nil: "btree_get [] j = None"
  by (simp add: btree_get_def)

section \<open>Schemas\<close>

definition required_property :: "string \<Rightarrow> string \<Rightarrow> metadata_schema_property" where
  "required_property name description =
     \<lparr>property_name = name, property_description = description, property_required = True\<rparr>"

definition nft721_schema :: custom_metadata_schema where
  "nft721_schema = \<lparr>schema_properties =
     btree_insert ''token_uri''
       (required_property ''token_uri'' ''The URI pointing to an off chain resource'')
     (btree_insert ''symbol''
       (required_property ''symbol'' ''The symbol of the NFT collection'')
     (btree_insert ''name'' (required_property ''name'' ''The name of the NFT'') []))\<rparr>"

definition cep78_schema :: custom_metadata_schema where
  "cep78_schema = \<lparr>schema_properties =
     btree_insert ''checksum''
       (required_property ''checksum'' ''A SHA256 hash of the content at the token_uri'')
     (btree_insert ''token_uri''
       (required_property ''token_uri'' ''The URI pointing to an off chain resource'')
     (btree_insert ''name'' (required_property ''name'' ''The name of the NFT'') []))\<rparr>"

definition get_metadata_schema ::
  "'h casper \<Rightarrow> nft_metadata_kind \<Rightarrow> ('h, custom_metadata_schema) contract" where
  "get_metadata_schema H kind =
     (case kind of
        Raw \<Rightarrow> return_c \<lparr>schema_properties = []\<rparr>
      | NFT721 \<Rightarrow> return_c nft721_schema
      | CEP78 \<Rightarrow> return_c cep78_schema
      | CustomValidated \<Rightarrow>
          bind_c (get_stored_value_with_user_errors H (c_string H) ARG_JSON_SCHEMA
            MissingJsonSchema InvalidJsonSchema) (\<lambda>custom_schema_json.
          unwrap_or_revert_with (User InvalidJsonSchema)
            (from_str_schema H custom_schema_json)))"

section \<open>Serialisation of a schema\<close>

definition property_to_bytes :: "'h casper \<Rightarrow> metadata_schema_property \<Rightarrow> bytes" where
  "property_to_bytes H p =
     to_bytes (c_string H) (property_name p) @ to_bytes (c_string H) (property_description p)
     @ to_bytes (c_bool H) (property_required p)"

definition property_from_bytes ::
  "'h casper \<Rightarrow> bytes \<Rightarrow> api_error + metadata_schema_property \<times> bytes" where
  "property_from_bytes H bs =
     (case from_bytes (c_string H) bs of
        Inl e \<Rightarrow> Inl e
      | Inr (name, remainder) \<Rightarrow>
          (case from_bytes (c_string H) remainder of
             Inl e \<Rightarrow> Inl e
           | Inr (description, remainder) \<Rightarrow>
               (case from_bytes (c_bool H) remainder of
                  Inl e \<Rightarrow> Inl e
                | Inr (required, remainder) \<Rightarrow>
                    Inr (\<lparr>property_name = name, property_description = description,
                      property_required = required\<rparr>, remainder))))"

definition schema_to_bytes :: "'h casper \<Rightarrow> custom_metadata_schema \<Rightarrow> bytes" where
  "schema_to_bytes H s =
     to_bytes (c_btree_map H (Codec (property_to_bytes H) (property_from_bytes H)))
       (schema_properties s)"

definition schema_from_bytes ::
  "'h casper \<Rightarrow> bytes \<Rightarrow> api_error + custom_metadata_schema \<times> bytes" where
  "schema_from_bytes H bs =
     (case from_bytes (c_btree_map H (Codec (property_to_bytes H) (property_from_bytes H))) bs of
        Inl e \<Rightarrow> Inl e
      | Inr (properties, remainder) \<Rightarrow> Inr (\<lparr>schema_properties = properties\<rparr>, remainder))"

section \<open>Validation\<close>

text \<open>\<open>if let Some(p) = properties.get(name) { if p.required && value.is_empty() { revert } }\<close>\<close>

definition check_property ::
  "custom_metadata_schema \<Rightarrow> string \<Rightarrow> string \<Rightarrow> nft_core_error \<Rightarrow> ('s, unit) contract" where
  "check_property schema name v e =
     (case btree_get (schema_properties schema) name of
        None \<Rightarrow> return_c ()
      | Some p \<Rightarrow> revert_if (property_required p \<and> v = []) (User e))"

definition validate_metadata ::
  "'h casper \<Rightarrow> nft_metadata_kind \<Rightarrow> string \<Rightarrow> ('h, nft_core_error + string) contract" where
  "validate_metadata H metadata_kind token_metadata =
     bind_c (get_metadata_schema H metadata_kind) (\<lambda>token_schema.
     case metadata_kind of
       CEP78 \<Rightarrow>
         (case from_str_cep78 H token_metadata of
            None \<Rightarrow> return_c (Inl FailedToParseCep99Metadata)
          | Some m \<Rightarrow>
              bind_c (check_property token_schema ''name'' (cep78_name m) InvalidCEP99Metadata) (\<lambda>_.
              bind_c (check_property token_schema ''token_uri'' (cep78_token_uri m)
                InvalidCEP99Metadata) (\<lambda>_.
              bind_c (check_property token_schema ''checksum'' (cep78_checksum m)
                InvalidCEP99Metadata) (\<lambda>_.
              return_c (case to_string_pretty_cep78 H m of
                  None \<Rightarrow> Inl FailedToJsonifyCEP99Metadata | Some s \<Rightarrow> Inr s)))))
     | NFT721 \<Rightarrow>
         (case from_str_nft721 H token_metadata of
            None \<Rightarrow> return_c (Inl FailedToParse721Metadata)
          | Some m \<Rightarrow>
              bind_c (check_property token_schema ''name'' (nft721_name m) InvalidNFT721Metadata) (\<lambda>_.
              bind_c (check_property token_schema ''token_uri'' (nft721_token_uri m)
                InvalidNFT721Metadata) (\<lambda>_.
              bind_c (check_property token_schema ''symbol'' (nft721_symbol m)
                InvalidNFT721Metadata) (\<lambda>_.
              return_c (case to_string_pretty_nft721 H m of
                  None \<Rightarrow> Inl FailedToJsonifyNFT721Metadata | Some s \<Rightarrow> Inr s)))))
     | Raw \<Rightarrow> return_c (Inr token_metadata)
     | CustomValidated \<Rightarrow>
         (case from_str_attributes H token_metadata of
            None \<Rightarrow> return_c (Inl FailedToParseCustomMetadata)
          | Some attributes \<Rightarrow>
              (let m = \<lparr>custom_attributes = attributes\<rparr>
               in bind_c (for_c (\<lambda>(property_name, property_type).
                      revert_if (property_required property_type
                        \<and> btree_get (custom_attributes m) property_name = None)
                        (User InvalidCustomMetadata))
                    (schema_properties token_schema)) (\<lambda>_.
                  return_c (case to_string_pretty_attributes H (custom_attributes m) of
                    None \<Rightarrow> Inl FailedToJsonifyCustomMetadata | Some s \<Rightarrow> Inr s)))))"

definition get_metadata_dictionary_name :: "nft_metadata_kind \<Rightarrow> string" where
  "get_metadata_dictionary_name metadata_kind =
     (case metadata_kind of
        CEP78 \<Rightarrow> METADATA_CEP78
      | NFT721 \<Rightarrow> METADATA_NFT721
      | Raw \<Rightarrow> METADATA_RAW
      | CustomValidated \<Rightarrow> METADATA_CUSTOM_VALIDATED)"

end
