(* ===== verification/Admin.thy ===== *)
theory Admin
  imports Metadata
begin

text \<open>
  The entry points of \<open>contract/src/main.rs\<close> that set a contract up and administer it: \<open>init\<close>,
  \<open>set_variables\<close>, \<open>add_to_account_whitelist\<close>, \<open>remove_from_account_whitelist\<close>, and the guard
  \<open>enforce_only_contract_creator_can_invoke\<close>.
\<close>

section \<open>Recurring chains of calls\<close>

text \<open>\<open>get_named_arg_with_user_errors(..).unwrap_or_revert()\<close>\<close>

definition required_arg ::
  "'a codec \<Rightarrow> invocation \<Rightarrow> string \<Rightarrow> nft_core_error \<Rightarrow> nft_core_error \<Rightarrow> ('s, 'a) contract" where
  "required_arg c i name missing invalid =
     bind_c (get_named_arg_with_user_errors c i name missing invalid) unwrap_or_revert"

text \<open>\<open>get_named_arg_with_user_errors::<u8>(..).unwrap_or_revert().try_into().unwrap_or_revert()\<close>\<close>

definition mode_arg ::
  "'h casper \<Rightarrow> (u8 \<Rightarrow> nft_core_error + 'm) \<Rightarrow> invocation \<Rightarrow> string \<Rightarrow> nft_core_error \<Rightarrow>
   nft_core_error \<Rightarrow> ('s, 'm) contract" where
  "mode_arg H try_from i name missing invalid =
     bind_c (required_arg (c_u8 H) i name missing invalid) (\<lambda>v. unwrap_or_revert (try_from v))"

text \<open>\<open>get_stored_value_with_user_errors::<u8>(..).try_into().unwrap_or_revert()\<close>\<close>

definition stored_mode ::
  "'h casper \<Rightarrow> (u8 \<Rightarrow> nft_core_error + 'm) \<Rightarrow> string \<Rightarrow> nft_core_error \<Rightarrow> nft_core_error \<Rightarrow>
   ('h, 'm) contract" where
  "stored_mode H try_from name missing invalid =
     bind_c (get_stored_value_with_user_errors H (c_u8 H) name missing invalid)
       (\<lambda>v. unwrap_or_revert (try_from v))"

text \<open>\<open>runtime::put_key(name, storage::new_uref(value).into())\<close>\<close>

definition put_new_uref :: "'h casper \<Rightarrow> string \<Rightarrow> 'a codec \<Rightarrow> 'a \<Rightarrow> ('h, unit) contract" where
  "put_new_uref H name c v h =
     (case storage_new_uref H (to_bytes c v) h of
        (u, h') \<Rightarrow> Inr ((), runtime_put_key H name (Key_URef u) h'))"

text \<open>\<open>storage::new_dictionary(name).unwrap_or_revert_with(FailedToCreateDictionary)\<close>\<close>

definition new_dictionary_c :: "'h casper \<Rightarrow> string \<Rightarrow> ('h, unit) contract" where
  "new_dictionary_c H name h =
     (case storage_new_dictionary H name h of
        Inl _ \<Rightarrow> Inl (User FailedToCreateDictionary)
      | Inr (u, h') \<Rightarrow> Inr ((), h'))"

definition enforce_only_contract_creator_can_invoke ::
  "'h casper \<Rightarrow> invocation \<Rightarrow> ('h, unit) contract" where
  "enforce_only_contract_creator_can_invoke H i =
     bind_c (get_account_hash H INSTALLER MissingInstaller InvalidInstaller) (\<lambda>installing_account.
     revert_if (installing_account \<noteq> get_caller i) (User InvalidAccount))"

section \<open>Initialisation\<close>

text \<open>What \<open>init\<close> reads from its arguments.\<close>

record init_args =
  a_collection_name :: string
  a_collection_symbol :: string
  a_total_token_supply :: u64
  a_allow_minting :: bool
  a_minting_mode :: minting_mode
  a_ownership_mode :: ownership_mode
  a_nft_kind :: nft_kind
  a_holder_mode :: nft_holder_mode
  a_whitelist_mode :: whitelist_mode
  a_contract_whitelist :: "contract_hash list"
  a_account_whitelist :: "account_hash list"
  a_json_schema :: string
  a_receipt_name :: string
  a_nft_metadata_kind :: nft_metadata_kind
  a_identifier_mode :: nft_identifier_mode
  a_metadata_mutability :: metadata_mutability

definition read_init_args :: "'h casper \<Rightarrow> invocation \<Rightarrow> ('s, init_args) contract" where
  "read_init_args H i =
     bind_c (required_arg (c_string H) i ARG_COLLECTION_NAME
       MissingCollectionName InvalidCollectionName) (\<lambda>collection_name.
     bind_c (required_arg (c_string H) i ARG_COLLECTION_SYMBOL
       MissingCollectionSymbol InvalidCollectionSymbol) (\<lambda>collection_symbol.
     bind_c (required_arg (c_u64 H) i ARG_TOTAL_TOKEN_SUPPLY
       MissingTotalTokenSupply InvalidTotalTokenSupply) (\<lambda>total_token_supply.
     bind_c (required_arg (c_bool H) i ARG_ALLOW_MINTING
       MissingMintingStatus InvalidMintingStatus) (\<lambda>allow_minting.
     bind_c (mode_arg H minting_mode_try_from i ARG_MINTING_MODE
       MissingMintingMode InvalidMintingMode) (\<lambda>minting_mode.
     bind_c (mode_arg H ownership_mode_try_from i ARG_OWNERSHIP_MODE
       MissingOwnershipMode InvalidOwnershipMode) (\<lambda>ownership_mode.
     bind_c (mode_arg H nft_kind_try_from i ARG_NFT_KIND
       MissingNftKind InvalidNftKind) (\<lambda>nft_kind.
     bind_c (mode_arg H nft_holder_mode_try_from i ARG_HOLDER_MODE
       MissingHolderMode InvalidHolderMode) (\<lambda>holder_mode.
     bind_c (mode_arg H whitelist_mode_try_from i ARG_WHITELIST_MODE
       MissingWhitelistMode InvalidWhitelistMode) (\<lambda>whitelist_mode.
     bind_c (required_arg (c_vec_contract_hash H) i ARG_CONTRACT_WHITELIST
       MissingContractWhiteList InvalidContractWhitelist) (\<lambda>contract_whitelist.
     bind_c (required_arg (c_vec_account_hash H) i ARG_ACCOUNT_WHITELIST
       MissingAccountWhiteList InvalidAccountWhitelist) (\<lambda>account_whitelist.
     bind_c (revert_if (whitelist_mode = Locked \<and> contract_whitelist = [] \<and> holder_mode \<noteq> Accounts)
       (User EmptyContractWhitelist)) (\<lambda>_.
     bind_c (required_arg (c_string H) i ARG_JSON_SCHEMA
       MissingJsonSchema InvalidJsonSchema) (\<lambda>json_schema.
     bind_c (required_arg (c_string H) i ARG_RECEIPT_NAME
       MissingReceiptName InvalidReceiptName) (\<lambda>receipt_name.
     bind_c (mode_arg H nft_metadata_kind_try_from i ARG_NFT_METADATA_KIND
       MissingNFTMetadataKind InvalidNFTMetadataKind) (\<lambda>nft_metadata_kind.
     bind_c (revert_if (nft_metadata_kind = CustomValidated \<and> from_str_schema H json_schema = None)
       (User InvalidJsonSchema)) (\<lambda>_.
     bind_c (mode_arg H nft_identifier_mode_try_from i ARG_IDENTIFIER_MODE
       MissingIdentifierMode InvalidIdentifierMode) (\<lambda>identifier_mode.
     bind_c (mode_arg H metadata_mutability_try_from i ARG_METADATA_MUTABILITY
       MissingMetadataMutability InvalidMetadataMutability) (\<lambda>metadata_mutability.
     return_c \<lparr>a_collection_name = collection_name, a_collection_symbol = collection_symbol,
       a_total_token_supply = total_token_supply, a_allow_minting = allow_minting,
       a_minting_mode = minting_mode, a_ownership_mode = ownership_mode, a_nft_kind = nft_kind,
       a_holder_mode = holder_mode, a_whitelist_mode = whitelist_mode,
       a_contract_whitelist = contract_whitelist, a_account_whitelist = account_whitelist,
       a_json_schema = json_schema, a_receipt_name = receipt_name,
       a_nft_metadata_kind = nft_metadata_kind, a_identifier_mode = identifier_mode,
       a_metadata_mutability = metadata_mutability\<rparr>))))))))))))))))))"

definition create_named_keys :: "'h casper \<Rightarrow> init_args \<Rightarrow> ('h, unit) contract" where
  "create_named_keys H a =
     bind_c (put_new_uref H COLLECTION_NAME (c_string H) (a_collection_name a)) (\<lambda>_.
     bind_c (put_new_uref H COLLECTION_SYMBOL (c_string H) (a_collection_symbol a)) (\<lambda>_.
     bind_c (put_new_uref H TOTAL_TOKEN_SUPPLY (c_u64 H) (a_total_token_supply a)) (\<lambda>_.
     bind_c (put_new_uref H OWNERSHIP_MODE (c_u8 H) (ownership_mode_as_u8 (a_ownership_mode a))) (\<lambda>_.
     bind_c (put_new_uref H NFT_KIND (c_u8 H) (nft_kind_as_u8 (a_nft_kind a))) (\<lambda>_.
     bind_c (put_new_uref H JSON_SCHEMA (c_string H) (a_json_schema a)) (\<lambda>_.
     bind_c (put_new_uref H MINTING_MODE (c_u8 H) (minting_mode_as_u8 (a_minting_mode a))) (\<lambda>_.
     bind_c (put_new_uref H HOLDER_MODE (c_u8 H) (nft_holder_mode_as_u8 (a_holder_mode a))) (\<lambda>_.
     bind_c (put_new_uref H WHITELIST_MODE (c_u8 H) (whitelist_mode_as_u8 (a_whitelist_mode a))) (\<lambda>_.
     bind_c (put_new_uref H CONTRACT_WHITELIST (c_vec_contract_hash H) (a_contract_whitelist a)) (\<lambda>_.
     bind_c (put_new_uref H ACCOUNT_WHITELIST (c_vec_account_hash H) (a_account_whitelist a)) (\<lambda>_.
     bind_c (put_new_uref H RECEIPT_NAME (c_string H) (a_receipt_name a)) (\<lambda>_.
     bind_c (put_new_uref H NFT_METADATA_KIND (c_u8 H)
       (nft_metadata_kind_as_u8 (a_nft_metadata_kind a))) (\<lambda>_.
     bind_c (put_new_uref H IDENTIFIER_MODE (c_u8 H)
       (nft_identifier_mode_as_u8 (a_identifier_mode a))) (\<lambda>_.
     bind_c (put_new_uref H METADATA_MUTABILITY (c_u8 H)
       (metadata_mutability_as_u8 (a_metadata_mutability a))) (\<lambda>_.
     bind_c (put_new_uref H ALLOW_MINTING (c_bool H) (a_allow_minting a)) (\<lambda>_.
     put_new_uref H NUMBER_OF_MINTED_TOKENS (c_u64 H) 0))))))))))))))))"

definition create_dictionaries :: "'h casper \<Rightarrow> ('h, unit) contract" where
  "create_dictionaries H =
     bind_c (new_dictionary_c H TOKEN_OWNERS) (\<lambda>_.
     bind_c (new_dictionary_c H TOKEN_ISSUERS) (\<lambda>_.
     bind_c (new_dictionary_c H OWNED_TOKENS) (\<lambda>_.
     bind_c (new_dictionary_c H OPERATOR) (\<lambda>_.
     bind_c (new_dictionary_c H BURNT_TOKENS) (\<lambda>_.
     bind_c (new_dictionary_c H TOKEN_COUNTS) (\<lambda>_.
     bind_c (new_dictionary_c H METADATA_CUSTOM_VALIDATED) (\<lambda>_.
     bind_c (new_dictionary_c H METADATA_CEP78) (\<lambda>_.
     bind_c (new_dictionary_c H METADATA_NFT721) (\<lambda>_.
     new_dictionary_c H METADATA_RAW)))))))))"

definition init :: "'h casper \<Rightarrow> invocation \<Rightarrow> ('h, ret_value) contract" where
  "init H i h =
     (if named_uref_exists H COLLECTION_NAME h then Inl (User ContractAlreadyInitialized)
      else bind_c (read_init_args H i) (\<lambda>a.
           bind_c (create_named_keys H a) (\<lambda>_.
           bind_c (create_dictionaries H) (\<lambda>_.
           return_c Ret_Unit))) h)"

section \<open>Administration\<close>

definition set_variables :: "'h casper \<Rightarrow> invocation \<Rightarrow> ('h, ret_value) contract" where
  "set_variables H i =
     bind_c (get_account_hash H INSTALLER MissingInstaller InvalidInstaller) (\<lambda>installer.
     bind_c (revert_if (installer \<noteq> get_caller i) (User InvalidAccount)) (\<lambda>_.
     bind_c (get_optional_named_arg_with_user_errors (c_option_bool H) i ARG_ALLOW_MINTING
       MissingAllowMinting) (\<lambda>maybe_allow_minting.
     bind_c (case maybe_allow_minting of
         None \<Rightarrow> return_c ()
       | Some allow_minting \<Rightarrow>
           bind_c (get_uref H ALLOW_MINTING MissingAllowMinting MissingAllowMinting)
             (\<lambda>allow_minting_uref. write_c H (c_bool H) allow_minting_uref allow_minting)) (\<lambda>_.
     bind_c (get_optional_named_arg_with_user_errors (c_option_vec_contract_hash H) i
       ARG_CONTRACT_WHITELIST MissingContractWhiteList) (\<lambda>maybe_whitelist.
     bind_c (case maybe_whitelist of
         None \<Rightarrow> return_c ()
       | Some new_contract_whitelist \<Rightarrow>
           bind_c (stored_mode H whitelist_mode_try_from WHITELIST_MODE
             MissingWhitelistMode InvalidWhitelistMode) (\<lambda>whitelist_mode.
           case whitelist_mode of
             Unlocked \<Rightarrow>
               bind_c (get_uref H CONTRACT_WHITELIST MissingContractWhiteList InvalidWhitelistMode)
                 (\<lambda>whitelist_uref.
                   write_c H (c_vec_contract_hash H) whitelist_uref new_contract_whitelist)
           | Locked \<Rightarrow> revert_c (User InvalidWhitelistMode))) (\<lambda>_.
     return_c Ret_Unit))))))"

definition add_to_account_whitelist :: "'h casper \<Rightarrow> invocation \<Rightarrow> ('h, ret_value) contract" where
  "add_to_account_whitelist H i =
     bind_c (get_account_hash H INSTALLER MissingInstaller InvalidInstaller) (\<lambda>installer.
     bind_c (revert_if (installer \<noteq> get_caller i) (User InvalidAccount)) (\<lambda>_.
     bind_c (required_arg (c_key H) i ARG_ACCOUNT_WHITELIST
       MissingAccountWhiteList InvalidAccountWhitelist) (\<lambda>new_account_for_whitelist_key.
     bind_c (get_stored_value_with_user_errors H (c_vec_account_hash H) ACCOUNT_WHITELIST
       MissingAccountWhiteList InvalidAccountWhitelist) (\<lambda>existing_account_whitelist.
     bind_c (unwrap_or_revert_with (User InvalidKey) (into_account new_account_for_whitelist_key))
       (\<lambda>new_account_for_whitelist.
     bind_c (get_uref H ACCOUNT_WHITELIST MissingAccountWhiteList InvalidAccountWhitelist)
       (\<lambda>whitelist_uref.
     bind_c (write_c H (c_vec_account_hash H) whitelist_uref
       (existing_account_whitelist @ [new_account_for_whitelist])) (\<lambda>_.
     return_c Ret_Unit)))))))"

text \<open>The position of an account that is not listed is unwrapped: the call panics.\<close>

definition remove_from_account_whitelist ::
  "'h casper \<Rightarrow> invocation \<Rightarrow> ('h, ret_value) contract" where
  "remove_from_account_whitelist H i =
     bind_c (get_account_hash H INSTALLER MissingInstaller InvalidInstaller) (\<lambda>installer.
     bind_c (revert_if (installer \<noteq> get_caller i) (User InvalidAccount)) (\<lambda>_.
     bind_c (required_arg (c_key H) i ARG_ACCOUNT_WHITELIST
       MissingAccountWhiteList InvalidAccountWhitelist) (\<lambda>account_to_remove_from_whitelist_key.
     bind_c (get_stored_value_with_user_errors H (c_vec_account_hash H) ACCOUNT_WHITELIST
       MissingAccountWhiteList InvalidAccountWhitelist) (\<lambda>existing_account_whitelist.
     bind_c (unwrap_or_revert_with (User InvalidKey)
       (into_account account_to_remove_from_whitelist_key)) (\<lambda>account_to_remove_from_whitelist.
     bind_c (unwrap_or_revert_with Panic
       (position account_to_remove_from_whitelist existing_account_whitelist)) (\<lambda>index.
     bind_c (get_uref H ACCOUNT_WHITELIST MissingAccountWhiteList InvalidAccountWhitelist)
       (\<lambda>whitelist_uref.
     bind_c (write_c H (c_vec_account_hash H) whitelist_uref
       (remove_at index existing_account_whitelist)) (\<lambda>_.
     return_c Ret_Unit))))))))"

end
