(* ===== verification/Mint.thy ===== *)
theory Mint
  imports Admin
begin

text \<open>
  \<open>mint\<close> of \<open>contract/src/main.rs\<close>, in the order of its statements: the guards on the status, the
  supply and the minter, the owner and the identifier of the new token, the dictionary entries, the
  list of the owner's tokens, the balance, the counter and the receipt.
\<close>

text \<open>Whether the caller may mint: a listed contract or the installer, unless minting is public.\<close>

definition mint_check_minter :: "'h casper \<Rightarrow> invocation \<Rightarrow> ('h, unit) contract" where
  "mint_check_minter H i =
     bind_c (stored_mode H minting_mode_try_from MINTING_MODE MissingMintingMode InvalidMintingMode)
       (\<lambda>minting_mode.
     case minting_mode of
       Public \<Rightarrow> return_c ()
     | Installer \<Rightarrow>
         bind_c (get_verified_caller H i) (\<lambda>r. bind_c (unwrap_or_revert r) (\<lambda>caller.
         case caller of
           Key_Hash calling_contract_hash \<Rightarrow>
             bind_c (get_stored_value_with_user_errors H (c_vec_contract_hash H) CONTRACT_WHITELIST
               MissingWhitelistMode InvalidWhitelistMode) (\<lambda>contract_whitelist.
             revert_if (ContractHash calling_contract_hash \<notin> set contract_whitelist)
               (User UnlistedContractHash))
         | Key_Account _ \<Rightarrow>
             (\<lambda>h. bind_c (unwrap_or_revert_with (User MissingInstallerKey)
                    (runtime_get_key H INSTALLER h)) (\<lambda>installer_key.
                  bind_c (unwrap_or_revert_with (User FailedToConvertToAccountHash)
                    (into_account installer_key)) (\<lambda>installer_account.
                  revert_if (get_caller i \<noteq> installer_account) (User InvalidMinter))) h)
         | _ \<Rightarrow> revert_c (User InvalidKey))))"

text \<open>Who owns the new token: the named owner, or the caller if the mode is \<open>Minter\<close>.\<close>

definition mint_token_owner :: "'h casper \<Rightarrow> invocation \<Rightarrow> ('h, key) contract" where
  "mint_token_owner H i =
     bind_c (get_ownership_mode H) (\<lambda>r. bind_c (unwrap_or_revert r) (\<lambda>ownership_mode.
     bind_c (get_verified_caller H i) (\<lambda>r. bind_c (unwrap_or_revert r) (\<lambda>caller.
     if ownership_mode = Assigned \<or> ownership_mode = Transferable
     then get_named_arg_c (get_named_arg_key i ARG_TOKEN_OWNER)
     else return_c caller))))"

definition mint_token_identifier ::
  "'h casper \<Rightarrow> invocation \<Rightarrow> nft_identifier_mode \<Rightarrow> u64 \<Rightarrow> ('s, token_identifier) contract" where
  "mint_token_identifier H i identifier_mode next_index =
     (case identifier_mode of
        Ordinal \<Rightarrow> return_c (Index next_index)
      | Hash \<Rightarrow>
          bind_c (get_named_arg_c (get_named_arg_string i ARG_TOKEN_ID_HASH))
            (\<lambda>hash. return_c (TokenHash hash)))"

text \<open>Owner, issuer and metadata of the token: entries of the same item in three dictionaries.\<close>

definition mint_record_token ::
  "'h casper \<Rightarrow> nft_metadata_kind \<Rightarrow> token_identifier \<Rightarrow> key \<Rightarrow> string \<Rightarrow> ('h, unit) contract" where
  "mint_record_token H metadata_kind token_identifier token_owner_key token_metadata =
     bind_c (upsert_dictionary_value_from_key H (c_key H) TOKEN_OWNERS
       (get_dictionary_item_key token_identifier) token_owner_key) (\<lambda>_.
     bind_c (upsert_dictionary_value_from_key H (c_key H) TOKEN_ISSUERS
       (get_dictionary_item_key token_identifier) token_owner_key) (\<lambda>_.
     upsert_dictionary_value_from_key H (c_string H) (get_metadata_dictionary_name metadata_kind)
       (get_dictionary_item_key token_identifier) token_metadata))"

text \<open>The identifiers of a list, all of the contract's mode, go back to the dictionary.\<close>

definition mint_store_identifiers ::
  "'h casper \<Rightarrow> nft_identifier_mode \<Rightarrow> string \<Rightarrow> token_identifier list \<Rightarrow> ('h, unit) contract" where
  "mint_store_identifiers H identifier_mode owned_tokens_item_key identifiers =
     (case identifier_mode of
        Ordinal \<Rightarrow>
          bind_c (map_c (\<lambda>t. unwrap_or_revert_with (Api Api_None) (get_index t)) identifiers)
            (\<lambda>token_indices.
          upsert_dictionary_value_from_key H (c_vec_u64 H) OWNED_TOKENS owned_tokens_item_key
            token_indices)
      | Hash \<Rightarrow>
          bind_c (map_c (\<lambda>t. unwrap_or_revert_with (Api Api_None) (get_hash t)) identifiers)
            (\<lambda>token_hashes.
          upsert_dictionary_value_from_key H (c_vec_string H) OWNED_TOKENS owned_tokens_item_key
            token_hashes))"

text \<open>The owner's list of tokens: the new token joins it, unless it is in it already.\<close>

definition mint_update_owned_tokens ::
  "'h casper \<Rightarrow> nft_identifier_mode \<Rightarrow> token_identifier \<Rightarrow> string \<Rightarrow> ('h, unit) contract" where
  "mint_update_owned_tokens H identifier_mode token_identifier owned_tokens_item_key =
     bind_c (get_token_identifiers_from_dictionary H identifier_mode owned_tokens_item_key)
       (\<lambda>maybe_owned_tokens.
     case maybe_owned_tokens of
       Some owned_tokens \<Rightarrow>
         bind_c (revert_if (token_identifier \<in> set owned_tokens) (User FatalTokenIdDuplication)) (\<lambda>_.
         mint_store_identifiers H identifier_mode owned_tokens_item_key
           (owned_tokens @ [token_identifier]))
     | None \<Rightarrow>
         mint_store_identifiers H identifier_mode owned_tokens_item_key [token_identifier])"

text \<open>One more token under an item of the balances; \<open>u64\<close> addition wraps in a release build.\<close>

definition increment_token_count :: "'h casper \<Rightarrow> string \<Rightarrow> ('h, unit) contract" where
  "increment_token_count H owned_tokens_item_key =
     bind_c (get_dictionary_value_from_key H (c_u64 H) TOKEN_COUNTS owned_tokens_item_key)
       (\<lambda>maybe_balance.
     upsert_dictionary_value_from_key H (c_u64 H) TOKEN_COUNTS owned_tokens_item_key
       (case maybe_balance of Some balance \<Rightarrow> balance + 1 | None \<Rightarrow> 1))"

definition mint_write_number_of_minted_tokens ::
  "'h casper \<Rightarrow> u64 \<Rightarrow> ('h, unit) contract" where
  "mint_write_number_of_minted_tokens H next_index =
     bind_c (get_uref H NUMBER_OF_MINTED_TOKENS MissingTotalTokenSupply InvalidTotalTokenSupply)
       (\<lambda>number_of_minted_tokens_uref.
     write_c H (c_u64 H) number_of_minted_tokens_uref next_index)"

text \<open>\<open>CLValue::from_t(v).unwrap_or_revert_with(FailedToConvertToCLValue)\<close> and \<open>runtime::ret\<close>.\<close>

definition ret_c :: "'h casper \<Rightarrow> ret_value \<Rightarrow> ('s, ret_value) contract" where
  "ret_c H v =
     bind_c (unwrap_or_revert_with (User FailedToConvertToCLValue) (cl_value_from_t H v)) (\<lambda>_.
     return_c v)"

text \<open>What \<open>mint\<close> reads and checks before it writes.\<close>

definition mint :: "'h casper \<Rightarrow> invocation \<Rightarrow> ('h, ret_value) contract" where
  "mint H i =
     bind_c (get_stored_value_with_user_errors H (c_bool H) ALLOW_MINTING
       MissingAllowMinting InvalidAllowMinting) (\<lambda>minting_status.
     bind_c (revert_if (\<not> minting_status) (User MintingIsPaused)) (\<lambda>_.
     bind_c (get_stored_value_with_user_errors H (c_u64 H) TOTAL_TOKEN_SUPPLY
       MissingTotalTokenSupply InvalidTotalTokenSupply) (\<lambda>total_token_supply.
     bind_c (get_stored_value_with_user_errors H (c_u64 H) NUMBER_OF_MINTED_TOKENS
       MissingNumberOfMintedTokens InvalidNumberOfMintedTokens) (\<lambda>next_index.
     bind_c (revert_if (next_index \<ge> total_token_supply) (User TokenSupplyDepleted)) (\<lambda>_.
     bind_c (mint_check_minter H i) (\<lambda>_.
     bind_c (mint_token_owner H i) (\<lambda>token_owner_key.
     bind_c (stored_mode H nft_metadata_kind_try_from NFT_METADATA_KIND
       MissingNFTMetadataKind InvalidNFTMetadataKind) (\<lambda>metadata_kind.
     bind_c (required_arg (c_string H) i ARG_TOKEN_META_DATA
       MissingTokenMetaData InvalidTokenMetaData) (\<lambda>token_metadata.
     bind_c (validate_metadata H metadata_kind token_metadata) (\<lambda>r.
     bind_c (unwrap_or_revert r) (\<lambda>metadata.
     bind_c (stored_mode H nft_identifier_mode_try_from IDENTIFIER_MODE
       MissingIdentifierMode InvalidIdentifierMode) (\<lambda>identifier_mode.
     bind_c (mint_token_identifier H i identifier_mode next_index) (\<lambda>token_identifier.
     bind_c (mint_record_token H metadata_kind token_identifier token_owner_key metadata) (\<lambda>_.
     bind_c (get_owned_tokens_dictionary_item_key H token_owner_key) (\<lambda>owned_tokens_item_key.
     bind_c (get_uref H OWNED_TOKENS MissingOwnedTokens InvalidOwnedTokens) (\<lambda>owned_tokens_uref.
     bind_c (mint_update_owned_tokens H identifier_mode token_identifier owned_tokens_item_key) (\<lambda>_.
     bind_c (increment_token_count H owned_tokens_item_key) (\<lambda>_.
     bind_c (mint_write_number_of_minted_tokens H (next_index + 1)) (\<lambda>_.
     bind_c (get_stored_value_with_user_errors H (c_string H) RECEIPT_NAME
       MissingReceiptName InvalidReceiptName) (\<lambda>receipt_name.
     ret_c H (Ret_Mint_Receipt receipt_name
       (key_dictionary H owned_tokens_uref owned_tokens_item_key)
       (get_dictionary_item_key token_identifier))))))))))))))))))))))"

end
