(* ===== verification/Token_Ops.thy ===== *)
theory Token_Ops
  imports Mint
begin

text \<open>
  The entry points of \<open>contract/src/main.rs\<close> on minted tokens: \<open>burn\<close>, \<open>approve\<close>,
  \<open>set_approval_for_all\<close>, \<open>transfer\<close> and \<open>set_token_metadata\<close>.
\<close>

section \<open>Burning\<close>

text \<open>One token less under an item of the balances, which must not be empty.\<close>

definition decrement_token_count :: "'h casper \<Rightarrow> string \<Rightarrow> ('h, unit) contract" where
  "decrement_token_count H owned_tokens_item_key =
     bind_c (get_dictionary_value_from_key H (c_u64 H) TOKEN_COUNTS owned_tokens_item_key)
       (\<lambda>maybe_balance.
     bind_c (case maybe_balance of
         Some balance \<Rightarrow>
           if balance > 0 then return_c (balance - 1) else revert_c (User FatalTokenIdDuplication)
       | None \<Rightarrow> revert_c (User FatalTokenIdDuplication)) (\<lambda>updated_balance.
     upsert_dictionary_value_from_key H (c_u64 H) TOKEN_COUNTS owned_tokens_item_key
       updated_balance))"

text \<open>\<open>get_dictionary_value_from_key::<()>(BURNT_TOKENS, ..).is_some()\<close>\<close>

definition is_burnt :: "'h casper \<Rightarrow> token_identifier \<Rightarrow> ('h, bool) contract" where
  "is_burnt H token_identifier =
     bind_c (get_dictionary_value_from_key H (c_unit H) BURNT_TOKENS
       (get_dictionary_item_key token_identifier)) (\<lambda>r. return_c (r \<noteq> None))"

definition burn :: "'h casper \<Rightarrow> invocation \<Rightarrow> ('h, ret_value) contract" where
  "burn H i =
     bind_c (enforce_only_contract_creator_can_invoke H i) (\<lambda>_.
     bind_c (stored_mode H nft_identifier_mode_try_from IDENTIFIER_MODE
       MissingIdentifierMode InvalidIdentifierMode) (\<lambda>identifier_mode.
     bind_c (get_token_identifier_from_runtime_args H i identifier_mode) (\<lambda>token_identifier.
     bind_c (get_verified_caller H i) (\<lambda>r. bind_c (unwrap_or_revert r) (\<lambda>expected_token_owner.
     bind_c (get_dictionary_value_from_key H (c_key H) TOKEN_OWNERS
       (get_dictionary_item_key token_identifier)) (\<lambda>maybe_owner.
     bind_c (case maybe_owner of
         Some token_owner_key \<Rightarrow>
           bind_c (revert_if (token_owner_key \<noteq> expected_token_owner) (User InvalidTokenOwner))
             (\<lambda>_. return_c token_owner_key)
       | None \<Rightarrow> revert_c (User InvalidTokenIdentifier)) (\<lambda>token_owner.
     bind_c (is_burnt H token_identifier) (\<lambda>burnt.
     bind_c (revert_if burnt (User PreviouslyBurntToken)) (\<lambda>_.
     bind_c (upsert_dictionary_value_from_key H (c_unit H) BURNT_TOKENS
       (get_dictionary_item_key token_identifier) ()) (\<lambda>_.
     bind_c (get_owned_tokens_dictionary_item_key H token_owner) (\<lambda>owned_tokens_item_key.
     bind_c (decrement_token_count H owned_tokens_item_key) (\<lambda>_.
     return_c Ret_Unit))))))))))))"

section \<open>Approving operators\<close>

text \<open>In the modes \<open>Minter\<close> and \<open>Assigned\<close> tokens do not move: nothing to approve or transfer.\<close>

definition enforce_transferable :: "'h casper \<Rightarrow> ('h, unit) contract" where
  "enforce_transferable H =
     bind_c (get_ownership_mode H) (\<lambda>r. bind_c (unwrap_or_revert r) (\<lambda>ownership_mode.
     revert_if (ownership_mode = Minter \<or> ownership_mode = Assigned) (User InvalidOwnershipMode)))"

text \<open>\<open>storage::dictionary_put\<close> of an \<open>Option<Key>\<close> under the name \<open>OPERATOR\<close>.\<close>

definition put_operator :: "'h casper \<Rightarrow> token_identifier \<Rightarrow> key option \<Rightarrow> ('h, unit) contract" where
  "put_operator H token_identifier operator =
     bind_c (get_uref H OPERATOR MissingStorageUref InvalidStorageUref) (\<lambda>approved_uref.
     dictionary_put_c H (c_option_key H) approved_uref (get_dictionary_item_key token_identifier)
       operator)"

definition approve :: "'h casper \<Rightarrow> invocation \<Rightarrow> ('h, ret_value) contract" where
  "approve H i =
     bind_c (enforce_transferable H) (\<lambda>_.
     bind_c (get_verified_caller H i) (\<lambda>r. bind_c (unwrap_or_revert r) (\<lambda>caller.
     bind_c (stored_mode H nft_identifier_mode_try_from IDENTIFIER_MODE
       MissingIdentifierMode InvalidIdentifierMode) (\<lambda>identifier_mode.
     bind_c (get_token_identifier_from_runtime_args H i identifier_mode) (\<lambda>token_identifier.
     bind_c (get_stored_value_with_user_errors H (c_u64 H) NUMBER_OF_MINTED_TOKENS
       MissingNumberOfMintedTokens InvalidNumberOfMintedTokens) (\<lambda>number_of_minted_tokens.
     bind_c (if identifier_mode = Ordinal
         then case token_identifier of
             Index index \<Rightarrow>
               revert_if (index \<ge> number_of_minted_tokens) (User InvalidTokenIdentifier)
           | TokenHash _ \<Rightarrow> return_c ()
         else return_c ()) (\<lambda>_.
     bind_c (get_dictionary_value_from_key H (c_key H) TOKEN_OWNERS
       (get_dictionary_item_key token_identifier)) (\<lambda>maybe_owner.
     bind_c (unwrap_or_revert_with (User InvalidAccountHash) maybe_owner) (\<lambda>token_owner_key.
     bind_c (revert_if (token_owner_key \<noteq> caller) (User InvalidAccountHash)) (\<lambda>_.
     bind_c (is_burnt H token_identifier) (\<lambda>burnt.
     bind_c (revert_if burnt (User PreviouslyBurntToken)) (\<lambda>_.
     bind_c (required_arg (c_key H) i ARG_OPERATOR
       MissingApprovedAccountHash InvalidApprovedAccountHash) (\<lambda>operator.
     bind_c (revert_if (token_owner_key = operator) (User InvalidAccount)) (\<lambda>_.
     bind_c (put_operator H token_identifier (Some operator)) (\<lambda>_.
     return_c Ret_Unit)))))))))))))))"

text \<open>
  The URef of the operators is looked up once, before the loop; every token of the caller's list
  gets the operator, or no operator.
\<close>

definition set_approval_for_all :: "'h casper \<Rightarrow> invocation \<Rightarrow> ('h, ret_value) contract" where
  "set_approval_for_all H i =
     bind_c (enforce_transferable H) (\<lambda>_.
     bind_c (required_arg (c_bool H) i ARG_APPROVE_ALL MissingApproveAll InvalidApproveAll)
       (\<lambda>approve_all.
     bind_c (required_arg (c_key H) i ARG_OPERATOR MissingOperator InvalidOperator) (\<lambda>operator.
     bind_c (get_verified_caller H i) (\<lambda>r. bind_c (unwrap_or_revert r) (\<lambda>caller.
     bind_c (get_owned_tokens_dictionary_item_key H caller) (\<lambda>caller_dictionary_item_key.
     bind_c (get_uref H OPERATOR MissingStorageUref InvalidStorageUref) (\<lambda>approved_uref.
     bind_c (stored_mode H nft_identifier_mode_try_from IDENTIFIER_MODE
       MissingIdentifierMode InvalidIdentifierMode) (\<lambda>identifier_mode.
     bind_c (get_token_identifiers_from_dictionary H identifier_mode caller_dictionary_item_key)
       (\<lambda>maybe_owned_tokens.
     bind_c (case maybe_owned_tokens of
         None \<Rightarrow> return_c ()
       | Some owned_tokens \<Rightarrow>
           for_c (\<lambda>token_id.
               dictionary_put_c H (c_option_key H) approved_uref
                 (get_dictionary_item_key token_id) (if approve_all then Some operator else None))
             owned_tokens) (\<lambda>_.
     return_c Ret_Unit))))))))))"

section \<open>Transfer\<close>

text \<open>
  The account whitelist decides which keys may receive a token: the account, or the contract
  whose hash is listed as if it were an account's.
\<close>

definition transfer_check_target :: "'h casper \<Rightarrow> key \<Rightarrow> ('h, unit) contract" where
  "transfer_check_target H target_owner_key =
     (let check = (\<lambda>calling_account.
        bind_c (get_stored_value_with_user_errors H (c_vec_account_hash H) ACCOUNT_WHITELIST
          MissingWhitelistMode InvalidWhitelistMode) (\<lambda>account_whitelist.
        revert_if (calling_account \<notin> set account_whitelist) (User UnlistedAccountHash)))
      in case target_owner_key of
           Key_Hash hash \<Rightarrow> check (AccountHash hash)
         | Key_Account account \<Rightarrow> check account
         | _ \<Rightarrow> revert_c (User InvalidKey))"

definition transfer_update_owner ::
  "'h casper \<Rightarrow> token_identifier \<Rightarrow> key \<Rightarrow> key \<Rightarrow> ('h, unit) contract" where
  "transfer_update_owner H token_identifier from_token_owner_key target_owner_key =
     bind_c (get_dictionary_value_from_key H (c_key H) TOKEN_OWNERS
       (get_dictionary_item_key token_identifier)) (\<lambda>r.
     case r of
       Some token_actual_owner \<Rightarrow>
         bind_c (revert_if (token_actual_owner \<noteq> from_token_owner_key) (User InvalidTokenOwner)) (\<lambda>_.
         upsert_dictionary_value_from_key H (c_key H) TOKEN_OWNERS
           (get_dictionary_item_key token_identifier) target_owner_key)
     | None \<Rightarrow> revert_c (User InvalidTokenIdentifier))"

definition transfer_remove_from_source ::
  "'h casper \<Rightarrow> nft_identifier_mode \<Rightarrow> token_identifier \<Rightarrow> string \<Rightarrow> ('h, unit) contract" where
  "transfer_remove_from_source H identifier_mode token_identifier from_owner_item_key =
     bind_c (get_token_identifiers_from_dictionary H identifier_mode from_owner_item_key) (\<lambda>r.
     case r of
       Some owned_tokens \<Rightarrow>
         bind_c (case position token_identifier owned_tokens of
             Some pos \<Rightarrow> return_c (remove_at pos owned_tokens)
           | None \<Rightarrow> revert_c (User InvalidTokenOwner)) (\<lambda>owned_tokens.
         bind_c (upsert_token_identifiers H identifier_mode from_owner_item_key owned_tokens)
           unwrap_or_revert)
     | None \<Rightarrow> revert_c (User InvalidTokenIdentifier))"

definition transfer_add_to_target ::
  "'h casper \<Rightarrow> nft_identifier_mode \<Rightarrow> token_identifier \<Rightarrow> string \<Rightarrow> ('h, unit) contract" where
  "transfer_add_to_target H identifier_mode token_identifier target_owner_item_key =
     bind_c (get_token_identifiers_from_dictionary H identifier_mode target_owner_item_key) (\<lambda>r.
     case r of
       Some owned_tokens \<Rightarrow>
         bind_c (revert_if (token_identifier \<in> set owned_tokens) (User FatalTokenIdDuplication)) (\<lambda>_.
         bind_c (upsert_token_identifiers H identifier_mode target_owner_item_key
           (owned_tokens @ [token_identifier])) unwrap_or_revert)
     | None \<Rightarrow>
         bind_c (upsert_token_identifiers H identifier_mode target_owner_item_key
           [token_identifier]) unwrap_or_revert)"

text \<open>
  The guards of \<open>transfer\<close>: the token is not burnt, the named source owns it, and, in a contract
  for accounts only, the caller is the owner, the approved operator or the installer.
\<close>

definition transfer_check_source ::
  "'h casper \<Rightarrow> invocation \<Rightarrow> nft_holder_mode \<Rightarrow> token_identifier \<Rightarrow> ('h, key) contract" where
  "transfer_check_source H i holder_mode token_identifier =
     bind_c (is_burnt H token_identifier) (\<lambda>burnt.
     bind_c (revert_if burnt (User PreviouslyBurntToken)) (\<lambda>_.
     bind_c (get_dictionary_value_from_key H (c_key H) TOKEN_OWNERS
       (get_dictionary_item_key token_identifier)) (\<lambda>maybe_owner.
     bind_c (unwrap_or_revert_with (User InvalidTokenIdentifier) maybe_owner) (\<lambda>token_owner_key.
     bind_c (required_arg (c_key H) i ARG_SOURCE_KEY MissingAccountHash InvalidAccountHash)
       (\<lambda>from_token_owner_key.
     bind_c (revert_if (from_token_owner_key \<noteq> token_owner_key) (User InvalidAccount)) (\<lambda>_.
     bind_c (get_verified_caller H i) (\<lambda>r. bind_c (unwrap_or_revert r) (\<lambda>caller.
     bind_c (get_dictionary_value_from_key H (c_option_key H) OPERATOR
       (get_dictionary_item_key token_identifier)) (\<lambda>maybe_approved.
     bind_c (get_account_hash H INSTALLER MissingInstaller InvalidInstaller) (\<lambda>installing_account.
     (let is_approved = (case maybe_approved of
            Some (Some approved_key) \<Rightarrow> approved_key = caller
          | _ \<Rightarrow> False);
          contract_installer_key = Key_Account installing_account
      in bind_c (revert_if (holder_mode = Accounts
             \<and> \<not> (caller = token_owner_key \<or> is_approved \<or> caller = contract_installer_key))
           (User InvalidAccount)) (\<lambda>_.
         return_c from_token_owner_key))))))))))))"

text \<open>The balance of the target, the operator, who loses the token, and the receipt.\<close>

definition transfer_finish ::
  "'h casper \<Rightarrow> token_identifier \<Rightarrow> string \<Rightarrow> ('h, ret_value) contract" where
  "transfer_finish H token_identifier target_owner_item_key =
     bind_c (increment_token_count H target_owner_item_key) (\<lambda>_.
     bind_c (put_operator H token_identifier None) (\<lambda>_.
     bind_c (get_uref H OWNED_TOKENS MissingOwnedTokens InvalidOwnedTokens) (\<lambda>owned_tokens_uref.
     bind_c (get_stored_value_with_user_errors H (c_string H) RECEIPT_NAME
       MissingReceiptName InvalidReceiptName) (\<lambda>receipt_name.
     ret_c H (Ret_Transfer_Receipt receipt_name
       (key_dictionary H owned_tokens_uref target_owner_item_key))))))"

definition transfer :: "'h casper \<Rightarrow> invocation \<Rightarrow> ('h, ret_value) contract" where
  "transfer H i =
     bind_c (enforce_transferable H) (\<lambda>_.
     bind_c (get_holder_mode H) (\<lambda>r. bind_c (unwrap_or_revert r) (\<lambda>holder_mode.
     bind_c (stored_mode H nft_identifier_mode_try_from IDENTIFIER_MODE
       MissingIdentifierMode InvalidIdentifierMode) (\<lambda>identifier_mode.
     bind_c (get_token_identifier_from_runtime_args H i identifier_mode) (\<lambda>token_identifier.
     bind_c (transfer_check_source H i holder_mode token_identifier) (\<lambda>from_token_owner_key.
     bind_c (required_arg (c_key H) i ARG_TARGET_KEY MissingAccountHash InvalidAccountHash)
       (\<lambda>target_owner_key.
     bind_c (transfer_check_target H target_owner_key) (\<lambda>_.
     bind_c (get_owned_tokens_dictionary_item_key H target_owner_key) (\<lambda>target_owner_item_key.
     bind_c (get_owned_tokens_dictionary_item_key H from_token_owner_key) (\<lambda>from_owner_item_key.
     bind_c (transfer_update_owner H token_identifier from_token_owner_key target_owner_key) (\<lambda>_.
     bind_c (transfer_remove_from_source H identifier_mode token_identifier from_owner_item_key) (\<lambda>_.
     bind_c (decrement_token_count H from_owner_item_key) (\<lambda>_.
     bind_c (transfer_add_to_target H identifier_mode token_identifier target_owner_item_key) (\<lambda>_.
     transfer_finish H token_identifier target_owner_item_key))))))))))))))"

section \<open>Updating metadata\<close>

definition set_token_metadata :: "'h casper \<Rightarrow> invocation \<Rightarrow> ('h, ret_value) contract" where
  "set_token_metadata H i =
     bind_c (enforce_only_contract_creator_can_invoke H i) (\<lambda>_.
     bind_c (stored_mode H metadata_mutability_try_from METADATA_MUTABILITY
       MissingMetadataMutability InvalidMetadataMutability) (\<lambda>metadata_mutability.
     bind_c (revert_if (metadata_mutability = Immutable) (User ForbiddenMetadataUpdate)) (\<lambda>_.
     bind_c (stored_mode H nft_identifier_mode_try_from IDENTIFIER_MODE
       MissingIdentifierMode InvalidIdentifierMode) (\<lambda>identifier_mode.
     bind_c (get_token_identifier_from_runtime_args H i identifier_mode) (\<lambda>token_identifier.
     bind_c (get_dictionary_value_from_key H (c_key H) TOKEN_OWNERS
       (get_dictionary_item_key token_identifier)) (\<lambda>token_owner.
     bind_c (case token_owner of
         Some token_owner_key \<Rightarrow>
           bind_c (get_verified_caller H i) (\<lambda>r. bind_c (unwrap_or_revert r) (\<lambda>caller.
           revert_if (caller \<noteq> token_owner_key) (User InvalidTokenOwner)))
       | None \<Rightarrow> revert_c (User InvalidTokenIdentifier)) (\<lambda>_.
     bind_c (stored_mode H nft_metadata_kind_try_from NFT_METADATA_KIND
       MissingNFTMetadataKind InvalidNFTMetadataKind) (\<lambda>metadata_kind.
     bind_c (required_arg (c_string H) i ARG_TOKEN_META_DATA
       MissingTokenMetaData InvalidTokenMetaData) (\<lambda>updated_token_metadata.
     bind_c (validate_metadata H metadata_kind updated_token_metadata) (\<lambda>r.
     bind_c (unwrap_or_revert r) (\<lambda>updated_metadata.
     bind_c (upsert_dictionary_value_from_key H (c_string H)
       (get_metadata_dictionary_name metadata_kind) (get_dictionary_item_key token_identifier)
       updated_metadata) (\<lambda>_.
     return_c Ret_Unit))))))))))))"

end
