(* ===== verification/Queries.thy ===== *)
theory Queries
  imports Token_Ops
begin

text \<open>
  The entry points of \<open>contract/src/main.rs\<close> that only read: \<open>balance_of\<close>, \<open>owner_of\<close>,
  \<open>metadata\<close> and \<open>get_approved\<close>.
\<close>

text \<open>An ordinal identifier must be below the number of minted tokens.\<close>

definition check_token_in_bounds ::
  "nft_identifier_mode \<Rightarrow> token_identifier \<Rightarrow> u64 \<Rightarrow> ('s, unit) contract" where
  "check_token_in_bounds identifier_mode token_identifier number_of_minted_tokens =
     (if identifier_mode = Ordinal
      then bind_c (unwrap_or_revert_with (Api Api_None) (get_index token_identifier)) (\<lambda>index.
           revert_if (index \<ge> number_of_minted_tokens) (User InvalidTokenIdentifier))
      else return_c ())"

definition balance_of :: "'h casper \<Rightarrow> invocation \<Rightarrow> ('h, ret_value) contract" where
  "balance_of H i =
     bind_c (required_arg (c_key H) i ARG_TOKEN_OWNER MissingAccountHash InvalidAccountHash)
       (\<lambda>owner_key.
     bind_c (get_owned_tokens_dictionary_item_key H owner_key) (\<lambda>owner_key_item_string.
     bind_c (get_dictionary_value_from_key H (c_u64 H) TOKEN_COUNTS owner_key_item_string)
       (\<lambda>maybe_balance.
     ret_c H (Ret_U64 (case maybe_balance of Some balance \<Rightarrow> balance | None \<Rightarrow> 0)))))"

definition owner_of :: "'h casper \<Rightarrow> invocation \<Rightarrow> ('h, ret_value) contract" where
  "owner_of H i =
     bind_c (stored_mode H nft_identifier_mode_try_from IDENTIFIER_MODE
       MissingIdentifierMode InvalidIdentifierMode) (\<lambda>identifier_mode.
     bind_c (get_token_identifier_from_runtime_args H i identifier_mode) (\<lambda>token_identifier.
     bind_c (get_stored_value_with_user_errors H (c_u64 H) NUMBER_OF_MINTED_TOKENS
       MissingNumberOfMintedTokens InvalidNumberOfMintedTokens) (\<lambda>number_of_minted_tokens.
     bind_c (check_token_in_bounds identifier_mode token_identifier number_of_minted_tokens) (\<lambda>_.
     bind_c (get_dictionary_value_from_key H (c_key H) TOKEN_OWNERS
       (get_dictionary_item_key token_identifier)) (\<lambda>maybe_token_owner.
     bind_c (unwrap_or_revert_with (User InvalidTokenIdentifier) maybe_token_owner) (\<lambda>token_owner.
     ret_c H (Ret_Key token_owner)))))))"

text \<open>
  The kind of metadata is read under \<open>METADATA_SCHEMA\<close> here, not under \<open>NFT_METADATA_KIND\<close> as
  in \<open>mint\<close> and \<open>set_token_metadata\<close>.
\<close>

definition metadata :: "'h casper \<Rightarrow> invocation \<Rightarrow> ('h, ret_value) contract" where
  "metadata H i =
     bind_c (get_stored_value_with_user_errors H (c_u64 H) NUMBER_OF_MINTED_TOKENS
       MissingNumberOfMintedTokens InvalidNumberOfMintedTokens) (\<lambda>number_of_minted_tokens.
     bind_c (stored_mode H nft_identifier_mode_try_from IDENTIFIER_MODE
       MissingIdentifierMode InvalidIdentifierMode) (\<lambda>identifier_mode.
     bind_c (get_token_identifier_from_runtime_args H i identifier_mode) (\<lambda>token_identifier.
     bind_c (check_token_in_bounds identifier_mode token_identifier number_of_minted_tokens) (\<lambda>_.
     bind_c (stored_mode H nft_metadata_kind_try_from METADATA_SCHEMA
       MissingNFTMetadataKind InvalidNFTMetadataKind) (\<lambda>metadata_kind.
     bind_c (get_dictionary_value_from_key H (c_string H)
       (get_metadata_dictionary_name metadata_kind) (get_dictionary_item_key token_identifier))
       (\<lambda>maybe_token_metadata.
     case maybe_token_metadata of
       Some m \<Rightarrow> ret_c H (Ret_String m)
     | None \<Rightarrow> revert_c (User InvalidTokenIdentifier)))))))"

definition get_approved :: "'h casper \<Rightarrow> invocation \<Rightarrow> ('h, ret_value) contract" where
  "get_approved H i =
     bind_c (stored_mode H nft_identifier_mode_try_from IDENTIFIER_MODE
       MissingIdentifierMode InvalidIdentifierMode) (\<lambda>identifier_mode.
     bind_c (get_token_identifier_from_runtime_args H i identifier_mode) (\<lambda>token_identifier.
     bind_c (get_stored_value_with_user_errors H (c_u64 H) NUMBER_OF_MINTED_TOKENS
       MissingNumberOfMintedTokens InvalidNumberOfMintedTokens) (\<lambda>number_of_minted_tokens.
     bind_c (check_token_in_bounds identifier_mode token_identifier number_of_minted_tokens) (\<lambda>_.
     bind_c (is_burnt H token_identifier) (\<lambda>burnt.
     bind_c (revert_if burnt (User PreviouslyBurntToken)) (\<lambda>_.
     bind_c (get_dictionary_value_from_key H (c_option_key H) OPERATOR
       (get_dictionary_item_key token_identifier)) (\<lambda>r.
     ret_c H (Ret_Option_Key (case r of Some maybe_approved \<Rightarrow> maybe_approved | None \<Rightarrow> None)))))))))"

end
