(* ===== verification/Ledger.thy ===== *)
theory Ledger
  imports Queries
begin

text \<open>
  The abstract contract: a ledger, the typed contents of the contract's named keys and
  dictionaries, and what each entry point does to it. A ledger has no bytes and no missing keys;
  a call either ends in an error and changes nothing, or updates the ledger in one step. The
  theories on the refinement show that the code of the contract, run on a host state that
  represents a ledger, does what this theory says.
\<close>

section \<open>The ledger\<close>

record ledger =
  l_urefs :: "string \<Rightarrow> uref" \<comment> \<open>the URef behind each named key\<close>
  l_installer :: account_hash
  l_collection_name :: string
  l_collection_symbol :: string
  l_total_token_supply :: u64
  l_ownership_mode :: ownership_mode
  l_nft_kind :: nft_kind
  l_json_schema :: string
  l_minting_mode :: minting_mode
  l_holder_mode :: nft_holder_mode
  l_whitelist_mode :: whitelist_mode
  l_contract_whitelist :: "contract_hash list"
  l_account_whitelist :: "account_hash list"
  l_receipt_name :: string
  l_metadata_kind :: nft_metadata_kind
  l_identifier_mode :: nft_identifier_mode
  l_metadata_mutability :: metadata_mutability
  l_allow_minting :: bool
  l_number_of_minted_tokens :: u64
  l_token_owners :: "string \<Rightarrow> key option"
  l_token_issuers :: "string \<Rightarrow> key option"
  l_owned_tokens :: "string \<Rightarrow> token_identifier list option"
  l_operator :: "string \<Rightarrow> key option option"
  l_burnt_tokens :: "string \<Rightarrow> bool"
  l_token_counts :: "string \<Rightarrow> u64 option"
  l_metadata :: "nft_metadata_kind \<Rightarrow> string \<Rightarrow> string option"

text \<open>The list of tokens and the balance of an item, empty and 0 where there is no entry.\<close>

definition tokens_of :: "ledger \<Rightarrow> string \<Rightarrow> token_identifier list" where
  "tokens_of L item = (case l_owned_tokens L item of None \<Rightarrow> [] | Some ts \<Rightarrow> ts)"

definition balance :: "ledger \<Rightarrow> string \<Rightarrow> u64" where
  "balance L item = (case l_token_counts L item of None \<Rightarrow> 0 | Some n \<Rightarrow> n)"

text \<open>They depend on one field each.\<close>

lemma balance_update [simp]:
  "balance (L\<lparr>l_token_counts := (l_token_counts L)(j \<mapsto> n)\<rparr>) item =
     (if item = j then n else balance L item)"
  "balance (L\<lparr>l_token_owners := x0\<rparr>) item = balance L item"
  "balance (L\<lparr>l_token_issuers := x1\<rparr>) item = balance L item"
  "balance (L\<lparr>l_owned_tokens := x2\<rparr>) item = balance L item"
  "balance (L\<lparr>l_operator := x3\<rparr>) item = balance L item"
  "balance (L\<lparr>l_burnt_tokens := x4\<rparr>) item = balance L item"
  "balance (L\<lparr>l_metadata := x6\<rparr>) item = balance L item"
  "balance (L\<lparr>l_number_of_minted_tokens := x7\<rparr>) item = balance L item"
  "balance (L\<lparr>l_allow_minting := x8\<rparr>) item = balance L item"
  "balance (L\<lparr>l_contract_whitelist := x9\<rparr>) item = balance L item"
  "balance (L\<lparr>l_account_whitelist := x10\<rparr>) item = balance L item"
  by (simp_all add: balance_def)

lemma tokens_of_update [simp]:
  "tokens_of (L\<lparr>l_owned_tokens := (l_owned_tokens L)(j \<mapsto> ts)\<rparr>) item =
     (if item = j then ts else tokens_of L item)"
  "tokens_of (L\<lparr>l_token_owners := x0\<rparr>) item = tokens_of L item"
  "tokens_of (L\<lparr>l_token_issuers := x1\<rparr>) item = tokens_of L item"
  "tokens_of (L\<lparr>l_operator := x3\<rparr>) item = tokens_of L item"
  "tokens_of (L\<lparr>l_burnt_tokens := x4\<rparr>) item = tokens_of L item"
  "tokens_of (L\<lparr>l_token_counts := x5\<rparr>) item = tokens_of L item"
  "tokens_of (L\<lparr>l_metadata := x6\<rparr>) item = tokens_of L item"
  "tokens_of (L\<lparr>l_number_of_minted_tokens := x7\<rparr>) item = tokens_of L item"
  "tokens_of (L\<lparr>l_allow_minting := x8\<rparr>) item = tokens_of L item"
  "tokens_of (L\<lparr>l_contract_whitelist := x9\<rparr>) item = tokens_of L item"
  "tokens_of (L\<lparr>l_account_whitelist := x10\<rparr>) item = tokens_of L item"
  by (simp_all add: tokens_of_def)

section \<open>Pure parts of the entry points\<close>

text \<open>A result that does not depend on the state.\<close>

definition result_c :: "'e + 'a \<Rightarrow> ('s, 'e, 'a) computation" where
  "result_c r s = (case r of Inl e \<Rightarrow> Inl e | Inr a \<Rightarrow> Inr (a, s))"

lemma bind_result_c [simp]:
  "bind_c (result_c (Inl e)) f s = Inl e"
  "bind_c (result_c (Inr a)) f s = f a s"
  by (simp_all add: bind_c_def result_c_def)

definition verified_caller :: "invocation \<Rightarrow> nft_holder_mode \<Rightarrow> error + key" where
  "verified_caller i holder_mode =
     (case nth_back_1 (get_call_stack i) of
        None \<Rightarrow> Inl (Api Api_None)
      | Some element \<Rightarrow>
          (case caller_key holder_mode element of Inl e \<Rightarrow> Inl (User e) | Inr k \<Rightarrow> Inr k))"

definition owner_item :: "'h casper \<Rightarrow> key \<Rightarrow> error + string" where
  "owner_item H k =
     (case k of
        Key_Account a \<Rightarrow> Inr (account_hash_to_string H a)
      | Key_Hash a \<Rightarrow> Inr (contract_hash_to_string H (ContractHash a))
      | _ \<Rightarrow> Inl (User InvalidKey))"

text \<open>The account that the whitelist is asked about for a target of a transfer.\<close>

definition target_account :: "key \<Rightarrow> error + account_hash" where
  "target_account k =
     (case k of
        Key_Hash a \<Rightarrow> Inr (AccountHash a)
      | Key_Account a \<Rightarrow> Inr a
      | _ \<Rightarrow> Inl (User InvalidKey))"

text \<open>Whether a schema's required properties all have a value.\<close>

definition has_required :: "custom_metadata_schema \<Rightarrow> string btree_map \<Rightarrow> bool" where
  "has_required schema attributes \<longleftrightarrow>
     (\<forall>(name, p) \<in> set (schema_properties schema).
        property_required p \<longrightarrow> btree_get attributes name \<noteq> None)"

definition jsonified :: "nft_core_error \<Rightarrow> string option \<Rightarrow> error + string" where
  "jsonified e r = (case r of None \<Rightarrow> Inl (User e) | Some s \<Rightarrow> Inr s)"

text \<open>What a token's metadata becomes when it is valid for the contract's kind of metadata.\<close>

definition valid_metadata :: "'h casper \<Rightarrow> nft_metadata_kind \<Rightarrow> string \<Rightarrow> string \<Rightarrow> error + string" where
  "valid_metadata H kind json_schema token_metadata =
     (case kind of
        CEP78 \<Rightarrow>
          (case from_str_cep78 H token_metadata of
             None \<Rightarrow> Inl (User FailedToParseCep99Metadata)
           | Some m \<Rightarrow>
               if cep78_name m = [] \<or> cep78_token_uri m = [] \<or> cep78_checksum m = []
               then Inl (User InvalidCEP99Metadata)
               else jsonified FailedToJsonifyCEP99Metadata (to_string_pretty_cep78 H m))
      | NFT721 \<Rightarrow>
          (case from_str_nft721 H token_metadata of
             None \<Rightarrow> Inl (User FailedToParse721Metadata)
           | Some m \<Rightarrow>
               if nft721_name m = [] \<or> nft721_token_uri m = [] \<or> nft721_symbol m = []
               then Inl (User InvalidNFT721Metadata)
               else jsonified FailedToJsonifyNFT721Metadata (to_string_pretty_nft721 H m))
      | Raw \<Rightarrow> Inr token_metadata
      | CustomValidated \<Rightarrow>
          (case from_str_schema H json_schema of
             None \<Rightarrow> Inl (User InvalidJsonSchema)
           | Some schema \<Rightarrow>
               (case from_str_attributes H token_metadata of
                  None \<Rightarrow> Inl (User FailedToParseCustomMetadata)
                | Some attributes \<Rightarrow>
                    if has_required schema attributes
                    then jsonified FailedToJsonifyCustomMetadata
                      (to_string_pretty_attributes H attributes)
                    else Inl (User InvalidCustomMetadata))))"

section \<open>Minting\<close>

definition ledger_check_minter :: "invocation \<Rightarrow> ledger \<Rightarrow> error + unit" where
  "ledger_check_minter i L =
     (case l_minting_mode L of
        Public \<Rightarrow> Inr ()
      | Installer \<Rightarrow>
          (case verified_caller i (l_holder_mode L) of
             Inl e \<Rightarrow> Inl e
           | Inr (Key_Hash a) \<Rightarrow>
               if ContractHash a \<in> set (l_contract_whitelist L) then Inr ()
               else Inl (User UnlistedContractHash)
           | Inr (Key_Account _) \<Rightarrow>
               if get_caller i = l_installer L then Inr () else Inl (User InvalidMinter)
           | Inr _ \<Rightarrow> Inl (User InvalidKey)))"

definition ledger_mint_owner :: "invocation \<Rightarrow> ledger \<Rightarrow> error + key" where
  "ledger_mint_owner i L =
     (case verified_caller i (l_holder_mode L) of
        Inl e \<Rightarrow> Inl e
      | Inr caller \<Rightarrow>
          if l_ownership_mode L = Minter then Inr caller
          else (case get_named_arg_key i ARG_TOKEN_OWNER of Inl e \<Rightarrow> Inl (Api e) | Inr k \<Rightarrow> Inr k))"

definition ledger_new_identifier :: "invocation \<Rightarrow> ledger \<Rightarrow> error + token_identifier" where
  "ledger_new_identifier i L =
     (case l_identifier_mode L of
        Ordinal \<Rightarrow> Inr (Index (l_number_of_minted_tokens L))
      | Hash \<Rightarrow>
          (case get_named_arg_string i ARG_TOKEN_ID_HASH of
             Inl e \<Rightarrow> Inl (Api e) | Inr s \<Rightarrow> Inr (TokenHash s)))"

text \<open>A token enters the ledger.\<close>

definition add_token ::
  "token_identifier \<Rightarrow> key \<Rightarrow> string \<Rightarrow> string \<Rightarrow> ledger \<Rightarrow> ledger" where
  "add_token t owner item md L =
     (let n = get_dictionary_item_key t
      in L\<lparr>l_token_owners := (l_token_owners L)(n \<mapsto> owner),
           l_token_issuers := (l_token_issuers L)(n \<mapsto> owner),
           l_metadata := (l_metadata L)
             (l_metadata_kind L := (l_metadata L (l_metadata_kind L))(n \<mapsto> md)),
           l_owned_tokens := (l_owned_tokens L)(item \<mapsto> tokens_of L item @ [t]),
           l_token_counts := (l_token_counts L)(item \<mapsto> balance L item + 1),
           l_number_of_minted_tokens := l_number_of_minted_tokens L + 1\<rparr>)"

definition ledger_mint :: "'h casper \<Rightarrow> invocation \<Rightarrow> (ledger, ret_value) contract" where
  "ledger_mint H i L =
     (if \<not> l_allow_minting L then Inl (User MintingIsPaused)
      else if l_number_of_minted_tokens L \<ge> l_total_token_supply L
      then Inl (User TokenSupplyDepleted)
      else bind_c (result_c (ledger_check_minter i L)) (\<lambda>_.
           bind_c (result_c (ledger_mint_owner i L)) (\<lambda>owner.
           bind_c (required_arg (c_string H) i ARG_TOKEN_META_DATA
             MissingTokenMetaData InvalidTokenMetaData) (\<lambda>token_metadata.
           bind_c (result_c (valid_metadata H (l_metadata_kind L) (l_json_schema L)
             token_metadata)) (\<lambda>md.
           bind_c (result_c (ledger_new_identifier i L)) (\<lambda>t.
           bind_c (revert_if (\<not> fits H (get_dictionary_item_key t)) (Api too_long)) (\<lambda>_.
           bind_c (result_c (owner_item H owner)) (\<lambda>item.
           bind_c (revert_if (t \<in> set (tokens_of L item)) (User FatalTokenIdDuplication)) (\<lambda>_ L.
           Inr (Ret_Mint_Receipt (l_receipt_name L)
                  (key_dictionary H (l_urefs L OWNED_TOKENS) item) (get_dictionary_item_key t),
                add_token t owner item md L))))))))) L)"

section \<open>Burning\<close>

definition ledger_burn :: "'h casper \<Rightarrow> invocation \<Rightarrow> (ledger, ret_value) contract" where
  "ledger_burn H i L =
     (if l_installer L \<noteq> get_caller i then Inl (User InvalidAccount)
      else bind_c (get_token_identifier_from_runtime_args H i (l_identifier_mode L)) (\<lambda>t.
           let n = get_dictionary_item_key t in
           bind_c (result_c (verified_caller i (l_holder_mode L))) (\<lambda>caller.
           bind_c (revert_if (\<not> fits H n) (Api too_long)) (\<lambda>_.
           bind_c (unwrap_or_revert_with (User InvalidTokenIdentifier) (l_token_owners L n)) (\<lambda>owner.
           bind_c (revert_if (owner \<noteq> caller) (User InvalidTokenOwner)) (\<lambda>_.
           bind_c (revert_if (l_burnt_tokens L n) (User PreviouslyBurntToken)) (\<lambda>_.
           bind_c (result_c (owner_item H owner)) (\<lambda>item.
           bind_c (revert_if (balance L item = 0) (User FatalTokenIdDuplication)) (\<lambda>_ L.
           Inr (Ret_Unit,
             L\<lparr>l_burnt_tokens := (l_burnt_tokens L)(n := True),
               l_token_counts := (l_token_counts L)(item \<mapsto> balance L item - 1)\<rparr>))))))))) L)"

section \<open>Approving operators\<close>

definition ledger_approve :: "'h casper \<Rightarrow> invocation \<Rightarrow> (ledger, ret_value) contract" where
  "ledger_approve H i L =
     (if l_ownership_mode L \<noteq> Transferable then Inl (User InvalidOwnershipMode)
      else bind_c (result_c (verified_caller i (l_holder_mode L))) (\<lambda>caller.
           bind_c (get_token_identifier_from_runtime_args H i (l_identifier_mode L)) (\<lambda>t.
           let n = get_dictionary_item_key t in
           bind_c (revert_if (case t of Index x \<Rightarrow> x \<ge> l_number_of_minted_tokens L | _ \<Rightarrow> False)
             (User InvalidTokenIdentifier)) (\<lambda>_.
           bind_c (revert_if (\<not> fits H n) (Api too_long)) (\<lambda>_.
           bind_c (revert_if (l_token_owners L n \<noteq> Some caller) (User InvalidAccountHash)) (\<lambda>_.
           bind_c (revert_if (l_burnt_tokens L n) (User PreviouslyBurntToken)) (\<lambda>_.
           bind_c (required_arg (c_key H) i ARG_OPERATOR
             MissingApprovedAccountHash InvalidApprovedAccountHash) (\<lambda>operator.
           bind_c (revert_if (caller = operator) (User InvalidAccount)) (\<lambda>_ L.
           Inr (Ret_Unit, L\<lparr>l_operator := (l_operator L)(n \<mapsto> Some operator)\<rparr>))))))))) L)"

text \<open>One entry for each token of a list.\<close>

definition approve_tokens :: "token_identifier list \<Rightarrow> key option \<Rightarrow> ledger \<Rightarrow> ledger" where
  "approve_tokens ts operator L =
     L\<lparr>l_operator := (\<lambda>n. if n \<in> get_dictionary_item_key ` set ts then Some operator
       else l_operator L n)\<rparr>"

definition ledger_set_approval_for_all ::
  "'h casper \<Rightarrow> invocation \<Rightarrow> (ledger, ret_value) contract" where
  "ledger_set_approval_for_all H i L =
     (if l_ownership_mode L \<noteq> Transferable then Inl (User InvalidOwnershipMode)
      else bind_c (required_arg (c_bool H) i ARG_APPROVE_ALL MissingApproveAll InvalidApproveAll)
             (\<lambda>approve_all.
           bind_c (required_arg (c_key H) i ARG_OPERATOR MissingOperator InvalidOperator) (\<lambda>operator.
           bind_c (result_c (verified_caller i (l_holder_mode L))) (\<lambda>caller.
           bind_c (result_c (owner_item H caller)) (\<lambda>item L.
           Inr (Ret_Unit, approve_tokens (tokens_of L item)
             (if approve_all then Some operator else None) L))))) L)"

section \<open>Transfer\<close>

definition may_transfer :: "ledger \<Rightarrow> key \<Rightarrow> token_identifier \<Rightarrow> key \<Rightarrow> bool" where
  "may_transfer L caller t owner \<longleftrightarrow>
     l_holder_mode L \<noteq> Accounts \<or> caller = owner
     \<or> l_operator L (get_dictionary_item_key t) = Some (Some caller)
     \<or> caller = Key_Account (l_installer L)"

text \<open>
  A token changes hands: its owner, the lists and the balances of the two items, which may be the
  same one, and its operator.
\<close>

definition move_token :: "token_identifier \<Rightarrow> key \<Rightarrow> string \<Rightarrow> string \<Rightarrow> ledger \<Rightarrow> ledger" where
  "move_token t target from_item target_item L =
     (let n = get_dictionary_item_key t;
          L1 = L\<lparr>l_token_owners := (l_token_owners L)(n \<mapsto> target),
                 l_owned_tokens := (l_owned_tokens L)(from_item \<mapsto> remove1 t (tokens_of L from_item)),
                 l_token_counts := (l_token_counts L)(from_item \<mapsto> balance L from_item - 1)\<rparr>
      in L1\<lparr>l_owned_tokens := (l_owned_tokens L1)(target_item \<mapsto> tokens_of L1 target_item @ [t]),
            l_token_counts := (l_token_counts L1)(target_item \<mapsto> balance L1 target_item + 1),
            l_operator := (l_operator L1)(n \<mapsto> None)\<rparr>)"

definition ledger_move_token ::
  "token_identifier \<Rightarrow> key \<Rightarrow> string \<Rightarrow> string \<Rightarrow> (ledger, unit) contract" where
  "ledger_move_token t target from_item target_item L =
     (if l_owned_tokens L from_item = None then Inl (User InvalidTokenIdentifier)
      else if t \<notin> set (tokens_of L from_item) then Inl (User InvalidTokenOwner)
      else if balance L from_item = 0 then Inl (User FatalTokenIdDuplication)
      else if t \<in> set (if target_item = from_item then remove1 t (tokens_of L from_item)
          else tokens_of L target_item)
      then Inl (User FatalTokenIdDuplication)
      else Inr ((), move_token t target from_item target_item L))"

definition ledger_transfer :: "'h casper \<Rightarrow> invocation \<Rightarrow> (ledger, ret_value) contract" where
  "ledger_transfer H i L =
     (if l_ownership_mode L \<noteq> Transferable then Inl (User InvalidOwnershipMode)
      else bind_c (get_token_identifier_from_runtime_args H i (l_identifier_mode L)) (\<lambda>t.
           let n = get_dictionary_item_key t in
           bind_c (revert_if (\<not> fits H n) (Api too_long)) (\<lambda>_.
           bind_c (revert_if (l_burnt_tokens L n) (User PreviouslyBurntToken)) (\<lambda>_.
           bind_c (unwrap_or_revert_with (User InvalidTokenIdentifier) (l_token_owners L n)) (\<lambda>owner.
           bind_c (required_arg (c_key H) i ARG_SOURCE_KEY MissingAccountHash InvalidAccountHash)
             (\<lambda>source.
           bind_c (revert_if (source \<noteq> owner) (User InvalidAccount)) (\<lambda>_.
           bind_c (result_c (verified_caller i (l_holder_mode L))) (\<lambda>caller.
           bind_c (revert_if (\<not> may_transfer L caller t owner) (User InvalidAccount)) (\<lambda>_.
           bind_c (required_arg (c_key H) i ARG_TARGET_KEY MissingAccountHash InvalidAccountHash)
             (\<lambda>target.
           bind_c (result_c (target_account target)) (\<lambda>account.
           bind_c (revert_if (account \<notin> set (l_account_whitelist L)) (User UnlistedAccountHash)) (\<lambda>_.
           bind_c (result_c (owner_item H target)) (\<lambda>target_item.
           bind_c (result_c (owner_item H source)) (\<lambda>from_item.
           bind_c (ledger_move_token t target from_item target_item) (\<lambda>_ L.
           Inr (Ret_Transfer_Receipt (l_receipt_name L)
             (key_dictionary H (l_urefs L OWNED_TOKENS) target_item), L))))))))))))))) L)"

section \<open>Metadata and administration\<close>

definition ledger_set_token_metadata ::
  "'h casper \<Rightarrow> invocation \<Rightarrow> (ledger, ret_value) contract" where
  "ledger_set_token_metadata H i L =
     (if l_installer L \<noteq> get_caller i then Inl (User InvalidAccount)
      else if l_metadata_mutability L = Immutable then Inl (User ForbiddenMetadataUpdate)
      else bind_c (get_token_identifier_from_runtime_args H i (l_identifier_mode L)) (\<lambda>t.
           let n = get_dictionary_item_key t in
           bind_c (revert_if (\<not> fits H n) (Api too_long)) (\<lambda>_.
           bind_c (unwrap_or_revert_with (User InvalidTokenIdentifier) (l_token_owners L n)) (\<lambda>owner.
           bind_c (result_c (verified_caller i (l_holder_mode L))) (\<lambda>caller.
           bind_c (revert_if (caller \<noteq> owner) (User InvalidTokenOwner)) (\<lambda>_.
           bind_c (required_arg (c_string H) i ARG_TOKEN_META_DATA
             MissingTokenMetaData InvalidTokenMetaData) (\<lambda>token_metadata.
           bind_c (result_c (valid_metadata H (l_metadata_kind L) (l_json_schema L)
             token_metadata)) (\<lambda>md L.
           Inr (Ret_Unit,
             L\<lparr>l_metadata := (l_metadata L)
               (l_metadata_kind L := (l_metadata L (l_metadata_kind L))(n \<mapsto> md))\<rparr>)))))))) L)"

definition ledger_set_variables :: "'h casper \<Rightarrow> invocation \<Rightarrow> (ledger, ret_value) contract" where
  "ledger_set_variables H i L =
     (if l_installer L \<noteq> get_caller i then Inl (User InvalidAccount)
      else bind_c (get_optional_named_arg_with_user_errors (c_option_bool H) i ARG_ALLOW_MINTING
             MissingAllowMinting) (\<lambda>allow.
           bind_c (get_optional_named_arg_with_user_errors (c_option_vec_contract_hash H) i
             ARG_CONTRACT_WHITELIST MissingContractWhiteList) (\<lambda>whitelist.
           bind_c (revert_if (whitelist \<noteq> None \<and> l_whitelist_mode L = Locked)
             (User InvalidWhitelistMode)) (\<lambda>_ L.
           Inr (Ret_Unit,
             L\<lparr>l_allow_minting := (case allow of None \<Rightarrow> l_allow_minting L | Some b \<Rightarrow> b),
               l_contract_whitelist :=
                 (case whitelist of None \<Rightarrow> l_contract_whitelist L | Some w \<Rightarrow> w)\<rparr>)))) L)"

definition ledger_add_to_account_whitelist ::
  "'h casper \<Rightarrow> invocation \<Rightarrow> (ledger, ret_value) contract" where
  "ledger_add_to_account_whitelist H i L =
     (if l_installer L \<noteq> get_caller i then Inl (User InvalidAccount)
      else bind_c (required_arg (c_key H) i ARG_ACCOUNT_WHITELIST
             MissingAccountWhiteList InvalidAccountWhitelist) (\<lambda>k.
           bind_c (unwrap_or_revert_with (User InvalidKey) (into_account k)) (\<lambda>a L.
           Inr (Ret_Unit, L\<lparr>l_account_whitelist := l_account_whitelist L @ [a]\<rparr>))) L)"

definition ledger_remove_from_account_whitelist ::
  "'h casper \<Rightarrow> invocation \<Rightarrow> (ledger, ret_value) contract" where
  "ledger_remove_from_account_whitelist H i L =
     (if l_installer L \<noteq> get_caller i then Inl (User InvalidAccount)
      else bind_c (required_arg (c_key H) i ARG_ACCOUNT_WHITELIST
             MissingAccountWhiteList InvalidAccountWhitelist) (\<lambda>k.
           bind_c (unwrap_or_revert_with (User InvalidKey) (into_account k)) (\<lambda>a.
           bind_c (revert_if (a \<notin> set (l_account_whitelist L)) Panic) (\<lambda>_ L.
           Inr (Ret_Unit, L\<lparr>l_account_whitelist := remove1 a (l_account_whitelist L)\<rparr>)))) L)"

section \<open>Queries\<close>

definition ledger_balance_of :: "'h casper \<Rightarrow> invocation \<Rightarrow> (ledger, ret_value) contract" where
  "ledger_balance_of H i L =
     bind_c (required_arg (c_key H) i ARG_TOKEN_OWNER MissingAccountHash InvalidAccountHash) (\<lambda>k.
     bind_c (result_c (owner_item H k)) (\<lambda>item. return_c (Ret_U64 (balance L item)))) L"

text \<open>The identifier a query names, within the bounds of an ordinal contract.\<close>

definition ledger_query_token ::
  "'h casper \<Rightarrow> invocation \<Rightarrow> (ledger, token_identifier) contract" where
  "ledger_query_token H i L =
     bind_c (get_token_identifier_from_runtime_args H i (l_identifier_mode L)) (\<lambda>t.
     bind_c (revert_if (case t of Index x \<Rightarrow> x \<ge> l_number_of_minted_tokens L | _ \<Rightarrow> False)
       (User InvalidTokenIdentifier)) (\<lambda>_. return_c t)) L"

definition ledger_owner_of :: "'h casper \<Rightarrow> invocation \<Rightarrow> (ledger, ret_value) contract" where
  "ledger_owner_of H i L =
     bind_c (ledger_query_token H i) (\<lambda>t.
     bind_c (revert_if (\<not> fits H (get_dictionary_item_key t)) (Api too_long)) (\<lambda>_.
     bind_c (unwrap_or_revert_with (User InvalidTokenIdentifier)
       (l_token_owners L (get_dictionary_item_key t))) (\<lambda>k. return_c (Ret_Key k)))) L"

definition ledger_get_approved :: "'h casper \<Rightarrow> invocation \<Rightarrow> (ledger, ret_value) contract" where
  "ledger_get_approved H i L =
     bind_c (ledger_query_token H i) (\<lambda>t.
     bind_c (revert_if (\<not> fits H (get_dictionary_item_key t)) (Api too_long)) (\<lambda>_.
     bind_c (revert_if (l_burnt_tokens L (get_dictionary_item_key t)) (User PreviouslyBurntToken))
       (\<lambda>_. return_c (Ret_Option_Key
         (case l_operator L (get_dictionary_item_key t) of Some k \<Rightarrow> k | None \<Rightarrow> None))))) L"

text \<open>The kind of the metadata is never found under the name the query asks for.\<close>

definition ledger_metadata_query :: "'h casper \<Rightarrow> invocation \<Rightarrow> (ledger, ret_value) contract" where
  "ledger_metadata_query H i L =
     bind_c (ledger_query_token H i) (\<lambda>_. revert_c (User MissingNFTMetadataKind)) L"

end
