(* ===== verification/Representation.thy ===== *)
theory Representation
  imports Ledger
begin

text \<open>
  When a state of the host represents a ledger, and the steps the utility functions of the contract
  take on such a state: what they read is in the ledger, and what they write leaves a state that
  represents the updated ledger. Everything here holds of every host that keeps the promises of
  \<open>casper_host\<close>.
\<close>

section \<open>The names a contract keeps\<close>

definition value_names :: "string list" where
  "value_names = [COLLECTION_NAME, COLLECTION_SYMBOL, TOTAL_TOKEN_SUPPLY, OWNERSHIP_MODE, NFT_KIND,
     JSON_SCHEMA, MINTING_MODE, HOLDER_MODE, WHITELIST_MODE, CONTRACT_WHITELIST, ACCOUNT_WHITELIST,
     RECEIPT_NAME, NFT_METADATA_KIND, IDENTIFIER_MODE, METADATA_MUTABILITY, ALLOW_MINTING,
     NUMBER_OF_MINTED_TOKENS]"

definition dictionary_names :: "string list" where
  "dictionary_names = [TOKEN_OWNERS, TOKEN_ISSUERS, OWNED_TOKENS, OPERATOR, BURNT_TOKENS,
     TOKEN_COUNTS, METADATA_CUSTOM_VALIDATED, METADATA_CEP78, METADATA_NFT721, METADATA_RAW]"

definition contract_names :: "string list" where
  "contract_names = value_names @ dictionary_names"

lemma distinct_contract_names: "distinct contract_names"
  by (simp add: contract_names_def value_names_def dictionary_names_def constant_defs)

lemma reserved_names: "INSTALLER \<notin> set contract_names" "METADATA_SCHEMA \<notin> set contract_names"
  by (simp_all add: contract_names_def value_names_def dictionary_names_def constant_defs)

lemma distinct_value_names: "distinct value_names"
  and distinct_dictionary_names: "distinct dictionary_names"
  using distinct_contract_names by (simp_all add: contract_names_def)

section \<open>The bytes of a ledger\<close>

definition of_mode :: "nft_identifier_mode \<Rightarrow> token_identifier \<Rightarrow> bool" where
  "of_mode m t \<longleftrightarrow> (case t of Index _ \<Rightarrow> m = Ordinal | TokenHash _ \<Rightarrow> m = Hash)"

definition identifiers_bytes ::
  "'h casper \<Rightarrow> nft_identifier_mode \<Rightarrow> token_identifier list \<Rightarrow> bytes" where
  "identifiers_bytes H m ts =
     (case m of
        Ordinal \<Rightarrow> to_bytes (c_vec_u64 H) (map (the \<circ> get_index) ts)
      | Hash \<Rightarrow> to_bytes (c_vec_string H) (map (the \<circ> get_hash) ts))"

text \<open>The value behind each named key of a value, in the order of \<open>init\<close>.\<close>

definition value_bytes :: "'h casper \<Rightarrow> ledger \<Rightarrow> bytes list" where
  "value_bytes H L =
     [to_bytes (c_string H) (l_collection_name L),
      to_bytes (c_string H) (l_collection_symbol L),
      to_bytes (c_u64 H) (l_total_token_supply L),
      to_bytes (c_u8 H) (ownership_mode_as_u8 (l_ownership_mode L)),
      to_bytes (c_u8 H) (nft_kind_as_u8 (l_nft_kind L)),
      to_bytes (c_string H) (l_json_schema L),
      to_bytes (c_u8 H) (minting_mode_as_u8 (l_minting_mode L)),
      to_bytes (c_u8 H) (nft_holder_mode_as_u8 (l_holder_mode L)),
      to_bytes (c_u8 H) (whitelist_mode_as_u8 (l_whitelist_mode L)),
      to_bytes (c_vec_contract_hash H) (l_contract_whitelist L),
      to_bytes (c_vec_account_hash H) (l_account_whitelist L),
      to_bytes (c_string H) (l_receipt_name L),
      to_bytes (c_u8 H) (nft_metadata_kind_as_u8 (l_metadata_kind L)),
      to_bytes (c_u8 H) (nft_identifier_mode_as_u8 (l_identifier_mode L)),
      to_bytes (c_u8 H) (metadata_mutability_as_u8 (l_metadata_mutability L)),
      to_bytes (c_bool H) (l_allow_minting L),
      to_bytes (c_u64 H) (l_number_of_minted_tokens L)]"

text \<open>The items of each dictionary.\<close>

definition dictionary_items :: "'h casper \<Rightarrow> ledger \<Rightarrow> (string \<Rightarrow> bytes option) list" where
  "dictionary_items H L =
     [\<lambda>j. map_option (to_bytes (c_key H)) (l_token_owners L j),
      \<lambda>j. map_option (to_bytes (c_key H)) (l_token_issuers L j),
      \<lambda>j. map_option (identifiers_bytes H (l_identifier_mode L)) (l_owned_tokens L j),
      \<lambda>j. map_option (to_bytes (c_option_key H)) (l_operator L j),
      \<lambda>j. if l_burnt_tokens L j then Some (to_bytes (c_unit H) ()) else None,
      \<lambda>j. map_option (to_bytes (c_u64 H)) (l_token_counts L j),
      \<lambda>j. map_option (to_bytes (c_string H)) (l_metadata L CustomValidated j),
      \<lambda>j. map_option (to_bytes (c_string H)) (l_metadata L CEP78 j),
      \<lambda>j. map_option (to_bytes (c_string H)) (l_metadata L NFT721 j),
      \<lambda>j. map_option (to_bytes (c_string H)) (l_metadata L Raw j)]"

text \<open>A dictionary has the items of a map: none under a key that is too long.\<close>

definition has_items :: "'h casper \<Rightarrow> uref \<Rightarrow> (string \<Rightarrow> bytes option) \<Rightarrow> 'h \<Rightarrow> bool" where
  "has_items H u m h \<longleftrightarrow>
     (\<forall>j. if fits H j then storage_dictionary_get H u j h = Inr (m j) else m j = None)"

text \<open>A token that may be on a list.\<close>

definition listable :: "'h casper \<Rightarrow> ledger \<Rightarrow> token_identifier \<Rightarrow> bool" where
  "listable H L t \<longleftrightarrow> of_mode (l_identifier_mode L) t \<and> fits H (get_dictionary_item_key t)"

text \<open>
  Every name is bound to its own live URef, the installer is recorded, nothing is bound to
  \<open>METADATA_SCHEMA\<close>, the values and items are those of the ledger, and the lists of tokens hold
  identifiers of the contract's mode only, whose names are short.
\<close>

definition represents :: "'h casper \<Rightarrow> ledger \<Rightarrow> 'h \<Rightarrow> bool" where
  "represents H L h \<longleftrightarrow>
     inj_on (l_urefs L) (set contract_names)
     \<and> (\<forall>n \<in> set contract_names.
          casper_get_key H n h = Inr (to_bytes (c_key H) (Key_URef (l_urefs L n)))
          \<and> live H (l_urefs L n) h)
     \<and> casper_get_key H INSTALLER h = Inr (to_bytes (c_key H) (Key_Account (l_installer L)))
     \<and> casper_get_key H METADATA_SCHEMA h = Inl Api_MissingKey
     \<and> list_all2 (\<lambda>n bs. uref_bytes H (l_urefs L n) h = Inr bs) value_names (value_bytes H L)
     \<and> list_all2 (\<lambda>n m. has_items H (l_urefs L n) m h) dictionary_names (dictionary_items H L)
     \<and> (\<forall>j ts. l_owned_tokens L j = Some ts \<longrightarrow> (\<forall>t \<in> set ts. listable H L t))"

section \<open>The outcome of a call against the outcome on the ledger\<close>

definition sim :: "'h casper \<Rightarrow> error + 'a \<times> ledger \<Rightarrow> error + 'a \<times> 'h \<Rightarrow> bool" where
  "sim H = rel_sum (=) (rel_prod (=) (represents H))"

lemma sim_Inl [simp]: "sim H (Inl e) (Inl e') \<longleftrightarrow> e = e'"
  by (simp add: sim_def)

lemma sim_Inr [simp]: "sim H (Inr (a, L)) (Inr (b, h)) \<longleftrightarrow> a = b \<and> represents H L h"
  by (simp add: sim_def)

lemma sim_InrD: "sim H r (Inr (a, h)) \<Longrightarrow> \<exists>L. r = Inr (a, L) \<and> represents H L h"
  by (auto simp: sim_def elim: rel_sum.cases)

lemma sim_InlD: "sim H r (Inl e) \<Longrightarrow> r = Inl e"
  by (auto simp: sim_def elim: rel_sum.cases)

lemma sim_leftD: "sim H (Inr (a, L)) r \<Longrightarrow> \<exists>h. r = Inr (a, h) \<and> represents H L h"
  by (auto simp: sim_def elim: rel_sum.cases)

lemma sim_left_errorD: "sim H (Inl e) r \<Longrightarrow> r = Inl e"
  by (auto simp: sim_def elim: rel_sum.cases)

named_theorems sim_intros \<open>steps of a simulation proof\<close>

lemma sim_bind:
  assumes "sim H (m' L) (m h)"
    and "\<And>a L' h'. represents H L' h' \<Longrightarrow> m' L = Inr (a, L') \<Longrightarrow> sim H (f' a L') (f a h')"
  shows "sim H (bind_c m' f' L) (bind_c m f h)"
proof (cases "m h")
  case (Inl e)
  with assms(1) have "m' L = Inl e" by (simp add: sim_InlD)
  with Inl show ?thesis by (simp add: bind_c_def)
next
  case (Inr r)
  obtain a h' where r: "r = (a, h')" by fastforce
  with Inr assms(1) obtain L' where "m' L = Inr (a, L')" and "represents H L' h'"
    using sim_InrD by fastforce
  with assms(2) Inr r show ?thesis by (simp add: bind_c_def)
qed

lemma sim_if [sim_intros]:
  "(b \<Longrightarrow> sim H x x') \<Longrightarrow> (\<not> b \<Longrightarrow> sim H y y') \<Longrightarrow> sim H (if b then x else y) (if b then x' else y')"
  by simp

lemma sim_result [sim_intros]:
  "(\<And>a. r = Inr a \<Longrightarrow> sim H (f' a L) (f a h)) \<Longrightarrow>
   sim H (bind_c (result_c r) f' L) (bind_c (result_c r) f h)"
  by (cases r) (simp_all add: bind_c_def result_c_def)

section \<open>Steps that do not depend on the state\<close>

definition pure_result :: "(unit, 'e, 'a) computation \<Rightarrow> 'e + 'a" where
  "pure_result m = (case m () of Inl e \<Rightarrow> Inl e | Inr (a, _) \<Rightarrow> Inr a)"

lemma get_named_arg_size_pure:
  "get_named_arg_size i name = result_c (pure_result (get_named_arg_size i name))"
  by (rule ext) (auto simp: get_named_arg_size_def pure_result_def result_c_def split: sum.splits)

lemma get_named_arg_pure:
  "get_named_arg_with_user_errors c i name missing invalid =
     result_c (pure_result (get_named_arg_with_user_errors c i name missing invalid))"
  by (rule ext)
    (auto simp: get_named_arg_with_user_errors_def get_named_arg_size_def pure_result_def
       result_c_def bind_c_def split: sum.splits option.splits)

lemma required_arg_pure:
  "required_arg c i name missing invalid =
     result_c (pure_result (required_arg c i name missing invalid))"
  by (rule ext)
    (auto simp: required_arg_def get_named_arg_with_user_errors_def get_named_arg_size_def
       pure_result_def result_c_def bind_c_def unwrap_or_revert_def split: sum.splits option.splits)

lemma optional_arg_pure:
  "get_optional_named_arg_with_user_errors c i name invalid =
     result_c (pure_result (get_optional_named_arg_with_user_errors c i name invalid))"
  by (rule ext)
    (auto simp: get_optional_named_arg_with_user_errors_def get_named_arg_with_user_errors_def
       get_named_arg_size_def pure_result_def result_c_def bind_c_def
       split: sum.splits option.splits)

lemma token_identifier_arg_pure:
  "get_token_identifier_from_runtime_args H i m =
     result_c (pure_result (get_token_identifier_from_runtime_args H i m))"
  by (rule ext)
    (auto simp: get_token_identifier_from_runtime_args_def get_named_arg_with_user_errors_def
       get_named_arg_size_def pure_result_def result_c_def bind_c_def unwrap_or_revert_def
       split: sum.splits option.splits nft_identifier_mode.splits)

text \<open>An identifier read from the arguments is one of the mode it was read for.\<close>

lemma token_identifier_arg_of_mode:
  "get_token_identifier_from_runtime_args H i m s = Inr (t, s') \<Longrightarrow> of_mode m t"
  by (auto simp: get_token_identifier_from_runtime_args_def bind_c_def unwrap_or_revert_def
      of_mode_def new_index_def new_hash_def map_sum_def
      split: sum.splits option.splits nft_identifier_mode.splits)

lemma sim_pure:
  assumes "\<And>s. (m :: (ledger, error, 'a) computation) s = result_c r s"
    and "\<And>s. (n :: ('h, error, 'a) computation) s = result_c r s"
    and "\<And>a. r = Inr a \<Longrightarrow> sim H (f' a L) (f a h)"
  shows "sim H (bind_c m f' L) (bind_c n f h)"
  using assms by (cases r) (simp_all add: bind_c_def result_c_def)

lemma sim_required_arg [sim_intros]:
  assumes "\<And>a. sim H (f' a L) (f a h)"
  shows "sim H (bind_c (required_arg c i name missing invalid) f' L)
    (bind_c (required_arg c i name missing invalid) f h)"
  by (rule sim_pure [OF fun_cong [OF required_arg_pure] fun_cong [OF required_arg_pure]]) (rule assms)

lemma sim_optional_arg [sim_intros]:
  assumes "\<And>a. sim H (f' a L) (f a h)"
  shows "sim H (bind_c (get_optional_named_arg_with_user_errors c i name invalid) f' L)
    (bind_c (get_optional_named_arg_with_user_errors c i name invalid) f h)"
  by (rule sim_pure [OF fun_cong [OF optional_arg_pure] fun_cong [OF optional_arg_pure]])
    (rule assms)

lemma sim_token_identifier_arg [sim_intros]:
  assumes "\<And>t. of_mode m t \<Longrightarrow> sim H (f' t L) (f t h)"
  shows "sim H (bind_c (get_token_identifier_from_runtime_args H' i m) f' L)
    (bind_c (get_token_identifier_from_runtime_args H' i m) f h)"
proof (rule sim_pure [OF fun_cong [OF token_identifier_arg_pure]
      fun_cong [OF token_identifier_arg_pure]])
  fix t
  assume "pure_result (get_token_identifier_from_runtime_args H' i m) = Inr t"
  then have "get_token_identifier_from_runtime_args H' i m () = Inr (t, ())"
    by (simp add: pure_result_def split: sum.splits prod.splits)
  then show "sim H (f' t L) (f t h)" by (rule assms [OF token_identifier_arg_of_mode])
qed

lemma sim_revert_if [sim_intros]:
  "(\<not> b \<Longrightarrow> sim H (f' () L) (f () h)) \<Longrightarrow>
   sim H (bind_c (revert_if b e) f' L) (bind_c (revert_if b e) f h)"
  by simp

lemma sim_unwrap_with [sim_intros]:
  "(\<And>a. r = Some a \<Longrightarrow> sim H (f' a L) (f a h)) \<Longrightarrow>
   sim H (bind_c (unwrap_or_revert_with e r) f' L) (bind_c (unwrap_or_revert_with e r) f h)"
  by (cases r) simp_all

lemma sim_unwrap_case [sim_intros]:
  "(\<And>a. r = Some a \<Longrightarrow> sim H (f' a L) (bind_c (m a) f h)) \<Longrightarrow>
   sim H (bind_c (unwrap_or_revert_with e r) f' L)
     (bind_c (case r of None \<Rightarrow> revert_c e | Some a \<Rightarrow> m a) f h)"
  by (cases r) simp_all

end
