(* ===== verification/Steps.thy ===== *)
theory Steps
  imports Representation
begin

text \<open>
  The utility functions on a host state that represents a ledger: what each read returns, and the
  state each write leads to. All facts are proved once, in the context of \<open>casper_host\<close>.
\<close>

context casper_host
begin

section \<open>Reading\<close>

lemma represents_uref:
  assumes "represents H L h" and "n \<in> set contract_names"
  shows "casper_get_key H n h = Inr (to_bytes (c_key H) (Key_URef (l_urefs L n)))"
    and "live H (l_urefs L n) h"
  using assms by (auto simp: represents_def)

lemma read_uref:
  "represents H L h \<Longrightarrow> n \<in> set contract_names \<Longrightarrow> get_uref H n e e' h = Inr (l_urefs L n, h)"
  by (simp add: get_uref_def get_key_with_user_errors_def represents_uref bind_c_def
      deserialize_to_bytes codec_key)

lemma read_value:
  assumes "represents H L h" and "(n, to_bytes c v) \<in> set (zip value_names (value_bytes H L))"
    and "codec_ok c"
  shows "get_stored_value_with_user_errors H c n e e' h = Inr (v, h)"
proof -
  have n: "n \<in> set contract_names"
    using assms(2) by (auto simp: contract_names_def dest: set_zip_leftD)
  from assms(1) have "list_all2 (\<lambda>n bs. uref_bytes H (l_urefs L n) h = Inr bs)
      value_names (value_bytes H L)"
    by (simp add: represents_def)
  with assms(2) have "uref_bytes H (l_urefs L n) h = Inr (to_bytes c v)"
    by (auto simp: list_all2_iff)
  then have "read_with_user_errors H c (l_urefs L n) e e' h = Inr (v, h)"
    by (auto simp: read_with_user_errors_def uref_bytes_def deserialize_to_bytes [OF assms(3)]
        split: sum.splits)
  then show ?thesis
    by (simp add: get_stored_value_with_user_errors_def bind_c_def read_uref [OF assms(1) n])
qed

text \<open>One fact per stored value the entry points read.\<close>

lemma read_values:
  assumes "represents H L h"
  shows "get_stored_value_with_user_errors H (c_u64 H) TOTAL_TOKEN_SUPPLY e e' h
      = Inr (l_total_token_supply L, h)"
    and "get_stored_value_with_user_errors H (c_string H) JSON_SCHEMA e e' h
      = Inr (l_json_schema L, h)"
    and "get_stored_value_with_user_errors H (c_vec_contract_hash H) CONTRACT_WHITELIST e e' h
      = Inr (l_contract_whitelist L, h)"
    and "get_stored_value_with_user_errors H (c_vec_account_hash H) ACCOUNT_WHITELIST e e' h
      = Inr (l_account_whitelist L, h)"
    and "get_stored_value_with_user_errors H (c_string H) RECEIPT_NAME e e' h
      = Inr (l_receipt_name L, h)"
    and "get_stored_value_with_user_errors H (c_bool H) ALLOW_MINTING e e' h
      = Inr (l_allow_minting L, h)"
    and "get_stored_value_with_user_errors H (c_u64 H) NUMBER_OF_MINTED_TOKENS e e' h
      = Inr (l_number_of_minted_tokens L, h)"
    and "get_stored_value_with_user_errors H (c_string H) COLLECTION_NAME e e' h
      = Inr (l_collection_name L, h)"
    and "get_stored_value_with_user_errors H (c_string H) COLLECTION_SYMBOL e e' h
      = Inr (l_collection_symbol L, h)"
  by (rule read_value [OF assms]; simp add: value_names_def value_bytes_def codecs)+

lemma read_codes:
  assumes "represents H L h"
  shows "get_stored_value_with_user_errors H (c_u8 H) OWNERSHIP_MODE e e' h
      = Inr (ownership_mode_as_u8 (l_ownership_mode L), h)"
    and "get_stored_value_with_user_errors H (c_u8 H) NFT_KIND e e' h
      = Inr (nft_kind_as_u8 (l_nft_kind L), h)"
    and "get_stored_value_with_user_errors H (c_u8 H) MINTING_MODE e e' h
      = Inr (minting_mode_as_u8 (l_minting_mode L), h)"
    and "get_stored_value_with_user_errors H (c_u8 H) HOLDER_MODE e e' h
      = Inr (nft_holder_mode_as_u8 (l_holder_mode L), h)"
    and "get_stored_value_with_user_errors H (c_u8 H) WHITELIST_MODE e e' h
      = Inr (whitelist_mode_as_u8 (l_whitelist_mode L), h)"
    and "get_stored_value_with_user_errors H (c_u8 H) NFT_METADATA_KIND e e' h
      = Inr (nft_metadata_kind_as_u8 (l_metadata_kind L), h)"
    and "get_stored_value_with_user_errors H (c_u8 H) IDENTIFIER_MODE e e' h
      = Inr (nft_identifier_mode_as_u8 (l_identifier_mode L), h)"
    and "get_stored_value_with_user_errors H (c_u8 H) METADATA_MUTABILITY e e' h
      = Inr (metadata_mutability_as_u8 (l_metadata_mutability L), h)"
  by (rule read_value [OF assms]; simp add: value_names_def value_bytes_def codecs)+

lemma read_modes:
  assumes "represents H L h"
  shows "get_ownership_mode H h = Inr (Inr (l_ownership_mode L), h)"
    and "get_holder_mode H h = Inr (Inr (l_holder_mode L), h)"
    and "stored_mode H minting_mode_try_from MINTING_MODE e e' h = Inr (l_minting_mode L, h)"
    and "stored_mode H whitelist_mode_try_from WHITELIST_MODE e e' h = Inr (l_whitelist_mode L, h)"
    and "stored_mode H nft_metadata_kind_try_from NFT_METADATA_KIND e e' h
      = Inr (l_metadata_kind L, h)"
    and "stored_mode H nft_identifier_mode_try_from IDENTIFIER_MODE e e' h
      = Inr (l_identifier_mode L, h)"
    and "stored_mode H metadata_mutability_try_from METADATA_MUTABILITY e e' h
      = Inr (l_metadata_mutability L, h)"
  by (simp_all add: get_ownership_mode_def get_holder_mode_def stored_mode_def bind_c_def
      read_codes [OF assms])

lemma read_installer:
  assumes "represents H L h"
  shows "get_account_hash H INSTALLER e e' h = Inr (l_installer L, h)"
    and "runtime_get_key H INSTALLER h = Some (Key_Account (l_installer L))"
proof -
  have key: "casper_get_key H INSTALLER h = Inr (to_bytes (c_key H) (Key_Account (l_installer L)))"
    using assms by (simp add: represents_def)
  then show "get_account_hash H INSTALLER e e' h = Inr (l_installer L, h)"
    by (simp add: get_account_hash_def get_key_with_user_errors_def bind_c_def
        deserialize_to_bytes codec_key)
  from key show "runtime_get_key H INSTALLER h = Some (Key_Account (l_installer L))"
    by (rule runtime_get_key_found)
qed

lemma read_verified_caller:
  assumes "represents H L h"
  shows "bind_c (get_verified_caller H i) (\<lambda>r. bind_c (unwrap_or_revert r) f) h
    = bind_c (result_c (verified_caller i (l_holder_mode L))) f h"
  by (auto simp: get_verified_caller_def bind_c_assoc verified_caller_def result_c_def bind_c_def
      read_modes [OF assms] unwrap_or_revert_def split: option.splits sum.splits)

lemma read_item:
  assumes "represents H L h" and "(n, m) \<in> set (zip dictionary_names (dictionary_items H L))"
  shows "fits H j \<Longrightarrow> storage_dictionary_get H (l_urefs L n) j h = Inr (m j)"
    and "\<not> fits H j \<Longrightarrow> m j = None"
proof -
  have "has_items H (l_urefs L n) m h"
    using assms by (fastforce simp: represents_def list_all2_iff)
  then show "fits H j \<Longrightarrow> storage_dictionary_get H (l_urefs L n) j h = Inr (m j)"
    and "\<not> fits H j \<Longrightarrow> m j = None" by (simp_all add: has_items_def)
qed

lemma read_dictionary:
  assumes "represents H L h" and "(n, m) \<in> set (zip dictionary_names (dictionary_items H L))"
    and "m j = map_option (to_bytes c) v" and "codec_ok c" and "fits H j"
  shows "get_dictionary_value_from_key H c n j h = Inr (v, h)"
proof -
  have n: "n \<in> set contract_names"
    using assms(2) by (auto simp: contract_names_def dest: set_zip_leftD)
  show ?thesis
    using read_item(1) [OF assms(1,2,5)] assms(3)
    by (cases v) (simp_all add: get_dictionary_value_from_key_def dictionary_get_c_def bind_c_def
        read_uref [OF assms(1) n] deserialize_to_bytes [OF assms(4)])
qed

text \<open>Under a key that is too long nothing is read, and nothing is kept.\<close>

lemma read_too_long:
  assumes "represents H L h" and "\<not> fits H j"
  shows "n \<in> set contract_names \<Longrightarrow> get_dictionary_value_from_key H c n j h = Inl (Api too_long)"
    and "l_token_owners L j = None" and "l_token_issuers L j = None" and "l_owned_tokens L j = None"
    and "l_operator L j = None" and "\<not> l_burnt_tokens L j" and "l_token_counts L j = None"
    and "l_metadata L kind j = None"
proof -
  show "get_dictionary_value_from_key H c n j h = Inl (Api too_long)" if "n \<in> set contract_names"
    by (simp add: get_dictionary_value_from_key_def dictionary_get_c_def bind_c_def
        read_uref [OF assms(1) that] dictionary_too_long [OF assms(2)])
  have "list_all (\<lambda>(n, m). m j = None) (zip dictionary_names (dictionary_items H L))"
    using read_item(2) [OF assms(1) _ assms(2)] by (auto simp: list_all_iff)
  then show "l_token_owners L j = None" "l_token_issuers L j = None" "l_owned_tokens L j = None"
    "l_operator L j = None" "\<not> l_burnt_tokens L j" "l_token_counts L j = None"
    "l_metadata L kind j = None"
    by (simp_all add: dictionary_names_def dictionary_items_def split: if_splits) (cases kind, simp_all)
qed

lemma read_fits:
  assumes "represents H L h" and "get_dictionary_value_from_key H c n j h = Inr r"
    and "n \<in> set contract_names"
  shows "fits H j"
  using assms(2) read_too_long(1) [OF assms(1) _ assms(3), of j c] by (cases "fits H j") auto

lemma read_dictionaries:
  assumes "represents H L h" and "fits H j"
  shows "get_dictionary_value_from_key H (c_key H) TOKEN_OWNERS j h = Inr (l_token_owners L j, h)"
    and "get_dictionary_value_from_key H (c_key H) TOKEN_ISSUERS j h = Inr (l_token_issuers L j, h)"
    and "get_dictionary_value_from_key H (c_option_key H) OPERATOR j h = Inr (l_operator L j, h)"
    and "get_dictionary_value_from_key H (c_unit H) BURNT_TOKENS j h
      = Inr (if l_burnt_tokens L j then Some () else None, h)"
    and "get_dictionary_value_from_key H (c_u64 H) TOKEN_COUNTS j h = Inr (l_token_counts L j, h)"
    and "get_dictionary_value_from_key H (c_string H) (get_metadata_dictionary_name kind) j h
      = Inr (l_metadata L kind j, h)"
proof -
  have burnt: "(BURNT_TOKENS, \<lambda>j. if l_burnt_tokens L j then Some (to_bytes (c_unit H) ()) else None)
      \<in> set (zip dictionary_names (dictionary_items H L))"
    by (simp add: dictionary_names_def dictionary_items_def)
  show "get_dictionary_value_from_key H (c_unit H) BURNT_TOKENS j h
      = Inr (if l_burnt_tokens L j then Some () else None, h)"
    by (rule read_dictionary [OF assms(1) burnt]) (simp_all add: codecs assms(2))
  have kind: "(get_metadata_dictionary_name kind, \<lambda>j. map_option (to_bytes (c_string H)) (l_metadata L kind j))
      \<in> set (zip dictionary_names (dictionary_items H L))"
    by (cases kind) (simp_all add: dictionary_names_def dictionary_items_def
        get_metadata_dictionary_name_def)
  show "get_dictionary_value_from_key H (c_string H) (get_metadata_dictionary_name kind) j h
      = Inr (l_metadata L kind j, h)"
    by (rule read_dictionary [OF assms(1) kind]) (simp_all add: codecs assms(2))
qed (rule read_dictionary [OF assms(1)];
      simp add: dictionary_names_def dictionary_items_def codecs assms(2))+

lemma the_map_index: "\<forall>t \<in> set ts. of_mode Ordinal t \<Longrightarrow> map (new_index \<circ> (the \<circ> get_index)) ts = ts"
  by (induction ts) (auto simp: of_mode_def new_index_def split: token_identifier.splits)

lemma the_map_hash: "\<forall>t \<in> set ts. of_mode Hash t \<Longrightarrow> map (new_hash \<circ> (the \<circ> get_hash)) ts = ts"
  by (induction ts) (auto simp: of_mode_def new_hash_def split: token_identifier.splits)

lemma read_owned_tokens:
  assumes "represents H L h" and "fits H j"
  shows "get_token_identifiers_from_dictionary H (l_identifier_mode L) j h
    = Inr (l_owned_tokens L j, h)"
proof -
  let ?items = "\<lambda>j. map_option (identifiers_bytes H (l_identifier_mode L)) (l_owned_tokens L j)"
  have mem: "(OWNED_TOKENS, ?items) \<in> set (zip dictionary_names (dictionary_items H L))"
    by (simp add: dictionary_names_def dictionary_items_def)
  have of_mode: "l_owned_tokens L j = Some ts \<Longrightarrow> \<forall>t \<in> set ts. of_mode (l_identifier_mode L) t" for ts
    using assms(1) by (auto simp: represents_def listable_def)
  show ?thesis
  proof (cases "l_identifier_mode L")
    case Ordinal
    have "get_dictionary_value_from_key H (c_vec_u64 H) OWNED_TOKENS j h
        = Inr (map_option (map (the \<circ> get_index)) (l_owned_tokens L j), h)"
      by (rule read_dictionary [OF assms(1) mem _ _ assms(2)])
        (cases "l_owned_tokens L j"; simp add: Ordinal identifiers_bytes_def codecs)+
    then show ?thesis
      using of_mode by (cases "l_owned_tokens L j")
        (auto simp: get_token_identifiers_from_dictionary_def Ordinal bind_c_def the_map_index)
  next
    case Hash
    have "get_dictionary_value_from_key H (c_vec_string H) OWNED_TOKENS j h
        = Inr (map_option (map (the \<circ> get_hash)) (l_owned_tokens L j), h)"
      by (rule read_dictionary [OF assms(1) mem _ _ assms(2)])
        (cases "l_owned_tokens L j"; simp add: Hash identifiers_bytes_def codecs)+
    then show ?thesis
      using of_mode by (cases "l_owned_tokens L j")
        (auto simp: get_token_identifiers_from_dictionary_def Hash bind_c_def the_map_hash)
  qed
qed

lemma read_is_burnt:
  "represents H L h \<Longrightarrow> fits H (get_dictionary_item_key t) \<Longrightarrow>
   is_burnt H t h = Inr (l_burnt_tokens L (get_dictionary_item_key t), h)"
  by (simp add: is_burnt_def bind_c_def read_dictionaries)

text \<open>What is read is what the ledger keeps, and what is kept can be read.\<close>

lemma readD:
  assumes "represents H L h"
  shows "get_dictionary_value_from_key H (c_key H) TOKEN_OWNERS j h = Inr (k, h') \<Longrightarrow>
      fits H j \<and> l_token_owners L j = k"
    and "get_dictionary_value_from_key H (c_key H) TOKEN_ISSUERS j h = Inr (k, h') \<Longrightarrow>
      fits H j \<and> l_token_issuers L j = k"
    and "get_dictionary_value_from_key H (c_u64 H) TOKEN_COUNTS j h = Inr (n, h') \<Longrightarrow>
      fits H j \<and> l_token_counts L j = n"
    and "get_dictionary_value_from_key H (c_string H) (get_metadata_dictionary_name kind) j h
      = Inr (s, h') \<Longrightarrow> fits H j \<and> l_metadata L kind j = s"
    and "is_burnt H t h = Inr (b, h') \<Longrightarrow> fits H (get_dictionary_item_key t)
      \<and> l_burnt_tokens L (get_dictionary_item_key t) = b"
    and "get_token_identifiers_from_dictionary H (l_identifier_mode L) j h = Inr (ts, h') \<Longrightarrow>
      fits H j \<and> l_owned_tokens L j = ts"
proof -
  have names: "TOKEN_OWNERS \<in> set contract_names" "TOKEN_ISSUERS \<in> set contract_names"
    "TOKEN_COUNTS \<in> set contract_names" "BURNT_TOKENS \<in> set contract_names"
    "OWNED_TOKENS \<in> set contract_names" "get_metadata_dictionary_name kind \<in> set contract_names"
    by (cases kind; simp add: contract_names_def dictionary_names_def get_metadata_dictionary_name_def)+
  note long = read_fits [OF assms]
  show "fits H j \<and> l_token_owners L j = k"
    if "get_dictionary_value_from_key H (c_key H) TOKEN_OWNERS j h = Inr (k, h')"
    using that long [OF that names(1)] read_dictionaries(1) [OF assms, of j] by simp
  show "fits H j \<and> l_token_issuers L j = k"
    if "get_dictionary_value_from_key H (c_key H) TOKEN_ISSUERS j h = Inr (k, h')"
    using that long [OF that names(2)] read_dictionaries(2) [OF assms, of j] by simp
  show "fits H j \<and> l_token_counts L j = n"
    if "get_dictionary_value_from_key H (c_u64 H) TOKEN_COUNTS j h = Inr (n, h')"
    using that long [OF that names(3)] read_dictionaries(5) [OF assms, of j] by simp
  show "fits H j \<and> l_metadata L kind j = s"
    if "get_dictionary_value_from_key H (c_string H) (get_metadata_dictionary_name kind) j h = Inr (s, h')"
    using that long [OF that names(6)] read_dictionaries(6) [OF assms, of j kind] by simp
  show "fits H (get_dictionary_item_key t) \<and> l_burnt_tokens L (get_dictionary_item_key t) = b"
    if "is_burnt H t h = Inr (b, h')"
  proof -
    from that obtain r where
      "get_dictionary_value_from_key H (c_unit H) BURNT_TOKENS (get_dictionary_item_key t) h = Inr r"
      by (auto simp: is_burnt_def elim: bind_c_InrE)
    then have "fits H (get_dictionary_item_key t)" by (rule long) (rule names(4))
    with that read_is_burnt [OF assms, of t] show ?thesis by simp
  qed
  show "fits H j \<and> l_owned_tokens L j = ts"
    if "get_token_identifiers_from_dictionary H (l_identifier_mode L) j h = Inr (ts, h')"
  proof -
    from that have "fits H j"
      by (auto simp: get_token_identifiers_from_dictionary_def split: nft_identifier_mode.splits
          elim!: bind_c_InrE dest!: long [OF _ names(5)])
    with that read_owned_tokens [OF assms, of j] show ?thesis by simp
  qed
qed

lemma kept_fits:
  "represents H L h \<Longrightarrow> l_token_owners L j = Some k \<Longrightarrow> fits H j"
  "represents H L h \<Longrightarrow> l_operator L j = Some k' \<Longrightarrow> fits H j"
  using read_too_long(2,5) [of L h j] by fastforce+

text \<open>Digits and printed hashes are short.\<close>

lemma index_fits [simp]: "fits H (u64_to_string x)"
  using length_u64_to_string [of x] digits_fit by (simp add: fits_def)

lemma owner_item_fits: "owner_item H k = Inr item \<Longrightarrow> fits H item"
  by (cases k) (auto simp: owner_item_def account_hash_fits contract_hash_fits)

lemma ordinal_fits: "of_mode Ordinal t \<Longrightarrow> fits H (get_dictionary_item_key t)"
  by (auto simp: of_mode_def split: token_identifier.splits)

end

lemma read_owner_item:
  "get_owned_tokens_dictionary_item_key H k = result_c (owner_item H k)"
  by (rule ext) (simp add: get_owned_tokens_dictionary_item_key_def owner_item_def result_c_def
      split: key.splits)

end
