(* ===== verification/Updates.thy ===== *)
theory Updates
  imports Steps
begin

text \<open>
  The writes of the contract on a host state that represents a ledger: a stored value that is
  overwritten and a dictionary item that is put, and the ledger the new state represents.
\<close>

section \<open>A state that represents another ledger\<close>

text \<open>\<open>yields H m h a L\<close>: the computation returns \<open>a\<close> in a state that represents \<open>L\<close>.\<close>

definition yields :: "'h casper \<Rightarrow> ('h, error, 'a) computation \<Rightarrow> 'h \<Rightarrow> 'a \<Rightarrow> ledger \<Rightarrow> bool" where
  "yields H m h a L \<longleftrightarrow> (\<exists>h'. m h = Inr (a, h') \<and> represents H L h')"

lemma sim_yields: "yields H m h a L \<Longrightarrow> sim H (Inr (a, L)) (m h)"
  by (auto simp: yields_def)

lemma sim_yields_bind:
  "yields H m h a L \<Longrightarrow> (\<And>h'. represents H L h' \<Longrightarrow> sim H r (f a h')) \<Longrightarrow> sim H r (bind_c m f h)"
  by (auto simp: yields_def bind_c_def)

lemma yields_bind:
  "yields H m h a L \<Longrightarrow> (\<And>h'. represents H L h' \<Longrightarrow> yields H (f a) h' b L') \<Longrightarrow>
   yields H (bind_c m f) h b L'"
  by (auto simp: yields_def bind_c_def)

lemma yields_return: "represents H L h \<Longrightarrow> yields H (return_c a) h a L"
  by (simp add: yields_def)

text \<open>The place of a kind's dictionary among the names.\<close>

definition metadata_index :: "nft_metadata_kind \<Rightarrow> nat" where
  "metadata_index kind = (case kind of CustomValidated \<Rightarrow> 6 | CEP78 \<Rightarrow> 7 | NFT721 \<Rightarrow> 8 | Raw \<Rightarrow> 9)"

lemma of_mode_simps [simp]:
  "of_mode Ordinal t \<longleftrightarrow> (\<exists>x. t = Index x)" "of_mode Hash t \<longleftrightarrow> (\<exists>s. t = TokenHash s)"
  by (auto simp: of_mode_def split: token_identifier.splits)

section \<open>Writing to the host\<close>

context casper_host
begin

lemma live_write: "live H u h \<Longrightarrow> live H v h \<Longrightarrow> live H v (storage_write H u bs h)"
  by (auto simp: live_def bytes_write)

lemma live_dictionary_put:
  "storage_dictionary_put H u j bs h = Inr h' \<Longrightarrow> live H v h \<Longrightarrow> live H v h'"
  by (simp add: live_def bytes_dictionary_put)

lemma put_fits: "storage_dictionary_put H u j bs h = Inr h' \<Longrightarrow> fits H j"
  using dictionary_too_long(2) [of j u bs h] by (cases "fits H j") auto

lemma distinct_urefs:
  assumes "represents H L h" and "n \<in> set contract_names" and "m \<in> set contract_names"
  shows "l_urefs L n = l_urefs L m \<longleftrightarrow> n = m"
  using assms by (auto simp: represents_def dest: inj_onD)

lemma represents_write:
  assumes rep: "represents H L h" and k: "k < length value_names"
    and vals: "value_bytes H L' = (value_bytes H L)[k := bs]"
    and items: "dictionary_items H L' = dictionary_items H L"
    and rest: "l_urefs L' = l_urefs L" "l_installer L' = l_installer L"
      "l_owned_tokens L' = l_owned_tokens L" "l_identifier_mode L' = l_identifier_mode L"
  shows "represents H L' (storage_write H (l_urefs L (value_names ! k)) bs h)"
proof -
  let ?n = "value_names ! k" and ?h = "storage_write H (l_urefs L (value_names ! k)) bs h"
  have n: "?n \<in> set contract_names" using k by (simp add: contract_names_def)
  have live: "live H (l_urefs L ?n) h" by (rule represents_uref [OF rep n])
  have bytes: "uref_bytes H (l_urefs L (value_names ! m)) ?h =
      (if m = k then Inr bs else uref_bytes H (l_urefs L (value_names ! m)) h)"
    if "m < length value_names" for m
    using that k distinct_value_names
    by (simp add: bytes_write [OF live] distinct_urefs [OF rep] contract_names_def
        nth_eq_iff_index_eq)
  have "list_all2 (\<lambda>n bs. uref_bytes H (l_urefs L n) ?h = Inr bs) value_names (value_bytes H L')"
    using rep k by (auto simp: vals represents_def list_all2_conv_all_nth bytes nth_list_update)
  moreover have "list_all2 (\<lambda>n m. has_items H (l_urefs L n) m ?h) dictionary_names (dictionary_items H L')"
    using rep by (auto simp: items represents_def list_all2_conv_all_nth item_write contract_names_def
        has_items_def)
  ultimately show ?thesis
    using rep by (auto simp: represents_def rest get_key_write live_write [OF live] listable_def)
qed

lemma represents_put:
  assumes rep: "represents H L h" and k: "k < length dictionary_names"
    and items: "dictionary_items H L' =
      (dictionary_items H L)[k := (dictionary_items H L ! k)(j \<mapsto> bs)]"
    and vals: "value_bytes H L' = value_bytes H L"
    and rest: "l_urefs L' = l_urefs L" "l_installer L' = l_installer L"
    and lists: "\<forall>j ts. l_owned_tokens L' j = Some ts \<longrightarrow> (\<forall>t \<in> set ts. listable H L' t)"
    and put: "storage_dictionary_put H (l_urefs L (dictionary_names ! k)) j bs h = Inr h'"
  shows "represents H L' h'"
proof -
  let ?n = "dictionary_names ! k"
  have n: "?n \<in> set contract_names" using k by (simp add: contract_names_def)
  have live: "live H (l_urefs L ?n) h" by (rule represents_uref [OF rep n])
  have live_m: "live H (l_urefs L m) h" if "m \<in> set contract_names" for m
    by (rule represents_uref [OF rep that])
  have items_m: "storage_dictionary_get H (l_urefs L (dictionary_names ! m)) j' h' =
      (if m = k \<and> j' = j then Inr (Some bs)
       else storage_dictionary_get H (l_urefs L (dictionary_names ! m)) j' h)"
    if "m < length dictionary_names" for m j'
    using that k distinct_dictionary_names
    by (simp add: item_dictionary_put [OF put live live_m] distinct_urefs [OF rep] contract_names_def
        nth_eq_iff_index_eq)
  have "list_all2 (\<lambda>n m. has_items H (l_urefs L n) m h') dictionary_names (dictionary_items H L')"
    using rep k put_fits [OF put]
    by (auto simp: items represents_def list_all2_conv_all_nth items_m nth_list_update has_items_def)
  moreover have "list_all2 (\<lambda>n bs. uref_bytes H (l_urefs L n) h' = Inr bs)
      value_names (value_bytes H L')"
    using rep by (auto simp: vals represents_def list_all2_conv_all_nth bytes_dictionary_put [OF put]
        contract_names_def)
  ultimately show ?thesis
    using rep lists
    by (auto simp: represents_def rest get_key_dictionary_put [OF put] live_dictionary_put [OF put])
qed

lemma yields_write:
  assumes "represents H L h" and "k < length value_names" and "value_names ! k = n"
    and "represents H L' (storage_write H (l_urefs L n) (to_bytes c v) h)"
  shows "yields H (bind_c (get_uref H n e e') (\<lambda>u. write_c H c u v)) h () L'"
proof -
  have nn: "n \<in> set contract_names" using assms(2,3) by (auto simp: contract_names_def)
  show ?thesis
    using assms(4) by (simp add: yields_def bind_c_def write_c_def read_uref [OF assms(1) nn])
qed

lemma yields_put:
  assumes "represents H L h" and "k < length dictionary_names" and "dictionary_names ! k = n"
    and "fits H j"
    and "\<And>h'. storage_dictionary_put H (l_urefs L n) j (to_bytes c v) h = Inr h' \<Longrightarrow> represents H L' h'"
  shows "yields H (bind_c (get_uref H n e e') (\<lambda>u. dictionary_put_c H c u j v)) h () L'"
proof -
  have nn: "n \<in> set contract_names" using assms(2,3) by (auto simp: contract_names_def)
  obtain h' where "storage_dictionary_put H (l_urefs L n) j (to_bytes c v) h = Inr h'"
    using dictionary_put_succeeds [OF represents_uref(2) [OF assms(1) nn] assms(4)] by blast
  with assms(5) show ?thesis
    by (simp add: yields_def bind_c_def dictionary_put_c_def read_uref [OF assms(1) nn])
qed

text \<open>An upsert reads the old item, which must be one of its type, and then puts the new one.\<close>

lemma yields_upsert:
  assumes rep: "represents H L h" and k: "k < length dictionary_names"
    and n: "dictionary_names ! k = n"
    and old: "(dictionary_items H L ! k) j = map_option (to_bytes c) w" and c: "codec_ok c"
    and fits: "fits H j"
    and new: "\<And>h'. storage_dictionary_put H (l_urefs L n) j (to_bytes c v) h = Inr h' \<Longrightarrow>
      represents H L' h'"
  shows "yields H (upsert_dictionary_value_from_key H c n j v) h () L'"
proof -
  have nn: "n \<in> set contract_names" using k n by (auto simp: contract_names_def)
  have "(n, dictionary_items H L ! k) \<in> set (zip dictionary_names (dictionary_items H L))"
    unfolding set_zip n [symmetric] using k
    by (auto simp: dictionary_names_def dictionary_items_def)
  then have "storage_dictionary_get H (l_urefs L n) j h = Inr ((dictionary_items H L ! k) j)"
    by (rule read_item(1) [OF rep _ fits])
  then have "dictionary_get_c H c (l_urefs L n) j h = Inr (w, h)"
    by (cases w) (simp_all add: dictionary_get_c_def old deserialize_to_bytes [OF c])
  moreover obtain h' where "storage_dictionary_put H (l_urefs L n) j (to_bytes c v) h = Inr h'"
    using dictionary_put_succeeds [OF represents_uref(2) [OF rep nn] fits] by blast
  ultimately show ?thesis
    using new by (simp add: yields_def upsert_dictionary_value_from_key_def bind_c_def
        dictionary_put_c_def read_uref [OF rep nn])
qed

section \<open>Each write of the contract\<close>

text \<open>The last two facts put together, with the conditions on the new ledger spelt out.\<close>

lemma yields_upsert_items:
  assumes "represents H L h" and "k < length dictionary_names" and "dictionary_names ! k = n"
    and "(dictionary_items H L ! k) j = map_option (to_bytes c) w" and "codec_ok c" and "fits H j"
    and "dictionary_items H L' =
      (dictionary_items H L)[k := (dictionary_items H L ! k)(j \<mapsto> to_bytes c v)]"
    and "value_bytes H L' = value_bytes H L"
    and "l_urefs L' = l_urefs L" and "l_installer L' = l_installer L"
    and "\<forall>j ts. l_owned_tokens L' j = Some ts \<longrightarrow> (\<forall>t \<in> set ts. listable H L' t)"
  shows "yields H (upsert_dictionary_value_from_key H c n j v) h () L'"
  by (rule yields_upsert [OF assms(1-6)])
    (use represents_put [OF assms(1,2,7-11)] assms(3) in simp)

lemma represents_lists:
  "represents H L h \<Longrightarrow> l_owned_tokens L j = Some ts \<Longrightarrow> t \<in> set ts \<Longrightarrow> listable H L t"
  by (auto simp: represents_def)

lemma listed_fits:
  "represents H L h \<Longrightarrow> l_owned_tokens L j = Some ts \<Longrightarrow> t \<in> set ts \<Longrightarrow> fits H (get_dictionary_item_key t)"
  using represents_lists by (auto simp: listable_def)

lemma yields_upsert_owner:
  assumes "represents H L h" and "fits H j"
  shows "yields H (upsert_dictionary_value_from_key H (c_key H) TOKEN_OWNERS j v) h ()
    (L\<lparr>l_token_owners := (l_token_owners L)(j \<mapsto> v)\<rparr>)"
  by (rule yields_upsert_items [OF assms(1), where k = 0])
    (use represents_lists [OF assms(1)] assms(2) in \<open>auto simp: dictionary_names_def dictionary_items_def
      value_bytes_def codecs fun_eq_iff listable_def\<close>)

lemma yields_upsert_issuer:
  assumes "represents H L h" and "fits H j"
  shows "yields H (upsert_dictionary_value_from_key H (c_key H) TOKEN_ISSUERS j v) h ()
    (L\<lparr>l_token_issuers := (l_token_issuers L)(j \<mapsto> v)\<rparr>)"
  by (rule yields_upsert_items [OF assms(1), where k = 1])
    (use represents_lists [OF assms(1)] assms(2) in \<open>auto simp: dictionary_names_def dictionary_items_def
      value_bytes_def codecs fun_eq_iff listable_def\<close>)

lemma yields_upsert_burnt:
  assumes "represents H L h" and "fits H j"
  shows "yields H (upsert_dictionary_value_from_key H (c_unit H) BURNT_TOKENS j ()) h ()
    (L\<lparr>l_burnt_tokens := (l_burnt_tokens L)(j := True)\<rparr>)"
  by (rule yields_upsert_items [OF assms(1), where k = 4 and w = "if l_burnt_tokens L j then Some () else None"])
    (use represents_lists [OF assms(1)] assms(2) in \<open>auto simp: dictionary_names_def dictionary_items_def
      value_bytes_def codecs fun_eq_iff listable_def\<close>)

lemma yields_upsert_count:
  assumes "represents H L h" and "fits H j"
  shows "yields H (upsert_dictionary_value_from_key H (c_u64 H) TOKEN_COUNTS j v) h ()
    (L\<lparr>l_token_counts := (l_token_counts L)(j \<mapsto> v)\<rparr>)"
  by (rule yields_upsert_items [OF assms(1), where k = 5])
    (use represents_lists [OF assms(1)] assms(2) in \<open>auto simp: dictionary_names_def dictionary_items_def
      value_bytes_def codecs fun_eq_iff listable_def\<close>)

lemma yields_upsert_metadata:
  assumes "represents H L h" and "fits H j"
  shows "yields H (upsert_dictionary_value_from_key H (c_string H)
      (get_metadata_dictionary_name kind) j v) h ()
    (L\<lparr>l_metadata := (l_metadata L)(kind := (l_metadata L kind)(j \<mapsto> v))\<rparr>)"
  by (rule yields_upsert_items [OF assms(1), where k = "metadata_index kind"
        and w = "l_metadata L kind j"];
      cases kind; use represents_lists [OF assms(1)] assms(2) in \<open>auto simp: dictionary_names_def
        dictionary_items_def value_bytes_def codecs fun_eq_iff listable_def metadata_index_def
        get_metadata_dictionary_name_def\<close>)

lemma yields_put_operator:
  assumes "represents H L h" and "fits H j"
  shows "yields H (bind_c (get_uref H OPERATOR e e') (\<lambda>u. dictionary_put_c H (c_option_key H) u j v))
    h () (L\<lparr>l_operator := (l_operator L)(j \<mapsto> v)\<rparr>)"
proof (rule yields_put [OF assms(1), where k = 3])
  fix h'
  assume "storage_dictionary_put H (l_urefs L OPERATOR) j (to_bytes (c_option_key H) v) h = Inr h'"
  then have put: "storage_dictionary_put H (l_urefs L (dictionary_names ! 3)) j
      (to_bytes (c_option_key H) v) h = Inr h'"
    by (simp add: dictionary_names_def)
  show "represents H (L\<lparr>l_operator := (l_operator L)(j \<mapsto> v)\<rparr>) h'"
    by (rule represents_put [OF assms(1) _ _ _ _ _ _ put])
      (use represents_lists [OF assms(1)] assms(2) in \<open>auto simp: dictionary_names_def dictionary_items_def
        value_bytes_def codecs fun_eq_iff listable_def\<close>)
qed (simp_all add: dictionary_names_def assms(2))

text \<open>The list of an item's tokens, in the two encodings.\<close>

lemma yields_upsert_identifiers:
  assumes rep: "represents H L h" and ts: "\<forall>t \<in> set ts. listable H L t" and j: "fits H j"
  shows "l_identifier_mode L = Ordinal \<Longrightarrow>
      yields H (upsert_dictionary_value_from_key H (c_vec_u64 H) OWNED_TOKENS j
        (map (the \<circ> get_index) ts)) h () (L\<lparr>l_owned_tokens := (l_owned_tokens L)(j \<mapsto> ts)\<rparr>)"
    and "l_identifier_mode L = Hash \<Longrightarrow>
      yields H (upsert_dictionary_value_from_key H (c_vec_string H) OWNED_TOKENS j
        (map (the \<circ> get_hash) ts)) h () (L\<lparr>l_owned_tokens := (l_owned_tokens L)(j \<mapsto> ts)\<rparr>)"
proof -
  note defs = dictionary_names_def dictionary_items_def value_bytes_def codecs fun_eq_iff listable_def
    identifiers_bytes_def
  show "yields H (upsert_dictionary_value_from_key H (c_vec_u64 H) OWNED_TOKENS j
      (map (the \<circ> get_index) ts)) h () (L\<lparr>l_owned_tokens := (l_owned_tokens L)(j \<mapsto> ts)\<rparr>)"
    if m: "l_identifier_mode L = Ordinal"
    by (rule yields_upsert_items [OF rep, where k = 2
        and w = "map_option (map (the \<circ> get_index)) (l_owned_tokens L j)"];
        cases "l_owned_tokens L j"; use represents_lists [OF rep] ts j in \<open>auto simp: defs m\<close>)
  show "yields H (upsert_dictionary_value_from_key H (c_vec_string H) OWNED_TOKENS j
      (map (the \<circ> get_hash) ts)) h () (L\<lparr>l_owned_tokens := (l_owned_tokens L)(j \<mapsto> ts)\<rparr>)"
    if m: "l_identifier_mode L = Hash"
    by (rule yields_upsert_items [OF rep, where k = 2
        and w = "map_option (map (the \<circ> get_hash)) (l_owned_tokens L j)"];
        cases "l_owned_tokens L j"; use represents_lists [OF rep] ts j in \<open>auto simp: defs m\<close>)
qed

lemma index_computation:
  "\<forall>t \<in> set ts. of_mode Ordinal t \<Longrightarrow>
   map_c (\<lambda>t. unwrap_or_revert_with e (get_index t)) ts s = Inr (map (the \<circ> get_index) ts, s)"
  by (rule map_c_pure) force

lemma hash_computation:
  "\<forall>t \<in> set ts. of_mode Hash t \<Longrightarrow>
   map_c (\<lambda>t. unwrap_or_revert_with e (get_hash t)) ts s = Inr (map (the \<circ> get_hash) ts, s)"
  by (rule map_c_pure) force

lemma yields_upsert_token_identifiers:
  assumes rep: "represents H L h" and ts: "\<forall>t \<in> set ts. listable H L t" and j: "fits H j"
  shows "yields H (bind_c (upsert_token_identifiers H (l_identifier_mode L) j ts) unwrap_or_revert)
    h () (L\<lparr>l_owned_tokens := (l_owned_tokens L)(j \<mapsto> ts)\<rparr>)"
  using yields_upsert_identifiers [OF rep ts j] ts
  by (cases "l_identifier_mode L")
    (auto simp: yields_def upsert_token_identifiers_def bind_c_def index_computation
      hash_computation listable_def)

lemma yields_mint_store_identifiers:
  assumes rep: "represents H L h" and ts: "\<forall>t \<in> set ts. listable H L t" and j: "fits H j"
  shows "yields H (mint_store_identifiers H (l_identifier_mode L) j ts)
    h () (L\<lparr>l_owned_tokens := (l_owned_tokens L)(j \<mapsto> ts)\<rparr>)"
  using yields_upsert_identifiers [OF rep ts j] ts
  by (cases "l_identifier_mode L")
    (auto simp: yields_def mint_store_identifiers_def bind_c_def index_computation
      hash_computation listable_def)

text \<open>The values that change after initialisation.\<close>

lemma represents_write_value:
  assumes rep: "represents H L h" and k: "k < length value_names" "value_names ! k = n"
    and "value_bytes H L' = (value_bytes H L)[k := to_bytes c v]"
    and "dictionary_items H L' = dictionary_items H L"
    and "l_urefs L' = l_urefs L" "l_installer L' = l_installer L"
      "l_owned_tokens L' = l_owned_tokens L" "l_identifier_mode L' = l_identifier_mode L"
  shows "yields H (bind_c (get_uref H n e e') (\<lambda>u. write_c H c u v)) h () L'"
  by (rule yields_write [OF rep k]) (use represents_write [OF rep k(1) assms(4-9)] k(2) in simp)

lemma yields_writes:
  assumes "represents H L h"
  shows "yields H (bind_c (get_uref H ALLOW_MINTING e e') (\<lambda>u. write_c H (c_bool H) u b)) h ()
      (L\<lparr>l_allow_minting := b\<rparr>)"
    and "yields H (bind_c (get_uref H CONTRACT_WHITELIST e e')
        (\<lambda>u. write_c H (c_vec_contract_hash H) u cs)) h () (L\<lparr>l_contract_whitelist := cs\<rparr>)"
    and "yields H (bind_c (get_uref H ACCOUNT_WHITELIST e e')
        (\<lambda>u. write_c H (c_vec_account_hash H) u as)) h () (L\<lparr>l_account_whitelist := as\<rparr>)"
    and "yields H (bind_c (get_uref H NUMBER_OF_MINTED_TOKENS e e')
        (\<lambda>u. write_c H (c_u64 H) u n)) h () (L\<lparr>l_number_of_minted_tokens := n\<rparr>)"
proof -
  note defs = value_names_def value_bytes_def dictionary_items_def
  show "yields H (bind_c (get_uref H ALLOW_MINTING e e') (\<lambda>u. write_c H (c_bool H) u b)) h ()
      (L\<lparr>l_allow_minting := b\<rparr>)"
    by (rule represents_write_value [OF assms, where k = 15]) (simp_all add: defs)
  show "yields H (bind_c (get_uref H CONTRACT_WHITELIST e e')
        (\<lambda>u. write_c H (c_vec_contract_hash H) u cs)) h () (L\<lparr>l_contract_whitelist := cs\<rparr>)"
    by (rule represents_write_value [OF assms, where k = 9]) (simp_all add: defs)
  show "yields H (bind_c (get_uref H ACCOUNT_WHITELIST e e')
        (\<lambda>u. write_c H (c_vec_account_hash H) u as)) h () (L\<lparr>l_account_whitelist := as\<rparr>)"
    by (rule represents_write_value [OF assms, where k = 10]) (simp_all add: defs)
  show "yields H (bind_c (get_uref H NUMBER_OF_MINTED_TOKENS e e')
        (\<lambda>u. write_c H (c_u64 H) u n)) h () (L\<lparr>l_number_of_minted_tokens := n\<rparr>)"
    by (rule represents_write_value [OF assms, where k = 16]) (simp_all add: defs)
qed

end

end
