(* ===== verification/Refinement.thy ===== *)
theory Refinement
  imports Updates
begin

text \<open>
  Each entry point of the contract refines what the ledger says it does: on a host state that
  represents a ledger, the code reverts with the ledger's error, or returns the ledger's result in
  a state that represents the ledger's next state. The proofs run the code step by step: reads are
  rewritten (\<open>exec\<close>), what both sides compute from the arguments is peeled off by \<open>sim_intros\<close>, and
  each write is one of the facts on \<open>yields\<close>.
\<close>

lemma sim_guard:
  "(b \<Longrightarrow> m = Inl e) \<Longrightarrow> (\<not> b \<Longrightarrow> sim H (f' () L) m) \<Longrightarrow> sim H (bind_c (revert_if b e) f' L) m"
  by simp

lemma yields_eq: "yields H m h a L \<Longrightarrow> L = L' \<Longrightarrow> yields H m h a L'"
  by simp

text \<open>A write stands in the code as a chain of two computations.\<close>

lemma sim_chain_bind:
  "yields H (bind_c m f) h a L \<Longrightarrow> (\<And>h'. represents H L h' \<Longrightarrow> sim H r (g a h')) \<Longrightarrow>
   sim H r (bind_c m (\<lambda>x. bind_c (f x) g) h)"
  by (simp add: sim_yields_bind flip: bind_c_assoc)

lemma chain_assoc: "bind_c (bind_c m f) g = bind_c m (\<lambda>a. bind_c (f a) g)"
  by (rule ext) (rule bind_c_assoc)

lemma for_c_guards:
  "for_c (\<lambda>(n, p). revert_if (P n p) e) xs s =
     (if \<exists>(n, p) \<in> set xs. P n p then Inl e else Inr ((), s))"
  by (induction xs) (auto simp: bind_c_def)

lemma bind_for_c_guards:
  "bind_c (for_c (\<lambda>(n, p). revert_if (P n p) e) xs) g s =
     (if \<exists>(n, p) \<in> set xs. P n p then Inl e else g () s)"
  by (simp add: bind_c_def for_c_guards)

lemma argument_json_schema: "ARG_JSON_SCHEMA = JSON_SCHEMA"
  by (simp add: constant_defs)

lemma standard_schemas [simp]:
  "btree_get (schema_properties nft721_schema) ''name'' = Some (required_property ''name'' ''The name of the NFT'')"
  "btree_get (schema_properties nft721_schema) ''symbol'' = Some (required_property ''symbol'' ''The symbol of the NFT collection'')"
  "btree_get (schema_properties nft721_schema) ''token_uri'' = Some (required_property ''token_uri'' ''The URI pointing to an off chain resource'')"
  "btree_get (schema_properties cep78_schema) ''name'' = Some (required_property ''name'' ''The name of the NFT'')"
  "btree_get (schema_properties cep78_schema) ''token_uri'' = Some (required_property ''token_uri'' ''The URI pointing to an off chain resource'')"
  "btree_get (schema_properties cep78_schema) ''checksum'' = Some (required_property ''checksum'' ''A SHA256 hash of the content at the token_uri'')"
  by (simp_all add: nft721_schema_def cep78_schema_def btree_get_def)

lemma required_property_required [simp]: "property_required (required_property n d)"
  by (simp add: required_property_def)

lemma approve_no_tokens: "approve_tokens [] v L = L"
  by (simp add: approve_tokens_def)

lemma ledger_query_token_run:
  "bind_c (ledger_query_token H i) f L =
     bind_c (get_token_identifier_from_runtime_args H i (l_identifier_mode L)) (\<lambda>t.
     bind_c (revert_if (case t of Index x \<Rightarrow> x \<ge> l_number_of_minted_tokens L | _ \<Rightarrow> False)
       (User InvalidTokenIdentifier)) (\<lambda>_. f t)) L"
  by (simp add: ledger_query_token_def bind_c_def split: sum.splits)

context casper_host
begin

text \<open>The accesses that find out that the name of a token is too long.\<close>

lemma access_too_long:
  assumes "represents H L h" and "\<not> fits H j"
  shows "get_dictionary_value_from_key H (c_key H) TOKEN_OWNERS j h = Inl (Api too_long)"
    and "upsert_dictionary_value_from_key H (c_key H) TOKEN_OWNERS j v h = Inl (Api too_long)"
    and "j = get_dictionary_item_key t \<Longrightarrow> is_burnt H t h = Inl (Api too_long)"
proof -
  have names: "TOKEN_OWNERS \<in> set contract_names" "BURNT_TOKENS \<in> set contract_names"
    by (simp_all add: contract_names_def dictionary_names_def)
  note read = read_too_long(1) [OF assms]
  show "get_dictionary_value_from_key H (c_key H) TOKEN_OWNERS j h = Inl (Api too_long)"
    by (rule read [OF names(1)])
  show "upsert_dictionary_value_from_key H (c_key H) TOKEN_OWNERS j v h = Inl (Api too_long)"
    by (simp add: upsert_dictionary_value_from_key_def dictionary_get_c_def bind_c_def
        read_uref [OF assms(1) names(1)] dictionary_too_long [OF assms(2)])
  show "is_burnt H t h = Inl (Api too_long)" if "j = get_dictionary_item_key t"
    unfolding is_burnt_def bind_c_def that [symmetric] read [OF names(2)] by simp
qed

lemmas exec =
  bind_c_Inr bind_c_Inl bind_c_assoc bind_c_if Let_def return_c_run revert_c_run read_values
  read_modes read_installer read_verified_caller read_dictionaries read_is_burnt read_owned_tokens
  read_owner_item owner_item_fits access_too_long

lemma read_dictionary_urefs:
  assumes "represents H L h"
  shows "get_uref H OPERATOR e e' h = Inr (l_urefs L OPERATOR, h)"
    and "get_uref H OWNED_TOKENS e e' h = Inr (l_urefs L OWNED_TOKENS, h)"
  by (rule read_uref [OF assms]; simp add: contract_names_def dictionary_names_def)+

section \<open>Parts of the entry points\<close>

lemma decrement_token_count_error:
  "represents H L h \<Longrightarrow> fits H j \<Longrightarrow> balance L j = 0 \<Longrightarrow>
   decrement_token_count H j h = Inl (User FatalTokenIdDuplication)"
  by (cases "l_token_counts L j")
    (auto simp: decrement_token_count_def exec balance_def bind_c_def)

lemma yields_decrement_token_count:
  assumes "represents H L h" and "fits H j" and "balance L j \<noteq> 0"
  shows "yields H (decrement_token_count H j) h ()
    (L\<lparr>l_token_counts := (l_token_counts L)(j \<mapsto> balance L j - 1)\<rparr>)"
  using assms yields_upsert_count [OF assms(1,2), of "balance L j - 1"]
  by (cases "l_token_counts L j")
    (auto simp: decrement_token_count_def exec balance_def word_gt_0 yields_def)

lemma yields_increment_token_count:
  assumes "represents H L h" and "fits H j"
  shows "yields H (increment_token_count H j) h ()
    (L\<lparr>l_token_counts := (l_token_counts L)(j \<mapsto> balance L j + 1)\<rparr>)"
  using assms yields_upsert_count [OF assms, of "balance L j + 1"]
  by (cases "l_token_counts L j")
    (auto simp: increment_token_count_def exec balance_def yields_def)

lemma validate_metadata_run:
  assumes "represents H L h"
  shows "bind_c (validate_metadata H kind s) (\<lambda>r. bind_c (unwrap_or_revert r) f) h
    = bind_c (result_c (valid_metadata H kind (l_json_schema L) s)) f h"
proof (cases kind)
  case CustomValidated
  show ?thesis
  proof (cases "from_str_schema H (l_json_schema L)")
    case None
    with assms show ?thesis
      by (simp add: CustomValidated validate_metadata_def get_metadata_schema_def valid_metadata_def
          argument_json_schema exec)
  next
    case (Some schema)
    show ?thesis
    proof (cases "from_str_attributes H s")
      case None
      with Some assms show ?thesis
        by (simp add: CustomValidated validate_metadata_def get_metadata_schema_def
            valid_metadata_def argument_json_schema exec)
    next
      case (Some attributes)
      with \<open>from_str_schema H (l_json_schema L) = Some schema\<close> assms show ?thesis
        by (cases "to_string_pretty_attributes H attributes")
          (auto simp: CustomValidated validate_metadata_def get_metadata_schema_def
            valid_metadata_def argument_json_schema exec bind_for_c_guards has_required_def
            jsonified_def)
    qed
  qed
next
  case CEP78
  then show ?thesis
    by (auto simp: validate_metadata_def get_metadata_schema_def valid_metadata_def exec
        check_property_def jsonified_def split: option.splits)
next
  case NFT721
  then show ?thesis
    by (auto simp: validate_metadata_def get_metadata_schema_def valid_metadata_def exec
        check_property_def jsonified_def split: option.splits)
next
  case Raw
  then show ?thesis
    by (simp add: validate_metadata_def get_metadata_schema_def valid_metadata_def exec)
qed

lemma yields_approve_tokens:
  assumes "represents H L h" and "\<forall>t \<in> set ts. fits H (get_dictionary_item_key t)"
  shows "yields H (for_c (\<lambda>t. dictionary_put_c H (c_option_key H) (l_urefs L OPERATOR)
      (get_dictionary_item_key t) v) ts) h () (approve_tokens ts v L)"
  using assms
proof (induction ts arbitrary: L h)
  case Nil
  then show ?case by (simp add: approve_tokens_def yields_def)
next
  case (Cons t ts)
  let ?n = "get_dictionary_item_key t"
  let ?L = "L\<lparr>l_operator := (l_operator L)(?n \<mapsto> v)\<rparr>"
  have put: "yields H (dictionary_put_c H (c_option_key H) (l_urefs L OPERATOR) ?n v) h () ?L"
    using yields_put_operator [OF Cons.prems(1), of ?n MissingStorageUref InvalidStorageUref v]
      read_dictionary_urefs(1) [OF Cons.prems(1)] Cons.prems(2)
    by (simp add: yields_def bind_c_def)
  have "approve_tokens ts v ?L = approve_tokens (t # ts) v L"
    by (auto simp: approve_tokens_def fun_eq_iff)
  then show ?case
    using Cons.IH [of ?L] Cons.prems(2) by (auto intro!: yields_bind [OF put])
qed

section \<open>Administration\<close>

lemma set_variables_refines:
  assumes "represents H L h"
  shows "sim H (ledger_set_variables H i L) (set_variables H i h)"
  using assms unfolding set_variables_def ledger_set_variables_def
  apply -
  apply (intro sim_intros impI conjI | simp add: exec)+
  subgoal for allow
    apply (cases allow; simp add: exec)
    subgoal
      apply (rule sim_optional_arg)
      subgoal for whitelist
        apply (cases whitelist; cases "l_whitelist_mode L"; simp add: exec)
        apply (rule sim_chain_bind [OF yields_writes(2)], assumption, simp)
        done
      done
    subgoal
      apply (rule sim_chain_bind [OF yields_writes(1)], assumption)
      apply (rule sim_optional_arg)
      subgoal for h' whitelist
        apply (cases whitelist; cases "l_whitelist_mode L"; simp add: exec)
        apply (rule sim_chain_bind [OF yields_writes(2)], assumption, simp)
        done
      done
    done
  done

lemma add_to_account_whitelist_refines:
  assumes "represents H L h"
  shows "sim H (ledger_add_to_account_whitelist H i L) (add_to_account_whitelist H i h)"
  using assms unfolding add_to_account_whitelist_def ledger_add_to_account_whitelist_def
  apply -
  apply (intro sim_intros impI conjI | simp add: exec)+
  apply (rule sim_chain_bind [OF yields_writes(3)], assumption, simp)
  done

lemma remove_from_account_whitelist_refines:
  assumes "represents H L h"
  shows "sim H (ledger_remove_from_account_whitelist H i L) (remove_from_account_whitelist H i h)"
  using assms unfolding remove_from_account_whitelist_def ledger_remove_from_account_whitelist_def
  apply -
  apply (intro sim_intros impI conjI | simp add: exec)+
  subgoal
    by (simp add: position_None [THEN iffD2])
  subgoal for k a
    apply (frule position_mem, elim exE conjE, simp add: exec)
    apply (rule sim_chain_bind [OF yields_writes(3)], assumption, simp)
    done
  done

section \<open>Queries\<close>

lemma check_token_in_bounds_run:
  "of_mode m t \<Longrightarrow> bind_c (check_token_in_bounds m t n) f s =
    (if (case t of Index x \<Rightarrow> x \<ge> n | _ \<Rightarrow> False) then Inl (User InvalidTokenIdentifier) else f () s)"
  by (cases m) (auto simp: check_token_in_bounds_def bind_c_assoc)

lemma ret_c_run: "ret_c H v s = Inr (v, s)"
  using cl_value_converts [of v] by (cases "cl_value_from_t H v") (simp_all add: ret_c_def)

lemma balance_of_refines:
  assumes "represents H L h"
  shows "sim H (ledger_balance_of H i L) (balance_of H i h)"
  using assms unfolding balance_of_def ledger_balance_of_def balance_def
  apply -
  apply (intro sim_intros impI conjI | simp add: exec ret_c_run)+
  done

lemma owner_of_refines:
  assumes "represents H L h"
  shows "sim H (ledger_owner_of H i L) (owner_of H i h)"
  using assms unfolding owner_of_def ledger_owner_of_def
  apply -
  apply (intro sim_intros impI conjI | simp add: exec ret_c_run check_token_in_bounds_run ledger_query_token_run)+
  done

lemma get_approved_refines:
  assumes "represents H L h"
  shows "sim H (ledger_get_approved H i L) (get_approved H i h)"
  using assms unfolding get_approved_def ledger_get_approved_def
  apply -
  apply (intro sim_intros impI conjI | simp add: exec ret_c_run check_token_in_bounds_run ledger_query_token_run)+
  done

lemma metadata_kind_missing:
  "represents H L h \<Longrightarrow> stored_mode H nft_metadata_kind_try_from METADATA_SCHEMA
     MissingNFTMetadataKind InvalidNFTMetadataKind h = Inl (User MissingNFTMetadataKind)"
  by (simp add: stored_mode_def get_stored_value_with_user_errors_def get_uref_def
      get_key_with_user_errors_def bind_c_def represents_def)

lemma metadata_refines:
  assumes "represents H L h"
  shows "sim H (ledger_metadata_query H i L) (metadata H i h)"
  using assms unfolding metadata_def ledger_metadata_query_def
  apply -
  apply (intro sim_intros impI conjI
    | simp add: exec ret_c_run check_token_in_bounds_run ledger_query_token_run
        metadata_kind_missing)+
  done

section \<open>Operators and metadata\<close>

lemma enforce_transferable_run:
  assumes "represents H L h"
  shows "bind_c (enforce_transferable H) f h =
    (if l_ownership_mode L \<noteq> Transferable then Inl (User InvalidOwnershipMode) else f () h)"
  using assms by (cases "l_ownership_mode L") (simp_all add: enforce_transferable_def exec)

lemma of_mode_token [simp]:
  "of_mode m (Index x) \<longleftrightarrow> m = Ordinal" "of_mode m (TokenHash s) \<longleftrightarrow> m = Hash"
  by (simp_all add: of_mode_def)

lemma yields_put_operator_token:
  "represents H L h \<Longrightarrow> fits H (get_dictionary_item_key t) \<Longrightarrow> yields H (put_operator H t v) h ()
     (L\<lparr>l_operator := (l_operator L)(get_dictionary_item_key t \<mapsto> v)\<rparr>)"
  unfolding put_operator_def by (rule yields_put_operator)

lemma approve_refines:
  assumes "represents H L h"
  shows "sim H (ledger_approve H i L) (approve H i h)"
  using assms unfolding approve_def ledger_approve_def
  apply -
  apply (intro sim_intros impI | simp add: exec enforce_transferable_run)+
  subgoal for caller t
    apply (cases t; cases "l_token_owners L (get_dictionary_item_key t)"; simp add: exec)
     apply (intro sim_intros impI | simp)+
     apply (rule sim_yields_bind [OF yields_put_operator_token], assumption, simp, simp)
    apply (intro sim_intros impI | simp)+
    apply (rule sim_yields_bind [OF yields_put_operator_token], assumption, simp, simp)
    done
  done

lemma set_approval_for_all_refines:
  assumes "represents H L h"
  shows "sim H (ledger_set_approval_for_all H i L) (set_approval_for_all H i h)"
  using assms unfolding set_approval_for_all_def ledger_set_approval_for_all_def
  apply -
  apply (intro sim_intros impI conjI
    | simp add: exec enforce_transferable_run read_dictionary_urefs)+
  subgoal for b k caller item
    by (cases "l_owned_tokens L item")
      (auto simp: exec read_dictionary_urefs tokens_of_def approve_no_tokens
        intro!: sim_yields_bind [OF yields_approve_tokens] intro: listed_fits)
  subgoal for b k caller item
    by (cases "l_owned_tokens L item")
      (auto simp: exec read_dictionary_urefs tokens_of_def approve_no_tokens
        intro!: sim_yields_bind [OF yields_approve_tokens] intro: listed_fits)
  done

lemma set_token_metadata_refines:
  assumes "represents H L h"
  shows "sim H (ledger_set_token_metadata H i L) (set_token_metadata H i h)"
  using assms unfolding set_token_metadata_def ledger_set_token_metadata_def
    enforce_only_contract_creator_can_invoke_def
  apply -
  apply (intro sim_intros impI conjI | simp add: exec validate_metadata_run chain_assoc)+
  apply (rule sim_yields_bind [OF yields_upsert_metadata], assumption, assumption)
  apply simp
  done

lemma burn_refines:
  assumes "represents H L h"
  shows "sim H (ledger_burn H i L) (burn H i h)"
  using assms unfolding burn_def ledger_burn_def enforce_only_contract_creator_can_invoke_def
  apply -
  apply (intro sim_intros impI conjI | simp add: exec)+
  apply (rule sim_yields_bind [OF yields_upsert_burnt], assumption, assumption)
  apply (rule sim_result sim_guard
    | (rule sim_yields_bind [OF yields_decrement_token_count], assumption, erule owner_item_fits)
    | simp add: exec decrement_token_count_error)+
  done

end

end
