(* ===== verification/Refine_Moves.thy ===== *)
theory Refine_Moves
  imports Refinement
begin

text \<open>
  The refinement of \<open>transfer\<close> and \<open>mint\<close>, whose writes are several: the ledger's \<open>move_token\<close>
  and \<open>add_token\<close> are taken apart into the writes the code makes one after the other.
\<close>

text \<open>The first writes of \<open>mint\<close>: owner, issuer and metadata.\<close>

definition record_token :: "token_identifier \<Rightarrow> key \<Rightarrow> string \<Rightarrow> ledger \<Rightarrow> ledger" where
  "record_token t owner md L =
     (let n = get_dictionary_item_key t
      in L\<lparr>l_token_owners := (l_token_owners L)(n \<mapsto> owner),
           l_token_issuers := (l_token_issuers L)(n \<mapsto> owner),
           l_metadata := (l_metadata L)
             (l_metadata_kind L := (l_metadata L (l_metadata_kind L))(n \<mapsto> md))\<rparr>)"

lemma record_token_fixed [simp]:
  "l_identifier_mode (record_token t k md L) = l_identifier_mode L"
  "l_urefs (record_token t k md L) = l_urefs L"
  "l_owned_tokens (record_token t k md L) = l_owned_tokens L"
  "l_token_counts (record_token t k md L) = l_token_counts L"
  "tokens_of (record_token t k md L) item = tokens_of L item"
  "balance (record_token t k md L) item = balance L item"
  by (simp_all add: record_token_def Let_def)

lemma add_token_record:
  "add_token t owner item md L = (record_token t owner md L)
     \<lparr>l_owned_tokens := (l_owned_tokens L)(item \<mapsto> tokens_of L item @ [t]),
      l_token_counts := (l_token_counts L)(item \<mapsto> balance L item + 1),
      l_number_of_minted_tokens := l_number_of_minted_tokens L + 1\<rparr>"
  by (simp add: add_token_def record_token_def Let_def)

lemma add_token_fixed:
  "l_urefs (add_token t k item md L) = l_urefs L"
  "l_receipt_name (add_token t k item md L) = l_receipt_name L"
  by (simp_all add: add_token_def Let_def)

text \<open>A move leaves the names and the configuration alone.\<close>

lemma move_token_fixed:
  "l_urefs (move_token t k a b L) = l_urefs L"
  "l_receipt_name (move_token t k a b L) = l_receipt_name L"
  by (simp_all add: move_token_def Let_def)

text \<open>The second half of a move: the token joins the target's list.\<close>

definition put_token :: "token_identifier \<Rightarrow> string \<Rightarrow> ledger \<Rightarrow> ledger" where
  "put_token t item L =
     L\<lparr>l_owned_tokens := (l_owned_tokens L)(item \<mapsto> tokens_of L item @ [t]),
       l_token_counts := (l_token_counts L)(item \<mapsto> balance L item + 1),
       l_operator := (l_operator L)(get_dictionary_item_key t \<mapsto> None)\<rparr>"

lemma ledger_new_identifier_of_mode:
  "ledger_new_identifier i L = Inr t \<Longrightarrow> of_mode (l_identifier_mode L) t"
  by (auto simp: ledger_new_identifier_def split: nft_identifier_mode.splits sum.splits)

context casper_host
begin

section \<open>Transfer\<close>

lemma is_approved_iff:
  "(case r of None \<Rightarrow> False | Some None \<Rightarrow> False | Some (Some k) \<Rightarrow> k = c) \<longleftrightarrow> r = Some (Some c)"
  by (cases r; cases "the r") simp_all

lemma transfer_check_target_run:
  assumes "represents H L h"
  shows "bind_c (transfer_check_target H k) f h =
    bind_c (result_c (target_account k)) (\<lambda>a.
    bind_c (revert_if (a \<notin> set (l_account_whitelist L)) (User UnlistedAccountHash)) f) h"
  using assms
  by (cases k) (auto simp: transfer_check_target_def target_account_def exec)

lemma yields_transfer_update_owner:
  assumes "represents H L h" and "fits H (get_dictionary_item_key t)"
    and "l_token_owners L (get_dictionary_item_key t) = Some source"
  shows "yields H (transfer_update_owner H t source target) h ()
    (L\<lparr>l_token_owners := (l_token_owners L)(get_dictionary_item_key t \<mapsto> target)\<rparr>)"
  using assms yields_upsert_owner [OF assms(1,2), of target]
  by (auto simp: transfer_update_owner_def yields_def exec)

lemma transfer_remove_from_source_error:
  assumes "represents H L h" and "fits H item"
  shows "l_owned_tokens L item = None \<Longrightarrow>
      transfer_remove_from_source H (l_identifier_mode L) t item h = Inl (User InvalidTokenIdentifier)"
    and "l_owned_tokens L item = Some ts \<Longrightarrow> t \<notin> set ts \<Longrightarrow>
      transfer_remove_from_source H (l_identifier_mode L) t item h = Inl (User InvalidTokenOwner)"
  using assms by (simp_all add: transfer_remove_from_source_def exec position_None [THEN iffD2])

lemma yields_transfer_remove_from_source:
  assumes "represents H L h" and "fits H item" and "l_owned_tokens L item = Some ts" and "t \<in> set ts"
  shows "yields H (transfer_remove_from_source H (l_identifier_mode L) t item) h ()
    (L\<lparr>l_owned_tokens := (l_owned_tokens L)(item \<mapsto> remove1 t ts)\<rparr>)"
proof -
  have "\<forall>t' \<in> set (remove1 t ts). listable H L t'"
    using represents_lists [OF assms(1,3)] by (auto dest: notin_set_remove1)
  from yields_upsert_token_identifiers [OF assms(1) this assms(2)] position_mem [OF assms(4)]
  show ?thesis
    using assms(1-3) by (auto simp: transfer_remove_from_source_def yields_def exec)
qed

lemma transfer_add_to_target_error:
  "represents H L h \<Longrightarrow> fits H item \<Longrightarrow> t \<in> set (tokens_of L item) \<Longrightarrow>
   transfer_add_to_target H (l_identifier_mode L) t item h = Inl (User FatalTokenIdDuplication)"
  by (cases "l_owned_tokens L item") (simp_all add: transfer_add_to_target_def exec tokens_of_def)

lemma listable_snoc:
  assumes "represents H L h" and "listable H L t"
  shows "\<forall>t' \<in> set (tokens_of L item @ [t]). listable H L t'"
  using represents_lists [OF assms(1)] assms(2)
  by (cases "l_owned_tokens L item") (auto simp: tokens_of_def)

lemma yields_transfer_add_to_target:
  assumes "represents H L h" and "fits H item" and "t \<notin> set (tokens_of L item)" and "listable H L t"
  shows "yields H (transfer_add_to_target H (l_identifier_mode L) t item) h ()
    (L\<lparr>l_owned_tokens := (l_owned_tokens L)(item \<mapsto> tokens_of L item @ [t])\<rparr>)"
proof -
  from yields_upsert_token_identifiers [OF assms(1) listable_snoc [OF assms(1,4)] assms(2), of item]
    assms(1-3)
  show ?thesis
    by (cases "l_owned_tokens L item")
      (auto simp: transfer_add_to_target_def yields_def exec tokens_of_def)
qed

lemma sim_put_token:
  assumes rep: "represents H L h" and t: "listable H L t" and item: "fits H item"
    and rest: "\<And>h'. represents H (put_token t item L) h' \<Longrightarrow> sim H (g (put_token t item L)) (f h')"
  shows "sim H (if t \<in> set (tokens_of L item) then Inl (User FatalTokenIdDuplication)
      else g (put_token t item L))
    (bind_c (transfer_add_to_target H (l_identifier_mode L) t item) (\<lambda>_.
     bind_c (increment_token_count H item) (\<lambda>_.
     bind_c (put_operator H t None) (\<lambda>_. f))) h)"
proof (cases "t \<in> set (tokens_of L item)")
  case True
  with transfer_add_to_target_error [OF rep item] show ?thesis by (simp add: bind_c_def)
next
  case False
  show ?thesis
    apply (rule sim_yields_bind [OF yields_transfer_add_to_target [OF rep item False t]])
    apply (rule sim_yields_bind [OF yields_increment_token_count], assumption, rule item)
    apply (rule sim_yields_bind [OF yields_put_operator_token], assumption)
    using False rest t by (simp_all add: put_token_def listable_def)
qed

lemma sim_move_token:
  assumes rep: "represents H L h" and t: "listable H L t"
    and items: "fits H from_item" "fits H target_item"
    and owner: "l_token_owners L (get_dictionary_item_key t) = Some source"
    and rest: "\<And>h'. represents H (move_token t target from_item target_item L) h' \<Longrightarrow>
      sim H (f' () (move_token t target from_item target_item L)) (f h')"
  shows "sim H (bind_c (ledger_move_token t target from_item target_item) f' L)
    (bind_c (transfer_update_owner H t source target) (\<lambda>_.
     bind_c (transfer_remove_from_source H (l_identifier_mode L) t from_item) (\<lambda>_.
     bind_c (decrement_token_count H from_item) (\<lambda>_.
     bind_c (transfer_add_to_target H (l_identifier_mode L) t target_item) (\<lambda>_.
     bind_c (increment_token_count H target_item) (\<lambda>_.
     bind_c (put_operator H t None) (\<lambda>_. f)))))) h)"
proof (rule sim_yields_bind [OF yields_transfer_update_owner [OF rep _ owner]])
  show "fits H (get_dictionary_item_key t)" using t by (simp add: listable_def)
  let ?L1 = "L\<lparr>l_token_owners := (l_token_owners L)(get_dictionary_item_key t \<mapsto> target)\<rparr>"
  fix h1 assume rep1: "represents H ?L1 h1"
  note error = transfer_remove_from_source_error [OF rep1 items(1), where t = t]
  let ?rest = "bind_c (transfer_remove_from_source H (l_identifier_mode L) t from_item) (\<lambda>_.
     bind_c (decrement_token_count H from_item) (\<lambda>_.
     bind_c (transfer_add_to_target H (l_identifier_mode L) t target_item) (\<lambda>_.
     bind_c (increment_token_count H target_item) (\<lambda>_.
     bind_c (put_operator H t None) (\<lambda>_. f)))))"
  consider (none) "l_owned_tokens L from_item = None"
    | (absent) ts where "l_owned_tokens L from_item = Some ts" "t \<notin> set ts"
    | (present) ts where "l_owned_tokens L from_item = Some ts" "t \<in> set ts"
    by fastforce
  then show "sim H (bind_c (ledger_move_token t target from_item target_item) f' L) (?rest h1)"
  proof cases
    case none
    with error(1) show ?thesis by (simp add: bind_c_def ledger_move_token_def)
  next
    case absent
    with error(2) show ?thesis by (simp add: bind_c_def ledger_move_token_def tokens_of_def)
  next
    case (present ts)
    let ?L2 = "?L1\<lparr>l_owned_tokens := (l_owned_tokens L)(from_item \<mapsto> remove1 t ts)\<rparr>"
    let ?L3 = "?L2\<lparr>l_token_counts := (l_token_counts L)(from_item \<mapsto> balance L from_item - 1)\<rparr>"
    have ts: "tokens_of L from_item = ts" using present by (simp add: tokens_of_def)
    have moved: "put_token t target_item ?L3 = move_token t target from_item target_item L"
      by (simp add: put_token_def move_token_def Let_def ts)
    have "yields H (transfer_remove_from_source H (l_identifier_mode L) t from_item) h1 () ?L2"
      using yields_transfer_remove_from_source [OF rep1 items(1), of ts t] present by simp
    then show ?thesis
    proof (rule sim_yields_bind)
      fix h2 assume rep2: "represents H ?L2 h2"
      show "sim H (bind_c (ledger_move_token t target from_item target_item) f' L)
        (bind_c (decrement_token_count H from_item) (\<lambda>_.
         bind_c (transfer_add_to_target H (l_identifier_mode L) t target_item) (\<lambda>_.
         bind_c (increment_token_count H target_item) (\<lambda>_.
         bind_c (put_operator H t None) (\<lambda>_. f)))) h2)"
      proof (cases "balance L from_item = 0")
        case True
        with decrement_token_count_error [OF rep2 items(1)] present show ?thesis
          by (simp add: bind_c_def ledger_move_token_def ts)
      next
        case False
        have step: "yields H (decrement_token_count H from_item) h2 () ?L3"
          using yields_decrement_token_count [OF rep2 items(1)] False by simp
        have left: "bind_c (ledger_move_token t target from_item target_item) f' L =
            (if t \<in> set (tokens_of ?L3 target_item) then Inl (User FatalTokenIdDuplication)
             else f' () (put_token t target_item ?L3))"
          unfolding moved using present False
          by (auto simp: bind_c_def ledger_move_token_def tokens_of_def split: option.splits)
        show ?thesis
          unfolding left
        proof (rule sim_yields_bind [OF step])
          fix h3 assume rep3: "represents H ?L3 h3"
          show "sim H (if t \<in> set (tokens_of ?L3 target_item) then Inl (User FatalTokenIdDuplication)
              else f' () (put_token t target_item ?L3))
            (bind_c (transfer_add_to_target H (l_identifier_mode L) t target_item) (\<lambda>_.
             bind_c (increment_token_count H target_item) (\<lambda>_.
             bind_c (put_operator H t None) (\<lambda>_. f))) h3)"
            using sim_put_token [OF rep3, of t target_item "f' ()" f] t items(2) rest
            unfolding moved by (simp add: listable_def)
        qed
      qed
    qed
  qed
qed

lemma transfer_refines:
  assumes "represents H L h"
  shows "sim H (ledger_transfer H i L) (transfer H i h)"
  using assms unfolding transfer_def ledger_transfer_def transfer_check_source_def transfer_finish_def
  apply -
  apply (intro sim_intros impI conjI
    | simp add: exec enforce_transferable_run transfer_check_target_run read_dictionary_urefs
      chain_assoc may_transfer_def is_approved_iff)+
  apply (rule sim_move_token; simp add: exec read_dictionary_urefs ret_c_run move_token_fixed listable_def)
  done

section \<open>Minting\<close>

lemma mint_check_minter_run:
  assumes "represents H L h"
  shows "bind_c (mint_check_minter H i) f h = bind_c (result_c (ledger_check_minter i L)) f h"
  using assms
  by (cases "l_minting_mode L"; cases "verified_caller i (l_holder_mode L)")
    (simp_all add: mint_check_minter_def ledger_check_minter_def exec chain_assoc split: key.split)

lemma mint_token_owner_run:
  assumes "represents H L h"
  shows "bind_c (mint_token_owner H i) f h = bind_c (result_c (ledger_mint_owner i L)) f h"
  using assms
  by (cases "l_ownership_mode L"; cases "verified_caller i (l_holder_mode L)")
    (simp_all add: mint_token_owner_def ledger_mint_owner_def exec chain_assoc get_named_arg_c_def
      split: sum.split)

lemma mint_token_identifier_run:
  "bind_c (mint_token_identifier H i (l_identifier_mode L) (l_number_of_minted_tokens L)) f h
    = bind_c (result_c (ledger_new_identifier i L)) f h"
  by (cases "l_identifier_mode L") (simp_all add: mint_token_identifier_def
      ledger_new_identifier_def exec get_named_arg_c_def split: sum.split)

lemma mint_update_owned_tokens_error:
  "represents H L h \<Longrightarrow> fits H item \<Longrightarrow> t \<in> set (tokens_of L item) \<Longrightarrow>
   mint_update_owned_tokens H (l_identifier_mode L) t item h = Inl (User FatalTokenIdDuplication)"
  by (cases "l_owned_tokens L item") (simp_all add: mint_update_owned_tokens_def exec tokens_of_def)

lemma yields_mint_update_owned_tokens:
  assumes "represents H L h" and "fits H item" and "t \<notin> set (tokens_of L item)" and "listable H L t"
  shows "yields H (mint_update_owned_tokens H (l_identifier_mode L) t item) h ()
    (L\<lparr>l_owned_tokens := (l_owned_tokens L)(item \<mapsto> tokens_of L item @ [t])\<rparr>)"
proof -
  from yields_mint_store_identifiers [OF assms(1) listable_snoc [OF assms(1,4)] assms(2), of item]
    assms(1-3)
  show ?thesis
    by (cases "l_owned_tokens L item")
      (auto simp: mint_update_owned_tokens_def yields_def exec tokens_of_def)
qed

lemma yields_mint_record_token:
  assumes "represents H L h" and "fits H (get_dictionary_item_key t)"
  shows "yields H (mint_record_token H (l_metadata_kind L) t owner md) h () (record_token t owner md L)"
  unfolding mint_record_token_def
  apply (rule yields_bind [OF yields_upsert_owner [OF assms]])
  apply (rule yields_bind [OF yields_upsert_issuer], assumption, rule assms(2))
  apply (rule yields_eq [OF yields_upsert_metadata], assumption, rule assms(2))
  apply (simp add: record_token_def Let_def)
  done

lemma mint_record_token_error:
  "represents H L h \<Longrightarrow> \<not> fits H (get_dictionary_item_key t) \<Longrightarrow>
   mint_record_token H kind t owner md h = Inl (Api too_long)"
  by (simp add: mint_record_token_def exec)

lemma yields_mint_write_number_of_minted_tokens:
  "represents H L h \<Longrightarrow> yields H (mint_write_number_of_minted_tokens H n) h ()
     (L\<lparr>l_number_of_minted_tokens := n\<rparr>)"
  unfolding mint_write_number_of_minted_tokens_def by (rule yields_writes(4))

lemma sim_add_token:
  assumes rep: "represents H (record_token t owner md L) h"
    and t: "listable H L t" and item: "fits H item" and new: "t \<notin> set (tokens_of L item)"
    and rest: "\<And>h'. represents H (add_token t owner item md L) h' \<Longrightarrow> sim H r (f h')"
  shows "sim H r
    (bind_c (mint_update_owned_tokens H (l_identifier_mode L) t item) (\<lambda>_.
     bind_c (increment_token_count H item) (\<lambda>_.
     bind_c (mint_write_number_of_minted_tokens H (l_number_of_minted_tokens L + 1)) (\<lambda>_. f))) h)"
proof -
  have "yields H (mint_update_owned_tokens H (l_identifier_mode L) t item) h ()
      ((record_token t owner md L)
        \<lparr>l_owned_tokens := (l_owned_tokens L)(item \<mapsto> tokens_of L item @ [t])\<rparr>)"
    using yields_mint_update_owned_tokens [OF rep item, of t] t new by (simp add: listable_def)
  then show ?thesis
    apply (rule sim_yields_bind)
    apply (rule sim_yields_bind [OF yields_increment_token_count], assumption, rule item)
    apply (rule sim_yields_bind [OF yields_mint_write_number_of_minted_tokens], assumption)
    using rest by (simp add: add_token_record)
qed

lemma mint_refines:
  assumes "represents H L h"
  shows "sim H (ledger_mint H i L) (mint H i h)"
  using assms unfolding mint_def ledger_mint_def
  apply -
  apply (intro sim_intros impI conjI
    | simp add: exec validate_metadata_run mint_check_minter_run mint_token_owner_run
        mint_token_identifier_run chain_assoc)+
  subgoal for owner s md t
    by (simp add: mint_record_token_error bind_c_Inl)
  apply (rule sim_yields_bind [OF yields_mint_record_token], assumption, assumption)
  apply (intro sim_result)
  apply (simp only: bind_c_Inr [OF read_dictionary_urefs(2)])
  apply (rule sim_guard)
  subgoal for owner s md t h' item
    using mint_update_owned_tokens_error [of "record_token t owner md L" h' item t]
    by (simp add: bind_c_def owner_item_fits)
  apply (rule sim_add_token, assumption)
     apply (simp add: listable_def ledger_new_identifier_of_mode)
    apply (erule owner_item_fits, assumption)
  apply (simp add: exec ret_c_run add_token_fixed)
  done

end

end
