(* ===== verification/Initialisation.thy ===== *)
theory Initialisation
  imports Refine_Moves
begin

text \<open>
  What \<open>init\<close> leaves behind: run on the state of a contract that has just been installed, it
  reverts because of an argument, or binds every name of the contract and yields the ledger that
  its arguments describe, with no token in it. Run again, it reverts.
\<close>

section \<open>The first ledger\<close>

definition initial_ledger :: "(string \<Rightarrow> uref) \<Rightarrow> account_hash \<Rightarrow> init_args \<Rightarrow> ledger" where
  "initial_ledger urefs installer a =
     \<lparr>l_urefs = urefs, l_installer = installer,
      l_collection_name = a_collection_name a, l_collection_symbol = a_collection_symbol a,
      l_total_token_supply = a_total_token_supply a, l_ownership_mode = a_ownership_mode a,
      l_nft_kind = a_nft_kind a, l_json_schema = a_json_schema a,
      l_minting_mode = a_minting_mode a, l_holder_mode = a_holder_mode a,
      l_whitelist_mode = a_whitelist_mode a, l_contract_whitelist = a_contract_whitelist a,
      l_account_whitelist = a_account_whitelist a, l_receipt_name = a_receipt_name a,
      l_metadata_kind = a_nft_metadata_kind a, l_identifier_mode = a_identifier_mode a,
      l_metadata_mutability = a_metadata_mutability a, l_allow_minting = a_allow_minting a,
      l_number_of_minted_tokens = 0, l_token_owners = (\<lambda>_. None), l_token_issuers = (\<lambda>_. None),
      l_owned_tokens = (\<lambda>_. None), l_operator = (\<lambda>_. None), l_burnt_tokens = (\<lambda>_. False),
      l_token_counts = (\<lambda>_. None), l_metadata = (\<lambda>_ _. None)\<rparr>"

text \<open>
  The state \<open>init\<close> finds: the session that installs the contract has put the installer's key, no
  other name of the contract is bound, and the host has a URef left for each of them.
\<close>

definition fresh :: "'h casper \<Rightarrow> account_hash \<Rightarrow> 'h \<Rightarrow> bool" where
  "fresh H installer h \<longleftrightarrow>
     casper_get_key H INSTALLER h = Inr (to_bytes (c_key H) (Key_Account installer))
     \<and> (\<forall>n \<in> insert METADATA_SCHEMA (set contract_names).
          casper_get_key H n h = Inl Api_MissingKey)
     \<and> length contract_names \<le> spare H h"

section \<open>Binding names one by one\<close>

text \<open>The values in \<open>vs\<close> and the dictionaries in \<open>ds\<close> are bound, nothing else has changed.\<close>

definition bound ::
  "'h casper \<Rightarrow> 'h \<Rightarrow> (string \<times> bytes) list \<Rightarrow> string list \<Rightarrow> (string \<Rightarrow> uref) \<Rightarrow> 'h \<Rightarrow> bool" where
  "bound H h0 vs ds us h \<longleftrightarrow>
     inj_on us (fst ` set vs \<union> set ds)
     \<and> (\<forall>n \<in> fst ` set vs \<union> set ds.
          casper_get_key H n h = Inr (to_bytes (c_key H) (Key_URef (us n))) \<and> live H (us n) h)
     \<and> (\<forall>n. n \<notin> fst ` set vs \<union> set ds \<longrightarrow> casper_get_key H n h = casper_get_key H n h0)
     \<and> (\<forall>(n, bs) \<in> set vs. uref_bytes H (us n) h = Inr bs)
     \<and> (\<forall>n \<in> set ds. has_items H (us n) (\<lambda>_. None) h)
     \<and> spare H h0 \<le> spare H h + length vs + length ds"

lemma bound_start: "bound H h [] [] us h"
  by (simp add: bound_def)

definition put_new_bytes :: "'h casper \<Rightarrow> string \<times> bytes \<Rightarrow> ('h, unit) contract" where
  "put_new_bytes H = (\<lambda>(name, bs) h.
     case storage_new_uref H bs h of (u, h') \<Rightarrow> Inr ((), runtime_put_key H name (Key_URef u) h'))"

lemma put_new_uref_bytes: "put_new_uref H name c v = put_new_bytes H (name, to_bytes c v)"
  by (rule ext) (simp add: put_new_uref_def put_new_bytes_def)

lemma create_named_keys_for:
  "create_named_keys H a =
     for_c (put_new_bytes H) (zip value_names (value_bytes H (initial_ledger us installer a)))"
  by (rule ext) (simp add: create_named_keys_def put_new_uref_bytes value_names_def value_bytes_def
      initial_ledger_def bind_c_def split: sum.split prod.split)

lemma create_dictionaries_for:
  "create_dictionaries H = for_c (new_dictionary_c H) dictionary_names"
  by (rule ext) (simp add: create_dictionaries_def dictionary_names_def bind_c_def
      split: sum.split prod.split)

text \<open>An allocation uses up one URef at most.\<close>

lemma spare_allocate:
  assumes "\<And>v. uref_bytes H v h' = (if v = u then Inr bs else uref_bytes H v h)"
  shows "spare H h \<le> spare H h' + 1"
proof -
  have "{v. \<not> live H v h} \<subseteq> insert u {v. \<not> live H v h'}" by (auto simp: live_def assms)
  then have "card {v. \<not> live H v h} \<le> card (insert u {v. \<not> live H v h'})"
    by (rule card_mono [OF finite_urefs])
  also have "\<dots> \<le> Suc (card {v. \<not> live H v h'})" by (rule card_insert_le_m1) simp_all
  finally show ?thesis by (simp add: spare_def)
qed

context casper_host
begin

lemma bound_put_new_bytes:
  assumes "bound H h0 vs [] us h" and "n \<notin> fst ` set vs" and "length vs < spare H h0"
  shows "\<exists>u h'. put_new_bytes H (n, bs) h = Inr ((), h') \<and>
    bound H h0 (vs @ [(n, bs)]) [] (us(n := u)) h'"
proof -
  obtain u h1 where new: "storage_new_uref H bs h = (u, h1)" by fastforce
  have fresh: "us m \<noteq> u" if "m \<in> fst ` set vs" for m
    using that assms(1,3) fresh_new_uref [OF new] by (auto simp: bound_def)
  note keys = get_key_put_key get_key_new_uref [OF new]
  note bytes = bytes_put_key bytes_new_uref [OF new]
  have "bound H h0 (vs @ [(n, bs)]) [] (us(n := u)) (runtime_put_key H n (Key_URef u) h1)"
    unfolding bound_def
  proof (intro conjI)
    show "inj_on (us(n := u)) (fst ` set (vs @ [(n, bs)]) \<union> set [])"
      using assms fresh by (auto simp: bound_def inj_on_def)
    show "\<forall>m \<in> fst ` set (vs @ [(n, bs)]) \<union> set [].
        casper_get_key H m (runtime_put_key H n (Key_URef u) h1)
          = Inr (to_bytes (c_key H) (Key_URef ((us(n := u)) m)))
        \<and> live H ((us(n := u)) m) (runtime_put_key H n (Key_URef u) h1)"
      using assms fresh by (simp add: bound_def keys bytes live_def ball_Un)
    show "\<forall>m. m \<notin> fst ` set (vs @ [(n, bs)]) \<union> set [] \<longrightarrow>
        casper_get_key H m (runtime_put_key H n (Key_URef u) h1) = casper_get_key H m h0"
      using assms by (simp add: bound_def keys)
    show "\<forall>(m, bs') \<in> set (vs @ [(n, bs)]).
        uref_bytes H ((us(n := u)) m) (runtime_put_key H n (Key_URef u) h1) = Inr bs'"
    proof safe
      fix m bs' assume m: "(m, bs') \<in> set (vs @ [(n, bs)])"
      show "uref_bytes H ((us(n := u)) m) (runtime_put_key H n (Key_URef u) h1) = Inr bs'"
      proof (cases "(m, bs') \<in> set vs")
        case True
        then have "m \<in> fst ` set vs" by force
        with True assms fresh [OF this] show ?thesis by (auto simp: bound_def bytes)
      next
        case False
        with m show ?thesis by (simp add: bytes)
      qed
    qed
    have "spare H h \<le> spare H (runtime_put_key H n (Key_URef u) h1) + 1"
      by (rule spare_allocate) (rule trans [OF bytes_put_key bytes_new_uref [OF new]])
    then show "spare H h0 \<le> spare H (runtime_put_key H n (Key_URef u) h1)
        + length (vs @ [(n, bs)]) + length []"
      using assms(1) by (simp add: bound_def)
  qed simp
  then show ?thesis by (auto simp: put_new_bytes_def new)
qed

lemma bound_put_all:
  "bound H h0 vs [] us h \<Longrightarrow> distinct (map fst (vs @ ws)) \<Longrightarrow>
   length (vs @ ws) \<le> spare H h0 \<Longrightarrow>
   \<exists>us' h'. for_c (put_new_bytes H) ws h = Inr ((), h') \<and> bound H h0 (vs @ ws) [] us' h'"
proof (induction ws arbitrary: vs us h)
  case Nil
  then show ?case by auto
next
  case (Cons w ws)
  obtain n bs where w: "w = (n, bs)" by fastforce
  with Cons.prems(2,3) have "n \<notin> fst ` set vs" and "length vs < spare H h0" by auto
  from bound_put_new_bytes [OF Cons.prems(1) this, of bs] obtain u h1
    where "put_new_bytes H w h = Inr ((), h1)"
      and "bound H h0 (vs @ [w]) [] (us(n := u)) h1" by (auto simp: w)
  with Cons.IH [of "vs @ [w]"] Cons.prems(2,3) show ?case by (auto simp: bind_c_Inr)
qed

lemma bound_new_dictionary:
  assumes "bound H h0 vs ds us h" and "n \<notin> fst ` set vs \<union> set ds"
    and "casper_get_key H n h0 = Inl Api_MissingKey" and "length vs + length ds < spare H h0"
  shows "\<exists>u h'. new_dictionary_c H n h = Inr ((), h') \<and> bound H h0 vs (ds @ [n]) (us(n := u)) h'"
proof -
  have "casper_get_key H n h = Inl Api_MissingKey" using assms by (simp add: bound_def)
  then obtain u h1 where new: "storage_new_dictionary H n h = Inr (u, h1)"
    using new_dictionary_succeeds by blast
  have fresh: "us m \<noteq> u" if "m \<in> fst ` set vs \<union> set ds" for m
    using that assms(1,4) fresh_new_dictionary [OF new] by (auto simp: bound_def)
  have items: "has_items H (us m) (\<lambda>_. None) h1" if "m \<in> set ds" for m
    using that assms(1) item_new_dictionary [OF new, of "us m"] by (auto simp: bound_def has_items_def)
  have "bound H h0 vs (ds @ [n]) (us(n := u)) h1"
    unfolding bound_def
  proof (intro conjI)
    show "inj_on (us(n := u)) (fst ` set vs \<union> set (ds @ [n]))"
      using assms fresh by (auto simp: bound_def inj_on_def)
    show "\<forall>m \<in> fst ` set vs \<union> set (ds @ [n]).
        casper_get_key H m h1 = Inr (to_bytes (c_key H) (Key_URef ((us(n := u)) m)))
        \<and> live H ((us(n := u)) m) h1"
      using assms fresh by (simp add: bound_def get_key_new_dictionary [OF new]
          bytes_new_dictionary [OF new] live_def ball_Un)
    show "\<forall>m. m \<notin> fst ` set vs \<union> set (ds @ [n]) \<longrightarrow>
        casper_get_key H m h1 = casper_get_key H m h0"
      using assms by (simp add: bound_def get_key_new_dictionary [OF new])
    show "\<forall>(m, bs) \<in> set vs. uref_bytes H ((us(n := u)) m) h1 = Inr bs"
    proof safe
      fix m bs assume m: "(m, bs) \<in> set vs"
      then have "m \<in> fst ` set vs" by force
      with m assms fresh [of m] show "uref_bytes H ((us(n := u)) m) h1 = Inr bs"
        by (auto simp: bound_def bytes_new_dictionary [OF new])
    qed
    show "\<forall>m \<in> set (ds @ [n]). has_items H ((us(n := u)) m) (\<lambda>_. None) h1"
      using assms(2) items item_new_dictionary [OF new, of u] by (auto simp: has_items_def)
    have "spare H h \<le> spare H h1 + 1"
      by (rule spare_allocate) (rule bytes_new_dictionary [OF new])
    then show "spare H h0 \<le> spare H h1 + length vs + length (ds @ [n])"
      using assms(1) by (simp add: bound_def)
  qed
  then show ?thesis by (auto simp: new_dictionary_c_def new)
qed

lemma bound_new_dictionaries:
  "bound H h0 vs ds us h \<Longrightarrow> distinct (map fst vs @ ds @ ns) \<Longrightarrow>
   \<forall>n \<in> set ns. casper_get_key H n h0 = Inl Api_MissingKey \<Longrightarrow>
   length vs + length (ds @ ns) \<le> spare H h0 \<Longrightarrow>
   \<exists>us' h'. for_c (new_dictionary_c H) ns h = Inr ((), h') \<and> bound H h0 vs (ds @ ns) us' h'"
proof (induction ns arbitrary: ds us h)
  case Nil
  then show ?case by auto
next
  case (Cons n ns)
  then have "n \<notin> fst ` set vs \<union> set ds" and "casper_get_key H n h0 = Inl Api_MissingKey"
    and "length vs + length ds < spare H h0" by auto
  from bound_new_dictionary [OF Cons.prems(1) this] obtain u h1
    where "new_dictionary_c H n h = Inr ((), h1)" and "bound H h0 vs (ds @ [n]) (us(n := u)) h1"
    by auto
  with Cons.IH [of "ds @ [n]"] Cons.prems(2-4) show ?case by (auto simp: bind_c_Inr)
qed

section \<open>Initialisation\<close>

lemma bound_represents:
  assumes "fresh H installer h0"
    and "bound H h0 (zip value_names (value_bytes H (initial_ledger us0 installer a)))
      dictionary_names us h"
  shows "represents H (initial_ledger us installer a) h"
proof -
  have vb: "value_bytes H (initial_ledger us installer a) = value_bytes H (initial_ledger us0 installer a)"
    by (simp add: value_bytes_def initial_ledger_def)
  have len: "length value_names = length (value_bytes H (initial_ledger us0 installer a))"
    by (simp add: value_names_def value_bytes_def)
  have names: "fst ` set (zip value_names (value_bytes H (initial_ledger us0 installer a)))
      \<union> set dictionary_names = set contract_names"
    using len by (simp add: contract_names_def flip: set_map)
  have urefs: "l_urefs (initial_ledger us installer a) = us" by (simp add: initial_ledger_def)
  have items: "list_all2 (\<lambda>n m. has_items H (us n) m h) dictionary_names
      (dictionary_items H (initial_ledger us installer a))"
    using assms(2)
    by (simp add: bound_def dictionary_names_def dictionary_items_def initial_ledger_def)
  have vals: "list_all2 (\<lambda>n bs. uref_bytes H (us n) h = Inr bs) value_names
      (value_bytes H (initial_ledger us installer a))"
    using assms(2) len unfolding bound_def vb by (fastforce simp: list_all2_iff)
  show ?thesis
    using assms reserved_names items vals
    unfolding represents_def urefs bound_def names fresh_def
    by (auto simp: initial_ledger_def)
qed

end

text \<open>A computation that leaves the state alone.\<close>

definition stateless :: "('s, 'e, 'a) computation \<Rightarrow> bool" where
  "stateless m \<longleftrightarrow> (\<forall>s a s'. m s = Inr (a, s') \<longrightarrow> s' = s)"

lemma statelessD: "stateless m \<Longrightarrow> m s = Inr (a, s') \<Longrightarrow> s' = s"
  by (simp add: stateless_def)

lemma stateless_bind: "stateless m \<Longrightarrow> (\<And>a. stateless (f a)) \<Longrightarrow> stateless (bind_c m f)"
  unfolding stateless_def by (metis bind_c_InrE)

lemma stateless_simps [simp]:
  "stateless (return_c a)" "stateless (revert_if b e)" "stateless (unwrap_or_revert r)"
  by (simp_all add: stateless_def unwrap_or_revert_def split: sum.split)

lemma stateless_required_arg [simp]: "stateless (required_arg c i name missing invalid)"
  by (subst required_arg_pure) (simp add: stateless_def result_c_def split: sum.split)

lemma stateless_mode_arg [simp]: "stateless (mode_arg H f i name missing invalid)"
  unfolding mode_arg_def by (rule stateless_bind) simp_all

lemma stateless_read_init_args: "stateless (read_init_args H i)"
  unfolding read_init_args_def by (intro stateless_bind) simp_all

lemma read_init_args_state: "read_init_args H i h = Inr (a, h') \<Longrightarrow> h' = h"
  by (rule statelessD [OF stateless_read_init_args])

context casper_host
begin

lemma init_refines:
  assumes "fresh H installer h"
  shows "read_init_args H i h = Inl e \<Longrightarrow> init H i h = Inl e"
    and "read_init_args H i h = Inr (a, h1) \<Longrightarrow>
      \<exists>us. yields H (init H i) h Ret_Unit (initial_ledger us installer a)"
proof -
  have missing: "\<forall>n \<in> set contract_names. casper_get_key H n h = Inl Api_MissingKey"
    using assms by (simp add: fresh_def)
  then have new: "\<not> named_uref_exists H COLLECTION_NAME h"
    by (simp add: named_uref_exists_def contract_names_def value_names_def)
  then show "read_init_args H i h = Inl e \<Longrightarrow> init H i h = Inl e"
    by (simp add: init_def bind_c_Inl)
  assume args: "read_init_args H i h = Inr (a, h1)"
  let ?vs = "zip value_names (value_bytes H (initial_ledger undefined installer a))"
  have len: "length value_names = length (value_bytes H (initial_ledger undefined installer a))"
    by (simp add: value_names_def value_bytes_def)
  have names: "map fst ?vs = value_names" using len by simp
  have room: "length ?vs + length dictionary_names \<le> spare H h"
    using assms len by (simp add: fresh_def contract_names_def)
  obtain us1 h2 where "create_named_keys H a h = Inr ((), h2)" and bound: "bound H h ?vs [] us1 h2"
    using bound_put_all [OF bound_start, of ?vs h] distinct_value_names room
    by (auto simp: names create_named_keys_for [of H a undefined installer])
  moreover have "distinct (map fst ?vs @ [] @ dictionary_names)"
    using distinct_contract_names by (simp add: names contract_names_def)
  with bound_new_dictionaries [OF bound this] missing room obtain us2 h3
    where "create_dictionaries H h2 = Inr ((), h3)" and "bound H h ?vs dictionary_names us2 h3"
    by (auto simp: create_dictionaries_for contract_names_def)
  moreover from this(2) have "represents H (initial_ledger us2 installer a) h3"
    by (rule bound_represents [OF assms])
  ultimately show "\<exists>us. yields H (init H i) h Ret_Unit (initial_ledger us installer a)"
    using new args read_init_args_state [OF args] by (auto simp: yields_def init_def bind_c_def)
qed

lemma init_twice:
  "represents H L h \<Longrightarrow> init H i h = Inl (User ContractAlreadyInitialized)"
  using represents_uref(1) [of L h COLLECTION_NAME]
  by (simp add: init_def named_uref_exists_def contract_names_def value_names_def)

end

end
