(* ===== verification/Invariant.thy ===== *)
theory Invariant
  imports Initialisation
begin

text \<open>
  The invariant of the ledger and its preservation by every entry point. Owners, lists of tokens,
  balances and the counter are kept in four places; the invariant says how they agree. A contract
  that numbers its tokens keeps it whatever the calls are. A contract whose tokens are named by
  their callers keeps it as long as no mint uses a name that has been used.
\<close>

section \<open>The invariant\<close>

text \<open>Whose tokens are listed under an item.\<close>

definition owned_by_item :: "'h casper \<Rightarrow> ledger \<Rightarrow> string \<Rightarrow> token_identifier set" where
  "owned_by_item H L item =
     {t. of_mode (l_identifier_mode L) t \<and>
        (\<exists>k. l_token_owners L (get_dictionary_item_key t) = Some k \<and> owner_item H k = Inr item)}"

text \<open>The tokens of a list that have not been burnt.\<close>

definition unburnt :: "ledger \<Rightarrow> token_identifier list \<Rightarrow> token_identifier list" where
  "unburnt L ts = filter (\<lambda>t. \<not> l_burnt_tokens L (get_dictionary_item_key t)) ts"

text \<open>The counter counts the tokens that have an owner, and the supply bounds it.\<close>

definition counted :: "ledger \<Rightarrow> bool" where
  "counted L \<longleftrightarrow>
     l_number_of_minted_tokens L \<le> l_total_token_supply L
     \<and> finite (dom (l_token_owners L))
     \<and> card (dom (l_token_owners L)) = unat (l_number_of_minted_tokens L)"

text \<open>The list of an item has each token of its owners, accounts or contracts, exactly once.\<close>

definition listed :: "'h casper \<Rightarrow> ledger \<Rightarrow> bool" where
  "listed H L \<longleftrightarrow>
     (\<forall>n k. l_token_owners L n = Some k \<longrightarrow> (\<exists>item. owner_item H k = Inr item))
     \<and> (\<forall>item. distinct (tokens_of L item) \<and> set (tokens_of L item) = owned_by_item H L item)"

text \<open>The balance of an item is the number of its tokens that are not burnt.\<close>

definition balanced :: "ledger \<Rightarrow> bool" where
  "balanced L \<longleftrightarrow> (\<forall>item. unat (balance L item) = length (unburnt L (tokens_of L item)))"

text \<open>Issuers, metadata, burns and operators belong to tokens.\<close>

definition attached :: "ledger \<Rightarrow> bool" where
  "attached L \<longleftrightarrow>
     dom (l_token_issuers L) = dom (l_token_owners L)
     \<and> dom (l_metadata L (l_metadata_kind L)) = dom (l_token_owners L)
     \<and> (\<forall>n. l_burnt_tokens L n \<longrightarrow> n \<in> dom (l_token_owners L))
     \<and> dom (l_operator L) \<subseteq> dom (l_token_owners L)"

definition consistent :: "'h casper \<Rightarrow> ledger \<Rightarrow> bool" where
  "consistent H L \<longleftrightarrow> counted L \<and> listed H L \<and> balanced L \<and> attached L"

lemmas consistent_defs = consistent_def counted_def listed_def balanced_def attached_def
  owned_by_item_def unburnt_def

text \<open>In a contract that numbers its tokens, the tokens are the numbers below the counter.\<close>

definition numbered :: "ledger \<Rightarrow> bool" where
  "numbered L \<longleftrightarrow>
     l_identifier_mode L = Ordinal
     \<and> dom (l_token_owners L) = u64_to_string ` {x. x < l_number_of_minted_tokens L}"

lemma get_dictionary_item_key_inj:
  "of_mode m t \<Longrightarrow> of_mode m t' \<Longrightarrow> get_dictionary_item_key t = get_dictionary_item_key t' \<longleftrightarrow> t = t'"
  by (cases m) auto

section \<open>The first ledger\<close>

lemma consistent_initial: "consistent H (initial_ledger us installer a)"
  by (simp add: consistent_defs initial_ledger_def tokens_of_def balance_def)

lemma numbered_initial: "a_identifier_mode a = Ordinal \<Longrightarrow> numbered (initial_ledger us installer a)"
  by (simp add: numbered_def initial_ledger_def)

section \<open>Inversion\<close>

text \<open>Inversion of the steps of a call that has returned.\<close>

lemma bind_result_InrE:
  assumes "bind_c (result_c r) f s = Inr x"
  obtains a where "r = Inr a" and "f a s = Inr x"
  using assms by (cases r) simp_all

lemma bind_required_arg_InrE:
  assumes "bind_c (required_arg c i name missing invalid) f s = Inr x"
  obtains a where "f a s = Inr x"
  using assms by (subst (asm) required_arg_pure) (auto elim: bind_result_InrE)

lemma bind_optional_arg_InrE:
  assumes "bind_c (get_optional_named_arg_with_user_errors c i name invalid) f s = Inr x"
  obtains a where "f a s = Inr x"
  using assms by (subst (asm) optional_arg_pure) (auto elim: bind_result_InrE)

lemma bind_token_identifier_arg_InrE:
  assumes "bind_c (get_token_identifier_from_runtime_args H i m) f s = Inr x"
  obtains t where "of_mode m t" and "f t s = Inr x"
proof -
  from assms obtain t s' where t: "get_token_identifier_from_runtime_args H i m s = Inr (t, s')"
    and rest: "f t s' = Inr x" by (rule bind_c_InrE)
  from t have "s' = s"
    by (subst (asm) token_identifier_arg_pure) (auto simp: result_c_def split: sum.splits)
  with rest token_identifier_arg_of_mode [OF t] that show thesis by simp
qed

lemma bind_revert_if_InrE:
  assumes "bind_c (revert_if b e) f s = Inr x"
  obtains "\<not> b" and "f () s = Inr x"
  using assms by (simp split: if_splits)

lemma bind_unwrap_InrE:
  assumes "bind_c (unwrap_or_revert_with e r) f s = Inr x"
  obtains a where "r = Some a" and "f a s = Inr x"
  using assms by (cases r) simp_all

lemmas bind_InrEs = bind_result_InrE bind_required_arg_InrE bind_optional_arg_InrE
  bind_token_identifier_arg_InrE bind_revert_if_InrE bind_unwrap_InrE

text \<open>What is known of the ledger after each entry point that has returned.\<close>

lemma ledger_mintE:
  assumes "ledger_mint H i L = Inr (r, L')"
  obtains owner item t md s where "l_allow_minting L"
    and "l_number_of_minted_tokens L < l_total_token_supply L"
    and "ledger_check_minter i L = Inr ()" and "ledger_mint_owner i L = Inr owner"
    and "valid_metadata H (l_metadata_kind L) (l_json_schema L) s = Inr md"
    and "ledger_new_identifier i L = Inr t" and "owner_item H owner = Inr item"
    and "t \<notin> set (tokens_of L item)" and "L' = add_token t owner item md L"
    and "r = Ret_Mint_Receipt (l_receipt_name L) (key_dictionary H (l_urefs L OWNED_TOKENS) item)
      (get_dictionary_item_key t)"
    and "fits H (get_dictionary_item_key t)"
  using assms unfolding ledger_mint_def
  apply (simp split: if_splits)
  apply (elim bind_InrEs)
  subgoal for u owner s md t item by (rule that [of owner s md t item]) auto
  done

lemma ledger_burnE:
  assumes "ledger_burn H i L = Inr (r, L')"
  obtains t owner item where "of_mode (l_identifier_mode L) t" and "get_caller i = l_installer L"
    and "verified_caller i (l_holder_mode L) = Inr owner"
    and "l_token_owners L (get_dictionary_item_key t) = Some owner"
    and "\<not> l_burnt_tokens L (get_dictionary_item_key t)" and "owner_item H owner = Inr item"
    and "balance L item \<noteq> 0" and "r = Ret_Unit"
    and "L' = L\<lparr>l_burnt_tokens := (l_burnt_tokens L)(get_dictionary_item_key t := True),
      l_token_counts := (l_token_counts L)(item \<mapsto> balance L item - 1)\<rparr>"
  using assms unfolding ledger_burn_def
  by (auto simp: Let_def elim!: bind_InrEs split: if_splits)

lemma ledger_approveE:
  assumes "ledger_approve H i L = Inr (r, L')"
  obtains t caller operator where "of_mode (l_identifier_mode L) t"
    and "l_ownership_mode L = Transferable"
    and "verified_caller i (l_holder_mode L) = Inr caller"
    and "l_token_owners L (get_dictionary_item_key t) = Some caller"
    and "\<not> l_burnt_tokens L (get_dictionary_item_key t)" and "r = Ret_Unit"
    and "L' = L\<lparr>l_operator := (l_operator L)(get_dictionary_item_key t \<mapsto> Some operator)\<rparr>"
    and "caller \<noteq> operator"
  using assms unfolding ledger_approve_def Let_def
  apply (simp split: if_splits)
  apply (elim bind_InrEs, clarsimp)
  done

lemma ledger_set_approval_for_allE:
  assumes "ledger_set_approval_for_all H i L = Inr (r, L')"
  obtains caller item v where "l_ownership_mode L = Transferable"
    and "verified_caller i (l_holder_mode L) = Inr caller" and "owner_item H caller = Inr item"
    and "r = Ret_Unit" and "L' = approve_tokens (tokens_of L item) v L"
  using assms unfolding ledger_set_approval_for_all_def
  by (auto simp: Let_def elim!: bind_InrEs split: if_splits)

lemma ledger_transferE:
  assumes "ledger_transfer H i L = Inr (r, L')"
  obtains t owner caller target account from_item target_item
  where "of_mode (l_identifier_mode L) t" and "l_ownership_mode L = Transferable"
    and "\<not> l_burnt_tokens L (get_dictionary_item_key t)"
    and "l_token_owners L (get_dictionary_item_key t) = Some owner"
    and "verified_caller i (l_holder_mode L) = Inr caller" and "may_transfer L caller t owner"
    and "target_account target = Inr account" and "account \<in> set (l_account_whitelist L)"
    and "owner_item H owner = Inr from_item" and "owner_item H target = Inr target_item"
    and "ledger_move_token t target from_item target_item L = Inr ((), L')"
    and "r = Ret_Transfer_Receipt (l_receipt_name L')
      (key_dictionary H (l_urefs L' OWNED_TOKENS) target_item)"
  using assms unfolding ledger_transfer_def Let_def
  apply (simp split: if_splits)
  apply (elim bind_InrEs bind_c_InrE)
  apply (erule (1) that [rotated 3], simp_all)
  apply (drule sym, assumption)
  done

lemma ledger_move_tokenE:
  assumes "ledger_move_token t target from_item target_item L = Inr ((), L')"
  obtains "t \<in> set (tokens_of L from_item)" and "balance L from_item \<noteq> 0"
    and "t \<notin> set (if target_item = from_item then remove1 t (tokens_of L from_item)
      else tokens_of L target_item)"
    and "L' = move_token t target from_item target_item L"
  using assms unfolding ledger_move_token_def by (auto split: if_splits)

lemma ledger_set_token_metadataE:
  assumes "ledger_set_token_metadata H i L = Inr (r, L')"
  obtains t owner s md where "of_mode (l_identifier_mode L) t" and "get_caller i = l_installer L"
    and "l_metadata_mutability L \<noteq> Immutable"
    and "l_token_owners L (get_dictionary_item_key t) = Some owner"
    and "verified_caller i (l_holder_mode L) = Inr owner"
    and "valid_metadata H (l_metadata_kind L) (l_json_schema L) s = Inr md" and "r = Ret_Unit"
    and "L' = L\<lparr>l_metadata := (l_metadata L)(l_metadata_kind L :=
      (l_metadata L (l_metadata_kind L))(get_dictionary_item_key t \<mapsto> md))\<rparr>"
  using assms unfolding ledger_set_token_metadata_def
  by (auto simp: Let_def elim!: bind_InrEs split: if_splits)

lemma ledger_set_variablesE:
  assumes "ledger_set_variables H i L = Inr (r, L')"
  obtains b w where "get_caller i = l_installer L" and "r = Ret_Unit"
    and "l_whitelist_mode L = Locked \<Longrightarrow> w = l_contract_whitelist L"
    and "L' = L\<lparr>l_allow_minting := b, l_contract_whitelist := w\<rparr>"
  using assms unfolding ledger_set_variables_def
  apply (simp split: if_splits)
  apply (elim bind_InrEs)
  subgoal for allow whitelist
    by (rule that [of "case whitelist of None \<Rightarrow> l_contract_whitelist L | Some w \<Rightarrow> w"
        "case allow of None \<Rightarrow> l_allow_minting L | Some b \<Rightarrow> b"]) (auto split: option.splits)
  done

lemma ledger_account_whitelistE:
  assumes "ledger_add_to_account_whitelist H i L = Inr (r, L')
    \<or> ledger_remove_from_account_whitelist H i L = Inr (r, L')"
  obtains w where "get_caller i = l_installer L" and "r = Ret_Unit"
    and "L' = L\<lparr>l_account_whitelist := w\<rparr>"
  using assms unfolding ledger_add_to_account_whitelist_def ledger_remove_from_account_whitelist_def
  by (auto simp: Let_def elim!: bind_InrEs split: if_splits)

section \<open>Minting keeps the invariant\<close>

lemma item_injective:
  "of_mode m t \<Longrightarrow> of_mode m t' \<Longrightarrow> get_dictionary_item_key t' = get_dictionary_item_key t \<Longrightarrow> t' = t"
  by (simp add: get_dictionary_item_key_inj)

text \<open>Fewer tokens than the supply means that no balance is at the end of its range.\<close>

lemma balance_below:
  assumes "consistent H L" and "A \<subseteq> dom (l_token_owners L)"
    and "get_dictionary_item_key ` set (tokens_of L item) \<subseteq> A"
  shows "unat (balance L item) \<le> card A"
proof -
  let ?ts = "unburnt L (tokens_of L item)"
  have "inj_on get_dictionary_item_key (set ?ts)"
    using assms(1) item_injective [of "l_identifier_mode L"]
    by (auto simp: inj_on_def consistent_defs)
  moreover have "get_dictionary_item_key ` set ?ts \<subseteq> A"
    using assms(3) by (auto simp: unburnt_def)
  moreover have "finite A"
    using assms(1,2) finite_subset by (auto simp: consistent_def counted_def)
  ultimately have "card (set ?ts) \<le> card A" by (rule card_inj_on_le)
  moreover have "distinct ?ts" using assms(1) by (simp add: consistent_defs)
  then have "card (set ?ts) = length ?ts" by (rule distinct_card)
  ultimately show ?thesis using assms(1) by (simp add: consistent_def balanced_def)
qed

lemma tokens_have_owners:
  "consistent H L \<Longrightarrow> get_dictionary_item_key ` set (tokens_of L item) \<subseteq> dom (l_token_owners L)"
  by (auto simp: consistent_defs)

lemma balance_below_counter:
  assumes "consistent H L"
  shows "unat (balance L item) \<le> unat (l_number_of_minted_tokens L)"
  using balance_below [OF assms subset_refl tokens_have_owners [OF assms]] assms
  by (simp add: consistent_def counted_def)

text \<open>The balance of an item that does not list some token.\<close>

lemma balance_below_other:
  assumes "consistent H L" and "of_mode (l_identifier_mode L) t"
    and "l_token_owners L (get_dictionary_item_key t) \<noteq> None" and "t \<notin> set (tokens_of L item)"
  shows "balance L item < l_number_of_minted_tokens L"
proof -
  let ?n = "get_dictionary_item_key t"
  have "of_mode (l_identifier_mode L) t'" if "t' \<in> set (tokens_of L item)" for t'
    using that assms(1) by (simp add: consistent_def listed_def owned_by_item_def)
  then have "?n \<notin> get_dictionary_item_key ` set (tokens_of L item)"
    using assms(4) item_injective [OF assms(2)] by fastforce
  with tokens_have_owners [OF assms(1), of item]
  have "get_dictionary_item_key ` set (tokens_of L item) \<subseteq> dom (l_token_owners L) - {?n}"
    unfolding subset_Diff_insert by (intro conjI) (simp only: Diff_empty not_False_eq_True)+
  then have "unat (balance L item) \<le> card (dom (l_token_owners L) - {?n})"
    by (rule balance_below [OF assms(1) Diff_subset])
  also have "\<dots> < card (dom (l_token_owners L))"
    using assms(1,3) by (intro card_Diff1_less) (auto simp: consistent_def counted_def)
  finally show ?thesis
    using assms(1) by (simp add: consistent_def counted_def word_less_nat_alt)
qed

lemma balance_Suc:
  assumes "consistent H L" and "l_number_of_minted_tokens L < l_total_token_supply L"
  shows "unat (balance L item + 1) = Suc (unat (balance L item))"
proof -
  have "balance L item < l_total_token_supply L"
    using balance_below_counter [OF assms(1), of item] assms(2)
    by (simp add: word_less_nat_alt)
  then show ?thesis by (rule unat_Suc_u64)
qed

lemma consistent_add_token:
  assumes inv: "consistent H L" and room: "l_number_of_minted_tokens L < l_total_token_supply L"
    and mode: "of_mode (l_identifier_mode L) t"
    and new: "l_token_owners L (get_dictionary_item_key t) = None"
    and item: "owner_item H owner = Inr item"
  shows "consistent H (add_token t owner item md L)"
proof -
  let ?n = "get_dictionary_item_key t" and ?L = "add_token t owner item md L"
  have Suc: "unat (l_number_of_minted_tokens L + 1) = Suc (unat (l_number_of_minted_tokens L))"
    by (rule unat_Suc_u64 [OF room])
  have fields [simp]: "l_token_owners ?L = (l_token_owners L)(?n \<mapsto> owner)"
    "l_identifier_mode ?L = l_identifier_mode L" "l_burnt_tokens ?L = l_burnt_tokens L"
    "l_metadata_kind ?L = l_metadata_kind L" "l_operator ?L = l_operator L"
    "l_total_token_supply ?L = l_total_token_supply L"
    "l_number_of_minted_tokens ?L = l_number_of_minted_tokens L + 1"
    "l_token_issuers ?L = (l_token_issuers L)(?n \<mapsto> owner)"
    "l_metadata ?L (l_metadata_kind L) = (l_metadata L (l_metadata_kind L))(?n \<mapsto> md)"
    by (simp_all add: add_token_def Let_def)
  have lists: "tokens_of ?L j = (if j = item then tokens_of L item @ [t] else tokens_of L j)"
    and balances: "balance ?L j = (if j = item then balance L item + 1 else balance L j)" for j
    by (simp_all add: add_token_def Let_def tokens_of_def balance_def)
  have "counted ?L"
    using inv room new Suc
    by (auto simp: counted_def consistent_def domIff word_le_nat_alt word_less_nat_alt)
  moreover have absent: "t \<notin> set (tokens_of L j)" for j
    using inv new by (auto simp: consistent_defs)
  have same: "of_mode (l_identifier_mode L) t' \<Longrightarrow> get_dictionary_item_key t' = ?n \<Longrightarrow> t' = t" for t'
    by (rule item_injective [OF mode])
  have "owned_by_item H ?L j = (if j = item then insert t (owned_by_item H L j) else owned_by_item H L j)" for j
    using new mode item same by (auto simp: owned_by_item_def)
  then have "listed H ?L"
    using inv absent item by (auto simp: listed_def consistent_def lists)
  moreover have "\<not> l_burnt_tokens L ?n"
    using inv new by (auto simp: consistent_def attached_def domIff)
  then have "balanced ?L"
    using inv balance_Suc [OF inv room] by (simp add: balanced_def consistent_def lists balances unburnt_def)
  moreover have "attached ?L"
    using inv by (auto simp: attached_def consistent_def)
  ultimately show ?thesis by (simp add: consistent_def)
qed

section \<open>Burning and moving keep the invariant\<close>

lemma length_filter_remove:
  "distinct ts \<Longrightarrow> t \<in> set ts \<Longrightarrow> P t \<Longrightarrow>
   Suc (length (filter (\<lambda>t'. P t' \<and> t' \<noteq> t) ts)) = length (filter P ts)"
  by (induction ts) (auto intro: arg_cong [where f = length] filter_cong)

lemma length_filter_remove1:
  "t \<in> set ts \<Longrightarrow> P t \<Longrightarrow> Suc (length (filter P (remove1 t ts))) = length (filter P ts)"
  by (induction ts) auto

lemma unat_minus_one: "w \<noteq> 0 \<Longrightarrow> unat (w - 1) = unat w - 1" for w :: u64
  by (simp add: unat_minus_one)

lemma consistent_burn:
  assumes inv: "consistent H L" and mode: "of_mode (l_identifier_mode L) t"
    and owner: "l_token_owners L (get_dictionary_item_key t) = Some owner"
    and unburnt: "\<not> l_burnt_tokens L (get_dictionary_item_key t)"
    and item: "owner_item H owner = Inr item" and pos: "balance L item \<noteq> 0"
  shows "consistent H (L\<lparr>l_burnt_tokens := (l_burnt_tokens L)(get_dictionary_item_key t := True),
      l_token_counts := (l_token_counts L)(item \<mapsto> balance L item - 1)\<rparr>)" (is "consistent H ?L")
proof -
  let ?n = "get_dictionary_item_key t"
  have fields [simp]: "tokens_of ?L j = tokens_of L j"
    "balance ?L j = (if j = item then balance L item - 1 else balance L j)" for j
    by (simp_all add: tokens_of_def balance_def)
  have member: "t \<in> set (tokens_of L j) \<longleftrightarrow> j = item" for j
    using inv mode owner item by (auto simp: consistent_defs)
  have key: "t' \<in> set (tokens_of L j) \<Longrightarrow> get_dictionary_item_key t' = ?n \<longleftrightarrow> t' = t" for t' j
    using inv item_injective [OF mode] by (auto simp: consistent_defs)
  have "unburnt ?L (tokens_of L j) = filter (\<lambda>t'. \<not> l_burnt_tokens L (get_dictionary_item_key t') \<and> t' \<noteq> t)
      (tokens_of L j)" for j
    unfolding unburnt_def using key by (auto intro: filter_cong)
  moreover have "filter (\<lambda>t'. \<not> l_burnt_tokens L (get_dictionary_item_key t') \<and> t' \<noteq> t) (tokens_of L j)
      = unburnt L (tokens_of L j)" if "j \<noteq> item" for j
    unfolding unburnt_def using member [of j] that by (auto intro: filter_cong)
  moreover have "Suc (length (filter (\<lambda>t'. \<not> l_burnt_tokens L (get_dictionary_item_key t') \<and> t' \<noteq> t)
      (tokens_of L item))) = length (unburnt L (tokens_of L item))"
    unfolding unburnt_def using member unburnt inv
    by (intro length_filter_remove) (auto simp: consistent_defs)
  moreover have "balanced L" using inv by (simp add: consistent_def)
  ultimately have "balanced ?L"
    using unat_minus_one [OF pos] by (auto simp: balanced_def)
  then show ?thesis using inv owner by (auto simp: consistent_def counted_def listed_def
      owned_by_item_def attached_def)
qed

lemma consistent_move_token:
  assumes inv: "consistent H L" and mode: "of_mode (l_identifier_mode L) t"
    and owner: "l_token_owners L (get_dictionary_item_key t) = Some owner"
    and unburnt: "\<not> l_burnt_tokens L (get_dictionary_item_key t)"
    and items: "owner_item H owner = Inr from_item" "owner_item H target = Inr target_item"
    and pos: "balance L from_item \<noteq> 0"
  shows "consistent H (move_token t target from_item target_item L)" (is "consistent H ?L")
proof -
  let ?n = "get_dictionary_item_key t"
  have fields [simp]: "l_token_owners ?L = (l_token_owners L)(?n \<mapsto> target)"
    "l_identifier_mode ?L = l_identifier_mode L" "l_burnt_tokens ?L = l_burnt_tokens L"
    "l_metadata_kind ?L = l_metadata_kind L" "l_operator ?L = (l_operator L)(?n \<mapsto> None)"
    "l_total_token_supply ?L = l_total_token_supply L"
    "l_number_of_minted_tokens ?L = l_number_of_minted_tokens L"
    "l_token_issuers ?L = l_token_issuers L" "l_metadata ?L = l_metadata L"
    by (simp_all add: move_token_def Let_def)
  have lists: "tokens_of ?L j =
      (if j = target_item then (if j = from_item then remove1 t (tokens_of L j) else tokens_of L j) @ [t]
       else if j = from_item then remove1 t (tokens_of L j) else tokens_of L j)"
    and balances: "balance ?L j =
      (if j = target_item then (if j = from_item then balance L j - 1 else balance L j) + 1
       else if j = from_item then balance L j - 1 else balance L j)" for j
    by (simp_all add: move_token_def Let_def tokens_of_def balance_def)
  have member: "t \<in> set (tokens_of L j) \<longleftrightarrow> j = from_item" for j
    using inv mode owner items by (auto simp: consistent_defs)
  have same: "of_mode (l_identifier_mode L) t' \<Longrightarrow> get_dictionary_item_key t' = ?n \<Longrightarrow> t' = t" for t'
    by (rule item_injective [OF mode])
  have "counted ?L"
    using inv owner by (auto simp: counted_def consistent_def insert_absorb domIff)
  moreover have "owned_by_item H ?L j =
      (if j = target_item then insert t (owned_by_item H L j) else owned_by_item H L j - {t})" for j
    using mode items same by (auto simp: owned_by_item_def)
  then have "listed H ?L"
    using inv items member by (auto simp: listed_def consistent_def lists)
  moreover have "unat (balance ?L j) = length (unburnt ?L (tokens_of ?L j))" for j
  proof -
    have bal: "unat (balance L j) = length (unburnt L (tokens_of L j))" for j
      using inv by (simp add: consistent_def balanced_def)
    have removed: "Suc (length (unburnt L (remove1 t (tokens_of L from_item))))
        = length (unburnt L (tokens_of L from_item))"
      using member unburnt unfolding unburnt_def by (intro length_filter_remove1) auto
    have "unat (balance L j + 1) = Suc (unat (balance L j))" if "j \<noteq> from_item"
      using unat_Suc_u64 [OF balance_below_other [OF inv mode]] owner member [of j] that by simp
    then show ?thesis
      using bal [of j] removed unburnt unat_minus_one [OF pos]
      by (auto simp: lists balances unburnt_def)
  qed
  then have "balanced ?L" by (simp add: balanced_def)
  moreover have "attached ?L"
    using inv owner by (auto simp: attached_def consistent_def)
  ultimately show ?thesis by (simp add: consistent_def)
qed

end
