(* ===== verification/Contract.thy ===== *)
theory Contract
  imports Invariant
begin

text \<open>
  The contract as a whole: its entry points under their names, a call of one of them as a
  transaction, which takes effect if the code returns and leaves the state alone if it reverts, and
  the ledgers and host states that calls can lead to.
\<close>

section \<open>Calls\<close>

datatype entry_point =
    EP_init
  | EP_set_variables
  | EP_mint
  | EP_burn
  | EP_transfer
  | EP_approve
  | EP_set_approval_for_all
  | EP_set_token_metadata
  | EP_add_to_account_whitelist
  | EP_remove_from_account_whitelist
  | EP_owner_of
  | EP_balance_of
  | EP_get_approved
  | EP_metadata

instantiation entry_point :: enum
begin

definition enum_entry_point :: "entry_point list" where
  "enum_entry_point = [EP_init, EP_set_variables, EP_mint, EP_burn, EP_transfer, EP_approve,
     EP_set_approval_for_all, EP_set_token_metadata, EP_add_to_account_whitelist,
     EP_remove_from_account_whitelist, EP_owner_of, EP_balance_of, EP_get_approved, EP_metadata]"

definition enum_all_entry_point :: "(entry_point \<Rightarrow> bool) \<Rightarrow> bool" where
  "enum_all_entry_point P \<longleftrightarrow> list_all P enum_class.enum"

definition enum_ex_entry_point :: "(entry_point \<Rightarrow> bool) \<Rightarrow> bool" where
  "enum_ex_entry_point P \<longleftrightarrow> list_ex P enum_class.enum"

instance
proof
  show *: "UNIV = set (enum_class.enum :: entry_point list)"
    by (auto simp: enum_entry_point_def intro: entry_point.exhaust)
  show "distinct (enum_class.enum :: entry_point list)" by (simp add: enum_entry_point_def)
  show "enum_class.enum_all P \<longleftrightarrow> Ball UNIV P" for P :: "entry_point \<Rightarrow> bool"
    unfolding enum_all_entry_point_def * by (simp add: list_all_iff)
  show "enum_class.enum_ex P \<longleftrightarrow> Bex UNIV P" for P :: "entry_point \<Rightarrow> bool"
    unfolding enum_ex_entry_point_def * by (simp add: list_ex_iff)
qed

end

definition call_entry ::
  "'h casper \<Rightarrow> entry_point \<Rightarrow> invocation \<Rightarrow> ('h, ret_value) contract" where
  "call_entry H e =
     (case e of
        EP_init \<Rightarrow> init H
      | EP_set_variables \<Rightarrow> set_variables H
      | EP_mint \<Rightarrow> mint H
      | EP_burn \<Rightarrow> burn H
      | EP_transfer \<Rightarrow> transfer H
      | EP_approve \<Rightarrow> approve H
      | EP_set_approval_for_all \<Rightarrow> set_approval_for_all H
      | EP_set_token_metadata \<Rightarrow> set_token_metadata H
      | EP_add_to_account_whitelist \<Rightarrow> add_to_account_whitelist H
      | EP_remove_from_account_whitelist \<Rightarrow> remove_from_account_whitelist H
      | EP_owner_of \<Rightarrow> owner_of H
      | EP_balance_of \<Rightarrow> balance_of H
      | EP_get_approved \<Rightarrow> get_approved H
      | EP_metadata \<Rightarrow> metadata H)"

definition ledger_call ::
  "'h casper \<Rightarrow> entry_point \<Rightarrow> invocation \<Rightarrow> (ledger, ret_value) contract" where
  "ledger_call H e i =
     (case e of
        EP_init \<Rightarrow> revert_c (User ContractAlreadyInitialized)
      | EP_set_variables \<Rightarrow> ledger_set_variables H i
      | EP_mint \<Rightarrow> ledger_mint H i
      | EP_burn \<Rightarrow> ledger_burn H i
      | EP_transfer \<Rightarrow> ledger_transfer H i
      | EP_approve \<Rightarrow> ledger_approve H i
      | EP_set_approval_for_all \<Rightarrow> ledger_set_approval_for_all H i
      | EP_set_token_metadata \<Rightarrow> ledger_set_token_metadata H i
      | EP_add_to_account_whitelist \<Rightarrow> ledger_add_to_account_whitelist H i
      | EP_remove_from_account_whitelist \<Rightarrow> ledger_remove_from_account_whitelist H i
      | EP_owner_of \<Rightarrow> ledger_owner_of H i
      | EP_balance_of \<Rightarrow> ledger_balance_of H i
      | EP_get_approved \<Rightarrow> ledger_get_approved H i
      | EP_metadata \<Rightarrow> ledger_metadata_query H i)"

text \<open>The state after a call: a call that reverts has no effect.\<close>

definition after_call :: "error + 'a \<times> 's \<Rightarrow> 's \<Rightarrow> 's" where
  "after_call r s = (case r of Inl _ \<Rightarrow> s | Inr (_, s') \<Rightarrow> s')"

fun run_calls ::
  "'h casper \<Rightarrow> (entry_point \<times> invocation) list \<Rightarrow> 'h \<Rightarrow> 'h" where
  "run_calls H [] h = h"
| "run_calls H ((e, i) # cs) h = run_calls H cs (after_call (call_entry H e i h) h)"

fun ledger_run_calls ::
  "'h casper \<Rightarrow> (entry_point \<times> invocation) list \<Rightarrow> ledger \<Rightarrow> ledger" where
  "ledger_run_calls H [] L = L"
| "ledger_run_calls H ((e, i) # cs) L = ledger_run_calls H cs (after_call (ledger_call H e i L) L)"

context casper_host
begin

lemma call_refines:
  assumes "represents H L h"
  shows "sim H (ledger_call H e i L) (call_entry H e i h)"
  using assms
  by (cases e) (simp_all add: ledger_call_def call_entry_def init_twice set_variables_refines
      mint_refines burn_refines transfer_refines approve_refines set_approval_for_all_refines
      set_token_metadata_refines add_to_account_whitelist_refines
      remove_from_account_whitelist_refines owner_of_refines balance_of_refines
      get_approved_refines metadata_refines)

lemma after_call_refines:
  assumes "represents H L h"
  shows "represents H (after_call (ledger_call H e i L) L) (after_call (call_entry H e i h) h)"
proof (cases "call_entry H e i h")
  case (Inl err)
  with call_refines [OF assms, of e i] have "ledger_call H e i L = Inl err" by (auto dest: sim_InlD)
  with Inl assms show ?thesis by (simp add: after_call_def)
next
  case (Inr x)
  with call_refines [OF assms, of e i] show ?thesis
    by (cases x) (auto simp: after_call_def dest: sim_InrD)
qed

lemma run_calls_refines:
  "represents H L h \<Longrightarrow> represents H (ledger_run_calls H cs L) (run_calls H cs h)"
proof (induction cs arbitrary: L h)
  case (Cons c cs)
  obtain e i where "c = (e, i)" by fastforce
  with Cons.IH [OF after_call_refines [OF Cons.prems]] show ?case by simp
qed simp

end

section \<open>What a call can do to a ledger\<close>

text \<open>The configuration, fixed by \<open>init\<close>.\<close>

definition same_configuration :: "ledger \<Rightarrow> ledger \<Rightarrow> bool" where
  "same_configuration L L' \<longleftrightarrow>
     l_urefs L' = l_urefs L \<and> l_installer L' = l_installer L
     \<and> l_collection_name L' = l_collection_name L \<and> l_collection_symbol L' = l_collection_symbol L
     \<and> l_total_token_supply L' = l_total_token_supply L
     \<and> l_ownership_mode L' = l_ownership_mode L \<and> l_nft_kind L' = l_nft_kind L
     \<and> l_json_schema L' = l_json_schema L \<and> l_minting_mode L' = l_minting_mode L
     \<and> l_holder_mode L' = l_holder_mode L \<and> l_whitelist_mode L' = l_whitelist_mode L
     \<and> l_receipt_name L' = l_receipt_name L \<and> l_metadata_kind L' = l_metadata_kind L
     \<and> l_identifier_mode L' = l_identifier_mode L
     \<and> l_metadata_mutability L' = l_metadata_mutability L"

text \<open>
  The effects that the entry points have on a ledger, without the permissions they ask for; what
  they store as metadata is valid.
\<close>

inductive effect :: "'h casper \<Rightarrow> ledger \<Rightarrow> ledger \<Rightarrow> bool" for H where
  nothing: "effect H L L"
| variables: "effect H L (L\<lparr>l_allow_minting := b, l_contract_whitelist := w\<rparr>)"
| whitelist: "effect H L (L\<lparr>l_account_whitelist := a\<rparr>)"
| minted: "l_allow_minting L \<Longrightarrow> l_number_of_minted_tokens L < l_total_token_supply L \<Longrightarrow>
    of_mode (l_identifier_mode L) t \<Longrightarrow>
    (l_identifier_mode L = Ordinal \<Longrightarrow> t = Index (l_number_of_minted_tokens L)) \<Longrightarrow>
    owner_item H owner = Inr item \<Longrightarrow> t \<notin> set (tokens_of L item) \<Longrightarrow>
    valid_metadata H (l_metadata_kind L) (l_json_schema L) s = Inr md \<Longrightarrow>
    effect H L (add_token t owner item md L)"
| burnt: "of_mode (l_identifier_mode L) t \<Longrightarrow>
    l_token_owners L (get_dictionary_item_key t) = Some owner \<Longrightarrow>
    \<not> l_burnt_tokens L (get_dictionary_item_key t) \<Longrightarrow> owner_item H owner = Inr item \<Longrightarrow>
    balance L item \<noteq> 0 \<Longrightarrow>
    effect H L (L\<lparr>l_burnt_tokens := (l_burnt_tokens L)(get_dictionary_item_key t := True),
      l_token_counts := (l_token_counts L)(item \<mapsto> balance L item - 1)\<rparr>)"
| approved: "of_mode (l_identifier_mode L) t \<Longrightarrow> l_ownership_mode L = Transferable \<Longrightarrow>
    l_token_owners L (get_dictionary_item_key t) \<noteq> None \<Longrightarrow>
    effect H L (L\<lparr>l_operator := (l_operator L)(get_dictionary_item_key t \<mapsto> k)\<rparr>)"
| approved_all: "l_ownership_mode L = Transferable \<Longrightarrow>
    effect H L (approve_tokens (tokens_of L item) k L)"
| moved: "of_mode (l_identifier_mode L) t \<Longrightarrow> l_ownership_mode L = Transferable \<Longrightarrow>
    l_token_owners L (get_dictionary_item_key t) = Some owner \<Longrightarrow>
    \<not> l_burnt_tokens L (get_dictionary_item_key t) \<Longrightarrow>
    owner_item H owner = Inr from_item \<Longrightarrow> owner_item H target = Inr target_item \<Longrightarrow>
    balance L from_item \<noteq> 0 \<Longrightarrow>
    effect H L (move_token t target from_item target_item L)"
| described: "l_metadata_mutability L = Mutable \<Longrightarrow>
    l_token_owners L (get_dictionary_item_key t) \<noteq> None \<Longrightarrow>
    valid_metadata H (l_metadata_kind L) (l_json_schema L) s = Inr md \<Longrightarrow>
    effect H L (L\<lparr>l_metadata := (l_metadata L)(l_metadata_kind L :=
      (l_metadata L (l_metadata_kind L))(get_dictionary_item_key t \<mapsto> md))\<rparr>)"

inductive_cases effectE [elim]: "effect H L L'"

lemma ledger_query_unchanged:
  "ledger_owner_of H i L = Inr (r, L') \<Longrightarrow> L' = L"
  "ledger_balance_of H i L = Inr (r, L') \<Longrightarrow> L' = L"
  "ledger_get_approved H i L = Inr (r, L') \<Longrightarrow> L' = L"
  "ledger_metadata_query H i L = Inr (r, L') \<Longrightarrow> L' = L"
  by (auto simp: ledger_owner_of_def ledger_balance_of_def ledger_get_approved_def
      ledger_metadata_query_def ledger_query_token_run elim!: bind_InrEs)

lemma new_identifier_index:
  "ledger_new_identifier i L = Inr t \<Longrightarrow> l_identifier_mode L = Ordinal \<Longrightarrow>
   t = Index (l_number_of_minted_tokens L)"
  by (simp add: ledger_new_identifier_def)

lemma not_Immutable: "m \<noteq> Immutable \<longleftrightarrow> m = Mutable"
  by (cases m) simp_all

lemma ledger_call_effect:
  assumes "ledger_call H e i L = Inr (r, L')"
  shows "effect H L L'"
proof (cases e)
  case EP_mint
  with assms have "ledger_mint H i L = Inr (r, L')" by (simp add: ledger_call_def)
  then show ?thesis
    by (rule ledger_mintE)
      (auto intro: effect.minted simp: ledger_new_identifier_of_mode new_identifier_index)
next
  case EP_transfer
  with assms have "ledger_transfer H i L = Inr (r, L')" by (simp add: ledger_call_def)
  then show ?thesis
    by (rule ledger_transferE) (auto elim!: ledger_move_tokenE intro: effect.moved)
next
  case EP_burn
  with assms have "ledger_burn H i L = Inr (r, L')" by (simp add: ledger_call_def)
  then show ?thesis by (rule ledger_burnE) (simp add: effect.burnt)
next
  case EP_approve
  with assms have "ledger_approve H i L = Inr (r, L')" by (simp add: ledger_call_def)
  then show ?thesis by (rule ledger_approveE) (simp add: effect.approved)
next
  case EP_set_token_metadata
  with assms have "ledger_set_token_metadata H i L = Inr (r, L')" by (simp add: ledger_call_def)
  then show ?thesis
    by (rule ledger_set_token_metadataE) (auto intro: effect.described simp: not_Immutable)
next
  case EP_set_variables
  with assms have "ledger_set_variables H i L = Inr (r, L')" by (simp add: ledger_call_def)
  then show ?thesis by (rule ledger_set_variablesE) (simp only: effect.variables)
next
  case EP_set_approval_for_all
  with assms have "ledger_set_approval_for_all H i L = Inr (r, L')" by (simp add: ledger_call_def)
  then show ?thesis by (rule ledger_set_approval_for_allE) (simp add: effect.approved_all)
next
  case EP_add_to_account_whitelist
  with assms have "ledger_add_to_account_whitelist H i L = Inr (r, L')" by (simp add: ledger_call_def)
  then show ?thesis by (rule ledger_account_whitelistE [OF disjI1]) (simp add: effect.whitelist)
next
  case EP_remove_from_account_whitelist
  with assms have "ledger_remove_from_account_whitelist H i L = Inr (r, L')"
    by (simp add: ledger_call_def)
  then show ?thesis by (rule ledger_account_whitelistE [OF disjI2]) (simp add: effect.whitelist)
qed (use assms in \<open>auto simp: ledger_call_def effect.nothing dest: ledger_query_unchanged\<close>)

text \<open>No call changes the configuration.\<close>

lemma effect_configuration: "effect H L L' \<Longrightarrow> same_configuration L L'"
  by (erule effect.cases)
    (simp_all add: same_configuration_def add_token_def move_token_def approve_tokens_def Let_def)

text \<open>The counter only grows; a burnt token stays burnt; an issuer is never replaced in a
  contract that numbers its tokens.\<close>

lemma approve_tokens_fields:
  "tokens_of (approve_tokens ts k L) item = tokens_of L item"
  "balance (approve_tokens ts k L) item = balance L item"
  by (simp_all add: approve_tokens_def)

text \<open>When the counter moves, a name enters that had no owner.\<close>

definition new_name :: "ledger \<Rightarrow> ledger \<Rightarrow> bool" where
  "new_name L L' \<longleftrightarrow>
     l_number_of_minted_tokens L' = l_number_of_minted_tokens L
     \<or> dom (l_token_owners L) \<subset> dom (l_token_owners L')"

text \<open>
  The invariant is kept by every effect; a minted token must have a new name, which it has when
  tokens are numbered.
\<close>

lemma effect_consistent:
  assumes "effect H L L'" and "consistent H L" and "new_name L L'"
  shows "consistent H L'"
  using assms(1)
proof cases
  case (minted t owner item s md)
  have "dom (l_token_owners L) \<subset> insert (get_dictionary_item_key t) (dom (l_token_owners L))"
    using assms(3) minted(1) by (simp add: new_name_def add_token_def Let_def)
  then have "l_token_owners L (get_dictionary_item_key t) = None" by (auto simp: domIff)
  with minted show ?thesis using assms(2) by (simp add: consistent_add_token)
next
  case (burnt t owner item)
  then show ?thesis using assms(2) by (simp add: consistent_burn)
next
  case (moved t owner from_item target target_item)
  then show ?thesis using assms(2) by (simp add: consistent_move_token)
next
  case (approved t k)
  then show ?thesis using assms(2)
    by (auto simp: consistent_defs)
next
  case (approved_all item k)
  have "dom (l_operator L') \<subseteq> get_dictionary_item_key ` set (tokens_of L item) \<union> dom (l_operator L)"
    using approved_all(1) by (auto simp: approve_tokens_def)
  also have "\<dots> \<subseteq> dom (l_token_owners L)"
    using assms(2) by (simp only: Un_least tokens_have_owners [OF assms(2)] consistent_def attached_def)
  finally have "dom (l_operator L') \<subseteq> dom (l_token_owners L)" .
  then show ?thesis
    using assms(2) approved_all(1) by (simp add: consistent_defs approve_tokens_def)
next
  case (described t s md)
  then show ?thesis using assms(2) by (auto simp: consistent_defs)
qed (use assms(2) in \<open>simp_all add: consistent_defs\<close>)

section \<open>Contracts that number their tokens\<close>

lemma words_below_Suc: "m < b \<Longrightarrow> {x. x < m + 1} = insert m {x. x < m}" for m b :: u64
  by (auto simp: word_less_nat_alt unat_Suc_u64 less_Suc_eq word_unat_eq_iff)

lemma numbered_new:
  assumes "numbered L"
  shows "l_token_owners L (get_dictionary_item_key (Index (l_number_of_minted_tokens L))) = None"
proof -
  have "u64_to_string (l_number_of_minted_tokens L) \<notin> dom (l_token_owners L)"
    using assms by (auto simp: numbered_def)
  then show ?thesis by (simp add: domIff)
qed

lemma effect_numbered:
  assumes "effect H L L'" and "numbered L"
  shows "numbered L'"
  using assms(1)
proof cases
  case (minted t owner item s md)
  with assms(2) have "t = Index (l_number_of_minted_tokens L)" by (simp add: numbered_def)
  with minted assms(2) show ?thesis
    by (simp add: numbered_def add_token_def Let_def words_below_Suc [OF minted(3)])
next
  case (moved t owner from_item target target_item)
  then show ?thesis using assms(2)
    by (auto simp: numbered_def move_token_def Let_def insert_absorb domIff)
qed (use assms(2) in \<open>simp_all add: numbered_def approve_tokens_def\<close>)

lemma effect_new_name:
  assumes "effect H L L'" and "numbered L"
  shows "new_name L L'"
  using assms(1)
proof cases
  case (minted t owner item s md)
  with assms(2) have "t = Index (l_number_of_minted_tokens L)" by (simp add: numbered_def)
  then have "get_dictionary_item_key t \<notin> dom (l_token_owners L)"
    using numbered_new [OF assms(2)] by (simp add: domIff)
  then show ?thesis
    by (simp add: new_name_def minted(1) add_token_def Let_def psubset_insert_iff)
qed (simp_all add: new_name_def approve_tokens_def move_token_def Let_def)

lemma effect_numbered_consistent:
  "effect H L L' \<Longrightarrow> numbered L \<Longrightarrow> consistent H L \<Longrightarrow> consistent H L'"
  by (rule effect_consistent [OF _ _ effect_new_name])

section \<open>Sequences of calls\<close>

lemma after_call_effect: "effect H L (after_call (ledger_call H e i L) L)"
  by (auto simp: after_call_def intro: effect.nothing ledger_call_effect split: sum.split)

lemma ledger_run_calls_induct:
  assumes "P L" and "\<And>L L'. effect H L L' \<Longrightarrow> P L \<Longrightarrow> P L'"
  shows "P (ledger_run_calls H cs L)"
  using assms(1)
proof (induction cs arbitrary: L)
  case (Cons c cs)
  obtain e i where "c = (e, i)" by fastforce
  with Cons.IH [OF assms(2) [OF after_call_effect Cons.prems]] show ?case by simp
qed simp

lemma run_calls_consistent:
  assumes "consistent H L" and "numbered L"
  shows "consistent H (ledger_run_calls H cs L) \<and> numbered (ledger_run_calls H cs L)"
  by (rule ledger_run_calls_induct)
    (use assms effect_numbered effect_numbered_consistent in \<open>auto\<close>)

lemma same_configuration_trans:
  "same_configuration L L' \<Longrightarrow> same_configuration L' L'' \<Longrightarrow> same_configuration L L''"
  by (simp add: same_configuration_def)

lemma run_calls_configuration: "same_configuration L (ledger_run_calls H cs L)"
  by (rule ledger_run_calls_induct)
    (simp add: same_configuration_def, blast intro: same_configuration_trans effect_configuration)

text \<open>The supply bounds the counter in every contract, also one whose tokens are named by callers.\<close>

lemma effect_supply:
  assumes "effect H L L'" and "l_number_of_minted_tokens L \<le> l_total_token_supply L"
  shows "l_number_of_minted_tokens L' \<le> l_total_token_supply L'"
  using assms(1)
proof cases
  case (minted t owner item s md)
  then show ?thesis
    by (simp add: add_token_def Let_def word_le_nat_alt word_less_nat_alt unat_Suc_u64 [OF minted(3)])
qed (use assms(2) in \<open>simp_all add: approve_tokens_def move_token_def Let_def\<close>)

section \<open>What stays as it is\<close>

text \<open>A burnt token stays burnt and with its last owner, whose name the ledger keeps.\<close>

lemma effect_burnt:
  assumes "effect H L L'" and "l_burnt_tokens L n"
  shows "l_burnt_tokens L' n"
  using assms by cases (auto simp: add_token_def approve_tokens_def move_token_def Let_def)

lemma effect_owner_kept:
  assumes "effect H L L'" and "consistent H L" and "new_name L L'" and "l_token_owners L n = Some k"
    and "l_burnt_tokens L n \<or> l_ownership_mode L \<noteq> Transferable"
  shows "l_token_owners L' n = Some k"
  using assms(1)
proof cases
  case (minted t owner item s md)
  have "dom (l_token_owners L) \<subset> insert (get_dictionary_item_key t) (dom (l_token_owners L))"
    using assms(3) minted(1) by (simp add: new_name_def add_token_def Let_def)
  then have "l_token_owners L (get_dictionary_item_key t) = None" by (auto simp: domIff)
  then show ?thesis using minted(1) assms(4) by (auto simp: add_token_def Let_def)
next
  case (moved t owner from_item target target_item)
  then show ?thesis using assms(4,5) by (auto simp: move_token_def Let_def)
qed (use assms(4) in \<open>simp_all add: approve_tokens_def\<close>)

lemma effect_issuer_kept:
  assumes "effect H L L'" and "attached L" and "new_name L L'" and "l_token_issuers L n = Some k"
  shows "l_token_issuers L' n = Some k"
  using assms(1)
proof cases
  case (minted t owner item s md)
  have "dom (l_token_owners L) \<subset> insert (get_dictionary_item_key t) (dom (l_token_owners L))"
    using assms(3) minted(1) by (simp add: new_name_def add_token_def Let_def)
  then have "get_dictionary_item_key t \<notin> dom (l_token_issuers L)"
    using assms(2) by (auto simp: attached_def)
  then show ?thesis using minted(1) assms(4) by (auto simp: add_token_def Let_def)
qed (use assms(4) in \<open>simp_all add: approve_tokens_def move_token_def Let_def\<close>)

lemma effect_metadata_kept:
  assumes "effect H L L'" and "attached L" and "new_name L L'"
    and "l_metadata_mutability L = Immutable" and "l_metadata L (l_metadata_kind L) n = Some md"
  shows "l_metadata L' (l_metadata_kind L) n = Some md"
  using assms(1)
proof cases
  case (minted t owner item s md')
  have "dom (l_token_owners L) \<subset> insert (get_dictionary_item_key t) (dom (l_token_owners L))"
    using assms(3) minted(1) by (simp add: new_name_def add_token_def Let_def)
  then have "get_dictionary_item_key t \<notin> dom (l_metadata L (l_metadata_kind L))"
    using assms(2) by (auto simp: attached_def)
  then show ?thesis using minted(1) assms(5) by (auto simp: add_token_def Let_def)
qed (use assms(4,5) in \<open>simp_all add: approve_tokens_def move_token_def Let_def\<close>)

text \<open>Metadata is stored in the form that validation gives it.\<close>

definition validated :: "'h casper \<Rightarrow> ledger \<Rightarrow> bool" where
  "validated H L \<longleftrightarrow>
     (\<forall>n md. l_metadata L (l_metadata_kind L) n = Some md \<longrightarrow>
        (\<exists>s. valid_metadata H (l_metadata_kind L) (l_json_schema L) s = Inr md))"

lemma effect_validated:
  assumes "effect H L L'" and "validated H L"
  shows "validated H L'"
  using assms(1)
proof cases
  case (minted t owner item s md)
  with assms(2) show ?thesis by (auto simp: validated_def add_token_def Let_def)
next
  case (described t s md)
  with assms(2) show ?thesis by (auto simp: validated_def)
qed (use assms(2) in \<open>simp_all add: validated_def approve_tokens_def move_token_def Let_def\<close>)

section \<open>The states a contract can be in\<close>

text \<open>
  A contract is initialised with the arguments \<open>a\<close> by the session of \<open>installer\<close>, and then called,
  by anyone, any number of times.
\<close>

inductive reachable ::
  "'h casper \<Rightarrow> account_hash \<Rightarrow> init_args \<Rightarrow> 'h \<Rightarrow> bool" for H installer a where
  initialised: "fresh H installer h0 \<Longrightarrow> read_init_args H i h0 = Inr (a, h0) \<Longrightarrow>
    init H i h0 = Inr (r, h) \<Longrightarrow> reachable H installer a h"
| called: "reachable H installer a h \<Longrightarrow>
    reachable H installer a (after_call (call_entry H e i h) h)"

lemma ledger_run_calls_append:
  "ledger_run_calls H (cs @ ds) L = ledger_run_calls H ds (ledger_run_calls H cs L)"
  by (induction H cs L rule: ledger_run_calls.induct) simp_all

lemma reachable_run_calls: "reachable H installer a h \<Longrightarrow> reachable H installer a (run_calls H cs h)"
  by (induction H cs h rule: run_calls.induct) (simp_all add: reachable.called)

context casper_host
begin

lemma reachable_represents:
  assumes "reachable H installer a h"
  shows "\<exists>us cs. represents H (ledger_run_calls H cs (initial_ledger us installer a)) h"
  using assms
proof induction
  case (initialised h0 i r h)
  from init_refines(2) [OF initialised(1,2)] initialised(3)
  obtain us where "represents H (initial_ledger us installer a) h" by (auto simp: yields_def)
  then have "represents H (ledger_run_calls H [] (initial_ledger us installer a)) h" by simp
  then show ?case by blast
next
  case (called h e i)
  then obtain us cs where "represents H (ledger_run_calls H cs (initial_ledger us installer a)) h"
    by blast
  from after_call_refines [OF this, of e i]
  have "represents H (ledger_run_calls H (cs @ [(e, i)]) (initial_ledger us installer a))
      (after_call (call_entry H e i h) h)"
    by (simp add: ledger_run_calls_append)
  then show ?case by blast
qed

lemma reachable_numbered:
  assumes "reachable H installer a h" and "a_identifier_mode a = Ordinal"
  obtains L us where "represents H L h" and "consistent H L" and "numbered L"
    and "same_configuration (initial_ledger us installer a) L"
proof -
  from reachable_represents [OF assms(1)] obtain us cs
    where "represents H (ledger_run_calls H cs (initial_ledger us installer a)) h" by blast
  with run_calls_consistent [OF consistent_initial numbered_initial [OF assms(2)]]
    run_calls_configuration that show thesis by blast
qed

lemma reachable_configuration:
  assumes "reachable H installer a h"
  obtains L us where "represents H L h" and "same_configuration (initial_ledger us installer a) L"
    and "l_number_of_minted_tokens L \<le> l_total_token_supply L"
proof -
  from reachable_represents [OF assms] obtain us cs
    where rep: "represents H (ledger_run_calls H cs (initial_ledger us installer a)) h" by blast
  have "l_number_of_minted_tokens (ledger_run_calls H cs (initial_ledger us installer a))
      \<le> l_total_token_supply (ledger_run_calls H cs (initial_ledger us installer a))"
    by (rule ledger_run_calls_induct [OF _ effect_supply]) (simp_all add: initial_ledger_def)
  with rep run_calls_configuration that show thesis by blast
qed

end

text \<open>What a sequence of calls preserves in a contract that numbers its tokens.\<close>

lemma run_calls_preserves:
  assumes "consistent H L" and "numbered L" and "P L"
    and step: "\<And>L L'. effect H L L' \<Longrightarrow> consistent H L \<Longrightarrow> new_name L L' \<Longrightarrow> P L \<Longrightarrow> P L'"
  shows "P (ledger_run_calls H cs L)"
proof -
  have "(consistent H L' \<and> numbered L') \<and> P L'" if "L' = ledger_run_calls H cs L" for L'
    unfolding that
  proof (rule ledger_run_calls_induct)
    fix L L' assume eff: "effect H L L'" and L: "(consistent H L \<and> numbered L) \<and> P L"
    then have "new_name L L'" by (auto intro: effect_new_name)
    with eff L show "(consistent H L' \<and> numbered L') \<and> P L'"
      by (auto intro: effect_numbered effect_numbered_consistent step)
  qed (use assms in simp)
  then show ?thesis by blast
qed

lemma reachable_preserves:
  assumes "casper_host H" and "reachable H installer a h" and "a_identifier_mode a = Ordinal"
    and before: "\<And>L us. represents H L h \<Longrightarrow> consistent H L \<Longrightarrow>
      same_configuration (initial_ledger us installer a) L \<Longrightarrow> P L"
    and step: "\<And>L L'. effect H L L' \<Longrightarrow> consistent H L \<Longrightarrow> new_name L L' \<Longrightarrow> P L \<Longrightarrow> P L'"
  obtains L where "represents H L (run_calls H cs h)" and "P L"
proof -
  obtain L us where L: "represents H L h" "consistent H L" "numbered L"
      "same_configuration (initial_ledger us installer a) L"
    using casper_host.reachable_numbered [OF assms(1-3)] by blast
  have "P (ledger_run_calls H cs L)"
    by (rule run_calls_preserves [of H L P, OF L(2,3) before [OF L(1,2,4)]]) (rule step)
  with casper_host.run_calls_refines [OF assms(1) L(1)] that show thesis by blast
qed

text \<open>Only \<open>mint\<close> lets a name enter.\<close>

lemma other_call_new_name:
  assumes "ledger_call H e i L = Inr (r, L')" and "e \<noteq> EP_mint"
  shows "new_name L L'"
proof -
  have "l_number_of_minted_tokens L' = l_number_of_minted_tokens L"
  proof (cases e)
    case EP_transfer
    with assms have "ledger_transfer H i L = Inr (r, L')" by (simp add: ledger_call_def)
    then show ?thesis
      by (rule ledger_transferE) (auto elim!: ledger_move_tokenE simp: move_token_def Let_def)
  next
    case EP_burn
    with assms have "ledger_burn H i L = Inr (r, L')" by (simp add: ledger_call_def)
    then show ?thesis by (rule ledger_burnE) simp
  next
    case EP_approve
    with assms have "ledger_approve H i L = Inr (r, L')" by (simp add: ledger_call_def)
    then show ?thesis by (rule ledger_approveE) simp
  next
    case EP_set_token_metadata
    with assms have "ledger_set_token_metadata H i L = Inr (r, L')" by (simp add: ledger_call_def)
    then show ?thesis by (rule ledger_set_token_metadataE) simp
  next
    case EP_set_variables
    with assms have "ledger_set_variables H i L = Inr (r, L')" by (simp add: ledger_call_def)
    then show ?thesis by (rule ledger_set_variablesE) simp
  next
    case EP_set_approval_for_all
    with assms have "ledger_set_approval_for_all H i L = Inr (r, L')" by (simp add: ledger_call_def)
    then show ?thesis by (rule ledger_set_approval_for_allE) (simp add: approve_tokens_def)
  next
    case EP_add_to_account_whitelist
    with assms have "ledger_add_to_account_whitelist H i L = Inr (r, L')"
      by (simp add: ledger_call_def)
    then show ?thesis by (rule ledger_account_whitelistE [OF disjI1]) simp
  next
    case EP_remove_from_account_whitelist
    with assms have "ledger_remove_from_account_whitelist H i L = Inr (r, L')"
      by (simp add: ledger_call_def)
    then show ?thesis by (rule ledger_account_whitelistE [OF disjI2]) simp
  qed (use assms in \<open>auto simp: ledger_call_def dest: ledger_query_unchanged\<close>)
  then show ?thesis by (simp add: new_name_def)
qed

end
