(* ===== verification/Progress.thy ===== *)
theory Progress
  imports Contract
begin

text \<open>
  What the invariant gives the code: the number a mint takes is on no list, and the lists and the
  balances hold what a burn and a transfer whose guards hold look for, so that these succeed; and the
  balances add up to the tokens that are not burnt.
\<close>

section \<open>The lists and balances agree with the owners\<close>

lemma new_token_unlisted:
  assumes "consistent H L" and "numbered L" and "ledger_new_identifier i L = Inr t"
  shows "t \<notin> set (tokens_of L item)"
proof -
  have "t = Index (l_number_of_minted_tokens L)"
    using assms(2,3) by (simp add: numbered_def new_identifier_index)
  with numbered_new [OF assms(2)] assms(1) show ?thesis by (auto simp: consistent_defs)
qed

lemma owned_listed:
  assumes "consistent H L" and "of_mode (l_identifier_mode L) t"
    and "l_token_owners L (get_dictionary_item_key t) = Some owner" and "owner_item H owner = Inr item"
  shows "t \<in> set (tokens_of L j) \<longleftrightarrow> j = item"
  using assms by (auto simp: consistent_defs)

lemma owned_balance:
  assumes "consistent H L" and "of_mode (l_identifier_mode L) t"
    and "l_token_owners L (get_dictionary_item_key t) = Some owner"
    and "\<not> l_burnt_tokens L (get_dictionary_item_key t)" and "owner_item H owner = Inr item"
  shows "balance L item \<noteq> 0"
proof
  assume "balance L item = 0"
  then have "unburnt L (tokens_of L item) = []"
    using assms(1) by (auto simp: consistent_def balanced_def dest: spec [of _ item])
  moreover have "t \<in> set (unburnt L (tokens_of L item))"
    using owned_listed [OF assms(1-3,5)] assms(4) by (simp add: unburnt_def)
  ultimately show False by simp
qed

lemma move_token_succeeds:
  assumes "consistent H L" and "of_mode (l_identifier_mode L) t"
    and "l_token_owners L (get_dictionary_item_key t) = Some owner"
    and "\<not> l_burnt_tokens L (get_dictionary_item_key t)" and "owner_item H owner = Inr from_item"
  shows "ledger_move_token t target from_item target_item L
    = Inr ((), move_token t target from_item target_item L)"
proof -
  have member: "t \<in> set (tokens_of L j) \<longleftrightarrow> j = from_item" for j
    by (rule owned_listed [OF assms(1-3,5)])
  have "distinct (tokens_of L from_item)" using assms(1) by (simp add: consistent_defs)
  then have "t \<notin> set (remove1 t (tokens_of L from_item))" by simp
  moreover have "l_owned_tokens L from_item \<noteq> None"
    using member [of from_item] by (cases "l_owned_tokens L from_item") (simp_all add: tokens_of_def)
  ultimately show ?thesis
    using member owned_balance [OF assms] by (auto simp: ledger_move_token_def)
qed

section \<open>The balances add up\<close>

definition live_tokens :: "ledger \<Rightarrow> token_identifier set" where
  "live_tokens L = {t. of_mode (l_identifier_mode L) t
     \<and> get_dictionary_item_key t \<in> dom (l_token_owners L)
     \<and> \<not> l_burnt_tokens L (get_dictionary_item_key t)}"

lemma balance_card:
  assumes "consistent H L"
  shows "unat (balance L item) = card (set (unburnt L (tokens_of L item)))"
proof -
  have "distinct (unburnt L (tokens_of L item))" using assms by (simp add: consistent_defs)
  then have "card (set (unburnt L (tokens_of L item))) = length (unburnt L (tokens_of L item))"
    by (rule distinct_card)
  then show ?thesis using assms by (simp add: consistent_def balanced_def)
qed

lemma live_tokens_card:
  assumes "consistent H L" and "numbered L"
  shows "card (live_tokens L) = unat (l_number_of_minted_tokens L) - card {n. l_burnt_tokens L n}"
    and "finite (live_tokens L)"
proof -
  have keys: "get_dictionary_item_key ` live_tokens L = dom (l_token_owners L) - {n. l_burnt_tokens L n}"
  proof (intro equalityI subsetI)
    fix n assume n: "n \<in> dom (l_token_owners L) - {n. l_burnt_tokens L n}"
    then obtain x where "n = u64_to_string x" using assms(2) by (auto simp: numbered_def)
    with n assms(2) have "Index x \<in> live_tokens L" by (simp add: live_tokens_def numbered_def)
    with \<open>n = u64_to_string x\<close> show "n \<in> get_dictionary_item_key ` live_tokens L" by force
  qed (auto simp: live_tokens_def)
  have inj: "inj_on get_dictionary_item_key (live_tokens L)"
    using item_injective [of "l_identifier_mode L"] by (auto simp: inj_on_def live_tokens_def)
  have fin: "finite (dom (l_token_owners L))" using assms(1) by (simp add: consistent_def counted_def)
  then show "finite (live_tokens L)"
    using keys inj by (metis finite_Diff finite_imageD)
  have sub: "{n. l_burnt_tokens L n} \<subseteq> dom (l_token_owners L)"
    using assms(1) by (auto simp: consistent_def attached_def)
  have "card (live_tokens L) = card (dom (l_token_owners L) - {n. l_burnt_tokens L n})"
    using card_image [OF inj] keys by simp
  also have "\<dots> = card (dom (l_token_owners L)) - card {n. l_burnt_tokens L n}"
    by (rule card_Diff_subset [OF finite_subset [OF sub fin] sub])
  finally show "card (live_tokens L)
      = unat (l_number_of_minted_tokens L) - card {n. l_burnt_tokens L n}"
    using assms(1) by (simp add: consistent_def counted_def)
qed

lemma sum_of_balances:
  assumes "consistent H L" and "numbered L" and "finite items"
    and "\<forall>item. balance L item \<noteq> 0 \<longrightarrow> item \<in> items"
  shows "(\<Sum>item\<in>items. unat (balance L item))
    = unat (l_number_of_minted_tokens L) - card {n. l_burnt_tokens L n}"
proof -
  let ?part = "\<lambda>item. set (unburnt L (tokens_of L item))"
  have part: "?part item = owned_by_item H L item \<inter> live_tokens L" for item
    using assms(1) by (auto simp: consistent_defs live_tokens_def)
  have "?part item = {}" if "item \<notin> items" for item
  proof -
    have "balance L item = 0" using that assms(4) by blast
    then show ?thesis using balance_card [OF assms(1), of item] by simp
  qed
  then have "item \<in> items" if "t \<in> ?part item" for t item using that by fastforce
  then have "\<Union> (?part ` items) = (\<Union>item. ?part item)" by fast
  also have "\<dots> = live_tokens L"
  proof (intro equalityI subsetI)
    fix t assume t: "t \<in> live_tokens L"
    then obtain k where k: "l_token_owners L (get_dictionary_item_key t) = Some k"
      by (auto simp: live_tokens_def)
    with assms(1) obtain item where "owner_item H k = Inr item"
      unfolding consistent_def listed_def by blast
    with t k have "t \<in> ?part item"
      unfolding part by (auto simp: owned_by_item_def live_tokens_def)
    then show "t \<in> (\<Union>item. ?part item)" by blast
  qed (auto simp: part)
  finally have union: "\<Union> (?part ` items) = live_tokens L" .
  have "(\<Sum>item\<in>items. unat (balance L item)) = (\<Sum>item\<in>items. card (?part item))"
    by (simp only: balance_card [OF assms(1)])
  also have "\<dots> = card (\<Union> (?part ` items))"
    by (rule card_UN_disjoint [symmetric]) (use assms(3) live_tokens_card(2) [OF assms(1,2)] in \<open>auto simp: part owned_by_item_def\<close>)
  finally show ?thesis
    using live_tokens_card(1) [OF assms(1,2)] by (simp only: union)
qed

lemma finite_holders:
  assumes "consistent H L"
  shows "finite {item. balance L item \<noteq> 0}"
proof (rule finite_subset)
  show "finite ((\<lambda>n. projr (owner_item H (the (l_token_owners L n)))) ` dom (l_token_owners L))"
    using assms by (simp add: consistent_def counted_def)
  show "{item. balance L item \<noteq> 0}
      \<subseteq> (\<lambda>n. projr (owner_item H (the (l_token_owners L n)))) ` dom (l_token_owners L)"
  proof
    fix item assume "item \<in> {item. balance L item \<noteq> 0}"
    then have "unburnt L (tokens_of L item) \<noteq> []"
      using assms by (auto simp: consistent_def balanced_def unat_eq_zero dest!: spec [of _ item])
    then obtain t where "t \<in> set (tokens_of L item)" by (auto simp: unburnt_def filter_empty_conv)
    then have "t \<in> owned_by_item H L item" using assms by (simp add: consistent_def listed_def)
    then show "item \<in> (\<lambda>n. projr (owner_item H (the (l_token_owners L n)))) ` dom (l_token_owners L)"
      by (auto simp: owned_by_item_def image_iff intro!: bexI [of _ "get_dictionary_item_key t"])
  qed
qed

text \<open>Every token that was minted is either in somebody's balance or burnt.\<close>

lemma balances_and_burns:
  assumes "consistent H L" and "numbered L"
  shows "(\<Sum>item | balance L item \<noteq> 0. unat (balance L item)) + card {n. l_burnt_tokens L n}
    = unat (l_number_of_minted_tokens L)"
proof -
  have "card {n. l_burnt_tokens L n} \<le> card (dom (l_token_owners L))"
    using assms(1) by (intro card_mono) (auto simp: consistent_def counted_def attached_def)
  also have "\<dots> = unat (l_number_of_minted_tokens L)"
    using assms(1) by (simp add: consistent_def counted_def)
  finally show ?thesis
    using sum_of_balances [OF assms finite_holders [OF assms(1)]] by simp
qed

end
