(* ===== verification/Refusals.thy ===== *)
theory Refusals
  imports Progress
begin

text \<open>
  How calls fail: the errors of the contract that each entry point can end with on a state that
  represents a ledger, and what each error says. The errors the code has for a named key, a value
  or a dictionary that is missing or ill-formed, and for lists and balances that disagree with the
  owners, are on none of the lists, but for a few that the code uses a second time; these, and the
  errors of the platform, are explained by the call, the configuration or the owners.
\<close>

section \<open>The errors of each entry point\<close>

definition token_refusals :: "nft_core_error list" where
  "token_refusals = [MissingTokenID, InvalidTokenIdentifier, FailedToGetArgBytes]"

definition metadata_refusals :: "nft_core_error list" where
  "metadata_refusals =
     [FailedToParseCep99Metadata, InvalidCEP99Metadata, FailedToJsonifyCEP99Metadata,
      FailedToParse721Metadata, InvalidNFT721Metadata, FailedToJsonifyNFT721Metadata,
      FailedToParseCustomMetadata, InvalidCustomMetadata,
      FailedToJsonifyCustomMetadata, MissingTokenMetaData, InvalidTokenMetaData,
      FailedToGetArgBytes]"

fun refusals :: "entry_point \<Rightarrow> nft_core_error list" where
  "refusals EP_init = [ContractAlreadyInitialized]"
| "refusals EP_set_variables = [InvalidAccount, InvalidWhitelistMode, FailedToGetArgBytes]"
| "refusals EP_mint =
     [MintingIsPaused, TokenSupplyDepleted, InvalidHolderMode, UnlistedContractHash, InvalidMinter,
      InvalidKey] @ metadata_refusals"
| "refusals EP_burn =
     [InvalidAccount, InvalidHolderMode, InvalidTokenOwner, PreviouslyBurntToken] @ token_refusals"
| "refusals EP_transfer =
     [InvalidOwnershipMode, PreviouslyBurntToken, MissingAccountHash, InvalidAccountHash,
      InvalidAccount, InvalidHolderMode, InvalidKey, UnlistedAccountHash] @ token_refusals"
| "refusals EP_approve =
     [InvalidOwnershipMode, InvalidHolderMode, InvalidAccountHash, PreviouslyBurntToken,
      MissingApprovedAccountHash, InvalidApprovedAccountHash, InvalidAccount] @ token_refusals"
| "refusals EP_set_approval_for_all =
     [InvalidOwnershipMode, MissingApproveAll, InvalidApproveAll, MissingOperator, InvalidOperator,
      FailedToGetArgBytes, InvalidHolderMode]"
| "refusals EP_set_token_metadata =
     [InvalidAccount, ForbiddenMetadataUpdate, InvalidHolderMode, InvalidTokenOwner]
     @ token_refusals @ metadata_refusals"
| "refusals EP_add_to_account_whitelist =
     [InvalidAccount, MissingAccountWhiteList, InvalidAccountWhitelist, FailedToGetArgBytes, InvalidKey]"
| "refusals EP_remove_from_account_whitelist =
     [InvalidAccount, MissingAccountWhiteList, InvalidAccountWhitelist, FailedToGetArgBytes, InvalidKey]"
| "refusals EP_owner_of = token_refusals"
| "refusals EP_balance_of = [MissingAccountHash, InvalidAccountHash, FailedToGetArgBytes, InvalidKey]"
| "refusals EP_get_approved = PreviouslyBurntToken # token_refusals"
| "refusals EP_metadata = MissingNFTMetadataKind # token_refusals"

text \<open>An error of the contract on a list, or one of the platform.\<close>

fun among :: "nft_core_error list \<Rightarrow> error \<Rightarrow> bool" where
  "among us (User u) \<longleftrightarrow> u \<in> set us"
| "among us (Api _) \<longleftrightarrow> True"
| "among us Panic \<longleftrightarrow> False"

lemma among_mono: "among us e \<Longrightarrow> set us \<subseteq> set vs \<Longrightarrow> among vs e"
  by (cases e) auto

text \<open>
  Two questions are left. One is which of the platform's errors: those that the call itself is to
  blame for are the ones of the host on an argument that the entry point reads, and \<open>None\<close> for a
  call stack without a caller.
\<close>

fun arguments :: "entry_point \<Rightarrow> string list" where
  "arguments EP_init = []"
| "arguments EP_set_variables = [ARG_ALLOW_MINTING, ARG_CONTRACT_WHITELIST]"
| "arguments EP_mint = [ARG_TOKEN_META_DATA]"
| "arguments EP_burn = [ARG_TOKEN_ID]"
| "arguments EP_transfer = [ARG_TOKEN_ID, ARG_SOURCE_KEY, ARG_TARGET_KEY]"
| "arguments EP_approve = [ARG_TOKEN_ID, ARG_OPERATOR]"
| "arguments EP_set_approval_for_all = [ARG_APPROVE_ALL, ARG_OPERATOR]"
| "arguments EP_set_token_metadata = [ARG_TOKEN_ID, ARG_TOKEN_META_DATA]"
| "arguments EP_add_to_account_whitelist = [ARG_ACCOUNT_WHITELIST]"
| "arguments EP_remove_from_account_whitelist = [ARG_ACCOUNT_WHITELIST]"
| "arguments EP_owner_of = [ARG_TOKEN_ID]"
| "arguments EP_balance_of = [ARG_TOKEN_OWNER]"
| "arguments EP_get_approved = [ARG_TOKEN_ID]"
| "arguments EP_metadata = [ARG_TOKEN_ID]"

definition argument_error :: "entry_point \<Rightarrow> invocation \<Rightarrow> api_error \<Rightarrow> bool" where
  "argument_error e i y \<longleftrightarrow>
     (\<exists>name \<in> set (arguments e). named_arg_size i name = Inl y \<and> y \<noteq> Api_MissingArgument)
     \<or> e = EP_mint \<and> get_named_arg_key i ARG_TOKEN_OWNER = Inl y
     \<or> y = Api_None \<and> nth_back_1 (get_call_stack i) = None"

text \<open>
  The other is about the listed errors that are also those the code has for a named key, a
  dictionary or a list that is missing or ill-formed. What must hold of the call, the configuration
  and the owners where one of these is reported:
\<close>

definition ambiguous :: "nft_core_error list" where
  "ambiguous = [InvalidHolderMode, InvalidOwnershipMode, InvalidWhitelistMode, InvalidTokenIdentifier,
     MissingAccountWhiteList, InvalidAccountWhitelist]"

definition explained_by ::
  "'h casper \<Rightarrow> ledger \<Rightarrow> entry_point \<Rightarrow> invocation \<Rightarrow> error \<Rightarrow> bool" where
  "explained_by H L e i x \<longleftrightarrow>
     (\<forall>y. x = Api y \<longrightarrow> argument_error e i y)
     \<and> (x = User InvalidHolderMode \<longrightarrow> verified_caller i (l_holder_mode L) = Inl x)
     \<and> (x = User InvalidOwnershipMode \<longrightarrow> l_ownership_mode L \<noteq> Transferable)
     \<and> (x = User InvalidWhitelistMode \<longrightarrow> l_whitelist_mode L = Locked)
     \<and> (x = User InvalidTokenIdentifier \<longrightarrow>
         get_token_identifier_from_runtime_args H i (l_identifier_mode L) L = Inl x
         \<or> (\<exists>t. get_token_identifier_from_runtime_args H i (l_identifier_mode L) L = Inr (t, L)
             \<and> l_token_owners L (get_dictionary_item_key t) = None))
     \<and> (x \<in> {User MissingAccountWhiteList, User InvalidAccountWhitelist} \<longrightarrow>
         required_arg (c_key H) i ARG_ACCOUNT_WHITELIST MissingAccountWhiteList InvalidAccountWhitelist L
           = Inl x)
     \<and> (x = Panic \<longrightarrow> (\<exists>b.
         required_arg (c_key H) i ARG_ACCOUNT_WHITELIST MissingAccountWhiteList InvalidAccountWhitelist L
           = Inr (Key_Account b, L) \<and> b \<notin> set (l_account_whitelist L)))"

lemma explained_other [intro]:
  "u \<notin> set ambiguous \<Longrightarrow> explained_by H L e i (User u)"
  by (auto simp: explained_by_def ambiguous_def)

section \<open>Inversion of calls that fail\<close>

lemma verified_caller_fails: "verified_caller i m = Inl e \<Longrightarrow> among [InvalidHolderMode] e"
proof (cases "nth_back_1 (get_call_stack i)")
  case (Some c)
  then show "verified_caller i m = Inl e \<Longrightarrow> ?thesis"
    by (cases c) (auto simp: verified_caller_def split: if_splits)
qed (auto simp: verified_caller_def)

lemma verified_caller_item: "verified_caller i m = Inr k \<Longrightarrow> owner_item H k \<noteq> Inl e"
proof (cases "nth_back_1 (get_call_stack i)")
  case (Some c)
  then show "verified_caller i m = Inr k \<Longrightarrow> ?thesis"
    by (cases c) (auto simp: verified_caller_def owner_item_def split: if_splits)
qed (simp add: verified_caller_def)

lemma owner_item_fails: "owner_item H k = Inl e \<Longrightarrow> among [InvalidKey] e"
  by (cases k) (auto simp: owner_item_def)

lemma target_account_fails: "target_account k = Inl e \<Longrightarrow> among [InvalidKey] e"
  by (cases k) (auto simp: target_account_def)

text \<open>The schema of a contract that validates its metadata against one, which \<open>init\<close> makes sure of.\<close>

definition schema_parses :: "'h casper \<Rightarrow> nft_metadata_kind \<Rightarrow> string \<Rightarrow> bool" where
  "schema_parses H kind schema \<longleftrightarrow> kind = CustomValidated \<longrightarrow> from_str_schema H schema \<noteq> None"

lemma valid_metadata_fails:
  "valid_metadata H kind schema s = Inl e \<Longrightarrow> schema_parses H kind schema \<Longrightarrow> among metadata_refusals e"
  by (cases kind) (auto simp: valid_metadata_def jsonified_def metadata_refusals_def schema_parses_def
      split: option.splits if_splits)

lemma mint_owner_fails: "ledger_mint_owner i L = Inl e \<Longrightarrow> among [InvalidHolderMode] e"
  by (auto simp: ledger_mint_owner_def dest: verified_caller_fails split: sum.splits if_splits)

lemma new_identifier_fails: "ledger_new_identifier i L = Inl e \<Longrightarrow> among [] e"
  by (auto simp: ledger_new_identifier_def split: sum.splits nft_identifier_mode.splits)

lemma check_minter_fails:
  "ledger_check_minter i L = Inl e \<Longrightarrow>
   among [InvalidHolderMode, UnlistedContractHash, InvalidMinter, InvalidKey] e"
  by (auto simp: ledger_check_minter_def split: sum.splits minting_mode.splits key.splits if_splits
      intro: among_mono [OF verified_caller_fails])

lemma bind_result_InlE:
  assumes "bind_c (result_c r) f s = Inl e" and "\<And>e. r = Inl e \<Longrightarrow> among us e"
  obtains "r = Inl e" and "among us e" | a where "r = Inr a" and "f a s = Inl e"
  using assms by (cases r) auto

lemma bind_valid_metadata_InlE:
  assumes "bind_c (result_c (valid_metadata H kind schema t)) f s = Inl e"
  obtains "valid_metadata H kind schema t = Inl e"
      and "schema_parses H kind schema \<longrightarrow> among metadata_refusals e"
    | md where "f md s = Inl e"
  using assms by (cases "valid_metadata H kind schema t") (auto dest: valid_metadata_fails)

lemma named_arg_fails:
  "get_named_arg_with_user_errors c i name missing invalid s = Inl e \<Longrightarrow> among [FailedToGetArgBytes] e"
  by (auto simp: get_named_arg_with_user_errors_def get_named_arg_size_def bind_c_def
      split: sum.splits option.splits if_splits)

lemma named_arg_missing:
  "get_named_arg_with_user_errors c i name missing invalid s = Inr (Inl u, s') \<Longrightarrow> u \<in> {missing, invalid}"
  by (auto simp: get_named_arg_with_user_errors_def get_named_arg_size_def bind_c_def
      split: sum.splits option.splits if_splits)

lemma bind_named_arg_fails:
  assumes "bind_c (get_named_arg_with_user_errors c i name missing invalid)
      (\<lambda>r. unwrap_or_revert (map_sum id g r)) s = Inl e"
  shows "among [missing, invalid, FailedToGetArgBytes] e"
proof (cases "get_named_arg_with_user_errors c i name missing invalid s")
  case (Inl e')
  with assms have "e' = e" by (simp add: bind_c_def)
  with named_arg_fails [OF Inl] show ?thesis by (rule_tac among_mono) auto
next
  case (Inr x)
  obtain r s' where x: "x = (r, s')" by fastforce
  show ?thesis
  proof (cases r)
    case (Inl u)
    with assms Inr x have "e = User u" by (simp add: bind_c_def)
    with named_arg_missing [of c i name missing invalid s u s'] Inr x Inl show ?thesis by auto
  qed (use assms Inr x in \<open>simp add: bind_c_def\<close>)
qed

lemma required_arg_fails:
  "required_arg c i name missing invalid s = Inl e \<Longrightarrow> among [missing, invalid, FailedToGetArgBytes] e"
  using bind_named_arg_fails [where g = id] by (simp add: required_arg_def sum.map_id0)

lemma token_identifier_arg_fails:
  "get_token_identifier_from_runtime_args H i m s = Inl e \<Longrightarrow> among token_refusals e"
  unfolding token_refusals_def get_token_identifier_from_runtime_args_def
  by (cases m) (auto dest: bind_named_arg_fails)

lemma bind_required_arg_InlE:
  assumes "bind_c (required_arg c i name missing invalid) f s = Inl e"
  obtains "among [missing, invalid, FailedToGetArgBytes] e" | a where "f a s = Inl e"
  using assms required_arg_fails [of c i name missing invalid s]
  by (subst (asm) (1 2) required_arg_pure) (auto simp: result_c_def bind_c_def split: sum.splits)

lemma bind_optional_arg_InlE:
  assumes "bind_c (get_optional_named_arg_with_user_errors c i name invalid) f s = Inl e"
  obtains "among [FailedToGetArgBytes] e" | a where "f a s = Inl e"
proof (cases "get_optional_named_arg_with_user_errors c i name invalid s")
  case (Inl e')
  then have "get_named_arg_with_user_errors c i name PhantomError invalid s = Inl e'"
    by (auto simp: get_optional_named_arg_with_user_errors_def bind_c_def split: sum.splits)
  from named_arg_fails [OF this] assms Inl that(1) show thesis by (simp add: bind_c_def)
next
  case (Inr x)
  then have "snd x = s"
    by (subst (asm) optional_arg_pure) (auto simp: result_c_def split: sum.splits)
  with assms Inr that(2) show thesis by (cases x) (simp add: bind_c_def)
qed

lemma bind_token_identifier_arg_InlE:
  assumes "bind_c (get_token_identifier_from_runtime_args H i m) f s = Inl e"
  obtains "among token_refusals e" | t where "of_mode m t" and "f t s = Inl e"
proof (cases "get_token_identifier_from_runtime_args H i m s")
  case (Inl e')
  with token_identifier_arg_fails [OF Inl] assms that(1) show thesis by (simp add: bind_c_def)
next
  case (Inr x)
  then have "snd x = s"
    by (subst (asm) token_identifier_arg_pure) (auto simp: result_c_def split: sum.splits)
  then have t: "get_token_identifier_from_runtime_args H i m s = Inr (fst x, s)"
    using Inr by (cases x) simp
  with assms that(2) [OF token_identifier_arg_of_mode [OF t]] show thesis by (simp add: bind_c_def)
qed

lemma bind_revert_if_InlE:
  assumes "bind_c (revert_if b x) f s = Inl e"
  obtains "b" and "e = x" | "\<not> b" and "f () s = Inl e"
  using assms by (simp split: if_splits)

lemma bind_unwrap_InlE:
  assumes "bind_c (unwrap_or_revert_with x r) f s = Inl e"
  obtains "r = None" and "e = x" | a where "r = Some a" and "f a s = Inl e"
  using assms by (cases r) auto

lemmas bind_InlEs =
  bind_result_InlE [where r = "verified_caller i m" for i m, OF _ verified_caller_fails]
  bind_result_InlE [where r = "owner_item H k" for H k, OF _ owner_item_fails]
  bind_result_InlE [where r = "target_account k" for k, OF _ target_account_fails]
  bind_valid_metadata_InlE
  bind_result_InlE [where r = "ledger_mint_owner i L" for i L, OF _ mint_owner_fails]
  bind_result_InlE [where r = "ledger_new_identifier i L" for i L, OF _ new_identifier_fails]
  bind_result_InlE [where r = "ledger_check_minter i L" for i L, OF _ check_minter_fails]
  bind_required_arg_InlE bind_optional_arg_InlE bind_token_identifier_arg_InlE
  bind_revert_if_InlE bind_unwrap_InlE

section \<open>The lists are complete\<close>

lemmas refusal_lists = token_refusals_def metadata_refusals_def

lemma mint_fails:
  assumes "consistent H L" and "numbered L" and "schema_parses H (l_metadata_kind L) (l_json_schema L)"
    and "ledger_mint H i L = Inl e"
  shows "among (refusals EP_mint) e"
  using assms(3,4) new_token_unlisted [OF assms(1,2)] unfolding ledger_mint_def
  by (auto elim!: bind_InlEs split: if_splits intro: among_mono simp: refusal_lists)

lemma burn_fails:
  assumes "consistent H L" and "ledger_burn H i L = Inl e"
  shows "among (refusals EP_burn) e"
  using assms(2) owned_balance [OF assms(1)] unfolding ledger_burn_def Let_def
  by (auto elim!: bind_InlEs split: if_splits intro: among_mono simp: refusal_lists
      dest: verified_caller_item)

lemma transfer_fails:
  assumes "consistent H L" and "ledger_transfer H i L = Inl e"
  shows "among (refusals EP_transfer) e"
  using assms(2) move_token_succeeds [OF assms(1)] unfolding ledger_transfer_def Let_def
  by (auto elim!: bind_InlEs split: if_splits intro: among_mono simp: refusal_lists bind_c_Inr)

lemma call_fails:
  assumes "consistent H L" and "numbered L" and "ledger_call H e i L = Inl x"
    and "schema_parses H (l_metadata_kind L) (l_json_schema L)"
  shows "among (refusals e) x \<or> e = EP_remove_from_account_whitelist \<and> x = Panic"
proof (cases e)
  case EP_mint
  then show ?thesis using assms mint_fails by (simp add: ledger_call_def)
next
  case EP_burn
  then show ?thesis using assms burn_fails by (simp add: ledger_call_def)
next
  case EP_transfer
  then show ?thesis using assms transfer_fails by (simp add: ledger_call_def)
next
  case EP_approve
  with assms(3) show ?thesis unfolding ledger_call_def EP_approve entry_point.case ledger_approve_def Let_def
    by (auto elim!: bind_InlEs split: if_splits intro: among_mono simp: refusal_lists)
next
  case EP_set_approval_for_all
  with assms(3) show ?thesis
    unfolding ledger_call_def EP_set_approval_for_all entry_point.case ledger_set_approval_for_all_def
    by (auto elim!: bind_InlEs split: if_splits intro: among_mono dest: verified_caller_item)
next
  case EP_set_token_metadata
  with assms(3,4) show ?thesis
    unfolding ledger_call_def EP_set_token_metadata entry_point.case ledger_set_token_metadata_def Let_def
    by (auto elim!: bind_InlEs split: if_splits intro: among_mono simp: refusal_lists)
next
  case EP_set_variables
  with assms(3) show ?thesis
    unfolding ledger_call_def EP_set_variables entry_point.case ledger_set_variables_def
    by (auto elim!: bind_InlEs split: if_splits intro: among_mono)
next
  case EP_add_to_account_whitelist
  with assms(3) show ?thesis
    unfolding ledger_call_def EP_add_to_account_whitelist entry_point.case
      ledger_add_to_account_whitelist_def
    by (auto elim!: bind_InlEs split: if_splits intro: among_mono)
next
  case EP_remove_from_account_whitelist
  with assms(3) show ?thesis
    unfolding ledger_call_def EP_remove_from_account_whitelist entry_point.case
      ledger_remove_from_account_whitelist_def
    by (auto elim!: bind_InlEs split: if_splits intro: among_mono)
next
  case EP_owner_of
  with assms(3) show ?thesis
    unfolding ledger_call_def EP_owner_of entry_point.case ledger_owner_of_def ledger_query_token_run
    by (auto elim!: bind_InlEs intro: among_mono simp: refusal_lists)
next
  case EP_balance_of
  with assms(3) show ?thesis unfolding ledger_call_def EP_balance_of entry_point.case ledger_balance_of_def
    by (auto elim!: bind_InlEs intro: among_mono)
next
  case EP_get_approved
  with assms(3) show ?thesis
    unfolding ledger_call_def EP_get_approved entry_point.case ledger_get_approved_def
      ledger_query_token_run
    by (auto elim!: bind_InlEs intro: among_mono simp: refusal_lists)
next
  case EP_metadata
  with assms(3) show ?thesis
    unfolding ledger_call_def EP_metadata entry_point.case ledger_metadata_query_def
      ledger_query_token_run
    by (auto elim!: bind_InlEs intro: among_mono simp: refusal_lists)
qed (use assms(3) in \<open>auto simp: ledger_call_def\<close>)

section \<open>The errors are explained\<close>

lemma api_explained: "argument_error e i y \<Longrightarrow> explained_by H L e i (Api y)"
  by (simp add: explained_by_def)

lemma named_arg_explained:
  "named_arg_size i name = Inl y \<Longrightarrow> y \<noteq> Api_MissingArgument \<Longrightarrow> name \<in> set (arguments e) \<Longrightarrow>
   explained_by H L e i (Api y)"
  by (rule api_explained) (auto simp: argument_error_def)

text \<open>What each part of a call that fails says.\<close>

lemma verified_caller_explained [intro]:
  assumes "verified_caller i (l_holder_mode L) = Inl x"
  shows "explained_by H L e i x"
proof (cases "nth_back_1 (get_call_stack i)")
  case None
  with assms show ?thesis
    by (auto simp: verified_caller_def explained_by_def argument_error_def)
next
  case (Some c)
  with assms have "x = User InvalidHolderMode"
    by (cases c) (auto simp: verified_caller_def split: if_splits)
  with assms show ?thesis by (simp add: explained_by_def)
qed

lemma owner_item_explained [intro]: "owner_item H k = Inl x \<Longrightarrow> explained_by H L e i x"
  by (cases k) (auto simp: owner_item_def ambiguous_def)

lemma target_account_explained [intro]: "target_account k = Inl x \<Longrightarrow> explained_by H L e i x"
  by (cases k) (auto simp: target_account_def ambiguous_def)

lemma valid_metadata_explained [intro]: "valid_metadata H kind schema t = Inl x \<Longrightarrow> explained_by H L e i x"
  by (cases kind) (auto simp: valid_metadata_def jsonified_def ambiguous_def split: option.splits if_splits)

lemma mint_owner_explained [intro]: "ledger_mint_owner i L = Inl x \<Longrightarrow> explained_by H L EP_mint i x"
  by (auto simp: ledger_mint_owner_def argument_error_def intro: api_explained
      split: sum.splits if_splits)

lemma check_minter_explained [intro]: "ledger_check_minter i L = Inl x \<Longrightarrow> explained_by H L e i x"
  by (auto simp: ledger_check_minter_def ambiguous_def
      split: sum.splits minting_mode.splits key.splits if_splits)

text \<open>An argument fails with an error of the host about it, or with one of the errors it is read with.\<close>

lemma named_arg_cases:
  "get_named_arg_with_user_errors c i name missing invalid s = Inl x \<Longrightarrow>
     (\<exists>y. x = Api y \<and> named_arg_size i name = Inl y \<and> y \<noteq> Api_MissingArgument)
     \<or> x = User FailedToGetArgBytes"
  by (auto simp: get_named_arg_with_user_errors_def get_named_arg_size_def bind_c_def
      split: sum.splits option.splits if_splits)

lemma bind_named_arg_cases:
  assumes "bind_c (get_named_arg_with_user_errors c i name missing invalid)
      (\<lambda>r. unwrap_or_revert (map_sum id g r)) s = Inl x"
  shows "(\<exists>y. x = Api y \<and> named_arg_size i name = Inl y \<and> y \<noteq> Api_MissingArgument)
     \<or> x \<in> {User missing, User invalid, User FailedToGetArgBytes}"
proof (cases "get_named_arg_with_user_errors c i name missing invalid s")
  case (Inl x')
  with assms have "x' = x" by (simp add: bind_c_def)
  with named_arg_cases [OF Inl] show ?thesis by blast
next
  case (Inr z)
  obtain r s' where z: "z = (r, s')" by fastforce
  with assms Inr have "\<exists>u. r = Inl u \<and> x = User u" by (cases r) (simp_all add: bind_c_def)
  with named_arg_missing [of c i name missing invalid s] Inr z show ?thesis by auto
qed

lemma required_arg_cases:
  "required_arg c i name missing invalid s = Inl x \<Longrightarrow>
     (\<exists>y. x = Api y \<and> named_arg_size i name = Inl y \<and> y \<noteq> Api_MissingArgument)
     \<or> x \<in> {User missing, User invalid, User FailedToGetArgBytes}"
  using bind_named_arg_cases [where g = id] by (simp add: required_arg_def sum.map_id0)

lemma required_arg_explained:
  assumes "required_arg c i name missing invalid s = Inl x" and "name \<in> set (arguments e)"
    and "missing \<notin> set ambiguous" and "invalid \<notin> set ambiguous"
  shows "explained_by H L e i x"
proof -
  have "FailedToGetArgBytes \<notin> set ambiguous" by (simp add: ambiguous_def)
  with required_arg_cases [OF assms(1)] assms(2-4) show ?thesis
    by (auto intro: named_arg_explained)
qed

lemma whitelist_arg_explained [intro]:
  assumes "required_arg (c_key H) i ARG_ACCOUNT_WHITELIST MissingAccountWhiteList
      InvalidAccountWhitelist L = Inl x" and "ARG_ACCOUNT_WHITELIST \<in> set (arguments e)"
  shows "explained_by H L e i x"
  using assms required_arg_cases [OF assms(1)] by (auto simp: explained_by_def argument_error_def)

lemma optional_arg_explained:
  assumes "get_optional_named_arg_with_user_errors c i name invalid s = Inl x"
    and "name \<in> set (arguments e)"
  shows "explained_by H L e i x"
proof -
  from assms(1) have "get_named_arg_with_user_errors c i name PhantomError invalid s = Inl x"
    by (auto simp: get_optional_named_arg_with_user_errors_def bind_c_def split: sum.splits)
  with assms(2) show ?thesis
    by (auto dest!: named_arg_cases simp: explained_by_def argument_error_def)
qed

lemma token_identifier_arg_explained [intro]:
  assumes "get_token_identifier_from_runtime_args H i (l_identifier_mode L) L = Inl x"
    and "numbered L" and "ARG_TOKEN_ID \<in> set (arguments e)"
  shows "explained_by H L e i x"
proof -
  from assms(1,2) have "(\<exists>y. x = Api y \<and> named_arg_size i ARG_TOKEN_ID = Inl y \<and> y \<noteq> Api_MissingArgument)
     \<or> x \<in> {User MissingTokenID, User InvalidTokenIdentifier, User FailedToGetArgBytes}"
    by (auto simp: get_token_identifier_from_runtime_args_def numbered_def dest: bind_named_arg_cases)
  with assms(1,3) show ?thesis by (auto simp: explained_by_def argument_error_def)
qed

lemma no_owner_explained:
  assumes "get_token_identifier_from_runtime_args H i (l_identifier_mode L) L = Inr (t, L)"
    and "l_token_owners L (get_dictionary_item_key t) = None"
  shows "explained_by H L e i (User InvalidTokenIdentifier)"
  using assms by (auto simp: explained_by_def)

lemma beyond_counter_explained:
  assumes "get_token_identifier_from_runtime_args H i (l_identifier_mode L) L = Inr (Index n, L)"
    and "numbered L" and "l_number_of_minted_tokens L \<le> n"
  shows "explained_by H L e i (User InvalidTokenIdentifier)"
proof -
  from assms(2,3) have "get_dictionary_item_key (Index n) \<notin> dom (l_token_owners L)"
    by (auto simp: numbered_def)
  then have "l_token_owners L (get_dictionary_item_key (Index n)) = None" by (simp add: domIff)
  with assms(1) show ?thesis by (rule no_owner_explained)
qed

lemma panic_explained:
  assumes "required_arg (c_key H) i ARG_ACCOUNT_WHITELIST MissingAccountWhiteList
      InvalidAccountWhitelist L = Inr (k, L)"
    and "into_account k = Some b" and "b \<notin> set (l_account_whitelist L)"
  shows "explained_by H L e i Panic"
  using assms by (cases k) (auto simp: explained_by_def)

lemma mode_explained:
  "l_ownership_mode L \<noteq> Transferable \<Longrightarrow> explained_by H L e i (User InvalidOwnershipMode)"
  "l_whitelist_mode L = Locked \<Longrightarrow> explained_by H L e i (User InvalidWhitelistMode)"
  by (simp_all add: explained_by_def)

lemmas explanations = required_arg_explained optional_arg_explained token_identifier_arg_explained
  no_owner_explained beyond_counter_explained mode_explained

text \<open>Where a sequence fails, which part of it does.\<close>

lemma bind_result_partE:
  assumes "bind_c (result_c r) f s = Inl x"
  obtains "r = Inl x" | a where "r = Inr a" and "f a s = Inl x"
  using assms by (cases r) auto

lemma bind_required_arg_partE:
  assumes "bind_c (required_arg c i name missing invalid) f s = Inl x"
  obtains "required_arg c i name missing invalid s = Inl x"
    | a where "required_arg c i name missing invalid s = Inr (a, s)" and "f a s = Inl x"
proof (cases "required_arg c i name missing invalid s")
  case (Inr z)
  then have "snd z = s"
    by (subst (asm) required_arg_pure) (auto simp: result_c_def split: sum.splits)
  with assms Inr that(2) show thesis by (cases z) (simp add: bind_c_def)
qed (use assms that(1) in \<open>simp add: bind_c_def\<close>)

lemma bind_optional_arg_partE:
  assumes "bind_c (get_optional_named_arg_with_user_errors c i name invalid) f s = Inl x"
  obtains "get_optional_named_arg_with_user_errors c i name invalid s = Inl x" | a where "f a s = Inl x"
proof (cases "get_optional_named_arg_with_user_errors c i name invalid s")
  case (Inr z)
  then have "snd z = s"
    by (subst (asm) optional_arg_pure) (auto simp: result_c_def split: sum.splits)
  with assms Inr that(2) show thesis by (cases z) (simp add: bind_c_def)
qed (use assms that(1) in \<open>simp add: bind_c_def\<close>)

lemma bind_token_identifier_arg_partE:
  assumes "bind_c (get_token_identifier_from_runtime_args H i m) f s = Inl x"
  obtains "get_token_identifier_from_runtime_args H i m s = Inl x"
    | t where "get_token_identifier_from_runtime_args H i m s = Inr (t, s)" and "f t s = Inl x"
proof (cases "get_token_identifier_from_runtime_args H i m s")
  case (Inr z)
  then have "snd z = s"
    by (subst (asm) token_identifier_arg_pure) (auto simp: result_c_def split: sum.splits)
  with assms Inr that(2) show thesis by (cases z) (simp add: bind_c_def)
qed (use assms that(1) in \<open>simp add: bind_c_def\<close>)

lemmas bind_partEs = bind_result_partE bind_required_arg_partE bind_optional_arg_partE
  bind_token_identifier_arg_partE bind_revert_if_InlE bind_unwrap_InlE

context casper_host
begin

text \<open>The number of a token is never too long for the key of an item.\<close>

lemma number_fits:
  "get_token_identifier_from_runtime_args H i (l_identifier_mode L) L = Inr (t, L) \<Longrightarrow>
   numbered L \<Longrightarrow> fits H (get_dictionary_item_key t)"
  by (rule ordinal_fits) (auto dest: token_identifier_arg_of_mode simp: numbered_def)

lemma new_number: "ledger_new_identifier i L = Inr t \<Longrightarrow> numbered L \<Longrightarrow> fits H (get_dictionary_item_key t)"
  by (auto simp: ledger_new_identifier_def numbered_def)

lemma new_number_fails: "ledger_new_identifier i L = Inl x \<Longrightarrow> \<not> numbered L"
  by (auto simp: ledger_new_identifier_def numbered_def)

lemma token_call_explained:
  assumes "consistent H L" and "numbered L"
  shows "ledger_mint H i L = Inl x \<Longrightarrow> explained_by H L EP_mint i x"
    and "ledger_burn H i L = Inl x \<Longrightarrow> explained_by H L EP_burn i x"
    and "ledger_approve H i L = Inl x \<Longrightarrow> explained_by H L EP_approve i x"
    and "ledger_transfer H i L = Inl x \<Longrightarrow> explained_by H L EP_transfer i x"
proof -
  show "explained_by H L EP_mint i x" if "ledger_mint H i L = Inl x"
    using that assms(2) unfolding ledger_mint_def
    by (auto elim!: bind_partEs split: if_splits intro: explanations simp: ambiguous_def new_number
        dest: new_number_fails)
  show "explained_by H L EP_burn i x" if "ledger_burn H i L = Inl x"
    using that assms(2) unfolding ledger_burn_def Let_def
    by (auto elim!: bind_partEs split: if_splits intro: explanations simp: ambiguous_def number_fits)
  show "explained_by H L EP_approve i x" if "ledger_approve H i L = Inl x"
    using that assms(2) unfolding ledger_approve_def Let_def
    by (auto elim!: bind_partEs split: if_splits token_identifier.splits intro: explanations
        simp: ambiguous_def number_fits)
  show "explained_by H L EP_transfer i x" if "ledger_transfer H i L = Inl x"
    using that assms(2) move_token_succeeds [OF assms(1)] unfolding ledger_transfer_def Let_def
    by (auto elim!: bind_partEs split: if_splits intro: explanations
        simp: ambiguous_def number_fits bind_c_Inr dest: token_identifier_arg_of_mode)
qed

text \<open>A call that fails is explained.\<close>

lemma call_explained:
  assumes "consistent H L" and "numbered L" and "ledger_call H e i L = Inl x"
  shows "explained_by H L e i x"
proof (cases e)
  case EP_set_approval_for_all
  with assms(2,3) show ?thesis
    unfolding ledger_call_def EP_set_approval_for_all entry_point.case ledger_set_approval_for_all_def
    by (auto elim!: bind_partEs split: if_splits intro: explanations simp: ambiguous_def)
next
  case EP_set_token_metadata
  with assms(2,3) show ?thesis
    unfolding ledger_call_def EP_set_token_metadata entry_point.case ledger_set_token_metadata_def Let_def
    by (auto elim!: bind_partEs split: if_splits intro: explanations simp: ambiguous_def number_fits)
next
  case EP_set_variables
  with assms(2,3) show ?thesis
    unfolding ledger_call_def EP_set_variables entry_point.case ledger_set_variables_def
    by (auto elim!: bind_partEs split: if_splits intro: explanations simp: ambiguous_def)
next
  case EP_add_to_account_whitelist
  with assms(2,3) show ?thesis
    unfolding ledger_call_def EP_add_to_account_whitelist entry_point.case
      ledger_add_to_account_whitelist_def
    by (auto elim!: bind_partEs split: if_splits simp: ambiguous_def)
next
  case EP_remove_from_account_whitelist
  with assms(2,3) show ?thesis
    unfolding ledger_call_def EP_remove_from_account_whitelist entry_point.case
      ledger_remove_from_account_whitelist_def
    by (auto elim!: bind_partEs split: if_splits intro: panic_explained simp: ambiguous_def)
next
  case EP_owner_of
  with assms(2,3) show ?thesis
    unfolding ledger_call_def EP_owner_of entry_point.case ledger_owner_of_def ledger_query_token_run
    by (auto elim!: bind_partEs split: token_identifier.splits intro: explanations
        simp: ambiguous_def number_fits)
next
  case EP_balance_of
  with assms(2,3) show ?thesis unfolding ledger_call_def EP_balance_of entry_point.case ledger_balance_of_def
    by (auto elim!: bind_partEs intro: explanations simp: ambiguous_def)
next
  case EP_get_approved
  with assms(2,3) show ?thesis
    unfolding ledger_call_def EP_get_approved entry_point.case ledger_get_approved_def
      ledger_query_token_run
    by (auto elim!: bind_partEs split: token_identifier.splits intro: explanations
        simp: ambiguous_def number_fits)
next
  case EP_metadata
  with assms(2,3) show ?thesis
    unfolding ledger_call_def EP_metadata entry_point.case ledger_metadata_query_def
      ledger_query_token_run
    by (auto elim!: bind_partEs split: token_identifier.splits intro: explanations
        simp: ambiguous_def explained_other)
qed (use assms token_call_explained [OF assms(1,2)] in \<open>auto simp: ledger_call_def ambiguous_def\<close>)

end

section \<open>On the states of the contract\<close>

text \<open>\<open>init\<close> rejects a schema that does not parse, and no call changes the schema.\<close>

lemma read_init_args_schema:
  "read_init_args H i s = Inr (a, s') \<Longrightarrow> schema_parses H (a_nft_metadata_kind a) (a_json_schema a)"
  unfolding read_init_args_def by (elim bind_c_InrE) (auto simp: schema_parses_def split: if_splits)

lemma reachable_schema:
  "reachable H installer a h \<Longrightarrow> schema_parses H (a_nft_metadata_kind a) (a_json_schema a)"
  by (induction rule: reachable.induct) (auto dest: read_init_args_schema)

text \<open>
  The explanation of an error in terms of what was given to \<open>init\<close>, the arguments of the call and
  what the code reads from the state.
\<close>

definition explained ::
  "'h casper \<Rightarrow> init_args \<Rightarrow> entry_point \<Rightarrow> invocation \<Rightarrow> 'h \<Rightarrow> error \<Rightarrow> bool" where
  "explained H a e i h x \<longleftrightarrow>
     (\<forall>y. x = Api y \<longrightarrow> argument_error e i y)
     \<and> (x = User InvalidHolderMode \<longrightarrow> verified_caller i (a_holder_mode a) = Inl x)
     \<and> (x = User InvalidOwnershipMode \<longrightarrow> a_ownership_mode a \<noteq> Transferable)
     \<and> (x = User InvalidWhitelistMode \<longrightarrow> a_whitelist_mode a = Locked)
     \<and> (x = User InvalidTokenIdentifier \<longrightarrow>
         get_token_identifier_from_runtime_args H i (a_identifier_mode a) h = Inl x
         \<or> (\<exists>t. get_token_identifier_from_runtime_args H i (a_identifier_mode a) h = Inr (t, h)
             \<and> get_dictionary_value_from_key H (c_key H) TOKEN_OWNERS (get_dictionary_item_key t) h
               = Inr (None, h)))
     \<and> (x \<in> {User MissingAccountWhiteList, User InvalidAccountWhitelist} \<longrightarrow>
         required_arg (c_key H) i ARG_ACCOUNT_WHITELIST MissingAccountWhiteList InvalidAccountWhitelist h
           = Inl x)
     \<and> (x = Panic \<longrightarrow> (\<exists>b whitelist.
         required_arg (c_key H) i ARG_ACCOUNT_WHITELIST MissingAccountWhiteList InvalidAccountWhitelist h
           = Inr (Key_Account b, h)
         \<and> get_stored_value_with_user_errors H (c_vec_account_hash H) ACCOUNT_WHITELIST
             MissingAccountWhiteList InvalidAccountWhitelist h = Inr (whitelist, h)
         \<and> b \<notin> set whitelist))"

context casper_host
begin

lemma explained_represents:
  assumes "represents H L h" and "same_configuration (initial_ledger us installer a) L"
    and "numbered L" and "explained_by H L e i x"
  shows "explained H a e i h x"
proof -
  have same: "l_holder_mode L = a_holder_mode a" "l_ownership_mode L = a_ownership_mode a"
    "l_whitelist_mode L = a_whitelist_mode a" "l_identifier_mode L = a_identifier_mode a"
    using assms(2) by (simp_all add: same_configuration_def initial_ledger_def)
  have token: "get_token_identifier_from_runtime_args H i m L = Inl x \<Longrightarrow>
      get_token_identifier_from_runtime_args H i m h = Inl x"
    "get_token_identifier_from_runtime_args H i m L = Inr (t, L) \<Longrightarrow>
      get_token_identifier_from_runtime_args H i m h = Inr (t, h)" for m t
    by (subst (asm) token_identifier_arg_pure, subst token_identifier_arg_pure,
        auto simp: result_c_def split: sum.splits)+
  have whitelist: "required_arg (c_key H) i ARG_ACCOUNT_WHITELIST u v L = Inl x \<Longrightarrow>
      required_arg (c_key H) i ARG_ACCOUNT_WHITELIST u v h = Inl x"
    "required_arg (c_key H) i ARG_ACCOUNT_WHITELIST u v L = Inr (k, L) \<Longrightarrow>
      required_arg (c_key H) i ARG_ACCOUNT_WHITELIST u v h = Inr (k, h)" for u v k
    by (subst (asm) required_arg_pure, subst required_arg_pure,
        auto simp: result_c_def split: sum.splits)+
  have owners: "get_token_identifier_from_runtime_args H i m L = Inr (t, L) \<Longrightarrow>
      m = l_identifier_mode L \<Longrightarrow> l_token_owners L (get_dictionary_item_key t) = None \<Longrightarrow>
      get_dictionary_value_from_key H (c_key H) TOKEN_OWNERS (get_dictionary_item_key t) h
        = Inr (None, h)" for m t
    using number_fits [OF _ assms(3)] by (simp add: read_dictionaries(1) [OF assms(1)])
  have panic: "\<exists>b whitelist. required_arg (c_key H) i ARG_ACCOUNT_WHITELIST u v h = Inr (Key_Account b, h)
      \<and> get_stored_value_with_user_errors H (c_vec_account_hash H) ACCOUNT_WHITELIST u v h = Inr (whitelist, h)
      \<and> b \<notin> set whitelist"
    if "\<exists>b. required_arg (c_key H) i ARG_ACCOUNT_WHITELIST u v L = Inr (Key_Account b, L)
      \<and> b \<notin> set (l_account_whitelist L)" for u v
    using that whitelist(2) [of u v] by (simp add: read_values(4) [OF assms(1)]) blast
  show ?thesis
    using assms(4) unfolding explained_by_def explained_def same
    apply (elim conjE)
    apply (intro conjI; assumption?)
    subgoal using token owners [OF _ same(4) [symmetric]] by blast
    subgoal using whitelist(1) by blast
    subgoal using panic by blast
    done
qed

end

end
