(* ===== verification/Install.thy ===== *)
theory Install
  imports Queries
begin

text \<open>
  The session code of \<open>contract/src/main.rs\<close> that installs the contract: the table of its entry
  points, \<open>install_nft_contract\<close>, and \<open>call\<close>, which reads the arguments of the session, creates the
  contract and calls its \<open>init\<close>. What sessions call beyond what the contract itself calls is a
  second record of parameters.
\<close>

section \<open>Entry points\<close>

text \<open>\<open>casper_types::{CLType, EntryPoint, EntryPointType, Parameter}\<close>, as far as the code names them;
  access is for everyone or for the members of named groups.\<close>

datatype cl_type =
    CL_Unit | CL_Bool | CL_U8 | CL_U64 | CL_String | CL_Key
  | CL_ByteArray u32 | CL_List cl_type | CL_Option cl_type | CL_Tuple3 cl_type cl_type cl_type

datatype entry_point_access = Access_Public | Access_Groups "string list"

datatype entry_point_type = Type_Session | Type_Contract

record entry_point_def =
  ep_name :: string
  ep_args :: "(string \<times> cl_type) list"
  ep_ret :: cl_type
  ep_access :: entry_point_access
  ep_type :: entry_point_type

definition public_contract_entry ::
  "string \<Rightarrow> (string \<times> cl_type) list \<Rightarrow> cl_type \<Rightarrow> entry_point_def" where
  "public_contract_entry name args ret =
     \<lparr>ep_name = name, ep_args = args, ep_ret = ret, ep_access = Access_Public,
      ep_type = Type_Contract\<rparr>"

text \<open>\<open>EntryPoints::add_entry_point\<close>: an entry point is kept under its name.\<close>

definition add_entry_point ::
  "entry_point_def btree_map \<Rightarrow> entry_point_def \<Rightarrow> entry_point_def btree_map" where
  "add_entry_point m e = btree_insert (ep_name e) e m"

abbreviation CL_hashes :: cl_type where
  "CL_hashes \<equiv> CL_List (CL_ByteArray 32)"

definition init_entry :: entry_point_def where
  "init_entry = public_contract_entry ENTRY_POINT_INIT
     [(ARG_COLLECTION_NAME, CL_String), (ARG_COLLECTION_SYMBOL, CL_String),
      (ARG_TOTAL_TOKEN_SUPPLY, CL_U64), (ARG_ALLOW_MINTING, CL_Bool), (ARG_MINTING_MODE, CL_U8),
      (ARG_OWNERSHIP_MODE, CL_U8), (ARG_NFT_KIND, CL_U8), (ARG_HOLDER_MODE, CL_U8),
      (ARG_WHITELIST_MODE, CL_U8), (ARG_CONTRACT_WHITELIST, CL_hashes),
      (ARG_ACCOUNT_WHITELIST, CL_hashes), (ARG_JSON_SCHEMA, CL_String),
      (ARG_RECEIPT_NAME, CL_String), (ARG_IDENTIFIER_MODE, CL_U8)] CL_Unit"

definition set_variables_entry :: entry_point_def where
  "set_variables_entry = public_contract_entry ENTRY_POINT_SET_VARIABLES
     [(ARG_ALLOW_MINTING, CL_Bool), (ARG_CONTRACT_WHITELIST, CL_hashes),
      (ARG_ACCOUNT_WHITELIST, CL_Key)] CL_Unit"

definition add_to_account_whitelist_entry :: entry_point_def where
  "add_to_account_whitelist_entry = public_contract_entry ENTRY_POINT_ADD_TO_ACCOUNT_WHITELIST
     [(ARG_ACCOUNT_WHITELIST, CL_Key)] CL_Unit"

definition remove_from_account_whitelist_entry :: entry_point_def where
  "remove_from_account_whitelist_entry =
     public_contract_entry ENTRY_POINT_REMOVE_FROM_ACCOUNT_WHITELIST
       [(ARG_ACCOUNT_WHITELIST, CL_Key)] CL_Unit"

definition mint_entry :: entry_point_def where
  "mint_entry = public_contract_entry ENTRY_POINT_MINT
     [(ARG_TOKEN_OWNER, CL_Key), (ARG_TOKEN_META_DATA, CL_String), (ARG_TOKEN_ID_HASH, CL_String)]
     (CL_Tuple3 CL_String CL_Key CL_String)"

definition burn_entry :: entry_point_def where
  "burn_entry = public_contract_entry ENTRY_POINT_BURN
     [(ARG_TOKEN_ID, CL_U64), (ARG_TOKEN_HASH, CL_String)] CL_Unit"

definition transfer_entry :: entry_point_def where
  "transfer_entry = public_contract_entry ENTRY_POINT_TRANSFER
     [(ARG_TOKEN_ID, CL_U64), (ARG_TOKEN_HASH, CL_String), (ARG_SOURCE_KEY, CL_Key),
      (ARG_TARGET_KEY, CL_Key)] CL_Unit"

definition approve_entry :: entry_point_def where
  "approve_entry = public_contract_entry ENTRY_POINT_APPROVE
     [(ARG_TOKEN_ID, CL_U64), (ARG_TOKEN_HASH, CL_String), (ARG_OPERATOR, CL_Key)] CL_Unit"

definition set_approval_for_all_entry :: entry_point_def where
  "set_approval_for_all_entry = public_contract_entry ENTRY_POINT_SET_APPROVE_FOR_ALL
     [(ARG_TOKEN_OWNER, CL_Key)] CL_Unit"

definition owner_of_entry :: entry_point_def where
  "owner_of_entry = public_contract_entry ENTRY_POINT_OWNER_OF
     [(ARG_TOKEN_ID, CL_U64), (ARG_TOKEN_HASH, CL_String)] CL_Key"

definition get_approved_entry :: entry_point_def where
  "get_approved_entry = public_contract_entry ENTRY_POINT_GET_APPROVED
     [(ARG_TOKEN_ID, CL_U64), (ARG_TOKEN_HASH, CL_String)] (CL_Option CL_Key)"

definition balance_of_entry :: entry_point_def where
  "balance_of_entry = public_contract_entry ENTRY_POINT_BALANCE_OF
     [(ARG_TOKEN_OWNER, CL_Key)] CL_U64"

definition metadata_entry :: entry_point_def where
  "metadata_entry = public_contract_entry ENTRY_POINT_METADATA
     [(ARG_TOKEN_ID, CL_U64), (ARG_TOKEN_HASH, CL_String)] CL_String"

definition set_token_metadata_entry :: entry_point_def where
  "set_token_metadata_entry = public_contract_entry ENTRY_POINT_SET_TOKEN_METADATA
     [(ARG_TOKEN_ID, CL_U64), (ARG_TOKEN_HASH, CL_String), (ARG_TOKEN_META_DATA, CL_String)] CL_Unit"

definition nft_entry_points :: "entry_point_def btree_map" where
  "nft_entry_points = foldl add_entry_point []
     [init_entry, set_variables_entry, add_to_account_whitelist_entry,
      remove_from_account_whitelist_entry, mint_entry, burn_entry, transfer_entry, approve_entry,
      owner_of_entry, balance_of_entry, get_approved_entry, metadata_entry,
      set_approval_for_all_entry, set_token_metadata_entry]"

section \<open>What sessions call\<close>

text \<open>
  \<open>runtime_args!\<close> pairs each name with the bytes of its value; the type that a \<open>CLValue\<close> carries
  beside the bytes is not read by the callee. A call of another contract returns the bytes of the
  value the callee has passed to \<open>runtime::ret\<close>, and the state after it, or does not return.
\<close>

type_synonym runtime_args = "(string \<times> bytes) list"

record 'h platform =
  storage_new_contract ::
    "entry_point_def btree_map \<Rightarrow> (string \<times> key) list \<Rightarrow> string \<Rightarrow> string \<Rightarrow> 'h \<Rightarrow>
     (contract_hash \<times> u32) \<times> 'h"
  runtime_call_contract ::
    "contract_hash \<Rightarrow> string \<Rightarrow> runtime_args \<Rightarrow> 'h \<Rightarrow> error + bytes \<times> 'h"
  package_hash_to_formatted_string :: "256 word \<Rightarrow> string"
  c_u32 :: "u32 codec"
  c_mint_receipt :: "(string \<times> key \<times> string) codec"
  c_transfer_receipt :: "(string \<times> key) codec"

text \<open>The call a callee serves: it finds each argument under its name, and its type is read off its
  bytes.\<close>

definition arg_value :: "runtime_args \<Rightarrow> 'a codec \<Rightarrow> string \<Rightarrow> api_error + 'a" where
  "arg_value args c n =
     (case map_of args n of None \<Rightarrow> Inl Api_MissingArgument | Some bs \<Rightarrow> deserialize c bs)"

definition deliver ::
  "'h casper \<Rightarrow> runtime_args \<Rightarrow> account_hash \<Rightarrow> call_stack_element list \<Rightarrow> invocation" where
  "deliver H args caller stack =
     \<lparr>get_caller = caller, get_call_stack = stack,
      named_arg_size = (\<lambda>n. case map_of args n of
        None \<Rightarrow> Inl Api_MissingArgument | Some bs \<Rightarrow> Inr (length bs)),
      named_arg_bytes = (\<lambda>n. case map_of args n of
        None \<Rightarrow> Inl Api_MissingArgument | Some bs \<Rightarrow> Inr bs),
      get_named_arg_key = arg_value args (c_key H),
      get_named_arg_string = arg_value args (c_string H),
      get_named_arg_bool = arg_value args (c_bool H),
      get_named_arg_u64 = arg_value args (c_u64 H)\<rparr>"

lemma deliver_fields [simp]:
  "get_caller (deliver H args caller stack) = caller"
  "get_call_stack (deliver H args caller stack) = stack"
  "get_named_arg_key (deliver H args caller stack) = arg_value args (c_key H)"
  "get_named_arg_string (deliver H args caller stack) = arg_value args (c_string H)"
  "get_named_arg_bool (deliver H args caller stack) = arg_value args (c_bool H)"
  "get_named_arg_u64 (deliver H args caller stack) = arg_value args (c_u64 H)"
  by (simp_all add: deliver_def)

lemma delivered_arg:
  assumes "map_of args n = Some (to_bytes c v)" and "codec_ok c"
  shows "get_named_arg_with_user_errors c (deliver H args a st) n missing invalid s = Inr (Inr v, s)"
    and "required_arg c (deliver H args a st) n missing invalid s = Inr (v, s)"
    and "arg_value args c n = Inr v"
  using assms(1) deserialize_to_bytes [OF assms(2), of v]
  by (auto simp: required_arg_def get_named_arg_with_user_errors_def get_named_arg_size_def
      deliver_def bind_c_def unwrap_or_revert_def arg_value_def)

lemma missing_arg:
  assumes "map_of args n = None"
  shows "get_named_arg_with_user_errors c (deliver H args a st) n missing invalid s
      = Inr (Inl missing, s)"
    and "required_arg c (deliver H args a st) n missing invalid s = Inl (User missing)"
    and "arg_value args c n = Inl Api_MissingArgument"
  using assms
  by (simp_all add: required_arg_def get_named_arg_with_user_errors_def get_named_arg_size_def
      deliver_def bind_c_def unwrap_or_revert_def arg_value_def)

text \<open>\<open>runtime::call_contract::<T>\<close>: bytes that are not those of a \<open>T\<close> revert.\<close>

definition call_contract_c ::
  "'h platform \<Rightarrow> 'a codec \<Rightarrow> contract_hash \<Rightarrow> string \<Rightarrow> runtime_args \<Rightarrow> ('h, 'a) contract" where
  "call_contract_c P c contract name args =
     bind_c (runtime_call_contract P contract name args) (\<lambda>bs.
     case deserialize c bs of Inl e \<Rightarrow> revert_c (Api e) | Inr v \<Rightarrow> return_c v)"

text \<open>\<open>runtime::put_key\<close> and \<open>runtime::get_key\<close> in a session.\<close>

definition put_key_c :: "'h casper \<Rightarrow> string \<Rightarrow> key \<Rightarrow> ('h, unit) contract" where
  "put_key_c H name k h = Inr ((), runtime_put_key H name k h)"

section \<open>Installation\<close>

definition install_nft_contract ::
  "'h casper \<Rightarrow> 'h platform \<Rightarrow> invocation \<Rightarrow> ('h, contract_hash \<times> u32) contract" where
  "install_nft_contract H P i h =
     Inr (storage_new_contract P nft_entry_points [(INSTALLER, Key_Account (get_caller i))]
       HASH_KEY_NAME ACCESS_KEY_NAME h)"

text \<open>What \<open>call\<close> reads from the arguments of the session: the modes are codes, not yet checked.\<close>

record install_args =
  i_collection_name :: string
  i_collection_symbol :: string
  i_total_token_supply :: u64
  i_allow_minting :: bool
  i_minting_mode :: u8
  i_ownership_mode :: u8
  i_nft_kind :: u8
  i_holder_mode :: u8
  i_whitelist_lock :: u8
  i_contract_white_list :: "contract_hash list"
  i_account_white_list :: "account_hash list"
  i_nft_metadata_kind :: u8
  i_json_schema :: string
  i_identifier_mode :: u8
  i_metadata_mutability :: u8

text \<open>\<open>get_optional_named_arg_with_user_errors(..).unwrap_or(default)\<close>\<close>

definition optional_arg ::
  "'a option codec \<Rightarrow> invocation \<Rightarrow> string \<Rightarrow> nft_core_error \<Rightarrow> 'a \<Rightarrow> ('s, 'a) contract" where
  "optional_arg c i name invalid dflt =
     bind_c (get_optional_named_arg_with_user_errors c i name invalid) (\<lambda>r.
     return_c (case r of None \<Rightarrow> dflt | Some v \<Rightarrow> v))"

definition read_install_args :: "'h casper \<Rightarrow> invocation \<Rightarrow> ('s, install_args) contract" where
  "read_install_args H i =
     bind_c (required_arg (c_string H) i ARG_COLLECTION_NAME
       MissingCollectionName InvalidCollectionName) (\<lambda>collection_name.
     bind_c (required_arg (c_string H) i ARG_COLLECTION_SYMBOL
       MissingCollectionSymbol InvalidCollectionSymbol) (\<lambda>collection_symbol.
     bind_c (required_arg (c_u64 H) i ARG_TOTAL_TOKEN_SUPPLY
       MissingTotalTokenSupply InvalidTotalTokenSupply) (\<lambda>total_token_supply.
     bind_c (optional_arg (c_option_bool H) i ARG_ALLOW_MINTING InvalidMintingStatus True)
       (\<lambda>allow_minting.
     bind_c (optional_arg (c_option_u8 H) i ARG_MINTING_MODE InvalidMintingMode 0) (\<lambda>minting_mode.
     bind_c (required_arg (c_u8 H) i ARG_OWNERSHIP_MODE
       MissingOwnershipMode InvalidOwnershipMode) (\<lambda>ownership_mode.
     bind_c (required_arg (c_u8 H) i ARG_NFT_KIND MissingNftKind InvalidNftKind) (\<lambda>nft_kind.
     bind_c (optional_arg (c_option_u8 H) i ARG_HOLDER_MODE InvalidHolderMode 0) (\<lambda>holder_mode.
     bind_c (optional_arg (c_option_u8 H) i ARG_WHITELIST_MODE InvalidWhitelistMode 0)
       (\<lambda>whitelist_lock.
     bind_c (optional_arg (c_option_vec_contract_hash H) i ARG_CONTRACT_WHITELIST
       InvalidContractWhitelist []) (\<lambda>contract_white_list.
     bind_c (optional_arg (c_option_vec_account_hash H) i ARG_ACCOUNT_WHITELIST
       InvalidAccountWhitelist []) (\<lambda>account_white_list.
     bind_c (required_arg (c_u8 H) i ARG_NFT_METADATA_KIND
       MissingNFTMetadataKind InvalidNFTMetadataKind) (\<lambda>nft_metadata_kind.
     bind_c (required_arg (c_string H) i ARG_JSON_SCHEMA
       MissingJsonSchema InvalidJsonSchema) (\<lambda>json_schema.
     bind_c (required_arg (c_u8 H) i ARG_IDENTIFIER_MODE
       MissingIdentifierMode InvalidIdentifierMode) (\<lambda>identifier_mode.
     bind_c (required_arg (c_u8 H) i ARG_METADATA_MUTABILITY
       MissingMetadataMutability InvalidMetadataMutability) (\<lambda>metadata_mutability.
     bind_c (revert_if (identifier_mode = 1 \<and> metadata_mutability = 1)
       (User InvalidMetadataMutability)) (\<lambda>_.
     return_c \<lparr>i_collection_name = collection_name, i_collection_symbol = collection_symbol,
       i_total_token_supply = total_token_supply, i_allow_minting = allow_minting,
       i_minting_mode = minting_mode, i_ownership_mode = ownership_mode, i_nft_kind = nft_kind,
       i_holder_mode = holder_mode, i_whitelist_lock = whitelist_lock,
       i_contract_white_list = contract_white_list, i_account_white_list = account_white_list,
       i_nft_metadata_kind = nft_metadata_kind, i_json_schema = json_schema,
       i_identifier_mode = identifier_mode, i_metadata_mutability = metadata_mutability\<rparr>))))))))))))))))"

text \<open>The arguments \<open>call\<close> hands to \<open>init\<close>.\<close>

definition init_runtime_args :: "'h casper \<Rightarrow> install_args \<Rightarrow> string \<Rightarrow> runtime_args" where
  "init_runtime_args H x receipt_name =
     [(ARG_COLLECTION_NAME, to_bytes (c_string H) (i_collection_name x)),
      (ARG_COLLECTION_SYMBOL, to_bytes (c_string H) (i_collection_symbol x)),
      (ARG_TOTAL_TOKEN_SUPPLY, to_bytes (c_u64 H) (i_total_token_supply x)),
      (ARG_ALLOW_MINTING, to_bytes (c_bool H) (i_allow_minting x)),
      (ARG_OWNERSHIP_MODE, to_bytes (c_u8 H) (i_ownership_mode x)),
      (ARG_NFT_KIND, to_bytes (c_u8 H) (i_nft_kind x)),
      (ARG_MINTING_MODE, to_bytes (c_u8 H) (i_minting_mode x)),
      (ARG_HOLDER_MODE, to_bytes (c_u8 H) (i_holder_mode x)),
      (ARG_WHITELIST_MODE, to_bytes (c_u8 H) (i_whitelist_lock x)),
      (ARG_CONTRACT_WHITELIST, to_bytes (c_vec_contract_hash H) (i_contract_white_list x)),
      (ARG_ACCOUNT_WHITELIST, to_bytes (c_vec_account_hash H) (i_account_white_list x)),
      (ARG_JSON_SCHEMA, to_bytes (c_string H) (i_json_schema x)),
      (ARG_RECEIPT_NAME, to_bytes (c_string H) receipt_name),
      (ARG_NFT_METADATA_KIND, to_bytes (c_u8 H) (i_nft_metadata_kind x)),
      (ARG_IDENTIFIER_MODE, to_bytes (c_u8 H) (i_identifier_mode x)),
      (ARG_METADATA_MUTABILITY, to_bytes (c_u8 H) (i_metadata_mutability x))]"

text \<open>\<open>format!("nft-{}-{}", collection_name, package_hash.to_formatted_string())\<close>\<close>

definition receipt_name_of :: "'h platform \<Rightarrow> string \<Rightarrow> 256 word \<Rightarrow> string" where
  "receipt_name_of P collection_name package_hash =
     ''nft-'' @ collection_name @ ''-'' @ package_hash_to_formatted_string P package_hash"

definition install_call :: "'h casper \<Rightarrow> 'h platform \<Rightarrow> invocation \<Rightarrow> ('h, unit) contract" where
  "install_call H P i =
     bind_c (read_install_args H i) (\<lambda>x.
     bind_c (install_nft_contract H P i) (\<lambda>(contract_hash, contract_version).
     bind_c (put_key_c H CONTRACT_NAME (Key_Hash (contract_value contract_hash))) (\<lambda>_.
     bind_c (put_new_uref H CONTRACT_VERSION (c_u32 P) contract_version) (\<lambda>_ h.
     bind_c (unwrap_or_revert_with (Api Api_None) (runtime_get_key H HASH_KEY_NAME h)) (\<lambda>hash_key.
     bind_c (unwrap_or_revert_with Panic (into_hash hash_key)) (\<lambda>package_hash.
     call_contract_c P (c_unit H) contract_hash ENTRY_POINT_INIT
       (init_runtime_args H x (receipt_name_of P (i_collection_name x) package_hash)))) h))))"

end
