(* ===== verification/Clients.thy ===== *)
theory Clients
  imports Install
begin

text \<open>
  The clients under \<open>src/casper/client\<close>: the sessions an account runs to call the contract, and the
  contract that mints, transfers and burns on behalf of its callers. Each reads its arguments with
  \<open>runtime::get_named_arg\<close>, calls one entry point and keeps what it returns under a named key.
\<close>

definition ARG_NFT_CONTRACT_HASH :: string where
  [constant_defs]: "ARG_NFT_CONTRACT_HASH = ''nft_contract_hash''"

definition ARG_KEY_NAME :: string where [constant_defs]: "ARG_KEY_NAME = ''key_name''"

definition ARG_IS_HASH_IDENTIFIER_MODE :: string where
  [constant_defs]: "ARG_IS_HASH_IDENTIFIER_MODE = ''is_hash_identifier_mode''"

text \<open>\<open>get_named_arg::<Key>(ARG_NFT_CONTRACT_HASH).into_hash().map(..).unwrap()\<close>\<close>

definition nft_contract_hash_arg :: "invocation \<Rightarrow> ('s, contract_hash) contract" where
  "nft_contract_hash_arg i =
     bind_c (get_named_arg_c (get_named_arg_key i ARG_NFT_CONTRACT_HASH)) (\<lambda>k.
     unwrap_or_revert_with Panic (map_option ContractHash (into_hash k)))"

section \<open>Sessions that ask\<close>

definition balance_of_session :: "'h casper \<Rightarrow> 'h platform \<Rightarrow> invocation \<Rightarrow> ('h, unit) contract" where
  "balance_of_session H P i =
     bind_c (nft_contract_hash_arg i) (\<lambda>nft_contract_hash.
     bind_c (get_named_arg_c (get_named_arg_string i ARG_KEY_NAME)) (\<lambda>key_name.
     bind_c (get_named_arg_c (get_named_arg_key i ARG_TOKEN_OWNER)) (\<lambda>token_owner.
     bind_c (call_contract_c P (c_u64 H) nft_contract_hash ENTRY_POINT_BALANCE_OF
       [(ARG_TOKEN_OWNER, to_bytes (c_key H) token_owner)]) (\<lambda>balance.
     put_new_uref H key_name (c_u64 H) balance))))"

text \<open>
  The argument that names the token: a hash if the session is told that the contract identifies
  tokens by hashes, a number otherwise.
\<close>

definition token_runtime_arg :: "'h casper \<Rightarrow> invocation \<Rightarrow> ('s, string \<times> bytes) contract" where
  "token_runtime_arg H i =
     bind_c (get_named_arg_c (get_named_arg_bool i ARG_IS_HASH_IDENTIFIER_MODE)) (\<lambda>is_hash.
     if is_hash
     then bind_c (get_named_arg_c (get_named_arg_string i ARG_TOKEN_HASH)) (\<lambda>token_hash.
          return_c (ARG_TOKEN_HASH, to_bytes (c_string H) token_hash))
     else bind_c (get_named_arg_c (get_named_arg_u64 i ARG_TOKEN_ID)) (\<lambda>token_id.
          return_c (ARG_TOKEN_ID, to_bytes (c_u64 H) token_id)))"

definition get_approved_session ::
  "'h casper \<Rightarrow> 'h platform \<Rightarrow> invocation \<Rightarrow> ('h, unit) contract" where
  "get_approved_session H P i =
     bind_c (nft_contract_hash_arg i) (\<lambda>nft_contract_hash.
     bind_c (get_named_arg_c (get_named_arg_string i ARG_KEY_NAME)) (\<lambda>key_name.
     bind_c (token_runtime_arg H i) (\<lambda>token.
     bind_c (call_contract_c P (c_option_key H) nft_contract_hash ENTRY_POINT_GET_APPROVED [token])
       (\<lambda>maybe_operator.
     put_new_uref H key_name (c_option_key H) maybe_operator))))"

definition owner_of_session :: "'h casper \<Rightarrow> 'h platform \<Rightarrow> invocation \<Rightarrow> ('h, unit) contract" where
  "owner_of_session H P i =
     bind_c (nft_contract_hash_arg i) (\<lambda>nft_contract_hash.
     bind_c (get_named_arg_c (get_named_arg_string i ARG_KEY_NAME)) (\<lambda>key_name.
     bind_c (token_runtime_arg H i) (\<lambda>token.
     bind_c (call_contract_c P (c_key H) nft_contract_hash ENTRY_POINT_OWNER_OF [token]) (\<lambda>owner.
     put_new_uref H key_name (c_key H) owner))))"

section \<open>Sessions that act\<close>

definition mint_runtime_args :: "'h casper \<Rightarrow> key \<Rightarrow> string \<Rightarrow> string \<Rightarrow> runtime_args" where
  "mint_runtime_args H token_owner token_metadata token_id_hash =
     [(ARG_TOKEN_OWNER, to_bytes (c_key H) token_owner),
      (ARG_TOKEN_META_DATA, to_bytes (c_string H) token_metadata),
      (ARG_TOKEN_ID_HASH, to_bytes (c_string H) token_id_hash)]"

definition mint_session :: "'h casper \<Rightarrow> 'h platform \<Rightarrow> invocation \<Rightarrow> ('h, unit) contract" where
  "mint_session H P i =
     bind_c (nft_contract_hash_arg i) (\<lambda>nft_contract_hash.
     bind_c (get_named_arg_c (get_named_arg_key i ARG_TOKEN_OWNER)) (\<lambda>token_owner.
     bind_c (get_named_arg_c (get_named_arg_string i ARG_TOKEN_META_DATA)) (\<lambda>token_metadata.
     bind_c (get_named_arg_c (get_named_arg_string i ARG_TOKEN_ID_HASH)) (\<lambda>token_id_hash.
     bind_c (call_contract_c P (c_mint_receipt P) nft_contract_hash ENTRY_POINT_MINT
       (mint_runtime_args H token_owner token_metadata token_id_hash))
       (\<lambda>(receipt_name, owned_tokens_dictionary_key, _).
     put_key_c H receipt_name owned_tokens_dictionary_key)))))"

definition transfer_session :: "'h casper \<Rightarrow> 'h platform \<Rightarrow> invocation \<Rightarrow> ('h, unit) contract" where
  "transfer_session H P i =
     bind_c (nft_contract_hash_arg i) (\<lambda>nft_contract_hash.
     bind_c (get_named_arg_c (get_named_arg_key i ARG_SOURCE_KEY)) (\<lambda>source_key.
     bind_c (get_named_arg_c (get_named_arg_key i ARG_TARGET_KEY)) (\<lambda>target_key.
     bind_c (token_runtime_arg H i) (\<lambda>token.
     bind_c (call_contract_c P (c_transfer_receipt P) nft_contract_hash ENTRY_POINT_TRANSFER
       [token, (ARG_TARGET_KEY, to_bytes (c_key H) target_key),
        (ARG_SOURCE_KEY, to_bytes (c_key H) source_key)])
       (\<lambda>(receipt_name, owned_tokens_dictionary_key).
     put_key_c H receipt_name owned_tokens_dictionary_key)))))"

section \<open>The minting contract\<close>

text \<open>The entry point \<open>mint\<close> of the minting contract is the code of the mint session.\<close>

definition minting_contract_mint ::
  "'h casper \<Rightarrow> 'h platform \<Rightarrow> invocation \<Rightarrow> ('h, unit) contract" where
  "minting_contract_mint H P i =
     bind_c (nft_contract_hash_arg i) (\<lambda>nft_contract_hash.
     bind_c (get_named_arg_c (get_named_arg_key i ARG_TOKEN_OWNER)) (\<lambda>token_owner.
     bind_c (get_named_arg_c (get_named_arg_string i ARG_TOKEN_META_DATA)) (\<lambda>token_metadata.
     bind_c (get_named_arg_c (get_named_arg_string i ARG_TOKEN_ID_HASH)) (\<lambda>token_id_hash.
     bind_c (call_contract_c P (c_mint_receipt P) nft_contract_hash ENTRY_POINT_MINT
       (mint_runtime_args H token_owner token_metadata token_id_hash))
       (\<lambda>(collection_name, owned_tokens_dictionary_key, _).
     put_key_c H collection_name owned_tokens_dictionary_key)))))"

definition minting_contract_transfer ::
  "'h casper \<Rightarrow> 'h platform \<Rightarrow> invocation \<Rightarrow> ('h, unit) contract" where
  "minting_contract_transfer H P i =
     bind_c (nft_contract_hash_arg i) (\<lambda>nft_contract_hash.
     bind_c (get_named_arg_c (get_named_arg_u64 i ARG_TOKEN_ID)) (\<lambda>token_id.
     bind_c (get_named_arg_c (get_named_arg_key i ARG_SOURCE_KEY)) (\<lambda>from_token_owner.
     bind_c (get_named_arg_c (get_named_arg_key i ARG_TARGET_KEY)) (\<lambda>target_token_owner.
     bind_c (call_contract_c P (c_transfer_receipt P) nft_contract_hash ENTRY_POINT_TRANSFER
       [(ARG_TOKEN_ID, to_bytes (c_u64 H) token_id),
        (ARG_SOURCE_KEY, to_bytes (c_key H) from_token_owner),
        (ARG_TARGET_KEY, to_bytes (c_key H) target_token_owner)])
       (\<lambda>(collection_name, owned_tokens_dictionary_key).
     put_key_c H collection_name owned_tokens_dictionary_key)))))"

definition minting_contract_burn ::
  "'h casper \<Rightarrow> 'h platform \<Rightarrow> invocation \<Rightarrow> ('h, unit) contract" where
  "minting_contract_burn H P i =
     bind_c (nft_contract_hash_arg i) (\<lambda>nft_contract_hash.
     bind_c (get_named_arg_c (get_named_arg_u64 i ARG_TOKEN_ID)) (\<lambda>token_id.
     call_contract_c P (c_unit H) nft_contract_hash ENTRY_POINT_BURN
       [(ARG_TOKEN_ID, to_bytes (c_u64 H) token_id)]))"

text \<open>Its entry points: \<open>mint\<close> runs as a session, in the context of the caller.\<close>

definition minting_entry_points :: "entry_point_def btree_map" where
  "minting_entry_points = foldl add_entry_point []
     [\<lparr>ep_name = ENTRY_POINT_MINT,
       ep_args = [(ARG_TOKEN_META_DATA, CL_Key), (ARG_TOKEN_OWNER, CL_Key),
         (ARG_TOKEN_META_DATA, CL_String)],
       ep_ret = CL_Unit, ep_access = Access_Public, ep_type = Type_Session\<rparr>,
      public_contract_entry ENTRY_POINT_TRANSFER
        [(ARG_TOKEN_ID, CL_U64), (ARG_SOURCE_KEY, CL_Key), (ARG_TARGET_KEY, CL_Key)] CL_Unit,
      public_contract_entry ENTRY_POINT_BURN [(ARG_TOKEN_ID, CL_U64)] CL_Unit]"

definition install_minting_contract ::
  "'h platform \<Rightarrow> invocation \<Rightarrow> ('h, contract_hash \<times> u32) contract" where
  "install_minting_contract P i h =
     Inr (storage_new_contract P minting_entry_points [(INSTALLER, Key_Account (get_caller i))]
       ''minting_contract_package_hash'' ''minting_contract_access_uref'' h)"

definition minting_contract_call ::
  "'h casper \<Rightarrow> 'h platform \<Rightarrow> invocation \<Rightarrow> ('h, unit) contract" where
  "minting_contract_call H P i =
     bind_c (install_minting_contract P i) (\<lambda>(contract_hash, contract_version).
     bind_c (put_key_c H ''minting_contract_hash'' (Key_Hash (contract_value contract_hash))) (\<lambda>_.
     put_new_uref H ''minting_contract_version'' (c_u32 P) contract_version))"

end
