(* ===== verification/Platform.thy ===== *)
theory Platform
  imports Contract Clients
begin

text \<open>
  The interface between sessions and the contract: how a call of the contract by another piece of
  code runs one of its entry points, and what sessions that have returned know of the contract.
\<close>

section \<open>Entry points by name\<close>

primrec entry_point_name :: "entry_point \<Rightarrow> string" where
  "entry_point_name EP_init = ENTRY_POINT_INIT"
| "entry_point_name EP_set_variables = ENTRY_POINT_SET_VARIABLES"
| "entry_point_name EP_mint = ENTRY_POINT_MINT"
| "entry_point_name EP_burn = ENTRY_POINT_BURN"
| "entry_point_name EP_transfer = ENTRY_POINT_TRANSFER"
| "entry_point_name EP_approve = ENTRY_POINT_APPROVE"
| "entry_point_name EP_set_approval_for_all = ENTRY_POINT_SET_APPROVE_FOR_ALL"
| "entry_point_name EP_set_token_metadata = ENTRY_POINT_SET_TOKEN_METADATA"
| "entry_point_name EP_add_to_account_whitelist = ENTRY_POINT_ADD_TO_ACCOUNT_WHITELIST"
| "entry_point_name EP_remove_from_account_whitelist = ENTRY_POINT_REMOVE_FROM_ACCOUNT_WHITELIST"
| "entry_point_name EP_owner_of = ENTRY_POINT_OWNER_OF"
| "entry_point_name EP_balance_of = ENTRY_POINT_BALANCE_OF"
| "entry_point_name EP_get_approved = ENTRY_POINT_GET_APPROVED"
| "entry_point_name EP_metadata = ENTRY_POINT_METADATA"

lemma entry_point_name_inj: "entry_point_name e = entry_point_name e' \<longleftrightarrow> e = e'"
  by (cases e; cases e'; simp add: constant_defs)

section \<open>What sessions rely on\<close>

text \<open>
  A call of the contract at the address \<open>nft\<close> that returns has run the entry point of that name, in
  the context of the contract, on the arguments it was given, and returns the bytes of what the
  entry point has returned; \<open>inside\<close> is the state as the contract sees it. Receipts are read back as
  they were written.
\<close>

locale casper_platform = casper_host H for H :: "'h casper" +
  fixes P :: "'h platform" and nft :: contract_hash and inside :: "'h \<Rightarrow> 'h"
  assumes contract_call: "runtime_call_contract P nft name args h = Inr (bs, h') \<Longrightarrow>
      \<exists>e caller stack r. entry_point_name e = name
        \<and> call_entry H e (deliver H args caller stack) (inside h) = Inr (r, inside h')
        \<and> cl_value_from_t H r = Some bs"
    and returned_u64: "cl_value_from_t H (Ret_U64 n) = Some (to_bytes (c_u64 H) n)"
    and returned_key: "cl_value_from_t H (Ret_Key k) = Some (to_bytes (c_key H) k)"
    and returned_option_key:
      "cl_value_from_t H (Ret_Option_Key o') = Some (to_bytes (c_option_key H) o')"
    and returned_mint_receipt: "cl_value_from_t H (Ret_Mint_Receipt x k y)
      = Some (to_bytes (c_mint_receipt P) (x, k, y))"
    and returned_transfer_receipt: "cl_value_from_t H (Ret_Transfer_Receipt x k)
      = Some (to_bytes (c_transfer_receipt P) (x, k))"
    and codec_mint_receipt: "codec_ok (c_mint_receipt P)"
    and codec_transfer_receipt: "codec_ok (c_transfer_receipt P)"
begin

text \<open>A call of the contract that has returned has run its entry point.\<close>

lemma call_contract_runs:
  assumes "call_contract_c P c nft (entry_point_name e) args h = Inr (v, h')"
  obtains caller stack r bs where "call_entry H e (deliver H args caller stack) (inside h) = Inr (r, inside h')"
    and "cl_value_from_t H r = Some bs" and "deserialize c bs = Inr v"
proof -
  from assms obtain bs where "runtime_call_contract P nft (entry_point_name e) args h = Inr (bs, h')"
    and "deserialize c bs = Inr v"
    unfolding call_contract_c_def by (auto elim!: bind_c_InrE split: sum.splits)
  with contract_call [OF this(1)] that show thesis by (auto simp: entry_point_name_inj)
qed

text \<open>Seen from the ledger of the contract.\<close>

lemma call_contract_ledger:
  assumes "call_contract_c P c nft (entry_point_name e) args h = Inr (v, h')"
    and "represents H L (inside h)"
  obtains caller stack r L' bs where "ledger_call H e (deliver H args caller stack) L = Inr (r, L')"
    and "represents H L' (inside h')" and "cl_value_from_t H r = Some bs" and "deserialize c bs = Inr v"
proof -
  from assms(1) obtain caller stack r bs
    where "call_entry H e (deliver H args caller stack) (inside h) = Inr (r, inside h')"
      and r: "cl_value_from_t H r = Some bs" "deserialize c bs = Inr v" by (rule call_contract_runs)
  with call_refines [OF assms(2), of e "deliver H args caller stack"]
  obtain L' where "ledger_call H e (deliver H args caller stack) L = Inr (r, L')"
    and "represents H L' (inside h')" by (auto dest: sim_InrD)
  with r that show thesis by blast
qed

end

section \<open>The arguments of clients arrive\<close>

lemma get_named_arg_InrE:
  assumes "bind_c (get_named_arg_c r) f s = Inr x"
  obtains v where "r = Inr v" and "f v s = Inr x"
  using assms by (cases r) (simp_all add: get_named_arg_c_def)

lemma nft_contract_hash_InrE:
  assumes "bind_c (nft_contract_hash_arg i) f s = Inr x"
  obtains a where "get_named_arg_key i ARG_NFT_CONTRACT_HASH = Inr (Key_Hash a)"
    and "f (ContractHash a) s = Inr x"
proof -
  from assms obtain k where k: "get_named_arg_key i ARG_NFT_CONTRACT_HASH = Inr k"
    and rest: "bind_c (unwrap_or_revert_with Panic (map_option ContractHash (into_hash k))) f s = Inr x"
    unfolding nft_contract_hash_arg_def by (auto simp: bind_c_assoc elim: get_named_arg_InrE)
  show thesis using rest k that by (cases k) (auto elim!: bind_unwrap_InrE)
qed

text \<open>The token a session names.\<close>

definition session_token :: "invocation \<Rightarrow> token_identifier option" where
  "session_token i =
     (case get_named_arg_bool i ARG_IS_HASH_IDENTIFIER_MODE of
        Inl _ \<Rightarrow> None
      | Inr True \<Rightarrow>
          (case get_named_arg_string i ARG_TOKEN_HASH of Inl _ \<Rightarrow> None | Inr x \<Rightarrow> Some (TokenHash x))
      | Inr False \<Rightarrow>
          (case get_named_arg_u64 i ARG_TOKEN_ID of Inl _ \<Rightarrow> None | Inr n \<Rightarrow> Some (Index n)))"

definition token_arg :: "'h casper \<Rightarrow> token_identifier \<Rightarrow> string \<times> bytes" where
  "token_arg H t =
     (case t of
        Index n \<Rightarrow> (ARG_TOKEN_ID, to_bytes (c_u64 H) n)
      | TokenHash x \<Rightarrow> (ARG_TOKEN_HASH, to_bytes (c_string H) x))"

lemma token_runtime_arg_InrE:
  assumes "bind_c (token_runtime_arg H i) f s = Inr x"
  obtains t where "session_token i = Some t" and "f (token_arg H t) s = Inr x"
proof -
  from assms obtain b where b: "get_named_arg_bool i ARG_IS_HASH_IDENTIFIER_MODE = Inr b"
    and rest: "bind_c (if b
      then bind_c (get_named_arg_c (get_named_arg_string i ARG_TOKEN_HASH)) (\<lambda>token_hash.
          return_c (ARG_TOKEN_HASH, to_bytes (c_string H) token_hash))
      else bind_c (get_named_arg_c (get_named_arg_u64 i ARG_TOKEN_ID)) (\<lambda>token_id.
          return_c (ARG_TOKEN_ID, to_bytes (c_u64 H) token_id))) f s = Inr x"
    unfolding token_runtime_arg_def by (auto simp: bind_c_assoc elim: get_named_arg_InrE)
  show thesis
  proof (cases b)
    case True
    from rest obtain y where "get_named_arg_string i ARG_TOKEN_HASH = Inr y"
      and "f (ARG_TOKEN_HASH, to_bytes (c_string H) y) s = Inr x"
      by (auto simp: True bind_c_assoc elim!: get_named_arg_InrE)
    with b True that [of "TokenHash y"] show thesis by (simp add: session_token_def token_arg_def)
  next
    case False
    from rest obtain n where "get_named_arg_u64 i ARG_TOKEN_ID = Inr n"
      and "f (ARG_TOKEN_ID, to_bytes (c_u64 H) n) s = Inr x"
      by (auto simp: False bind_c_assoc elim!: get_named_arg_InrE)
    with b False that [of "Index n"] show thesis by (simp add: session_token_def token_arg_def)
  qed
qed

text \<open>
  The entry point finds the token if the session names it the way the contract identifies its
  tokens, and misses its argument otherwise.
\<close>

context casper_codecs
begin

lemma token_arg_arrives:
  assumes "token_arg H t \<in> set args" and "distinct (map fst args)"
    and "{ARG_TOKEN_ID, ARG_TOKEN_HASH} \<inter> fst ` set args = {fst (token_arg H t)}"
  shows "get_token_identifier_from_runtime_args H (deliver H args a st) m s =
    (if of_mode m t then Inr (t, s) else Inl (User MissingTokenID))"
proof -
  have found: "map_of args (fst (token_arg H t)) = Some (snd (token_arg H t))"
    using assms(1,2) by (simp add: map_of_eq_Some_iff)
  have differ: "ARG_TOKEN_ID \<noteq> ARG_TOKEN_HASH" by (simp add: constant_defs)
  have absent: "map_of args n = None" if "n \<in> {ARG_TOKEN_ID, ARG_TOKEN_HASH}" "n \<noteq> fst (token_arg H t)" for n
    using assms(3) that unfolding map_of_eq_None_iff by blast
  show ?thesis
  proof (cases t)
    case (Index n)
    then have "map_of args ARG_TOKEN_ID = Some (to_bytes (c_u64 H) n)"
      and "map_of args ARG_TOKEN_HASH = None"
      using found absent [of ARG_TOKEN_HASH] differ by (simp_all add: token_arg_def)
    then show ?thesis
      by (cases m) (simp_all add: Index get_token_identifier_from_runtime_args_def of_mode_def bind_c_def
          delivered_arg(1) codec_u64 missing_arg(1) new_index_def unwrap_or_revert_def)
  next
    case (TokenHash x)
    then have "map_of args ARG_TOKEN_HASH = Some (to_bytes (c_string H) x)"
      and "map_of args ARG_TOKEN_ID = None"
      using found absent [of ARG_TOKEN_ID] differ by (simp_all add: token_arg_def)
    then show ?thesis
      by (cases m) (simp_all add: TokenHash get_token_identifier_from_runtime_args_def of_mode_def bind_c_def
          delivered_arg(1) codec_string missing_arg(1) new_hash_def unwrap_or_revert_def)
  qed
qed

end

end
