(* ===== verification/Reference_Host.thy ===== *)
theory Reference_Host
  imports Refusals Platform
begin

text \<open>
  A host that keeps every promise of \<open>casper_host\<close> and \<open>casper_json\<close>: named keys, values and
  dictionaries are maps, and values are encoded with a length in front of every list. It shows that
  the promises can be kept together, and it is where the properties are tried on concrete calls.
\<close>

section \<open>Encodings\<close>

text \<open>A natural number: that many ones and a zero.\<close>

fun read_nat :: "bytes \<Rightarrow> api_error + nat \<times> bytes" where
  "read_nat [] = Inl (Api_Other 0)"
| "read_nat (b # bs) =
     (if b = 0 then Inr (0, bs)
      else (case read_nat bs of Inl e \<Rightarrow> Inl e | Inr (n, r) \<Rightarrow> Inr (Suc n, r)))"

definition nat_codec :: "nat codec" where
  "nat_codec = Codec (\<lambda>n. replicate n 1 @ [0]) read_nat"

lemma nat_codec_ok: "codec_ok nat_codec"
proof -
  have "read_nat (replicate n 1 @ 0 # r) = Inr (n, r)" for n r by (induction n) simp_all
  then show ?thesis by (simp add: codec_ok_def nat_codec_def)
qed

text \<open>The encoding of a type by that of another into which it embeds.\<close>

definition image_codec :: "('b \<Rightarrow> 'a) \<Rightarrow> ('a \<Rightarrow> 'b) \<Rightarrow> 'a codec \<Rightarrow> 'b codec" where
  "image_codec f g c =
     Codec (to_bytes c \<circ> f)
       (\<lambda>bs. case from_bytes c bs of Inl e \<Rightarrow> Inl e | Inr (a, r) \<Rightarrow> Inr (g a, r))"

lemma image_codec_ok: "codec_ok c \<Longrightarrow> (\<And>b. g (f b) = b) \<Longrightarrow> codec_ok (image_codec f g c)"
  by (simp add: codec_ok_def image_codec_def)

definition pair_codec :: "'a codec \<Rightarrow> 'b codec \<Rightarrow> ('a \<times> 'b) codec" where
  "pair_codec c d =
     Codec (\<lambda>(a, b). to_bytes c a @ to_bytes d b)
       (\<lambda>bs. case from_bytes c bs of Inl e \<Rightarrow> Inl e
         | Inr (a, r) \<Rightarrow> (case from_bytes d r of Inl e \<Rightarrow> Inl e | Inr (b, r') \<Rightarrow> Inr ((a, b), r')))"

lemma pair_codec_ok: "codec_ok c \<Longrightarrow> codec_ok d \<Longrightarrow> codec_ok (pair_codec c d)"
  by (simp add: codec_ok_def pair_codec_def)

text \<open>A list: its length, then its elements.\<close>

primrec read_items :: "'a codec \<Rightarrow> nat \<Rightarrow> bytes \<Rightarrow> api_error + 'a list \<times> bytes" where
  "read_items c 0 bs = Inr ([], bs)"
| "read_items c (Suc n) bs =
     (case from_bytes c bs of Inl e \<Rightarrow> Inl e
      | Inr (a, r) \<Rightarrow>
          (case read_items c n r of Inl e \<Rightarrow> Inl e | Inr (as, r') \<Rightarrow> Inr (a # as, r')))"

definition list_codec :: "'a codec \<Rightarrow> 'a list codec" where
  "list_codec c =
     Codec (\<lambda>xs. to_bytes nat_codec (length xs) @ concat (map (to_bytes c) xs))
       (\<lambda>bs. case from_bytes nat_codec bs of Inl e \<Rightarrow> Inl e | Inr (n, r) \<Rightarrow> read_items c n r)"

lemma list_codec_ok:
  assumes "codec_ok c"
  shows "codec_ok (list_codec c)"
proof -
  have "read_items c (length xs) (concat (map (to_bytes c) xs) @ r) = Inr (xs, r)" for xs r
    using assms by (induction xs) (simp_all add: codec_ok_def)
  then show ?thesis using nat_codec_ok by (simp add: codec_ok_def list_codec_def)
qed

definition list_of_option :: "'a option \<Rightarrow> 'a list" where
  "list_of_option r = (case r of None \<Rightarrow> [] | Some a \<Rightarrow> [a])"

definition option_of_list :: "'a list \<Rightarrow> 'a option" where
  "option_of_list xs = (case xs of [] \<Rightarrow> None | a # _ \<Rightarrow> Some a)"

definition option_codec :: "'a codec \<Rightarrow> 'a option codec" where
  "option_codec c = image_codec list_of_option option_of_list (list_codec c)"

lemma option_codec_ok: "codec_ok c \<Longrightarrow> codec_ok (option_codec c)"
  unfolding option_codec_def
  by (rule image_codec_ok [OF list_codec_ok])
    (auto simp: list_of_option_def option_of_list_def split: option.splits)

definition word_codec :: "'a::len word codec" where
  "word_codec = image_codec unat of_nat nat_codec"

lemma word_codec_ok: "codec_ok word_codec"
  unfolding word_codec_def by (rule image_codec_ok [OF nat_codec_ok]) simp

definition string_codec :: "string codec" where
  "string_codec = list_codec (image_codec of_char char_of nat_codec)"

lemma string_codec_ok: "codec_ok string_codec"
  unfolding string_codec_def
  by (intro list_codec_ok image_codec_ok [OF nat_codec_ok]) (simp add: char_of_char)

text \<open>The constructor of a key and its contents.\<close>

definition key_parts :: "key \<Rightarrow> nat \<times> nat \<times> bytes" where
  "key_parts k =
     (case k of
        Key_Account a \<Rightarrow> (0, unat (account_value a), [])
      | Key_Hash a \<Rightarrow> (1, unat a, [])
      | Key_URef u \<Rightarrow> (2, (case u of URef a \<Rightarrow> unat a), [])
      | Key_Other t bs \<Rightarrow> (3, unat t, bs))"

definition key_of_parts :: "nat \<times> nat \<times> bytes \<Rightarrow> key" where
  "key_of_parts p =
     (case p of (c, n, bs) \<Rightarrow>
        if c = 0 then Key_Account (AccountHash (of_nat n))
        else if c = 1 then Key_Hash (of_nat n)
        else if c = 2 then Key_URef (URef (of_nat n))
        else Key_Other (of_nat n) bs)"

definition key_codec :: "key codec" where
  "key_codec = image_codec key_parts key_of_parts
     (pair_codec nat_codec (pair_codec nat_codec (list_codec word_codec)))"

lemma key_codec_ok: "codec_ok key_codec"
  unfolding key_codec_def
  by (intro image_codec_ok pair_codec_ok list_codec_ok nat_codec_ok word_codec_ok)
    (simp add: key_parts_def key_of_parts_def split: key.split uref.split)

definition account_hash_codec :: "account_hash codec" where
  "account_hash_codec = image_codec account_value AccountHash word_codec"

definition contract_hash_codec :: "contract_hash codec" where
  "contract_hash_codec = image_codec contract_value ContractHash word_codec"

definition bool_codec :: "bool codec" where
  "bool_codec = image_codec of_bool (\<lambda>n. n \<noteq> 0) nat_codec"

definition unit_codec :: "unit codec" where
  "unit_codec = Codec (\<lambda>_. []) (\<lambda>bs. Inr ((), bs))"

lemma small_codecs_ok:
  "codec_ok account_hash_codec" "codec_ok contract_hash_codec" "codec_ok bool_codec"
  "codec_ok unit_codec"
  unfolding account_hash_codec_def contract_hash_codec_def bool_codec_def
     apply (rule image_codec_ok [OF word_codec_ok], simp)
    apply (rule image_codec_ok [OF word_codec_ok], simp)
   apply (rule image_codec_ok [OF nat_codec_ok], simp)
  apply (simp add: codec_ok_def unit_codec_def)
  done

lemmas codecs_ok = nat_codec_ok word_codec_ok string_codec_ok key_codec_ok small_codecs_ok
  list_codec_ok pair_codec_ok option_codec_ok

section \<open>The state of the host\<close>

record ref_state =
  rs_names :: "string \<Rightarrow> key option"
  rs_values :: "uref \<Rightarrow> bytes option"
  rs_items :: "uref \<Rightarrow> string \<Rightarrow> bytes option"

text \<open>The first address from \<open>n\<close> on with no value behind it, or the last address.\<close>

function first_free :: "(uref \<Rightarrow> bytes option) \<Rightarrow> nat \<Rightarrow> uref" where
  "first_free vs n =
     (if n \<ge> 2 ^ 256 \<or> vs (URef (of_nat n)) = None then URef (of_nat n) else first_free vs (Suc n))"
  by auto
termination by (relation "measure (\<lambda>(_, n). 2 ^ 256 - n)") auto

declare first_free.simps [simp del]

lemma first_free_free:
  "\<exists>a. n \<le> unat a \<and> vs (URef a) = None \<Longrightarrow> vs (first_free vs n) = None"
proof (induction vs n rule: first_free.induct)
  case (1 vs n)
  from "1.prems" obtain a where a: "n \<le> unat a" "vs (URef a) = None" by blast
  have n: "n < 2 ^ 256"
    using a(1) by (rule order_le_less_trans) (use unsigned_less [of a, where ?'a = nat] in simp)
  show ?case
  proof (cases "vs (URef (of_nat n)) = None")
    case True
    then show ?thesis by (subst first_free.simps) simp
  next
    case False
    have "unat a \<noteq> n" using False a(2) by auto
    with a have "\<exists>a. Suc n \<le> unat a \<and> vs (URef a) = None" by (metis Suc_leI le_neq_implies_less)
    with "1.IH" False n show ?thesis by (subst first_free.simps) simp
  qed
qed

definition ref_read :: "uref \<Rightarrow> ref_state \<Rightarrow> api_error + bytes" where
  "ref_read u h = (case rs_values h u of None \<Rightarrow> Inl Api_ValueNotFound | Some bs \<Rightarrow> Inr bs)"

definition ref_allocate :: "bytes \<Rightarrow> ref_state \<Rightarrow> uref \<times> ref_state" where
  "ref_allocate bs h =
     (let u = first_free (rs_values h) 0
      in (u, h\<lparr>rs_values := (rs_values h)(u \<mapsto> bs)\<rparr>))"

definition ref_new_dictionary :: "string \<Rightarrow> ref_state \<Rightarrow> api_error + uref \<times> ref_state" where
  "ref_new_dictionary n h =
     (if rs_names h n \<noteq> None then Inl Api_InvalidArgument
      else case ref_allocate [] h of (u, h') \<Rightarrow>
        Inr (u, h'\<lparr>rs_names := (rs_names h')(n \<mapsto> Key_URef u),
          rs_items := (rs_items h')(u := \<lambda>_. None)\<rparr>))"

text \<open>Hashes print as a decimal numeral after a prefix of their own.\<close>

definition ref_print :: "string \<Rightarrow> 256 word \<Rightarrow> string" where
  "ref_print prefix a = prefix @ decimal (unat a)"

text \<open>Structures in JSON: the characters of an encoding.\<close>

definition json_string :: "'a codec \<Rightarrow> 'a \<Rightarrow> string option" where
  "json_string c v = Some (map (\<lambda>b. char_of (unat b)) (to_bytes c v))"

definition json_parse :: "'a codec \<Rightarrow> string \<Rightarrow> 'a option" where
  "json_parse c s = (case deserialize c (map (\<lambda>ch. of_nat (of_char ch)) s) of Inl e \<Rightarrow> None | Inr v \<Rightarrow> Some v)"

definition three_strings :: "(string \<times> string \<times> string) codec" where
  "three_strings = pair_codec string_codec (pair_codec string_codec string_codec)"

definition ref_cep78 :: "metadata_cep78 codec" where
  "ref_cep78 = image_codec (\<lambda>m. (cep78_name m, cep78_token_uri m, cep78_checksum m))
     (\<lambda>(n, u, c). \<lparr>cep78_name = n, cep78_token_uri = u, cep78_checksum = c\<rparr>) three_strings"

definition ref_nft721 :: "metadata_nft721 codec" where
  "ref_nft721 = image_codec (\<lambda>m. (nft721_name m, nft721_symbol m, nft721_token_uri m))
     (\<lambda>(n, y, u). \<lparr>nft721_name = n, nft721_symbol = y, nft721_token_uri = u\<rparr>) three_strings"

definition ref_attributes :: "string btree_map codec" where
  "ref_attributes = list_codec (pair_codec string_codec string_codec)"

definition ref_property :: "metadata_schema_property codec" where
  "ref_property = image_codec (\<lambda>p. ((property_name p, property_description p), property_required p))
     (\<lambda>((n, d), r). \<lparr>property_name = n, property_description = d, property_required = r\<rparr>)
     (pair_codec (pair_codec string_codec string_codec) bool_codec)"

definition ref_schema :: "custom_metadata_schema codec" where
  "ref_schema = image_codec schema_properties (\<lambda>ps. \<lparr>schema_properties = ps\<rparr>)
     (list_codec (pair_codec string_codec ref_property))"

section \<open>Returned values\<close>

definition ref_mint_receipt :: "(string \<times> key \<times> string) codec" where
  "ref_mint_receipt = pair_codec string_codec (pair_codec key_codec string_codec)"

definition ref_transfer_receipt :: "(string \<times> key) codec" where
  "ref_transfer_receipt = pair_codec string_codec key_codec"

primrec ref_ret :: "ret_value \<Rightarrow> bytes" where
  "ref_ret Ret_Unit = to_bytes unit_codec ()"
| "ref_ret (Ret_U64 n) = to_bytes word_codec n"
| "ref_ret (Ret_String x) = to_bytes string_codec x"
| "ref_ret (Ret_Key k) = to_bytes key_codec k"
| "ref_ret (Ret_Option_Key k) = to_bytes (option_codec key_codec) k"
| "ref_ret (Ret_Mint_Receipt x k y) = to_bytes ref_mint_receipt (x, k, y)"
| "ref_ret (Ret_Transfer_Receipt x k) = to_bytes ref_transfer_receipt (x, k)"

section \<open>The host\<close>

definition reference_host :: "ref_state casper" where
  "reference_host =
     \<lparr>casper_get_key = (\<lambda>n h. case rs_names h n of
         None \<Rightarrow> Inl Api_MissingKey | Some k \<Rightarrow> Inr (to_bytes key_codec k)),
      casper_read_value = (\<lambda>k h. case k of
         Key_URef u \<Rightarrow> map_sum id length (ref_read u h) | _ \<Rightarrow> Inl Api_ValueNotFound),
      casper_read_host_buffer = (\<lambda>k n h. case k of
         Key_URef u \<Rightarrow> ref_read u h | _ \<Rightarrow> Inl Api_ValueNotFound),
      runtime_get_key = (\<lambda>n h. rs_names h n),
      runtime_put_key = (\<lambda>n k h. h\<lparr>rs_names := (rs_names h)(n \<mapsto> k)\<rparr>),
      storage_new_uref = ref_allocate,
      storage_write = (\<lambda>u bs h. h\<lparr>rs_values := (rs_values h)(u \<mapsto> bs)\<rparr>),
      storage_new_dictionary = ref_new_dictionary,
      storage_dictionary_get = (\<lambda>u j h.
         if length j \<le> 128 then Inr (rs_items h u j) else Inl too_long),
      storage_dictionary_put = (\<lambda>u j bs h.
         if length j \<le> 128
         then Inr (h\<lparr>rs_items := (rs_items h)(u := (rs_items h u)(j \<mapsto> bs))\<rparr>) else Inl too_long),
      dictionary_item_key_max_length = 128,
      account_hash_to_string = (\<lambda>a. ref_print ''account-hash-'' (account_value a)),
      contract_hash_to_string = (\<lambda>a. ref_print ''contract-'' (contract_value a)),
      key_dictionary = (\<lambda>u j. Key_Other 0 (to_bytes string_codec j)),
      cl_value_from_t = (\<lambda>r. Some (ref_ret r)),
      c_unit = unit_codec, c_bool = bool_codec, c_u8 = word_codec, c_u64 = word_codec,
      c_string = string_codec, c_key = key_codec, c_option_key = option_codec key_codec,
      c_option_bool = option_codec bool_codec, c_option_u8 = option_codec word_codec,
      c_vec_u64 = list_codec word_codec, c_vec_string = list_codec string_codec,
      c_vec_account_hash = list_codec account_hash_codec,
      c_vec_contract_hash = list_codec contract_hash_codec,
      c_option_vec_account_hash = option_codec (list_codec account_hash_codec),
      c_option_vec_contract_hash = option_codec (list_codec contract_hash_codec),
      c_btree_map = (\<lambda>c. list_codec (pair_codec string_codec c)),
      from_str_schema = json_parse ref_schema,
      from_str_cep78 = json_parse ref_cep78,
      from_str_nft721 = json_parse ref_nft721,
      from_str_attributes = json_parse ref_attributes,
      to_string_pretty_cep78 = json_string ref_cep78,
      to_string_pretty_nft721 = json_string ref_nft721,
      to_string_pretty_attributes = json_string ref_attributes\<rparr>"

lemma reference_simps [simp]:
  "casper_get_key reference_host n h =
     (case rs_names h n of None \<Rightarrow> Inl Api_MissingKey | Some k \<Rightarrow> Inr (to_bytes key_codec k))"
  "casper_read_value reference_host k h =
     (case k of Key_URef u \<Rightarrow> map_sum id length (ref_read u h) | _ \<Rightarrow> Inl Api_ValueNotFound)"
  "casper_read_host_buffer reference_host k len h =
     (case k of Key_URef u \<Rightarrow> ref_read u h | _ \<Rightarrow> Inl Api_ValueNotFound)"
  "runtime_get_key reference_host n h = rs_names h n"
  "runtime_put_key reference_host n k h = h\<lparr>rs_names := (rs_names h)(n \<mapsto> k)\<rparr>"
  "storage_new_uref reference_host = ref_allocate"
  "storage_write reference_host u bs h = h\<lparr>rs_values := (rs_values h)(u \<mapsto> bs)\<rparr>"
  "storage_new_dictionary reference_host = ref_new_dictionary"
  "storage_dictionary_get reference_host u j h =
     (if length j \<le> 128 then Inr (rs_items h u j) else Inl too_long)"
  "storage_dictionary_put reference_host u j bs h =
     (if length j \<le> 128
      then Inr (h\<lparr>rs_items := (rs_items h)(u := (rs_items h u)(j \<mapsto> bs))\<rparr>) else Inl too_long)"
  "dictionary_item_key_max_length reference_host = 128"
  "account_hash_to_string reference_host a = ref_print ''account-hash-'' (account_value a)"
  "contract_hash_to_string reference_host c = ref_print ''contract-'' (contract_value c)"
  "key_dictionary reference_host u j = Key_Other 0 (to_bytes string_codec j)"
  "cl_value_from_t reference_host r = Some (ref_ret r)"
  "c_unit reference_host = unit_codec"
  "c_bool reference_host = bool_codec"
  "c_u8 reference_host = word_codec"
  "c_u64 reference_host = word_codec"
  "c_string reference_host = string_codec"
  "c_key reference_host = key_codec"
  "c_option_key reference_host = option_codec key_codec"
  "c_option_bool reference_host = option_codec bool_codec"
  "c_option_u8 reference_host = option_codec word_codec"
  "c_vec_u64 reference_host = list_codec word_codec"
  "c_vec_string reference_host = list_codec string_codec"
  "c_vec_account_hash reference_host = list_codec account_hash_codec"
  "c_vec_contract_hash reference_host = list_codec contract_hash_codec"
  "c_option_vec_account_hash reference_host = option_codec (list_codec account_hash_codec)"
  "c_option_vec_contract_hash reference_host = option_codec (list_codec contract_hash_codec)"
  "c_btree_map reference_host cp = list_codec (pair_codec string_codec cp)"
  "from_str_schema reference_host = json_parse ref_schema"
  "from_str_cep78 reference_host = json_parse ref_cep78"
  "from_str_nft721 reference_host = json_parse ref_nft721"
  "from_str_attributes reference_host = json_parse ref_attributes"
  "to_string_pretty_cep78 reference_host = json_string ref_cep78"
  "to_string_pretty_nft721 reference_host = json_string ref_nft721"
  "to_string_pretty_attributes reference_host = json_string ref_attributes"
  by (simp_all add: reference_host_def)

lemma reference_uref_bytes [simp]: "uref_bytes reference_host u h = ref_read u h"
  by (cases "ref_read u h") (simp_all add: uref_bytes_def)

lemma reference_live [simp]: "live reference_host u h \<longleftrightarrow> rs_values h u \<noteq> None"
  by (cases "rs_values h u") (simp_all add: live_def ref_read_def)

lemma ref_print_short: "length prefix \<le> 50 \<Longrightarrow> length (ref_print prefix a) \<le> 128"
proof -
  have "unat a < 10 ^ 78" by (rule order.strict_trans2 [OF unsigned_less]) simp
  then have "length (decimal (unat a)) \<le> 78" by (rule length_decimal) simp
  then show "length prefix \<le> 50 \<Longrightarrow> ?thesis" by (simp add: ref_print_def)
qed

lemma reference_fresh:
  assumes "spare reference_host h \<noteq> 0"
  shows "rs_values h (first_free (rs_values h) 0) = None"
proof -
  have "\<exists>u. rs_values h u = None"
  proof (rule ccontr)
    assume "\<nexists>u. rs_values h u = None"
    then have "{u. \<not> live reference_host u h} = {}" by simp
    with assms show False by (simp only: spare_def) simp
  qed
  then obtain u where "rs_values h u = None" by blast
  then have "\<exists>a. 0 \<le> unat a \<and> rs_values h (URef a) = None" by (cases u) auto
  then show ?thesis by (rule first_free_free)
qed

interpretation reference: casper_host reference_host
proof unfold_locales
  fix h h' :: ref_state and u bs
  assume "storage_new_uref reference_host bs h = (u, h')" and "spare reference_host h \<noteq> 0"
  then show "\<not> live reference_host u h"
    using reference_fresh [of h] by (auto simp: ref_allocate_def Let_def)
next
  fix h h' :: ref_state and u n
  assume "storage_new_dictionary reference_host n h = Inr (u, h')"
    and "spare reference_host h \<noteq> 0"
  then show "\<not> live reference_host u h"
    using reference_fresh [of h] by (auto simp: ref_new_dictionary_def ref_allocate_def Let_def split: if_splits)
qed (auto simp: fits_def ref_print_short ref_read_def ref_new_dictionary_def ref_allocate_def Let_def codecs_ok to_bytes_inj [OF key_codec_ok]
      small_codecs_ok [unfolded unit_codec_def] unit_codec_def split: if_splits option.splits)

section \<open>JSON\<close>

lemma byte_mod: "(of_nat (unat b mod 256) :: u8) = b"
proof -
  have "unat b < 256" using unsigned_less [of b, where ?'a = nat] by simp
  then show ?thesis by simp
qed

lemma json_round_trip:
  assumes "codec_ok c"
  shows "json_string c v = Some s \<Longrightarrow> json_parse c s = Some v"
  by (auto simp: json_string_def json_parse_def comp_def byte_mod deserialize_to_bytes [OF assms])

lemma ref_json_ok: "codec_ok ref_cep78" "codec_ok ref_nft721" "codec_ok ref_attributes"
  "codec_ok ref_property" "codec_ok ref_schema"
  unfolding ref_cep78_def ref_nft721_def ref_attributes_def ref_property_def ref_schema_def
    three_strings_def
  by (intro image_codec_ok codecs_ok; simp)+

interpretation reference_json: casper_json reference_host
  by unfold_locales (auto simp: json_round_trip ref_json_ok)

end
