(* ===== verification/Reference_Ledger.thy ===== *)
theory Reference_Ledger
  imports Reference_Host
begin

text \<open>
  Every ledger whose lists hold identifiers of its mode is represented by a state of the reference
  host, and the arguments of a call can be encoded for it. Concrete ledgers and calls on which the
  properties are tried follow.
\<close>

section \<open>The state of a ledger\<close>

definition ref_bindings :: "ledger \<Rightarrow> string \<Rightarrow> key option" where
  "ref_bindings L n =
     (if n = INSTALLER then Some (Key_Account (l_installer L))
      else if n \<in> set contract_names then Some (Key_URef (l_urefs L n)) else None)"

definition ref_state_of :: "ledger \<Rightarrow> ref_state" where
  "ref_state_of L =
     \<lparr>rs_names = ref_bindings L,
      rs_values = map_of (zip (map (l_urefs L) contract_names)
        (value_bytes reference_host L @ replicate (length dictionary_names) [])),
      rs_items = (\<lambda>u. case map_of (zip (map (l_urefs L) dictionary_names)
          (dictionary_items reference_host L)) u of
        None \<Rightarrow> (\<lambda>_. None) | Some m \<Rightarrow> m)\<rparr>"

definition well_moded :: "ledger \<Rightarrow> bool" where
  "well_moded L \<longleftrightarrow> inj_on (l_urefs L) (set contract_names)
     \<and> list_all (\<lambda>m. \<forall>j. \<not> fits reference_host j \<longrightarrow> m j = None) (dictionary_items reference_host L)
     \<and> (\<forall>j ts. l_owned_tokens L j = Some ts \<longrightarrow> (\<forall>t \<in> set ts. listable reference_host L t))"

lemma lengths:
  "length (value_bytes H L) = length value_names"
  "length (dictionary_items H L) = length dictionary_names"
  by (simp_all add: value_bytes_def value_names_def dictionary_items_def dictionary_names_def)

lemma ref_state_represents:
  assumes "well_moded L"
  shows "represents reference_host L (ref_state_of L)"
proof -
  let ?vals = "value_bytes reference_host L @ replicate (length dictionary_names) []"
  have inj: "inj_on (l_urefs L) (set contract_names)" using assms by (simp add: well_moded_def)
  have distinct: "distinct (map (l_urefs L) contract_names)"
    using distinct_contract_names inj by (simp add: distinct_map)
  have len: "length ?vals = length contract_names"
    by (simp add: contract_names_def lengths)
  have value_at: "rs_values (ref_state_of L) (l_urefs L (contract_names ! k)) = Some (?vals ! k)"
    if "k < length contract_names" for k
    using map_of_zip_nth [OF _ distinct, of ?vals k] that len by (simp add: ref_state_of_def)
  have live: "rs_values (ref_state_of L) (l_urefs L n) \<noteq> None" if "n \<in> set contract_names" for n
    using that value_at by (auto simp: in_set_conv_nth)
  have vals: "list_all2 (\<lambda>n bs. ref_read (l_urefs L n) (ref_state_of L) = Inr bs) value_names
      (value_bytes reference_host L)"
  proof (rule list_all2_all_nthI)
    fix k assume k: "k < length value_names"
    have "contract_names ! k = value_names ! k" and "?vals ! k = value_bytes reference_host L ! k"
      using k by (simp_all add: contract_names_def nth_append lengths)
    then show "ref_read (l_urefs L (value_names ! k)) (ref_state_of L)
        = Inr (value_bytes reference_host L ! k)"
      using value_at [of k] k by (simp add: ref_read_def contract_names_def)
  qed (simp add: lengths)
  have distinct_d: "distinct (map (l_urefs L) dictionary_names)"
    using distinct by (simp add: contract_names_def)
  have items: "list_all2 (\<lambda>n m. has_items reference_host (l_urefs L n) m (ref_state_of L)) dictionary_names
      (dictionary_items reference_host L)"
  proof (rule list_all2_all_nthI)
    fix k assume k: "k < length dictionary_names"
    then have "rs_items (ref_state_of L) (l_urefs L (dictionary_names ! k))
        = dictionary_items reference_host L ! k"
      using map_of_zip_nth [OF _ distinct_d, of "dictionary_items reference_host L" k]
      by (simp add: ref_state_of_def lengths)
    then show "has_items reference_host (l_urefs L (dictionary_names ! k))
        (dictionary_items reference_host L ! k) (ref_state_of L)"
      using k assms by (simp add: has_items_def fits_def well_moded_def list_all_length lengths)
  qed (simp add: lengths)
  have names: "rs_names (ref_state_of L) = ref_bindings L" by (simp add: ref_state_of_def)
  show ?thesis
    using assms live vals items reserved_names
    unfolding represents_def
    by (auto simp: names ref_bindings_def well_moded_def INSTALLER_def METADATA_SCHEMA_def)
qed

text \<open>A URef of its own for each name.\<close>

definition ref_urefs :: "string \<Rightarrow> uref" where
  "ref_urefs n = (case position n contract_names of None \<Rightarrow> URef 0 | Some k \<Rightarrow> URef (of_nat (Suc k)))"

lemma position_nth: "position x xs = Some k \<Longrightarrow> k < length xs \<and> xs ! k = x"
  by (induction xs arbitrary: k) (auto split: if_splits)

lemma unat_of_nat_256: "n < 2 ^ 256 \<Longrightarrow> unat (of_nat n :: 256 word) = n"
  by (simp add: unsigned_of_nat take_bit_nat_eq_self)

lemma ref_urefs_inj: "inj_on ref_urefs (set contract_names)"
proof (rule inj_onI)
  fix n m assume n: "n \<in> set contract_names" and m: "m \<in> set contract_names"
    and eq: "ref_urefs n = ref_urefs m"
  obtain k l where k: "position n contract_names = Some k" and l: "position m contract_names = Some l"
    using n m by (metis position_mem)
  have len: "length contract_names = 27"
    by (simp add: contract_names_def value_names_def dictionary_names_def)
  then have "Suc k < 2 ^ 256" and "Suc l < 2 ^ 256"
    using position_nth [OF k] position_nth [OF l] by simp_all
  moreover have "(of_nat (Suc k) :: 256 word) = of_nat (Suc l)"
    using eq by (simp add: ref_urefs_def k l)
  ultimately have "Suc k = Suc l" by (metis unat_of_nat_256)
  with position_nth [OF k] position_nth [OF l] show "n = m" by auto
qed

end
