(* ===== verification/Examples.thy ===== *)
theory Examples
  imports Reference_Ledger
begin

text \<open>
  Concrete calls and ledgers on the reference host: a contract for accounts that numbers its
  tokens, one for accounts and contracts, and one whose tokens are named by their callers. The
  properties are tried on them.
\<close>

section \<open>Calls\<close>

definition call_with :: "call_stack_element \<Rightarrow> account_hash \<Rightarrow> (string \<times> bytes) list \<Rightarrow> invocation" where
  "call_with element caller args =
     deliver reference_host args caller [Session caller, element, StoredContract 9 (ContractHash 9)]"

lemma call_with_simps [simp]:
  "get_caller (call_with c a args) = a"
  "nth_back_1 (get_call_stack (call_with c a args)) = Some c"
  "get_named_arg_key (call_with c a args) = arg_value args key_codec"
  "get_named_arg_string (call_with c a args) = arg_value args string_codec"
  "get_named_arg_bool (call_with c a args) = arg_value args bool_codec"
  "get_named_arg_u64 (call_with c a args) = arg_value args word_codec"
  by (simp_all add: call_with_def nth_back_1_def)

lemmas call_with_arg = delivered_arg(1,2) [where H = reference_host and
    st = "[Session a, e, StoredContract 9 (ContractHash 9)]" and a = a for a e, folded call_with_def]
  delivered_arg(3)
lemmas call_with_missing = missing_arg(2) [where H = reference_host and
    st = "[Session a, e, StoredContract 9 (ContractHash 9)]" and a = a for a e, folded call_with_def]
  missing_arg(3)

lemma call_with_token:
  "map_of args ARG_TOKEN_ID = Some (to_bytes word_codec x) \<Longrightarrow>
    get_token_identifier_from_runtime_args reference_host (call_with e a args) Ordinal s
      = Inr (Index x, s)"
  "map_of args ARG_TOKEN_HASH = Some (to_bytes string_codec y) \<Longrightarrow>
    get_token_identifier_from_runtime_args reference_host (call_with e a args) Hash s
      = Inr (TokenHash y, s)"
  by (simp_all add: get_token_identifier_from_runtime_args_def bind_c_def new_index_def new_hash_def
      call_with_arg(1) codecs_ok)

section \<open>A contract for accounts\<close>

abbreviation alice :: account_hash where "alice \<equiv> AccountHash 1"
abbreviation bob :: account_hash where "bob \<equiv> AccountHash 2"
abbreviation carol :: account_hash where "carol \<equiv> AccountHash 3"

definition example_args :: init_args where
  "example_args =
     \<lparr>a_collection_name = ''cats'', a_collection_symbol = ''CAT'', a_total_token_supply = 2,
      a_allow_minting = True, a_minting_mode = Public, a_ownership_mode = Transferable,
      a_nft_kind = Digital, a_holder_mode = Accounts, a_whitelist_mode = Unlocked,
      a_contract_whitelist = [], a_account_whitelist = [bob], a_json_schema = '''',
      a_receipt_name = ''nft-cats'', a_nft_metadata_kind = Raw, a_identifier_mode = Ordinal,
      a_metadata_mutability = Mutable\<rparr>"

definition empty_ledger :: ledger where
  "empty_ledger = initial_ledger ref_urefs alice example_args"

definition alice_item :: string where "alice_item = ref_print ''account-hash-'' 1"
definition bob_item :: string where "bob_item = ref_print ''account-hash-'' 2"

text \<open>Alice has minted the token 0.\<close>

definition minted_ledger :: ledger where
  "minted_ledger = add_token (Index 0) (Key_Account alice) alice_item ''tabby'' empty_ledger"

text \<open>Bob may move it.\<close>

definition approved_ledger :: ledger where
  "approved_ledger = minted_ledger
     \<lparr>l_operator := (l_operator minted_ledger)(u64_to_string 0 \<mapsto> Some (Key_Account bob))\<rparr>"

text \<open>Alice has burnt it.\<close>

definition burnt_ledger :: ledger where
  "burnt_ledger = minted_ledger
     \<lparr>l_burnt_tokens := (l_burnt_tokens minted_ledger)(u64_to_string 0 := True),
      l_token_counts := (l_token_counts minted_ledger)(alice_item \<mapsto> 0)\<rparr>"

lemma example_items [simp]:
  "owner_item reference_host (Key_Account alice) = Inr alice_item"
  "owner_item reference_host (Key_Account bob) = Inr bob_item"
  by (simp_all add: owner_item_def alice_item_def bob_item_def)

lemma example_items_distinct [simp]: "alice_item \<noteq> bob_item" "bob_item \<noteq> alice_item"
  by (simp_all add: alice_item_def bob_item_def ref_print_def decimal_inj)

lemma example_items_fit [simp]: "fits reference_host alice_item" "fits reference_host bob_item"
  by (rule reference.owner_item_fits [OF example_items(1)] reference.owner_item_fits [OF example_items(2)])+

lemma empty_ledger_simps [simp]:
  "l_number_of_minted_tokens empty_ledger = 0" "l_total_token_supply empty_ledger = 2"
  "l_identifier_mode empty_ledger = Ordinal" "l_holder_mode empty_ledger = Accounts"
  "l_ownership_mode empty_ledger = Transferable" "l_minting_mode empty_ledger = Public"
  "l_allow_minting empty_ledger" "l_metadata_kind empty_ledger = Raw"
  "l_installer empty_ledger = alice" "l_account_whitelist empty_ledger = [bob]"
  "l_contract_whitelist empty_ledger = []" "l_whitelist_mode empty_ledger = Unlocked"
  "l_metadata_mutability empty_ledger = Mutable" "l_receipt_name empty_ledger = ''nft-cats''"
  "l_token_owners empty_ledger n = None" "l_token_issuers empty_ledger n = None"
  "l_operator empty_ledger n = None" "\<not> l_burnt_tokens empty_ledger n"
  "l_token_counts empty_ledger n = None" "l_owned_tokens empty_ledger n = None"
  "l_metadata empty_ledger k n = None" "tokens_of empty_ledger n = []" "balance empty_ledger n = 0"
  "l_urefs empty_ledger = ref_urefs" "l_json_schema empty_ledger = ''''"
  by (simp_all add: empty_ledger_def initial_ledger_def example_args_def tokens_of_def balance_def)

lemma minted_ledger_simps [simp]:
  "l_number_of_minted_tokens minted_ledger = 1" "l_total_token_supply minted_ledger = 2"
  "l_identifier_mode minted_ledger = Ordinal" "l_holder_mode minted_ledger = Accounts"
  "l_ownership_mode minted_ledger = Transferable" "l_minting_mode minted_ledger = Public"
  "l_allow_minting minted_ledger" "l_metadata_kind minted_ledger = Raw"
  "l_installer minted_ledger = alice" "l_account_whitelist minted_ledger = [bob]"
  "l_contract_whitelist minted_ledger = []" "l_whitelist_mode minted_ledger = Unlocked"
  "l_metadata_mutability minted_ledger = Mutable" "l_receipt_name minted_ledger = ''nft-cats''"
  "l_token_owners minted_ledger n = (if n = u64_to_string 0 then Some (Key_Account alice) else None)"
  "l_token_issuers minted_ledger n = (if n = u64_to_string 0 then Some (Key_Account alice) else None)"
  "l_operator minted_ledger n = None" "\<not> l_burnt_tokens minted_ledger n"
  "l_owned_tokens minted_ledger n = (if n = alice_item then Some [Index 0] else None)"
  "tokens_of minted_ledger n = (if n = alice_item then [Index 0] else [])"
  "balance minted_ledger n = (if n = alice_item then 1 else 0)"
  "l_urefs minted_ledger = ref_urefs" "l_json_schema minted_ledger = ''''"
  by (simp_all add: minted_ledger_def add_token_def Let_def tokens_of_def balance_def)

lemma example_consistent:
  "consistent reference_host empty_ledger" "numbered empty_ledger"
  "consistent reference_host minted_ledger" "numbered minted_ledger"
proof -
  show e: "consistent reference_host empty_ledger"
    unfolding empty_ledger_def by (rule consistent_initial)
  show n: "numbered empty_ledger"
    unfolding empty_ledger_def by (rule numbered_initial) (simp add: example_args_def)
  have "effect reference_host empty_ledger minted_ledger"
    unfolding minted_ledger_def by (rule effect.minted [where s = "''tabby''"]) (simp_all add: valid_metadata_def)
  with e n show "consistent reference_host minted_ledger" "numbered minted_ledger"
    by (auto intro: effect_numbered_consistent effect_numbered)
qed

lemma example_well_moded: "well_moded empty_ledger" "well_moded minted_ledger"
  "well_moded approved_ledger" "well_moded burnt_ledger"
  using ref_urefs_inj
  by (auto simp: well_moded_def approved_ledger_def burnt_ledger_def dictionary_items_def listable_def
      minted_ledger_def add_token_def Let_def)

lemmas example_represents = ref_state_represents [OF example_well_moded(1)]
  ref_state_represents [OF example_well_moded(2)] ref_state_represents [OF example_well_moded(3)]
  ref_state_represents [OF example_well_moded(4)]

section \<open>Calls on that contract\<close>

definition mint_call :: invocation where
  "mint_call = call_with (Session alice) alice
     [(ARG_TOKEN_OWNER, to_bytes key_codec (Key_Account alice)),
      (ARG_TOKEN_META_DATA, to_bytes string_codec ''tabby'')]"

definition token_call :: "account_hash \<Rightarrow> u64 \<Rightarrow> invocation" where
  "token_call a x = call_with (Session a) a [(ARG_TOKEN_ID, to_bytes word_codec x)]"

definition approve_call :: invocation where
  "approve_call = call_with (Session alice) alice
     [(ARG_TOKEN_ID, to_bytes word_codec (0 :: u64)), (ARG_OPERATOR, to_bytes key_codec (Key_Account bob))]"

definition transfer_call :: "account_hash \<Rightarrow> invocation" where
  "transfer_call a = call_with (Session a) a
     [(ARG_TOKEN_ID, to_bytes word_codec (0 :: u64)), (ARG_SOURCE_KEY, to_bytes key_codec (Key_Account alice)),
      (ARG_TARGET_KEY, to_bytes key_codec (Key_Account bob))]"

lemma session_caller [simp]: "verified_caller (call_with (Session a) b args) Accounts = Inr (Key_Account a)"
  by (simp add: verified_caller_def)

lemma mint_call_args:
  "get_caller mint_call = alice" "verified_caller mint_call Accounts = Inr (Key_Account alice)"
  "get_named_arg_key mint_call ARG_TOKEN_OWNER = Inr (Key_Account alice)"
  "required_arg string_codec mint_call ARG_TOKEN_META_DATA e e' s = Inr (''tabby'', s)"
  unfolding mint_call_def
     apply simp
    apply simp
   apply (simp only: call_with_simps, rule call_with_arg(3); simp add: constant_defs codecs_ok)
  apply (rule call_with_arg(2); simp add: constant_defs codecs_ok)
  done

lemma example_mint:
  "ledger_mint reference_host mint_call empty_ledger =
     Inr (Ret_Mint_Receipt ''nft-cats'' (key_dictionary reference_host (ref_urefs OWNED_TOKENS) alice_item)
       (u64_to_string 0), minted_ledger)"
  by (simp add: ledger_mint_def ledger_check_minter_def ledger_mint_owner_def ledger_new_identifier_def
      valid_metadata_def mint_call_args bind_c_Inr minted_ledger_def)

lemma token_call_args:
  "get_caller (token_call a x) = a" "verified_caller (token_call a x) Accounts = Inr (Key_Account a)"
  "get_token_identifier_from_runtime_args reference_host (token_call a x) Ordinal s = Inr (Index x, s)"
  by (simp_all add: token_call_def call_with_token constant_defs)

lemma example_burn:
  "ledger_burn reference_host (token_call alice 0) minted_ledger = Inr (Ret_Unit, burnt_ledger)"
  by (simp add: ledger_burn_def token_call_args bind_c_Inr burnt_ledger_def)

lemma approve_call_args:
  "verified_caller approve_call Accounts = Inr (Key_Account alice)"
  "get_token_identifier_from_runtime_args reference_host approve_call Ordinal s = Inr (Index 0, s)"
  "required_arg key_codec approve_call ARG_OPERATOR e e' s = Inr (Key_Account bob, s)"
  unfolding approve_call_def
    apply simp
   apply (rule call_with_token; simp add: constant_defs)
  apply (rule call_with_arg(2); simp add: constant_defs codecs_ok)
  done

lemma example_approve:
  "ledger_approve reference_host approve_call minted_ledger = Inr (Ret_Unit, approved_ledger)"
  by (simp add: ledger_approve_def approve_call_args bind_c_Inr approved_ledger_def)

definition approve_all_call :: invocation where
  "approve_all_call = call_with (Session alice) alice
     [(ARG_APPROVE_ALL, to_bytes bool_codec True), (ARG_OPERATOR, to_bytes key_codec (Key_Account bob))]"

lemma approve_all_call_args:
  "verified_caller approve_all_call Accounts = Inr (Key_Account alice)"
  "required_arg bool_codec approve_all_call ARG_APPROVE_ALL e e' s = Inr (True, s)"
  "required_arg key_codec approve_all_call ARG_OPERATOR e e' s = Inr (Key_Account bob, s)"
  unfolding approve_all_call_def
    apply simp
   apply (rule call_with_arg(2); simp add: constant_defs codecs_ok)
  apply (rule call_with_arg(2); simp add: constant_defs codecs_ok)
  done

lemma example_approve_all:
  "ledger_set_approval_for_all reference_host approve_all_call minted_ledger
    = Inr (Ret_Unit, approved_ledger)"
  by (simp add: ledger_set_approval_for_all_def approve_all_call_args bind_c_Inr approved_ledger_def
      approve_tokens_def fun_eq_iff)

text \<open>Bob, approved, moves the token to himself.\<close>

definition moved_ledger :: ledger where
  "moved_ledger = move_token (Index 0) (Key_Account bob) alice_item bob_item approved_ledger"

lemma transfer_call_args:
  "verified_caller (transfer_call a) Accounts = Inr (Key_Account a)"
  "get_token_identifier_from_runtime_args reference_host (transfer_call a) Ordinal s = Inr (Index 0, s)"
  "required_arg key_codec (transfer_call a) ARG_SOURCE_KEY e e' s = Inr (Key_Account alice, s)"
  "required_arg key_codec (transfer_call a) ARG_TARGET_KEY e e' s = Inr (Key_Account bob, s)"
  unfolding transfer_call_def
     apply simp
    apply (rule call_with_token; simp add: constant_defs)
   apply (rule call_with_arg(2); simp add: constant_defs codecs_ok)
  apply (rule call_with_arg(2); simp add: constant_defs codecs_ok)
  done

lemma approved_ledger_simps [simp]:
  "l_number_of_minted_tokens approved_ledger = 1" "l_identifier_mode approved_ledger = Ordinal"
  "l_holder_mode approved_ledger = Accounts" "l_ownership_mode approved_ledger = Transferable"
  "l_installer approved_ledger = alice" "l_account_whitelist approved_ledger = [bob]"
  "l_receipt_name approved_ledger = ''nft-cats''" "l_urefs approved_ledger = ref_urefs"
  "l_token_owners approved_ledger n = (if n = u64_to_string 0 then Some (Key_Account alice) else None)"
  "l_operator approved_ledger n = (if n = u64_to_string 0 then Some (Some (Key_Account bob)) else None)"
  "\<not> l_burnt_tokens approved_ledger n"
  "l_owned_tokens approved_ledger n = (if n = alice_item then Some [Index 0] else None)"
  "tokens_of approved_ledger n = (if n = alice_item then [Index 0] else [])"
  "balance approved_ledger n = (if n = alice_item then 1 else 0)"
  by (simp_all add: approved_ledger_def)

lemma moved_ledger_fields [simp]:
  "l_receipt_name moved_ledger = ''nft-cats''" "l_urefs moved_ledger = ref_urefs"
  by (simp_all add: moved_ledger_def move_token_fixed)

lemma example_transfer:
  "ledger_transfer reference_host (transfer_call bob) approved_ledger =
     Inr (Ret_Transfer_Receipt ''nft-cats''
       (key_dictionary reference_host (ref_urefs OWNED_TOKENS) bob_item), moved_ledger)"
  by (simp add: ledger_transfer_def transfer_call_args bind_c_Inr may_transfer_def target_account_def
      ledger_move_token_def flip: moved_ledger_def)

definition metadata_call :: invocation where
  "metadata_call = call_with (Session alice) alice
     [(ARG_TOKEN_ID, to_bytes word_codec (0 :: u64)), (ARG_TOKEN_META_DATA, to_bytes string_codec ''ginger'')]"

definition described_ledger :: ledger where
  "described_ledger = minted_ledger\<lparr>l_metadata := (l_metadata minted_ledger)
     (Raw := (l_metadata minted_ledger Raw)(u64_to_string 0 \<mapsto> ''ginger''))\<rparr>"

lemma metadata_call_args:
  "get_caller metadata_call = alice"
  "verified_caller metadata_call Accounts = Inr (Key_Account alice)"
  "get_token_identifier_from_runtime_args reference_host metadata_call Ordinal s = Inr (Index 0, s)"
  "required_arg string_codec metadata_call ARG_TOKEN_META_DATA e e' s = Inr (''ginger'', s)"
  unfolding metadata_call_def
     apply simp
    apply simp
   apply (rule call_with_token; simp add: constant_defs)
  apply (rule call_with_arg(2); simp add: constant_defs codecs_ok)
  done

lemma example_set_token_metadata:
  "ledger_set_token_metadata reference_host metadata_call minted_ledger
    = Inr (Ret_Unit, described_ledger)"
  by (simp add: ledger_set_token_metadata_def metadata_call_args bind_c_Inr valid_metadata_def
      described_ledger_def)

section \<open>Installing and administering that contract\<close>

definition installed_state :: ref_state where
  "installed_state =
     \<lparr>rs_names = [INSTALLER \<mapsto> Key_Account alice], rs_values = (\<lambda>_. None), rs_items = (\<lambda>_ _. None)\<rparr>"

lemma unused_spare:
  assumes "rs_values h = (\<lambda>_. None)"
  shows "28 \<le> spare reference_host h"
proof -
  have "card (UNIV :: 256 word set) \<le> card (UNIV :: uref set)"
    by (rule card_inj_on_le [where f = URef]) (auto simp: inj_on_def finite_urefs)
  moreover have "28 \<le> card (UNIV :: 256 word set)" by (simp add: card_word)
  ultimately show ?thesis by (simp add: spare_def assms)
qed

lemma installed_fresh: "fresh reference_host alice installed_state"
proof -
  have "28 \<le> spare reference_host installed_state"
    by (rule unused_spare) (simp add: installed_state_def)
  then have "length contract_names \<le> spare reference_host installed_state"
    by (simp add: contract_names_def value_names_def dictionary_names_def)
  moreover have "n \<noteq> INSTALLER" if "n \<in> insert METADATA_SCHEMA (set contract_names)" for n
    using that reserved_names by (auto simp: INSTALLER_def METADATA_SCHEMA_def)
  ultimately show ?thesis by (auto simp: fresh_def installed_state_def)
qed

text \<open>The arguments that make \<open>init\<close> read a given configuration.\<close>

definition init_call_for :: "account_hash \<Rightarrow> init_args \<Rightarrow> invocation" where
  "init_call_for caller a = call_with (Session caller) caller
     [(ARG_COLLECTION_NAME, to_bytes string_codec (a_collection_name a)),
      (ARG_COLLECTION_SYMBOL, to_bytes string_codec (a_collection_symbol a)),
      (ARG_TOTAL_TOKEN_SUPPLY, to_bytes word_codec (a_total_token_supply a)),
      (ARG_ALLOW_MINTING, to_bytes bool_codec (a_allow_minting a)),
      (ARG_MINTING_MODE, to_bytes word_codec (minting_mode_as_u8 (a_minting_mode a))),
      (ARG_OWNERSHIP_MODE, to_bytes word_codec (ownership_mode_as_u8 (a_ownership_mode a))),
      (ARG_NFT_KIND, to_bytes word_codec (nft_kind_as_u8 (a_nft_kind a))),
      (ARG_HOLDER_MODE, to_bytes word_codec (nft_holder_mode_as_u8 (a_holder_mode a))),
      (ARG_WHITELIST_MODE, to_bytes word_codec (whitelist_mode_as_u8 (a_whitelist_mode a))),
      (ARG_CONTRACT_WHITELIST, to_bytes (list_codec contract_hash_codec) (a_contract_whitelist a)),
      (ARG_ACCOUNT_WHITELIST, to_bytes (list_codec account_hash_codec) (a_account_whitelist a)),
      (ARG_JSON_SCHEMA, to_bytes string_codec (a_json_schema a)),
      (ARG_RECEIPT_NAME, to_bytes string_codec (a_receipt_name a)),
      (ARG_NFT_METADATA_KIND, to_bytes word_codec (nft_metadata_kind_as_u8 (a_nft_metadata_kind a))),
      (ARG_IDENTIFIER_MODE, to_bytes word_codec (nft_identifier_mode_as_u8 (a_identifier_mode a))),
      (ARG_METADATA_MUTABILITY,
        to_bytes word_codec (metadata_mutability_as_u8 (a_metadata_mutability a)))]"

lemma init_call_args:
  "required_arg string_codec (init_call_for c a) ARG_COLLECTION_NAME e e' s = Inr (a_collection_name a, s)"
  "required_arg string_codec (init_call_for c a) ARG_COLLECTION_SYMBOL e e' s = Inr (a_collection_symbol a, s)"
  "required_arg word_codec (init_call_for c a) ARG_TOTAL_TOKEN_SUPPLY e e' s = Inr (a_total_token_supply a, s)"
  "required_arg bool_codec (init_call_for c a) ARG_ALLOW_MINTING e e' s = Inr (a_allow_minting a, s)"
  "required_arg word_codec (init_call_for c a) ARG_MINTING_MODE e e' s
    = Inr (minting_mode_as_u8 (a_minting_mode a), s)"
  "required_arg word_codec (init_call_for c a) ARG_OWNERSHIP_MODE e e' s
    = Inr (ownership_mode_as_u8 (a_ownership_mode a), s)"
  "required_arg word_codec (init_call_for c a) ARG_NFT_KIND e e' s = Inr (nft_kind_as_u8 (a_nft_kind a), s)"
  "required_arg word_codec (init_call_for c a) ARG_HOLDER_MODE e e' s
    = Inr (nft_holder_mode_as_u8 (a_holder_mode a), s)"
  "required_arg word_codec (init_call_for c a) ARG_WHITELIST_MODE e e' s
    = Inr (whitelist_mode_as_u8 (a_whitelist_mode a), s)"
  "required_arg (list_codec contract_hash_codec) (init_call_for c a) ARG_CONTRACT_WHITELIST e e' s
    = Inr (a_contract_whitelist a, s)"
  "required_arg (list_codec account_hash_codec) (init_call_for c a) ARG_ACCOUNT_WHITELIST e e' s
    = Inr (a_account_whitelist a, s)"
  "required_arg string_codec (init_call_for c a) ARG_JSON_SCHEMA e e' s = Inr (a_json_schema a, s)"
  "required_arg string_codec (init_call_for c a) ARG_RECEIPT_NAME e e' s = Inr (a_receipt_name a, s)"
  "required_arg word_codec (init_call_for c a) ARG_NFT_METADATA_KIND e e' s
    = Inr (nft_metadata_kind_as_u8 (a_nft_metadata_kind a), s)"
  "required_arg word_codec (init_call_for c a) ARG_IDENTIFIER_MODE e e' s
    = Inr (nft_identifier_mode_as_u8 (a_identifier_mode a), s)"
  "required_arg word_codec (init_call_for c a) ARG_METADATA_MUTABILITY e e' s
    = Inr (metadata_mutability_as_u8 (a_metadata_mutability a), s)"
  unfolding init_call_for_def
  by (rule call_with_arg(2); simp add: constant_defs codecs_ok)+

lemma init_args_read:
  assumes "a_whitelist_mode a = Locked \<longrightarrow> a_contract_whitelist a \<noteq> [] \<or> a_holder_mode a = Accounts"
    and "a_nft_metadata_kind a = CustomValidated \<longrightarrow>
      from_str_schema reference_host (a_json_schema a) \<noteq> None"
  shows "read_init_args reference_host (init_call_for c a) s = Inr (a, s)"
proof -
  have guards: "(a_whitelist_mode a = Locked \<and> a_contract_whitelist a = [] \<and> a_holder_mode a \<noteq> Accounts)
      = False"
    "(a_nft_metadata_kind a = CustomValidated \<and> from_str_schema reference_host (a_json_schema a) = None)
      = False"
    using assms by blast+
  show ?thesis
    unfolding read_init_args_def guards
    by (simp add: mode_arg_def bind_c_assoc init_call_args bind_c_Inr unwrap_or_revert_def guards
        [simplified])
qed

definition init_call :: invocation where
  "init_call = init_call_for alice example_args"

lemma example_init_args:
  "read_init_args reference_host init_call s = Inr (example_args, s)"
  unfolding init_call_def by (rule init_args_read) (simp_all add: example_args_def)

definition pause_call :: "account_hash \<Rightarrow> invocation" where
  "pause_call a = call_with (Session a) a
     [(ARG_ALLOW_MINTING, to_bytes (option_codec bool_codec) (Some False))]"

lemma pause_call_args:
  "get_caller (pause_call a) = a"
  "get_optional_named_arg_with_user_errors (option_codec bool_codec) (pause_call a) ARG_ALLOW_MINTING e s
    = Inr (Some False, s)"
  "get_optional_named_arg_with_user_errors (option_codec (list_codec contract_hash_codec)) (pause_call a)
    ARG_CONTRACT_WHITELIST e s = Inr (None, s)"
proof -
  show "get_caller (pause_call a) = a" by (simp add: pause_call_def)
  have "get_named_arg_with_user_errors (option_codec bool_codec) (pause_call a) ARG_ALLOW_MINTING m e s
      = Inr (Inr (Some False), s)" for m
    unfolding pause_call_def by (rule call_with_arg(1); simp add: codecs_ok)
  then show "get_optional_named_arg_with_user_errors (option_codec bool_codec) (pause_call a)
      ARG_ALLOW_MINTING e s = Inr (Some False, s)"
    by (simp add: get_optional_named_arg_with_user_errors_def bind_c_Inr)
  show "get_optional_named_arg_with_user_errors (option_codec (list_codec contract_hash_codec))
      (pause_call a) ARG_CONTRACT_WHITELIST e s = Inr (None, s)"
    by (simp add: get_optional_named_arg_with_user_errors_def get_named_arg_with_user_errors_def
        get_named_arg_size_def pause_call_def call_with_def deliver_def bind_c_def constant_defs)
qed

lemma example_set_variables:
  "ledger_set_variables reference_host (pause_call alice) empty_ledger
    = Inr (Ret_Unit, empty_ledger\<lparr>l_allow_minting := False\<rparr>)"
  by (simp add: ledger_set_variables_def pause_call_args bind_c_Inr)

definition whitelist_call :: "account_hash \<Rightarrow> invocation" where
  "whitelist_call a = call_with (Session alice) alice
     [(ARG_ACCOUNT_WHITELIST, to_bytes key_codec (Key_Account a))]"

lemma whitelist_call_args:
  "get_caller (whitelist_call a) = alice"
  "required_arg key_codec (whitelist_call a) ARG_ACCOUNT_WHITELIST e e' s = Inr (Key_Account a, s)"
  unfolding whitelist_call_def
   apply simp
  apply (rule call_with_arg(2); simp add: constant_defs codecs_ok)
  done

lemma example_whitelists:
  "ledger_add_to_account_whitelist reference_host (whitelist_call carol) empty_ledger
    = Inr (Ret_Unit, empty_ledger\<lparr>l_account_whitelist := [bob, carol]\<rparr>)"
  "ledger_remove_from_account_whitelist reference_host (whitelist_call bob) empty_ledger
    = Inr (Ret_Unit, empty_ledger\<lparr>l_account_whitelist := []\<rparr>)"
  "ledger_remove_from_account_whitelist reference_host (whitelist_call carol) empty_ledger = Inl Panic"
  by (simp_all add: ledger_add_to_account_whitelist_def ledger_remove_from_account_whitelist_def
      whitelist_call_args bind_c_Inr)

section \<open>Asking that contract\<close>

definition balance_call :: invocation where
  "balance_call = call_with (Session bob) bob [(ARG_TOKEN_OWNER, to_bytes key_codec (Key_Account alice))]"

lemma balance_call_args:
  "required_arg key_codec balance_call ARG_TOKEN_OWNER e e' s = Inr (Key_Account alice, s)"
  unfolding balance_call_def by (rule call_with_arg(2); simp add: constant_defs codecs_ok)

lemma example_queries:
  "ledger_owner_of reference_host (token_call bob 0) minted_ledger
    = Inr (Ret_Key (Key_Account alice), minted_ledger)"
  "ledger_owner_of reference_host (token_call bob 1) minted_ledger = Inl (User InvalidTokenIdentifier)"
  "ledger_balance_of reference_host balance_call minted_ledger = Inr (Ret_U64 1, minted_ledger)"
  "ledger_get_approved reference_host (token_call bob 0) approved_ledger
    = Inr (Ret_Option_Key (Some (Key_Account bob)), approved_ledger)"
  "ledger_metadata_query reference_host (token_call bob 0) minted_ledger
    = Inl (User MissingNFTMetadataKind)"
  by (simp_all add: ledger_owner_of_def ledger_balance_of_def ledger_get_approved_def
      ledger_metadata_query_def ledger_query_token_run token_call_args balance_call_args bind_c_Inr)

section \<open>A state that calls lead to\<close>

lemma example_reachable:
  obtains h where "reachable reference_host alice example_args h"
    and "init reference_host init_call installed_state = Inr (Ret_Unit, h)"
proof -
  obtain h where h: "init reference_host init_call installed_state = Inr (Ret_Unit, h)"
    using casper_host.init_refines(2) [OF reference.casper_host_axioms installed_fresh example_init_args]
    by (auto simp: yields_def)
  with reachable.initialised [OF installed_fresh example_init_args] that show thesis by blast
qed

text \<open>The state after the initialisation, with Alice's token 0 minted, and with it burnt; the host
  chooses the URefs.\<close>

lemma relocated [simp]:
  "tokens_of (L\<lparr>l_urefs := us\<rparr>) item = tokens_of L item"
  "balance (L\<lparr>l_urefs := us\<rparr>) item = balance L item"
  "add_token t owner item md (L\<lparr>l_urefs := us\<rparr>) = (add_token t owner item md L)\<lparr>l_urefs := us\<rparr>"
  by (simp_all add: tokens_of_def balance_def add_token_def Let_def)

lemma example_reachable_empty:
  obtains us h where "reachable reference_host alice example_args h"
    and "represents reference_host (empty_ledger\<lparr>l_urefs := us\<rparr>) h"
proof -
  obtain us h where "init reference_host init_call installed_state = Inr (Ret_Unit, h)"
    and "represents reference_host (initial_ledger us alice example_args) h"
    using casper_host.init_refines(2) [OF reference.casper_host_axioms installed_fresh example_init_args]
    by (auto simp: yields_def)
  moreover have "initial_ledger us alice example_args = empty_ledger\<lparr>l_urefs := us\<rparr>"
    by (simp add: empty_ledger_def initial_ledger_def)
  ultimately show thesis
    using reachable.initialised [OF installed_fresh example_init_args] that by metis
qed

lemma reachable_step:
  assumes "reachable reference_host installer a h" and "represents reference_host L h"
    and "ledger_call reference_host e i L = Inr (r, L')"
  obtains h' where "reachable reference_host installer a h'" and "represents reference_host L' h'"
    and "call_entry reference_host e i h = Inr (r, h')"
proof -
  from sim_leftD [OF reference.call_refines [OF assms(2), of e i, unfolded assms(3)]]
  obtain h' where "call_entry reference_host e i h = Inr (r, h')" and "represents reference_host L' h'"
    by blast
  with reachable.called [OF assms(1), of e i] that show thesis by (simp add: after_call_def)
qed

lemma example_reachable_minted:
  obtains us h where "reachable reference_host alice example_args h"
    and "represents reference_host (minted_ledger\<lparr>l_urefs := us\<rparr>) h"
proof -
  obtain us h where h: "reachable reference_host alice example_args h"
    "represents reference_host (empty_ledger\<lparr>l_urefs := us\<rparr>) h" by (rule example_reachable_empty)
  have "ledger_call reference_host EP_mint mint_call (empty_ledger\<lparr>l_urefs := us\<rparr>) =
      Inr (Ret_Mint_Receipt ''nft-cats'' (key_dictionary reference_host (us OWNED_TOKENS) alice_item)
        (u64_to_string 0), minted_ledger\<lparr>l_urefs := us\<rparr>)"
    by (simp add: ledger_call_def ledger_mint_def ledger_check_minter_def ledger_mint_owner_def
        ledger_new_identifier_def valid_metadata_def mint_call_args bind_c_Inr minted_ledger_def)
  from reachable_step [OF h this] that show thesis by metis
qed

lemma example_reachable_burnt:
  obtains us h where "reachable reference_host alice example_args h"
    and "represents reference_host (burnt_ledger\<lparr>l_urefs := us\<rparr>) h"
proof -
  obtain us h where h: "reachable reference_host alice example_args h"
    "represents reference_host (minted_ledger\<lparr>l_urefs := us\<rparr>) h" by (rule example_reachable_minted)
  have "ledger_call reference_host EP_burn (token_call alice 0) (minted_ledger\<lparr>l_urefs := us\<rparr>) =
      Inr (Ret_Unit, burnt_ledger\<lparr>l_urefs := us\<rparr>)"
    by (simp add: ledger_call_def ledger_burn_def token_call_args bind_c_Inr burnt_ledger_def)
  from reachable_step [OF h this] that show thesis by metis
qed

section \<open>A contract whose tokens never change\<close>

definition frozen_args :: init_args where
  "frozen_args = example_args\<lparr>a_ownership_mode := Minter, a_metadata_mutability := Immutable\<rparr>"

lemma frozen_args_simps [simp]:
  "a_identifier_mode frozen_args = Ordinal" "a_metadata_mutability frozen_args = Immutable"
  "a_ownership_mode frozen_args = Minter" "a_nft_metadata_kind frozen_args = Raw"
  by (simp_all add: frozen_args_def example_args_def)

lemma reachable_initial:
  assumes "read_init_args reference_host i installed_state = Inr (a, installed_state)"
  obtains us h where "reachable reference_host alice a h"
    and "represents reference_host (initial_ledger us alice a) h"
  using casper_host.init_refines(2) [OF reference.casper_host_axioms installed_fresh assms]
    reachable.initialised [OF installed_fresh assms] that
  by (auto simp: yields_def)

lemma frozen_reachable:
  obtains L h where "reachable reference_host alice frozen_args h" and "represents reference_host L h"
    and "l_token_owners L (u64_to_string 0) = Some (Key_Account alice)"
    and "l_token_issuers L (u64_to_string 0) = Some (Key_Account alice)"
    and "l_metadata L Raw (u64_to_string 0) = Some ''tabby''"
proof -
  have "read_init_args reference_host (init_call_for alice frozen_args) installed_state
      = Inr (frozen_args, installed_state)"
    by (rule init_args_read) (simp_all add: frozen_args_def example_args_def)
  then obtain us h where h: "reachable reference_host alice frozen_args h"
    "represents reference_host (initial_ledger us alice frozen_args) h" by (rule reachable_initial)
  let ?L = "initial_ledger us alice frozen_args"
  have "ledger_call reference_host EP_mint mint_call ?L =
      Inr (Ret_Mint_Receipt ''nft-cats'' (key_dictionary reference_host (us OWNED_TOKENS) alice_item)
        (u64_to_string 0), add_token (Index 0) (Key_Account alice) alice_item ''tabby'' ?L)"
    by (simp add: ledger_call_def ledger_mint_def ledger_check_minter_def ledger_mint_owner_def
        ledger_new_identifier_def valid_metadata_def mint_call_args bind_c_Inr initial_ledger_def
        frozen_args_def example_args_def tokens_of_def)
  from reachable_step [OF h this] obtain h' where h': "reachable reference_host alice frozen_args h'"
    "represents reference_host (add_token (Index 0) (Key_Account alice) alice_item ''tabby'' ?L) h'"
    by metis
  show thesis
    by (rule that [OF h']) (simp_all add: add_token_def Let_def initial_ledger_def)
qed

section \<open>Contracts with other modes\<close>

lemma mint_call_mixed: "verified_caller mint_call Mixed = Inr (Key_Account alice)"
  by (simp add: mint_call_def verified_caller_def)

lemma reachable_first_mint:
  assumes init: "read_init_args reference_host i installed_state = Inr (a, installed_state)"
    and "a_allow_minting a" and "0 < a_total_token_supply a" and "a_identifier_mode a = Ordinal"
    and "a_nft_metadata_kind a = Raw" and "a_holder_mode a = Accounts \<or> a_holder_mode a = Mixed"
  obtains us h h' where "reachable reference_host alice a h"
    and "represents reference_host
      (add_token (Index 0) (Key_Account alice) alice_item ''tabby'' (initial_ledger us alice a)) h'"
    and "mint reference_host mint_call h =
      Inr (Ret_Mint_Receipt (a_receipt_name a) (key_dictionary reference_host (us OWNED_TOKENS) alice_item)
        (u64_to_string 0), h')"
    and "reachable reference_host alice a h'"
proof -
  obtain us h where h: "reachable reference_host alice a h"
    "represents reference_host (initial_ledger us alice a) h" by (rule reachable_initial [OF init])
  let ?L = "initial_ledger us alice a"
  have caller: "verified_caller mint_call (a_holder_mode a) = Inr (Key_Account alice)"
    using assms(6) by (auto simp: mint_call_args mint_call_mixed)
  have "ledger_mint reference_host mint_call ?L =
      Inr (Ret_Mint_Receipt (a_receipt_name a) (key_dictionary reference_host (us OWNED_TOKENS) alice_item)
        (u64_to_string 0), add_token (Index 0) (Key_Account alice) alice_item ''tabby'' ?L)"
    using assms(2-5) word_gt_0
    by (auto simp: ledger_mint_def ledger_check_minter_def ledger_mint_owner_def ledger_new_identifier_def
        valid_metadata_def mint_call_args caller bind_c_Inr initial_ledger_def tokens_of_def
        split: minting_mode.split)
  then have "ledger_call reference_host EP_mint mint_call ?L =
      Inr (Ret_Mint_Receipt (a_receipt_name a) (key_dictionary reference_host (us OWNED_TOKENS) alice_item)
        (u64_to_string 0), add_token (Index 0) (Key_Account alice) alice_item ''tabby'' ?L)"
    by (simp add: ledger_call_def)
  from reachable_step [OF h this] obtain h' where h': "reachable reference_host alice a h'"
    "represents reference_host
      (add_token (Index 0) (Key_Account alice) alice_item ''tabby'' ?L) h'"
    "call_entry reference_host EP_mint mint_call h =
      Inr (Ret_Mint_Receipt (a_receipt_name a) (key_dictionary reference_host (us OWNED_TOKENS) alice_item)
        (u64_to_string 0), h')" by metis
  from h'(3) show thesis by (intro that [OF h(1) h'(2) _ h'(1)]) (simp add: call_entry_def)
qed

text \<open>Only the installer mints; accounts and contracts may hold tokens.\<close>

definition installer_args :: init_args where
  "installer_args = example_args\<lparr>a_minting_mode := Installer\<rparr>"

definition mixed_args :: init_args where
  "mixed_args = example_args\<lparr>a_holder_mode := Mixed\<rparr>"

lemma other_args_read:
  "read_init_args reference_host (init_call_for alice installer_args) s = Inr (installer_args, s)"
  "read_init_args reference_host (init_call_for alice mixed_args) s = Inr (mixed_args, s)"
  by (rule init_args_read; simp add: installer_args_def mixed_args_def example_args_def)+

lemma example_reachable_approved:
  obtains us h where "reachable reference_host alice example_args h"
    and "represents reference_host (approved_ledger\<lparr>l_urefs := us\<rparr>) h"
proof -
  obtain us h where h: "reachable reference_host alice example_args h"
    "represents reference_host (minted_ledger\<lparr>l_urefs := us\<rparr>) h" by (rule example_reachable_minted)
  have "ledger_call reference_host EP_approve approve_call (minted_ledger\<lparr>l_urefs := us\<rparr>) =
      Inr (Ret_Unit, approved_ledger\<lparr>l_urefs := us\<rparr>)"
    by (simp add: ledger_call_def ledger_approve_def approve_call_args bind_c_Inr approved_ledger_def)
  from reachable_step [OF h this] that show thesis by metis
qed

text \<open>Anyone moves Alice's token to Bob in the contract for accounts and contracts.\<close>

lemma mixed_transfer:
  fixes us
  defines "L \<equiv> add_token (Index 0) (Key_Account alice) alice_item ''tabby''
    (initial_ledger us alice mixed_args)"
  shows "\<exists>r L'. ledger_transfer reference_host (transfer_call alice) L = Inr (r, L')"
proof -
  have caller: "verified_caller (transfer_call alice) Mixed = Inr (Key_Account alice)"
    by (simp add: transfer_call_def verified_caller_def)
  have "tokens_of L n = (if n = alice_item then [Index 0] else [])"
    "balance L n = (if n = alice_item then 1 else 0)" for n
    by (simp_all add: L_def add_token_def Let_def initial_ledger_def tokens_of_def balance_def)
  moreover have "l_ownership_mode L = Transferable" "l_identifier_mode L = Ordinal"
    "l_holder_mode L = Mixed" "\<not> l_burnt_tokens L n" "l_account_whitelist L = [bob]"
    "l_token_owners L n = (if n = u64_to_string 0 then Some (Key_Account alice) else None)"
    "l_owned_tokens L n = (if n = alice_item then Some [Index 0] else None)" for n
    by (simp_all add: L_def add_token_def Let_def initial_ledger_def mixed_args_def example_args_def
        tokens_of_def)
  ultimately show ?thesis
    by (simp add: ledger_transfer_def transfer_call_args caller bind_c_Inr may_transfer_def
        target_account_def ledger_move_token_def)
qed

end
