(* ===== verification/Refinement_Properties.thy ===== *)
theory Refinement_Properties
  imports Examples
begin

text \<open>
  The entry points implement the ledger, on every host that keeps the promises of \<open>casper_host\<close>:
  each property is about the code of one entry point, and holds on every branch, the errors
  included. Its witness runs the code on the reference host.
\<close>

section \<open>Initialisation\<close>

text \<open>C8. \<open>init\<close>, run where the contract has just been installed, fails with the error of the
  first argument that is missing, ill-formed or not allowed, and otherwise returns in a state that
  represents the empty ledger its arguments describe.\<close>

theorem init_implements_ledger:
  assumes "casper_host H" and "fresh H installer h"
  shows "case read_init_args H i h of
      Inl e \<Rightarrow> init H i h = Inl e
    | Inr (a, _) \<Rightarrow> \<exists>us h'. init H i h = Inr (Ret_Unit, h')
        \<and> represents H (initial_ledger us installer a) h'"
proof (cases "read_init_args H i h")
  case (Inl e)
  then show ?thesis using casper_host.init_refines(1) [OF assms] by simp
next
  case (Inr r)
  obtain a h1 where "r = (a, h1)" by fastforce
  with Inr casper_host.init_refines(2) [OF assms] show ?thesis by (fastforce simp: yields_def)
qed

theorem init_implements_ledger_witness:
  "\<exists>us h'. init reference_host init_call installed_state = Inr (Ret_Unit, h')
    \<and> represents reference_host (initial_ledger us alice example_args) h'"
  using init_implements_ledger [OF reference.casper_host_axioms installed_fresh, of init_call]
  by (simp add: example_init_args)

text \<open>C32. A contract is initialised once: on every state that represents a ledger \<open>init\<close> reverts
  with \<open>ContractAlreadyInitialized\<close>, whatever its arguments are.\<close>

theorem init_runs_once:
  assumes "casper_host H" and "represents H L h"
  shows "init H i h = Inl (User ContractAlreadyInitialized)"
  by (rule casper_host.init_twice [OF assms])

theorem init_runs_once_witness:
  "init reference_host init_call (ref_state_of empty_ledger) = Inl (User ContractAlreadyInitialized)"
  by (rule init_runs_once [OF reference.casper_host_axioms example_represents(1)])

section \<open>Tokens\<close>

text \<open>C1. \<open>mint\<close> implements the ledger: with the same error, or by adding the token to the owners,
  issuers, metadata, the owner's list and balance and the counter, and returning the receipt.\<close>

theorem mint_implements_ledger:
  assumes "casper_host H" and "represents H L h"
  shows "sim H (ledger_mint H i L) (mint H i h)"
  by (rule casper_host.mint_refines [OF assms])

theorem mint_implements_ledger_witness:
  "\<exists>h'. mint reference_host mint_call (ref_state_of empty_ledger) =
      Inr (Ret_Mint_Receipt ''nft-cats''
        (key_dictionary reference_host (ref_urefs OWNED_TOKENS) alice_item) (u64_to_string 0), h')
    \<and> represents reference_host minted_ledger h'"
  using mint_implements_ledger [OF reference.casper_host_axioms example_represents(1), of mint_call]
  unfolding example_mint by (rule sim_leftD)

text \<open>C23. \<open>burn\<close> implements the ledger: with the same error, or by marking the token and taking it
  off the owner's balance.\<close>

theorem burn_implements_ledger:
  assumes "casper_host H" and "represents H L h"
  shows "sim H (ledger_burn H i L) (burn H i h)"
  by (rule casper_host.burn_refines [OF assms])

theorem burn_implements_ledger_witness:
  "\<exists>h'. burn reference_host (token_call alice 0) (ref_state_of minted_ledger) = Inr (Ret_Unit, h')
    \<and> represents reference_host burnt_ledger h'"
  using burn_implements_ledger [OF reference.casper_host_axioms example_represents(2),
      of "token_call alice 0"]
  unfolding example_burn by (rule sim_leftD)

text \<open>C2. \<open>transfer\<close> implements the ledger: with the same error, or by moving the token from one
  list and balance to the other, naming the new owner and clearing the operator.\<close>

theorem transfer_implements_ledger:
  assumes "casper_host H" and "represents H L h"
  shows "sim H (ledger_transfer H i L) (transfer H i h)"
  by (rule casper_host.transfer_refines [OF assms])

theorem transfer_implements_ledger_witness:
  "\<exists>h'. transfer reference_host (transfer_call bob) (ref_state_of approved_ledger) =
      Inr (Ret_Transfer_Receipt ''nft-cats''
        (key_dictionary reference_host (ref_urefs OWNED_TOKENS) bob_item), h')
    \<and> represents reference_host moved_ledger h'"
  using transfer_implements_ledger [OF reference.casper_host_axioms example_represents(3),
      of "transfer_call bob"]
  unfolding example_transfer by (rule sim_leftD)

text \<open>C24. \<open>approve\<close> implements the ledger: with the same error, or by recording the operator of
  the one token.\<close>

theorem approve_implements_ledger:
  assumes "casper_host H" and "represents H L h"
  shows "sim H (ledger_approve H i L) (approve H i h)"
  by (rule casper_host.approve_refines [OF assms])

theorem approve_implements_ledger_witness:
  "\<exists>h'. approve reference_host approve_call (ref_state_of minted_ledger) = Inr (Ret_Unit, h')
    \<and> represents reference_host approved_ledger h'"
  using approve_implements_ledger [OF reference.casper_host_axioms example_represents(2),
      of approve_call]
  unfolding example_approve by (rule sim_leftD)

text \<open>C25. \<open>set_approval_for_all\<close> implements the ledger: the loop over the caller's list sets or
  clears the operator of each of its tokens and touches no other.\<close>

theorem set_approval_for_all_implements_ledger:
  assumes "casper_host H" and "represents H L h"
  shows "sim H (ledger_set_approval_for_all H i L) (set_approval_for_all H i h)"
  by (rule casper_host.set_approval_for_all_refines [OF assms])

theorem set_approval_for_all_implements_ledger_witness:
  "\<exists>h'. set_approval_for_all reference_host approve_all_call (ref_state_of minted_ledger)
      = Inr (Ret_Unit, h')
    \<and> represents reference_host approved_ledger h'"
  using set_approval_for_all_implements_ledger
    [OF reference.casper_host_axioms example_represents(2), of approve_all_call]
  unfolding example_approve_all by (rule sim_leftD)

text \<open>C26. \<open>set_token_metadata\<close> implements the ledger: with the same error, or by storing the
  validated metadata of the one token in the dictionary of the contract's kind.\<close>

theorem set_token_metadata_implements_ledger:
  assumes "casper_host H" and "represents H L h"
  shows "sim H (ledger_set_token_metadata H i L) (set_token_metadata H i h)"
  by (rule casper_host.set_token_metadata_refines [OF assms])

theorem set_token_metadata_implements_ledger_witness:
  "\<exists>h'. set_token_metadata reference_host metadata_call (ref_state_of minted_ledger)
      = Inr (Ret_Unit, h')
    \<and> represents reference_host described_ledger h'"
  using set_token_metadata_implements_ledger
    [OF reference.casper_host_axioms example_represents(2), of metadata_call]
  unfolding example_set_token_metadata by (rule sim_leftD)

section \<open>Administration\<close>

text \<open>C27. The administration implements the ledger: the installer changes the status of minting and,
  unless it is locked, the whitelist of contracts, an argument that is not given changing nothing;
  adds an account at the end of the account whitelist; and removes the first entry of one, where
  removing an account that is not listed panics.\<close>

theorem administration_implements_ledger:
  assumes "casper_host H" and "represents H L h"
  shows "sim H (ledger_set_variables H i L) (set_variables H i h)
    \<and> sim H (ledger_add_to_account_whitelist H i L) (add_to_account_whitelist H i h)
    \<and> sim H (ledger_remove_from_account_whitelist H i L) (remove_from_account_whitelist H i h)"
  by (intro conjI casper_host.set_variables_refines casper_host.add_to_account_whitelist_refines
      casper_host.remove_from_account_whitelist_refines assms)

theorem administration_implements_ledger_witness:
  "(\<exists>h'. set_variables reference_host (pause_call alice) (ref_state_of empty_ledger) = Inr (Ret_Unit, h')
    \<and> represents reference_host (empty_ledger\<lparr>l_allow_minting := False\<rparr>) h')
   \<and> (\<exists>h'. add_to_account_whitelist reference_host (whitelist_call carol) (ref_state_of empty_ledger)
      = Inr (Ret_Unit, h')
    \<and> represents reference_host (empty_ledger\<lparr>l_account_whitelist := [bob, carol]\<rparr>) h')
   \<and> remove_from_account_whitelist reference_host (whitelist_call carol) (ref_state_of empty_ledger)
      = Inl Panic"
  using administration_implements_ledger [OF reference.casper_host_axioms example_represents(1),
      of "pause_call alice"]
    administration_implements_ledger [OF reference.casper_host_axioms example_represents(1),
      of "whitelist_call carol"]
  unfolding example_set_variables example_whitelists by (blast dest: sim_leftD sim_left_errorD)

section \<open>Queries\<close>

text \<open>C28. The queries read the ledger and leave the state as it is: \<open>owner_of\<close> the owner of a
  token within bounds, \<open>balance_of\<close> the balance under the owner's item, \<open>get_approved\<close> the operator
  of a token that is not burnt. Two comments of the code say otherwise: the balance is not the length
  of the list of owned tokens, which differs once a token is burnt (as the witness shows), and
  \<open>get_approved\<close> does not refuse every identifier without a token: of a hash that nobody has minted it
  answers that there is no operator.\<close>

theorem queries_implement_ledger:
  assumes "casper_host H" and "represents H L h"
  shows "sim H (ledger_owner_of H i L) (owner_of H i h)
    \<and> sim H (ledger_balance_of H i L) (balance_of H i h)
    \<and> sim H (ledger_get_approved H i L) (get_approved H i h)"
  by (intro conjI casper_host.owner_of_refines casper_host.balance_of_refines
      casper_host.get_approved_refines assms)

lemma burnt_balance: "ledger_balance_of reference_host balance_call burnt_ledger = Inr (Ret_U64 0, burnt_ledger)"
  by (simp add: ledger_balance_of_def balance_call_args bind_c_Inr burnt_ledger_def balance_def)

lemma burnt_list: "l_identifier_mode burnt_ledger = Ordinal"
  "l_owned_tokens burnt_ledger alice_item = Some [Index 0]"
  by (simp_all add: burnt_ledger_def)

theorem queries_implement_ledger_witness:
  "(\<exists>h'. owner_of reference_host (token_call bob 0) (ref_state_of minted_ledger)
      = Inr (Ret_Key (Key_Account alice), h'))
   \<and> owner_of reference_host (token_call bob 1) (ref_state_of minted_ledger)
      = Inl (User InvalidTokenIdentifier)
   \<and> (\<exists>h'. balance_of reference_host balance_call (ref_state_of minted_ledger) = Inr (Ret_U64 1, h'))
   \<and> (\<exists>h'. balance_of reference_host balance_call (ref_state_of burnt_ledger) = Inr (Ret_U64 0, h'))
   \<and> get_token_identifiers_from_dictionary reference_host Ordinal alice_item (ref_state_of burnt_ledger)
      = Inr (Some [Index 0], ref_state_of burnt_ledger)"
  using queries_implement_ledger [OF reference.casper_host_axioms example_represents(2),
      of "token_call bob 0"]
    queries_implement_ledger [OF reference.casper_host_axioms example_represents(2),
      of "token_call bob 1"]
    queries_implement_ledger [OF reference.casper_host_axioms example_represents(2),
      of balance_call]
    queries_implement_ledger [OF reference.casper_host_axioms example_represents(4),
      of balance_call]
    reference.read_owned_tokens [OF example_represents(4) example_items_fit(1), unfolded burnt_list]
  unfolding example_queries burnt_balance by (blast dest: sim_leftD sim_left_errorD)

text \<open>C31. The query \<open>metadata\<close> never answers: it looks for the kind of the metadata under a name
  that \<open>init\<close> does not bind, so that it reverts on every token, also on one whose metadata \<open>mint\<close>
  has stored.\<close>

theorem metadata_never_answers:
  assumes "casper_host H" and "represents H L h"
  shows "sim H (ledger_metadata_query H i L) (metadata H i h) \<and> (\<exists>e. metadata H i h = Inl e)"
proof -
  note sim = casper_host.metadata_refines [OF assms, of i]
  have "\<exists>e. ledger_metadata_query H i L = Inl e"
    by (cases "ledger_metadata_query H i L")
      (auto simp: ledger_metadata_query_def ledger_query_token_run elim!: bind_InrEs)
  with sim show ?thesis by (metis sim_left_errorD)
qed

theorem metadata_never_answers_witness:
  "metadata reference_host (token_call bob 0) (ref_state_of minted_ledger)
    = Inl (User MissingNFTMetadataKind)"
  using metadata_never_answers [OF reference.casper_host_axioms example_represents(2),
      of "token_call bob 0"]
  unfolding example_queries by (blast dest: sim_left_errorD)

end
