(* ===== verification/Authority_Properties.thy ===== *)
theory Authority_Properties
  imports Examples
begin

text \<open>
  Who may do what: the properties say which callers an entry point refuses, and, where the code
  lets more callers through than its comments say, which ones it does not tell apart.
\<close>

section \<open>The ledger behind a reachable state\<close>

lemma reachable_ledgerE:
  assumes "casper_host H" and "reachable H installer a h"
  obtains L where "represents H L h" and "l_installer L = installer"
    and "l_minting_mode L = a_minting_mode a" and "l_holder_mode L = a_holder_mode a"
    and "l_ownership_mode L = a_ownership_mode a" and "l_identifier_mode L = a_identifier_mode a"
proof -
  obtain L us where "represents H L h" "same_configuration (initial_ledger us installer a) L"
    using casper_host.reachable_configuration [OF assms] by metis
  then show thesis by (intro that [of L]) (simp_all add: same_configuration_def initial_ledger_def)
qed

section \<open>The arguments behind a transfer\<close>

text \<open>What a call reads from its arguments does not depend on the state it runs in.\<close>

lemma token_argument_any_state:
  assumes "get_token_identifier_from_runtime_args H i m s = Inr (t, s')"
  shows "get_token_identifier_from_runtime_args H i m u = Inr (t, u)"
  using assms by (subst (asm) token_identifier_arg_pure, subst token_identifier_arg_pure)
    (auto simp: result_c_def split: sum.splits)

lemma required_argument_any_state:
  assumes "required_arg c i name missing invalid s = Inr (v, s')"
  shows "required_arg c i name missing invalid u = Inr (v, u)"
  using assms by (subst (asm) required_arg_pure, subst required_arg_pure)
    (auto simp: result_c_def split: sum.splits)

lemma bind_move_InrE:
  assumes "bind_c (ledger_move_token t k from_item target_item) f L = Inr x"
  obtains L' where "ledger_move_token t k from_item target_item L = Inr ((), L')" and "f () L' = Inr x"
  using assms by (auto elim: bind_c_InrE)

text \<open>A transfer that has returned, with the token and the keys its arguments name.\<close>

lemma bind_required_arg_valueE:
  assumes "bind_c (required_arg c i name missing invalid) f s = Inr x"
  obtains v where "required_arg c i name missing invalid s = Inr (v, s)" and "f v s = Inr x"
proof -
  from assms obtain v s' where v: "required_arg c i name missing invalid s = Inr (v, s')"
    and rest: "f v s' = Inr x" by (rule bind_c_InrE)
  from v have "s' = s" by (subst (asm) required_arg_pure) (auto simp: result_c_def split: sum.splits)
  with v rest that show thesis by simp
qed

lemma bind_token_identifier_arg_valueE:
  assumes "bind_c (get_token_identifier_from_runtime_args H i m) f s = Inr x"
  obtains t where "get_token_identifier_from_runtime_args H i m s = Inr (t, s)" and "f t s = Inr x"
proof -
  from assms obtain t s' where t: "get_token_identifier_from_runtime_args H i m s = Inr (t, s')"
    and rest: "f t s' = Inr x" by (rule bind_c_InrE)
  from t have "s' = s"
    by (subst (asm) token_identifier_arg_pure) (auto simp: result_c_def split: sum.splits)
  with t rest that show thesis by simp
qed

lemma ledger_transfer_argumentsE:
  assumes "ledger_transfer H i L = Inr (r, L')"
  obtains t source target account caller from_item target_item
  where "get_token_identifier_from_runtime_args H i (l_identifier_mode L) L = Inr (t, L)"
    and "fits H (get_dictionary_item_key t)" and "\<not> l_burnt_tokens L (get_dictionary_item_key t)"
    and "required_arg (c_key H) i ARG_SOURCE_KEY MissingAccountHash InvalidAccountHash L = Inr (source, L)"
    and "l_token_owners L (get_dictionary_item_key t) = Some source"
    and "verified_caller i (l_holder_mode L) = Inr caller" and "may_transfer L caller t source"
    and "required_arg (c_key H) i ARG_TARGET_KEY MissingAccountHash InvalidAccountHash L = Inr (target, L)"
    and "target_account target = Inr account" and "account \<in> set (l_account_whitelist L)"
    and "L' = move_token t target from_item target_item L"
  using assms unfolding ledger_transfer_def Let_def
  apply (simp split: if_splits)
  apply (elim bind_token_identifier_arg_valueE bind_required_arg_valueE bind_result_InrE
      bind_revert_if_InrE bind_unwrap_InrE bind_move_InrE)
  apply (auto elim!: ledger_move_tokenE intro: that)
  done

section \<open>Administration\<close>

text \<open>C10. Only the account that installed the contract administers it: for any other caller
  \<open>set_variables\<close>, the two whitelist entry points, \<open>burn\<close> and \<open>set_token_metadata\<close> revert with
  \<open>InvalidAccount\<close>, whatever the arguments.\<close>

theorem administration_needs_installer:
  assumes "casper_host H" and "reachable H installer a h" and "get_caller i \<noteq> installer"
  shows "set_variables H i h = Inl (User InvalidAccount)
    \<and> add_to_account_whitelist H i h = Inl (User InvalidAccount)
    \<and> remove_from_account_whitelist H i h = Inl (User InvalidAccount)
    \<and> burn H i h = Inl (User InvalidAccount)
    \<and> set_token_metadata H i h = Inl (User InvalidAccount)"
proof -
  obtain L where rep: "represents H L h" and "l_installer L = installer"
    using reachable_ledgerE [OF assms(1,2)] by metis
  with assms(3) have no: "l_installer L \<noteq> get_caller i" by simp
  note sims = casper_host.set_variables_refines [OF assms(1) rep, of i]
    casper_host.add_to_account_whitelist_refines [OF assms(1) rep, of i]
    casper_host.remove_from_account_whitelist_refines [OF assms(1) rep, of i]
    casper_host.burn_refines [OF assms(1) rep, of i]
    casper_host.set_token_metadata_refines [OF assms(1) rep, of i]
  show ?thesis
    using sims no
    by (auto simp: ledger_set_variables_def ledger_add_to_account_whitelist_def
        ledger_remove_from_account_whitelist_def ledger_burn_def ledger_set_token_metadata_def
        dest: sim_left_errorD)
qed

theorem administration_needs_installer_witness:
  "\<exists>h. reachable reference_host alice example_args h
    \<and> set_variables reference_host (pause_call bob) h = Inl (User InvalidAccount)
    \<and> burn reference_host (token_call bob 0) h = Inl (User InvalidAccount)"
proof -
  obtain h where h: "reachable reference_host alice example_args h" by (rule example_reachable)
  with administration_needs_installer [OF reference.casper_host_axioms h, of "pause_call bob"]
    administration_needs_installer [OF reference.casper_host_axioms h, of "token_call bob 0"]
  show ?thesis by (auto simp: pause_call_args token_call_args)
qed

section \<open>Minting\<close>

text \<open>C11. In the minting mode \<open>Installer\<close> a call of \<open>mint\<close> returns only to the installer or to a
  contract whose hash is on the contract whitelist.\<close>

theorem minting_needs_permission:
  assumes "casper_host H" and "reachable H installer a h" and "a_minting_mode a = Installer"
    and "mint H i h = Inr (r, h')"
  shows "get_caller i = installer
    \<or> (\<exists>c whitelist. verified_caller i (a_holder_mode a) = Inr (Key_Hash c)
        \<and> get_stored_value_with_user_errors H (c_vec_contract_hash H) CONTRACT_WHITELIST
            MissingWhitelistMode InvalidWhitelistMode h = Inr (whitelist, h)
        \<and> ContractHash c \<in> set whitelist)"
proof -
  obtain L where rep: "represents H L h" and L: "l_installer L = installer"
      "l_minting_mode L = a_minting_mode a" "l_holder_mode L = a_holder_mode a"
    using reachable_ledgerE [OF assms(1,2)] by metis
  from casper_host.mint_refines [OF assms(1) rep, of i] assms(4)
  obtain L' where "ledger_mint H i L = Inr (r, L')" by (auto dest: sim_InrD)
  then have "ledger_check_minter i L = Inr ()" by (rule ledger_mintE)
  then show ?thesis
    using L assms(3) casper_host.read_values(3) [OF assms(1) rep]
    by (auto simp: ledger_check_minter_def split: sum.splits key.splits if_splits)
qed

theorem minting_needs_permission_witness:
  "\<exists>r h h'. mint reference_host mint_call h = Inr (r, h') \<and> reachable reference_host alice installer_args h
    \<and> get_caller mint_call = alice"
proof -
  obtain h h' r where h: "reachable reference_host alice installer_args h"
    "mint reference_host mint_call h = Inr (r, h')"
    by (rule reachable_first_mint [OF other_args_read(1)])
      (simp_all add: installer_args_def example_args_def)
  have mode: "a_minting_mode installer_args = Installer" "a_holder_mode installer_args = Accounts"
    by (simp_all add: installer_args_def example_args_def)
  from minting_needs_permission [OF reference.casper_host_axioms h(1) mode(1) h(2)] h
  show ?thesis by (auto simp: mode mint_call_args)
qed

section \<open>Transfer\<close>

text \<open>C6. In a contract for accounts the token that a call of \<open>transfer\<close> names is not burnt, and the
  caller is its owner, the operator approved for it, or the installer; afterwards the owner of that
  token is the target the call names, and no other token has a new owner.\<close>

theorem transfer_needs_permission:
  assumes "casper_host H" and "reachable H installer a h" and "a_holder_mode a = Accounts"
    and "transfer H i h = Inr (r, h')"
  shows "\<exists>t owner operator caller target.
    get_token_identifier_from_runtime_args H i (a_identifier_mode a) h = Inr (t, h)
    \<and> is_burnt H t h = Inr (False, h)
    \<and> get_dictionary_value_from_key H (c_key H) TOKEN_OWNERS (get_dictionary_item_key t) h
        = Inr (Some owner, h)
    \<and> get_dictionary_value_from_key H (c_option_key H) OPERATOR (get_dictionary_item_key t) h
        = Inr (operator, h)
    \<and> verified_caller i Accounts = Inr caller
    \<and> (caller = owner \<or> operator = Some (Some caller) \<or> caller = Key_Account installer)
    \<and> required_arg (c_key H) i ARG_TARGET_KEY MissingAccountHash InvalidAccountHash h = Inr (target, h)
    \<and> get_dictionary_value_from_key H (c_key H) TOKEN_OWNERS (get_dictionary_item_key t) h'
        = Inr (Some target, h')
    \<and> (\<forall>n x. n \<noteq> get_dictionary_item_key t
        \<longrightarrow> get_dictionary_value_from_key H (c_key H) TOKEN_OWNERS n h = Inr (x, h)
        \<longrightarrow> get_dictionary_value_from_key H (c_key H) TOKEN_OWNERS n h' = Inr (x, h'))"
proof -
  obtain L where rep: "represents H L h" and L: "l_installer L = installer"
      "l_holder_mode L = a_holder_mode a" "l_identifier_mode L = a_identifier_mode a"
    using reachable_ledgerE [OF assms(1,2)] by metis
  from casper_host.transfer_refines [OF assms(1) rep, of i] assms(4)
  obtain L' where call: "ledger_transfer H i L = Inr (r, L')" and rep': "represents H L' h'"
    by (auto dest: sim_InrD)
  from call obtain t owner caller target from_item target_item where
    t: "get_token_identifier_from_runtime_args H i (l_identifier_mode L) L = Inr (t, L)"
    and fits: "fits H (get_dictionary_item_key t)"
    and before: "\<not> l_burnt_tokens L (get_dictionary_item_key t)"
      "l_token_owners L (get_dictionary_item_key t) = Some owner"
      "verified_caller i (l_holder_mode L) = Inr caller" "may_transfer L caller t owner"
    and target: "required_arg (c_key H) i ARG_TARGET_KEY MissingAccountHash InvalidAccountHash L
      = Inr (target, L)"
    and L': "L' = move_token t target from_item target_item L"
    by (rule ledger_transfer_argumentsE)
  note reads = casper_host.read_dictionaries(1) [OF assms(1)]
  have others: "get_dictionary_value_from_key H (c_key H) TOKEN_OWNERS n h' = Inr (x, h')"
    if "n \<noteq> get_dictionary_item_key t"
      and "get_dictionary_value_from_key H (c_key H) TOKEN_OWNERS n h = Inr (x, h)" for n x
  proof -
    have "fits H n" by (rule casper_host.read_fits [OF assms(1) rep that(2)])
      (simp add: contract_names_def dictionary_names_def)
    then show ?thesis using that by (simp add: reads [OF rep] reads [OF rep'] L' move_token_def Let_def)
  qed
  have after: "get_dictionary_value_from_key H (c_key H) TOKEN_OWNERS (get_dictionary_item_key t) h'
      = Inr (Some target, h')"
    by (simp add: reads [OF rep' fits] L' move_token_def Let_def)
  have permission: "caller = owner \<or> l_operator L (get_dictionary_item_key t) = Some (Some caller)
      \<or> caller = Key_Account installer"
    using before(4) L assms(3) by (simp add: may_transfer_def)
  show ?thesis
    using before permission L assms(3) token_argument_any_state [OF t, of h]
      required_argument_any_state [OF target, of h] after others
      casper_host.read_is_burnt [OF assms(1) rep fits]
      casper_host.read_dictionaries(1,3) [OF assms(1) rep fits]
    by (intro exI [of _ t] exI [of _ owner] exI [of _ "l_operator L (get_dictionary_item_key t)"]
        exI [of _ caller] exI [of _ target]) auto
qed

theorem transfer_needs_permission_witness:
  "\<exists>h h' r. transfer reference_host (transfer_call bob) h = Inr (r, h')
    \<and> get_dictionary_value_from_key reference_host (option_codec key_codec) OPERATOR
        (u64_to_string 0) h = Inr (Some (Some (Key_Account bob)), h)
    \<and> is_burnt reference_host (Index 0) h = Inr (False, h)
    \<and> get_dictionary_value_from_key reference_host key_codec TOKEN_OWNERS (u64_to_string 0) h'
        = Inr (Some (Key_Account bob), h')"
proof -
  obtain us h where h: "reachable reference_host alice example_args h"
    "represents reference_host (approved_ledger\<lparr>l_urefs := us\<rparr>) h" by (rule example_reachable_approved)
  have "\<exists>r L'. ledger_transfer reference_host (transfer_call bob) (approved_ledger\<lparr>l_urefs := us\<rparr>)
      = Inr (r, L')"
    by (simp add: ledger_transfer_def transfer_call_args bind_c_Inr may_transfer_def target_account_def
        ledger_move_token_def)
  then obtain r h' where r: "transfer reference_host (transfer_call bob) h = Inr (r, h')"
    using reference.transfer_refines [OF h(2), of "transfer_call bob"] by (metis sim_leftD)
  have mode: "a_holder_mode example_args = Accounts" "a_identifier_mode example_args = Ordinal"
    by (simp_all add: example_args_def)
  from transfer_needs_permission [OF reference.casper_host_axioms h(1) mode(1) r]
    reference.read_dictionaries(3) [OF h(2) reference.index_fits, of 0] r
  show ?thesis by (auto simp: mode transfer_call_args)
qed

text \<open>C20. In a contract that admits contracts as holders, \<open>transfer\<close> does not look at who calls: a
  transfer that succeeds for one caller succeeds with the same arguments for every caller of a kind
  the contract admits, with the same receipt and the same effect.\<close>

theorem transfer_ignores_caller:
  assumes "casper_host H" and "reachable H installer a h" and "a_holder_mode a \<noteq> Accounts"
    and "transfer H i h = Inr (r, h')"
    and "verified_caller (i\<lparr>get_caller := c, get_call_stack := st\<rparr>) (a_holder_mode a) = Inr stranger"
  shows "\<exists>h'' L'. transfer H (i\<lparr>get_caller := c, get_call_stack := st\<rparr>) h = Inr (r, h'')
    \<and> represents H L' h' \<and> represents H L' h''"
proof -
  let ?i = "i\<lparr>get_caller := c, get_call_stack := st\<rparr>"
  obtain L where rep: "represents H L h" and L: "l_holder_mode L = a_holder_mode a"
    using reachable_ledgerE [OF assms(1,2)] by metis
  from casper_host.transfer_refines [OF assms(1) rep, of i] assms(4)
  obtain L' where L': "ledger_transfer H i L = Inr (r, L')" "represents H L' h'"
    by (auto dest: sim_InrD)
  have same: "named_arg_size ?i = named_arg_size i" "named_arg_bytes ?i = named_arg_bytes i" by simp_all
  have args: "required_arg cd ?i name missing invalid = required_arg cd i name missing invalid"
    "get_token_identifier_from_runtime_args H ?i m = get_token_identifier_from_runtime_args H i m"
    for cd :: "key codec" and name missing invalid m
    unfolding required_arg_def get_named_arg_with_user_errors_def get_named_arg_size_def
      get_token_identifier_from_runtime_args_def same by (rule refl)+
  from L'(1) obtain caller where caller: "verified_caller i (a_holder_mode a) = Inr caller"
    unfolding L [symmetric] by (rule ledger_transferE)
  have run: "bind_c (result_c (Inr k)) f = f k" for k :: key and f :: "key \<Rightarrow> (ledger, ret_value) contract"
    by (rule ext) simp
  have "may_transfer L k t owner" for k t owner using assms(3) L by (simp add: may_transfer_def)
  then have "ledger_transfer H ?i L = ledger_transfer H i L"
    unfolding ledger_transfer_def args Let_def L caller assms(5) run by simp
  with L'(1) have "ledger_transfer H ?i L = Inr (r, L')" by simp
  with casper_host.transfer_refines [OF assms(1) rep, of ?i] L'(2) show ?thesis
    by (metis sim_leftD)
qed

theorem transfer_ignores_caller_witness:
  "\<exists>h h' r. transfer reference_host
      ((transfer_call alice)\<lparr>get_caller := carol, get_call_stack := [Session carol, StoredContract 9 (ContractHash 9)]\<rparr>) h
    = Inr (r, h')"
proof -
  let ?st = "[Session carol, StoredContract 9 (ContractHash 9)]"
  obtain us h where h: "reachable reference_host alice mixed_args h"
    "represents reference_host
      (add_token (Index 0) (Key_Account alice) alice_item ''tabby'' (initial_ledger us alice mixed_args)) h"
    by (rule reachable_first_mint [OF other_args_read(2)]) (simp_all add: mixed_args_def example_args_def)
  from mixed_transfer [of us] reference.transfer_refines [OF h(2), of "transfer_call alice"]
  obtain r h' where r: "transfer reference_host (transfer_call alice) h = Inr (r, h')"
    by (metis sim_leftD)
  have mode: "a_holder_mode mixed_args = Mixed" by (simp add: mixed_args_def)
  have "verified_caller ((transfer_call alice)\<lparr>get_caller := carol, get_call_stack := ?st\<rparr>)
      (a_holder_mode mixed_args) = Inr (Key_Account carol)"
    by (simp add: mode verified_caller_def nth_back_1_def)
  from transfer_ignores_caller [OF reference.casper_host_axioms h(1) _ r this]
  show ?thesis by (auto simp: mode)
qed

section \<open>The account whitelist\<close>

text \<open>Only an addition by the installer brings an account onto the whitelist.\<close>

lemma ledger_whitelist_grows:
  assumes "ledger_call H e i L = Inr (r, L')"
    and "b \<in> set (l_account_whitelist L')" and "b \<notin> set (l_account_whitelist L)"
  shows "e = EP_add_to_account_whitelist \<and> get_caller i = l_installer L
    \<and> required_arg (c_key H) i ARG_ACCOUNT_WHITELIST MissingAccountWhiteList InvalidAccountWhitelist L
      = Inr (Key_Account b, L)"
proof (cases e)
  case EP_add_to_account_whitelist
  with assms show ?thesis
    by (auto simp: ledger_call_def ledger_add_to_account_whitelist_def split: if_splits
        elim!: bind_required_arg_valueE bind_unwrap_InrE into_account.elims)
next
  case EP_remove_from_account_whitelist
  with assms show ?thesis
    by (auto simp: ledger_call_def ledger_remove_from_account_whitelist_def split: if_splits
        elim!: bind_required_arg_valueE bind_unwrap_InrE dest: notin_set_remove1)
next
  case EP_mint
  with assms show ?thesis by (auto simp: ledger_call_def add_token_def Let_def elim!: ledger_mintE)
next
  case EP_transfer
  with assms show ?thesis
    by (auto simp: ledger_call_def move_token_def Let_def elim!: ledger_transferE ledger_move_tokenE)
next
  case EP_set_approval_for_all
  with assms show ?thesis
    by (auto simp: ledger_call_def approve_tokens_def elim!: ledger_set_approval_for_allE)
qed (use assms in \<open>auto simp: ledger_call_def dest: ledger_query_unchanged
      elim!: ledger_burnE ledger_approveE ledger_set_token_metadataE ledger_set_variablesE\<close>)

lemma unlisted_stays_unlisted:
  assumes "l_installer L = installer" and "b \<notin> set (l_account_whitelist L)"
    and "\<forall>(e, i) \<in> set cs. e = EP_add_to_account_whitelist \<longrightarrow> get_caller i = installer \<longrightarrow>
      required_arg (c_key H) i ARG_ACCOUNT_WHITELIST MissingAccountWhiteList InvalidAccountWhitelist h
        \<noteq> Inr (Key_Account b, h)"
  shows "b \<notin> set (l_account_whitelist (ledger_run_calls H cs L))"
  using assms
proof (induction cs arbitrary: L)
  case (Cons c cs)
  obtain e i where c: "c = (e, i)" by fastforce
  let ?L = "after_call (ledger_call H e i L) L"
  have "l_installer ?L = installer"
    using effect_configuration [OF after_call_effect [of H L e i]] Cons.prems(1)
    by (simp add: same_configuration_def)
  moreover have "b \<notin> set (l_account_whitelist ?L)"
    using ledger_whitelist_grows [of H e i L _ _ b] Cons.prems c
    by (auto simp: after_call_def split: sum.splits dest: required_argument_any_state [where u = h])
  ultimately show ?case using Cons.IH [of ?L] Cons.prems(3) by (simp add: c)
qed simp

text \<open>C39. An account that is not on the account whitelist receives no token by transfer, whatever
  calls come in between, as long as the installer does not add it: a transfer whose target is the
  account, or the contract of the same hash, does not return.\<close>

theorem unlisted_account_receives_nothing:
  assumes "casper_host H" and "reachable H installer a h"
    and "get_stored_value_with_user_errors H (c_vec_account_hash H) ACCOUNT_WHITELIST
      MissingAccountWhiteList InvalidAccountWhitelist h = Inr (whitelist, h)"
    and "account \<notin> set whitelist"
    and "\<forall>(e, i) \<in> set cs. e = EP_add_to_account_whitelist \<longrightarrow> get_caller i = installer \<longrightarrow>
      required_arg (c_key H) i ARG_ACCOUNT_WHITELIST MissingAccountWhiteList InvalidAccountWhitelist h
        \<noteq> Inr (Key_Account account, h)"
    and "required_arg (c_key H) j ARG_TARGET_KEY MissingAccountHash InvalidAccountHash h = Inr (target, h)"
    and "target_account target = Inr account"
  shows "\<exists>x. transfer H j (run_calls H cs h) = Inl x"
proof (cases "transfer H j (run_calls H cs h)")
  case (Inr z)
  obtain L where rep: "represents H L h" and L: "l_installer L = installer"
    using reachable_ledgerE [OF assms(1,2)] by metis
  let ?L = "ledger_run_calls H cs L"
  have "account \<notin> set (l_account_whitelist L)"
    using casper_host.read_values(4) [OF assms(1) rep] assms(3,4) by simp
  from unlisted_stays_unlisted [OF L this assms(5)]
  have unlisted: "account \<notin> set (l_account_whitelist ?L)" .
  from casper_host.transfer_refines [OF assms(1) casper_host.run_calls_refines [OF assms(1) rep], of j cs] Inr
  obtain L' where "ledger_transfer H j ?L = Inr (fst z, L')" by (cases z) (auto dest: sim_InrD)
  then obtain target' account' where
    "required_arg (c_key H) j ARG_TARGET_KEY MissingAccountHash InvalidAccountHash ?L = Inr (target', ?L)"
    and "target_account target' = Inr account'" and "account' \<in> set (l_account_whitelist ?L)"
    by (rule ledger_transfer_argumentsE)
  with unlisted assms(7) required_argument_any_state [OF assms(6), of ?L] show ?thesis by auto
qed blast

theorem unlisted_account_receives_nothing_witness:
  "\<exists>h x. reachable reference_host alice example_args h
    \<and> transfer reference_host (transfer_call alice)
        (run_calls reference_host [(EP_add_to_account_whitelist, whitelist_call carol)] h) = Inl x"
proof -
  obtain us h0 where h0: "reachable reference_host alice example_args h0"
    "represents reference_host (minted_ledger\<lparr>l_urefs := us\<rparr>) h0" by (rule example_reachable_minted)
  let ?L = "minted_ledger\<lparr>l_urefs := us, l_account_whitelist := []\<rparr>"
  have "ledger_call reference_host EP_remove_from_account_whitelist (whitelist_call bob)
      (minted_ledger\<lparr>l_urefs := us\<rparr>) = Inr (Ret_Unit, ?L)"
    by (simp add: ledger_call_def ledger_remove_from_account_whitelist_def whitelist_call_args bind_c_Inr)
  from reachable_step [OF h0 this] obtain h where h: "reachable reference_host alice example_args h"
    "represents reference_host ?L h" by metis
  have "\<exists>x. transfer reference_host (transfer_call alice)
      (run_calls reference_host [(EP_add_to_account_whitelist, whitelist_call carol)] h) = Inl x"
    by (rule unlisted_account_receives_nothing [OF reference.casper_host_axioms h(1),
          where whitelist = "[]" and account = bob and target = "Key_Account bob"])
      (use reference.read_values(4) [OF h(2)] in
        \<open>simp_all add: whitelist_call_args transfer_call_args target_account_def del: run_calls.simps\<close>)
  with h(1) show ?thesis by blast
qed

end
