(* ===== verification/Token_Properties.thy ===== *)
theory Token_Properties
  imports Authority_Properties
begin

text \<open>
  What holds of a contract in every state that calls can lead to, whoever makes them: the
  properties are about the code on any host that keeps the promises of \<open>casper_host\<close>, and are
  stated with what the code reads from the state.
\<close>

section \<open>Consistency\<close>

text \<open>C3. In a contract that numbers its tokens, owners, lists, balances and the counter agree in
  every state: the tokens are the numbers below the counter, an owner's list has each of its tokens
  once and no other, and its balance is the number of those that are not burnt.\<close>

theorem reachable_consistent:
  assumes "casper_host H" and "reachable H installer a h" and "a_identifier_mode a = Ordinal"
  shows "\<exists>L. represents H L h \<and> consistent H L \<and> numbered L"
  using casper_host.reachable_numbered [OF assms] by metis

theorem reachable_consistent_witness:
  "\<exists>h. init reference_host init_call installed_state = Inr (Ret_Unit, h)
    \<and> (\<exists>L. represents reference_host L h \<and> consistent reference_host L \<and> numbered L)"
proof -
  obtain us h where h: "init reference_host init_call installed_state = Inr (Ret_Unit, h)"
    using casper_host.init_refines(2) [OF reference.casper_host_axioms installed_fresh example_init_args]
    by (auto simp: yields_def)
  then have "reachable reference_host alice example_args h"
    by (rule reachable.initialised [OF installed_fresh example_init_args])
  then show ?thesis
    using reachable_consistent [OF reference.casper_host_axioms] h by (simp add: example_args_def)
qed

text \<open>C34. A call that succeeds keeps the agreement in every contract, also one whose tokens are
  named by their callers, unless it mints a token under a name that has an owner.\<close>

theorem call_keeps_consistent:
  assumes "casper_host H" and "represents H L h" and "consistent H L"
    and "call_entry H e i h = Inr (r, h')"
    and "e = EP_mint \<longrightarrow> (\<forall>t. ledger_new_identifier i L = Inr t
      \<longrightarrow> l_token_owners L (get_dictionary_item_key t) = None)"
  shows "\<exists>L'. represents H L' h' \<and> consistent H L'"
proof -
  from casper_host.call_refines [OF assms(1,2), of e i] assms(4)
  obtain L' where call: "ledger_call H e i L = Inr (r, L')" and rep: "represents H L' h'"
    by (auto dest: sim_InrD)
  have "new_name L L'"
  proof (cases "e = EP_mint")
    case True
    with call have "ledger_mint H i L = Inr (r, L')" by (simp add: ledger_call_def)
    then show ?thesis
      by (rule ledger_mintE)
        (use assms(5) True in \<open>auto simp: new_name_def add_token_def Let_def psubset_insert_iff domIff\<close>)
  next
    case False
    then show ?thesis by (rule other_call_new_name [OF call])
  qed
  with effect_consistent [OF ledger_call_effect [OF call] assms(3)] rep show ?thesis by blast
qed

theorem call_keeps_consistent_witness:
  "\<exists>h'. mint reference_host mint_call (ref_state_of empty_ledger) =
      Inr (Ret_Mint_Receipt ''nft-cats''
        (key_dictionary reference_host (ref_urefs OWNED_TOKENS) alice_item) (u64_to_string 0), h')
    \<and> (\<exists>L'. represents reference_host L' h' \<and> consistent reference_host L')"
proof -
  obtain h' where h': "call_entry reference_host EP_mint mint_call (ref_state_of empty_ledger) =
      Inr (Ret_Mint_Receipt ''nft-cats''
        (key_dictionary reference_host (ref_urefs OWNED_TOKENS) alice_item) (u64_to_string 0), h')"
    using sim_leftD [OF reference.mint_refines [OF example_represents(1), of mint_call,
          unfolded example_mint]]
    by (auto simp: call_entry_def)
  show ?thesis
    using call_keeps_consistent [OF reference.casper_host_axioms example_represents(1)
        example_consistent(1) h'] h'
    by (simp add: call_entry_def)
qed

text \<open>C5. Well-formed storage never makes a call fail. In a contract that numbers its tokens, a call
  that does not return ends with one of the errors listed for its entry point or with one of the
  platform, except that the removal of an account that is not on the whitelist panics. An error of the platform is that of
  the host on an argument the entry point reads, or \<open>None\<close> for a call stack without a caller. None
  of the listed errors is one for a named key, a value or a dictionary that is missing or
  ill-formed, or for lists and balances that disagree, but for the missing kind of metadata that
  \<open>metadata\<close> asks for under a wrong name and for six that the code uses a second time. These six say
  what they say of the call: a holder the contract does not admit, an ownership mode that is not
  \<open>Transferable\<close>, a locked whitelist, a token argument that is ill-formed or names no token, a
  whitelist argument that is missing or ill-formed.\<close>

theorem calls_fail_as_listed:
  assumes "casper_host H" and "reachable H installer a h" and "a_identifier_mode a = Ordinal"
    and "call_entry H e i h = Inl x"
  shows "(among (refusals e) x \<or> e = EP_remove_from_account_whitelist \<and> x = Panic)
    \<and> explained H a e i h x"
proof -
  obtain L us where L: "represents H L h" "consistent H L" "numbered L"
    and same: "same_configuration (initial_ledger us installer a) L"
    using casper_host.reachable_numbered [OF assms(1-3)] by metis
  have "schema_parses H (l_metadata_kind L) (l_json_schema L)"
    using reachable_schema [OF assms(2)] same by (simp add: same_configuration_def initial_ledger_def)
  moreover have "ledger_call H e i L = Inl x"
    using casper_host.call_refines [OF assms(1) L(1), of e i] assms(4) by (auto dest: sim_InlD)
  ultimately show ?thesis
    using casper_host.explained_represents [OF assms(1) L(1) same L(3)]
      casper_host.call_explained [OF assms(1) L(2,3)] call_fails [OF L(2,3)] by blast
qed

theorem calls_fail_as_listed_witness:
  "\<exists>h. reachable reference_host alice example_args h
    \<and> call_entry reference_host EP_owner_of (token_call bob 1) h = Inl (User InvalidTokenIdentifier)
    \<and> among (refusals EP_owner_of) (User InvalidTokenIdentifier)
    \<and> get_dictionary_value_from_key reference_host key_codec TOKEN_OWNERS (u64_to_string 1) h
      = Inr (None, h)"
proof -
  obtain us h where h: "reachable reference_host alice example_args h"
    "represents reference_host (minted_ledger\<lparr>l_urefs := us\<rparr>) h" by (rule example_reachable_minted)
  have "ledger_owner_of reference_host (token_call bob 1) (minted_ledger\<lparr>l_urefs := us\<rparr>)
      = Inl (User InvalidTokenIdentifier)"
    by (simp add: ledger_owner_of_def ledger_query_token_run token_call_args bind_c_Inr)
  with reference.owner_of_refines [OF h(2), of "token_call bob 1"]
  have "owner_of reference_host (token_call bob 1) h = Inl (User InvalidTokenIdentifier)"
    by (metis sim_left_errorD)
  then have refused: "call_entry reference_host EP_owner_of (token_call bob 1) h
      = Inl (User InvalidTokenIdentifier)"
    by (simp add: call_entry_def)
  have mode: "a_identifier_mode example_args = Ordinal" by (simp add: example_args_def)
  from calls_fail_as_listed [OF reference.casper_host_axioms h(1) mode refused] h(1) refused
  show ?thesis by (auto simp: explained_def mode token_call_args)
qed

section \<open>Bounds and totals\<close>

text \<open>C12. The number of minted tokens never exceeds the supply the contract was initialised with,
  however its tokens are named.\<close>

theorem supply_bounds_minting:
  assumes "casper_host H" and "reachable H installer a h"
  shows "\<exists>n. get_stored_value_with_user_errors H (c_u64 H) NUMBER_OF_MINTED_TOKENS
      MissingNumberOfMintedTokens InvalidNumberOfMintedTokens h = Inr (n, h)
    \<and> n \<le> a_total_token_supply a"
proof -
  from casper_host.reachable_configuration [OF assms]
  obtain L us where L: "represents H L h" "l_number_of_minted_tokens L \<le> l_total_token_supply L"
    and "same_configuration (initial_ledger us installer a) L" by metis
  then have "l_total_token_supply L = a_total_token_supply a"
    by (simp add: same_configuration_def initial_ledger_def)
  with L show ?thesis using casper_host.read_values(7) [OF assms(1) L(1)] by simp
qed

theorem supply_bounds_minting_witness:
  "\<exists>h n. reachable reference_host alice example_args h
    \<and> get_stored_value_with_user_errors reference_host word_codec NUMBER_OF_MINTED_TOKENS
        MissingNumberOfMintedTokens InvalidNumberOfMintedTokens h = Inr (n, h)
    \<and> n \<le> (2 :: u64)"
proof -
  obtain h where h: "reachable reference_host alice example_args h" by (rule example_reachable)
  with supply_bounds_minting [OF reference.casper_host_axioms h] show ?thesis
    by (auto simp: example_args_def)
qed

text \<open>C37. Nothing that a call can do changes the configuration: the modes, the supply and the
  installer that the code reads are those of the initialisation.\<close>

theorem configuration_is_fixed:
  assumes "casper_host H" and "reachable H installer a h"
  shows "get_account_hash H INSTALLER MissingInstaller InvalidInstaller h = Inr (installer, h)
    \<and> get_stored_value_with_user_errors H (c_u64 H) TOTAL_TOKEN_SUPPLY
        MissingTotalTokenSupply InvalidTotalTokenSupply h = Inr (a_total_token_supply a, h)
    \<and> get_ownership_mode H h = Inr (Inr (a_ownership_mode a), h)
    \<and> get_holder_mode H h = Inr (Inr (a_holder_mode a), h)
    \<and> stored_mode H minting_mode_try_from MINTING_MODE MissingMintingMode InvalidMintingMode h
        = Inr (a_minting_mode a, h)
    \<and> stored_mode H whitelist_mode_try_from WHITELIST_MODE MissingWhitelistMode InvalidWhitelistMode h
        = Inr (a_whitelist_mode a, h)
    \<and> stored_mode H nft_metadata_kind_try_from NFT_METADATA_KIND
        MissingNFTMetadataKind InvalidNFTMetadataKind h = Inr (a_nft_metadata_kind a, h)
    \<and> stored_mode H nft_identifier_mode_try_from IDENTIFIER_MODE
        MissingIdentifierMode InvalidIdentifierMode h = Inr (a_identifier_mode a, h)
    \<and> stored_mode H metadata_mutability_try_from METADATA_MUTABILITY
        MissingMetadataMutability InvalidMetadataMutability h = Inr (a_metadata_mutability a, h)"
proof -
  from casper_host.reachable_configuration [OF assms]
  obtain L us where rep: "represents H L h"
    and same: "same_configuration (initial_ledger us installer a) L" by metis
  note reads = casper_host.read_installer(1) [OF assms(1) rep] casper_host.read_values(1) [OF assms(1) rep]
    casper_host.read_modes [OF assms(1) rep]
  show ?thesis
    using same unfolding same_configuration_def by (simp add: reads initial_ledger_def)
qed

theorem configuration_is_fixed_witness:
  "\<exists>h. reachable reference_host alice example_args h
    \<and> get_holder_mode reference_host (run_calls reference_host [(EP_mint, mint_call)] h)
        = Inr (Inr Accounts, run_calls reference_host [(EP_mint, mint_call)] h)"
proof -
  obtain h where h: "reachable reference_host alice example_args h" by (rule example_reachable)
  with configuration_is_fixed [OF reference.casper_host_axioms reachable_run_calls [OF h]]
  show ?thesis by (auto simp: example_args_def simp del: run_calls.simps)
qed

text \<open>C4. The balances add up: in a contract that numbers its tokens finitely many items have a
  balance, and the balances and the burnt tokens together are the tokens that were minted. Balances
  and burns are what the code reads under any key that is not too long for an item of a dictionary;
  under the others nothing is kept.\<close>

theorem balances_add_up:
  assumes "casper_host H" and "reachable H installer a h" and "a_identifier_mode a = Ordinal"
  shows "\<exists>counts burnt n.
    (\<forall>item. if fits H item
        then get_dictionary_value_from_key H (c_u64 H) TOKEN_COUNTS item h = Inr (counts item, h)
        else counts item = None)
    \<and> (\<forall>j. if fits H j
        then get_dictionary_value_from_key H (c_unit H) BURNT_TOKENS j h
          = Inr (if j \<in> burnt then Some () else None, h)
        else j \<notin> burnt)
    \<and> get_stored_value_with_user_errors H (c_u64 H) NUMBER_OF_MINTED_TOKENS
        MissingNumberOfMintedTokens InvalidNumberOfMintedTokens h = Inr (n, h)
    \<and> finite {item. counts item \<notin> {None, Some 0}}
    \<and> (\<Sum>item | counts item \<notin> {None, Some 0}. unat (the (counts item))) + card burnt = unat n"
proof -
  obtain L where rep: "represents H L h" and inv: "consistent H L" "numbered L"
    using casper_host.reachable_numbered [OF assms] by metis
  have items: "{item. l_token_counts L item \<notin> {None, Some 0}} = {item. balance L item \<noteq> 0}"
    by (auto simp: balance_def split: option.splits)
  have "(\<Sum>item | l_token_counts L item \<notin> {None, Some 0}. unat (the (l_token_counts L item)))
      = (\<Sum>item | balance L item \<noteq> 0. unat (balance L item))"
    unfolding items by (rule sum.cong) (auto simp: balance_def split: option.splits)
  then have sum: "(\<Sum>item | l_token_counts L item \<notin> {None, Some 0}. unat (the (l_token_counts L item)))
      + card {n. l_burnt_tokens L n} = unat (l_number_of_minted_tokens L)"
    using balances_and_burns [OF inv] by (simp only:)
  show ?thesis
  proof (intro exI conjI allI)
    show "if fits H j
        then get_dictionary_value_from_key H (c_unit H) BURNT_TOKENS j h
          = Inr (if j \<in> {n. l_burnt_tokens L n} then Some () else None, h)
        else j \<notin> {n. l_burnt_tokens L n}" for j
      using casper_host.read_too_long(6) [OF assms(1) rep, of j]
      by (simp add: casper_host.read_dictionaries(4) [OF assms(1) rep])
    show "if fits H item
        then get_dictionary_value_from_key H (c_u64 H) TOKEN_COUNTS item h = Inr (l_token_counts L item, h)
        else l_token_counts L item = None" for item
      using casper_host.read_too_long(7) [OF assms(1) rep, of item]
      by (simp add: casper_host.read_dictionaries(5) [OF assms(1) rep])
    show "finite {item. l_token_counts L item \<notin> {None, Some 0}}"
      unfolding items by (rule finite_holders [OF inv(1)])
  qed (rule casper_host.read_values(7) [OF assms(1) rep] sum)+
qed

theorem balances_add_up_witness:
  "\<exists>h counts n. reachable reference_host alice example_args h
    \<and> get_stored_value_with_user_errors reference_host word_codec NUMBER_OF_MINTED_TOKENS
        MissingNumberOfMintedTokens InvalidNumberOfMintedTokens h = Inr (n :: u64, h)
    \<and> get_dictionary_value_from_key reference_host word_codec TOKEN_COUNTS alice_item h
        = Inr (counts alice_item :: u64 option, h)
    \<and> (\<Sum>item | counts item \<notin> {None, Some 0}. unat (the (counts item))) \<le> unat n"
proof -
  obtain h where h: "reachable reference_host alice example_args h" by (rule example_reachable)
  have "a_identifier_mode example_args = Ordinal" by (simp add: example_args_def)
  from balances_add_up [OF reference.casper_host_axioms h this] obtain counts burnt n where
    items: "\<forall>item. if fits reference_host item
        then get_dictionary_value_from_key reference_host (c_u64 reference_host) TOKEN_COUNTS item h
          = Inr (counts item, h) else counts item = None"
    and n: "get_stored_value_with_user_errors reference_host (c_u64 reference_host)
        NUMBER_OF_MINTED_TOKENS MissingNumberOfMintedTokens InvalidNumberOfMintedTokens h = Inr (n, h)"
    and sum: "(\<Sum>item | counts item \<notin> {None, Some 0}. unat (the (counts item))) + card (burnt :: string set)
      = unat n"
    by (elim exE conjE)
  from spec [OF items, of alice_item]
  have "get_dictionary_value_from_key reference_host (c_u64 reference_host) TOKEN_COUNTS alice_item h
      = Inr (counts alice_item, h)" by simp
  with h n sum show ?thesis by (intro exI [of _ h] exI [of _ counts] exI [of _ n]) simp
qed

section \<open>What no later call changes\<close>

text \<open>C7. In a contract that numbers its tokens a burnt token stays burnt, and stays with the owner
  it had, whatever calls follow.\<close>

theorem burnt_for_ever:
  assumes "casper_host H" and "reachable H installer a h" and "a_identifier_mode a = Ordinal"
    and burnt: "is_burnt H t h = Inr (True, h)"
    and owner: "get_dictionary_value_from_key H (c_key H) TOKEN_OWNERS (get_dictionary_item_key t) h
      = Inr (Some k, h)"
  shows "is_burnt H t (run_calls H cs h) = Inr (True, run_calls H cs h)
    \<and> get_dictionary_value_from_key H (c_key H) TOKEN_OWNERS (get_dictionary_item_key t)
        (run_calls H cs h) = Inr (Some k, run_calls H cs h)"
proof -
  let ?n = "get_dictionary_item_key t"
  let ?P = "\<lambda>L. l_burnt_tokens L ?n \<and> l_token_owners L ?n = Some k"
  obtain L where L: "represents H L (run_calls H cs h)" "?P L"
  proof (rule reachable_preserves [where P = ?P and cs = cs, OF assms(1-3)])
    show "?P L" if "represents H L h" for L
      using casper_host.readD(5) [OF assms(1) that burnt] casper_host.readD(1) [OF assms(1) that owner] by simp
    show "?P L'" if "effect H L L'" and "consistent H L" and "new_name L L'" and "?P L" for L L'
      using that effect_burnt [of H L L' ?n] effect_owner_kept [of H L L' ?n k] by simp
  qed (rule that)
  moreover from L have "fits H ?n" by (auto intro: casper_host.kept_fits(1) [OF assms(1) L(1)])
  ultimately show ?thesis
    by (simp add: casper_host.read_is_burnt [OF assms(1) L(1)]
        casper_host.read_dictionaries(1) [OF assms(1) L(1)])
qed

theorem burnt_for_ever_witness:
  "\<exists>h. is_burnt reference_host (Index 0) h = Inr (True, h)
    \<and> is_burnt reference_host (Index 0) (run_calls reference_host [(EP_transfer, transfer_call alice)] h)
      = Inr (True, run_calls reference_host [(EP_transfer, transfer_call alice)] h)"
proof -
  obtain us h where h: "reachable reference_host alice example_args h"
    "represents reference_host (burnt_ledger\<lparr>l_urefs := us\<rparr>) h" by (rule example_reachable_burnt)
  have "is_burnt reference_host (Index 0) h = Inr (True, h)"
    "get_dictionary_value_from_key reference_host (c_key reference_host) TOKEN_OWNERS
      (get_dictionary_item_key (Index 0)) h = Inr (Some (Key_Account alice), h)"
    using reference.read_is_burnt [OF h(2), of "Index 0"]
      reference.read_dictionaries(1) [OF h(2), of "u64_to_string 0"] by (simp_all add: burnt_ledger_def)
  with burnt_for_ever [OF reference.casper_host_axioms h(1) _ this]
  show ?thesis by (auto simp: example_args_def simp del: run_calls.simps)
qed

text \<open>C35. In a contract that numbers its tokens no call replaces the issuer of a token, whatever the
  ownership mode, and unless tokens are transferable no call replaces its owner.\<close>

theorem owners_and_issuers_stay:
  assumes "casper_host H" and "reachable H installer a h" and "a_identifier_mode a = Ordinal"
    and "get_dictionary_value_from_key H (c_key H) TOKEN_OWNERS n h = Inr (Some k, h)"
    and "get_dictionary_value_from_key H (c_key H) TOKEN_ISSUERS n h = Inr (Some k', h)"
  shows "get_dictionary_value_from_key H (c_key H) TOKEN_ISSUERS n (run_calls H cs h)
      = Inr (Some k', run_calls H cs h)
    \<and> (a_ownership_mode a \<noteq> Transferable \<longrightarrow>
        get_dictionary_value_from_key H (c_key H) TOKEN_OWNERS n (run_calls H cs h)
          = Inr (Some k, run_calls H cs h))"
proof -
  let ?P = "\<lambda>L. l_token_issuers L n = Some k'
    \<and> (a_ownership_mode a \<noteq> Transferable \<longrightarrow>
        l_ownership_mode L \<noteq> Transferable \<and> l_token_owners L n = Some k)"
  obtain L where L: "represents H L (run_calls H cs h)" "?P L"
  proof (rule reachable_preserves [where P = ?P and cs = cs, OF assms(1-3)])
    show "?P L" if "represents H L h" and "same_configuration (initial_ledger us installer a) L" for L us
      using that(2) casper_host.readD(1) [OF assms(1) that(1) assms(4)]
        casper_host.readD(2) [OF assms(1) that(1) assms(5)]
      by (simp add: same_configuration_def initial_ledger_def)
    show "?P L'" if "effect H L L'" and "consistent H L" and "new_name L L'" and "?P L" for L L'
      using that effect_issuer_kept [of H L L' n k'] effect_owner_kept [of H L L' n k]
        effect_configuration [OF that(1)]
      by (auto simp: consistent_def same_configuration_def)
  qed (rule that)
  moreover obtain L0 where "represents H L0 h" using reachable_ledgerE [OF assms(1,2)] by metis
  then have "fits H n" using casper_host.readD(1) [OF assms(1) _ assms(4)] by blast
  ultimately show ?thesis by (simp add: casper_host.read_dictionaries(1,2) [OF assms(1) L(1)])
qed

theorem owners_and_issuers_stay_witness:
  "\<exists>h. reachable reference_host alice frozen_args h
    \<and> get_dictionary_value_from_key reference_host key_codec TOKEN_OWNERS (u64_to_string 0)
        (run_calls reference_host [(EP_transfer, transfer_call alice)] h)
      = Inr (Some (Key_Account alice), run_calls reference_host [(EP_transfer, transfer_call alice)] h)"
proof -
  obtain L h where h: "reachable reference_host alice frozen_args h" "represents reference_host L h"
    and "l_token_owners L (u64_to_string 0) = Some (Key_Account alice)"
    and "l_token_issuers L (u64_to_string 0) = Some (Key_Account alice)" by (rule frozen_reachable)
  then have "get_dictionary_value_from_key reference_host (c_key reference_host) TOKEN_OWNERS
      (u64_to_string 0) h = Inr (Some (Key_Account alice), h)"
    "get_dictionary_value_from_key reference_host (c_key reference_host) TOKEN_ISSUERS
      (u64_to_string 0) h = Inr (Some (Key_Account alice), h)"
    using reference.read_dictionaries(1,2) [OF h(2), of "u64_to_string 0"] by simp_all
  with owners_and_issuers_stay [OF reference.casper_host_axioms h(1) _ this] h(1)
  show ?thesis by (auto simp del: run_calls.simps)
qed

text \<open>C36. In a contract with immutable metadata that numbers its tokens, no call changes the
  metadata of a token.\<close>

theorem immutable_metadata_stays:
  assumes "casper_host H" and "reachable H installer a h" and "a_identifier_mode a = Ordinal"
    and "a_metadata_mutability a = Immutable"
    and "get_dictionary_value_from_key H (c_string H)
      (get_metadata_dictionary_name (a_nft_metadata_kind a)) n h = Inr (Some md, h)"
  shows "get_dictionary_value_from_key H (c_string H)
      (get_metadata_dictionary_name (a_nft_metadata_kind a)) n (run_calls H cs h)
    = Inr (Some md, run_calls H cs h)"
proof -
  let ?kind = "a_nft_metadata_kind a"
  let ?P = "\<lambda>L. l_metadata_mutability L = Immutable \<and> l_metadata_kind L = ?kind
    \<and> l_metadata L ?kind n = Some md"
  obtain L where L: "represents H L (run_calls H cs h)" "?P L"
  proof (rule reachable_preserves [where P = ?P and cs = cs, OF assms(1-3)])
    show "?P L" if "represents H L h" and "same_configuration (initial_ledger us installer a) L" for L us
      using that(2) assms(4) casper_host.readD(4) [OF assms(1) that(1) assms(5)]
      by (simp add: same_configuration_def initial_ledger_def)
    show "?P L'" if "effect H L L'" and "consistent H L" and "new_name L L'" and "?P L" for L L'
      using that effect_metadata_kept [of H L L' n md] effect_configuration [OF that(1)]
      by (auto simp: consistent_def same_configuration_def)
  qed (rule that)
  moreover obtain L0 where "represents H L0 h" using reachable_ledgerE [OF assms(1,2)] by metis
  then have "fits H n" using casper_host.readD(4) [OF assms(1) _ assms(5)] by blast
  ultimately show ?thesis by (simp add: casper_host.read_dictionaries(6) [OF assms(1) L(1)])
qed

theorem immutable_metadata_stays_witness:
  "\<exists>h. reachable reference_host alice frozen_args h
    \<and> get_dictionary_value_from_key reference_host string_codec METADATA_RAW (u64_to_string 0)
        (run_calls reference_host [(EP_set_token_metadata, metadata_call)] h)
      = Inr (Some ''tabby'', run_calls reference_host [(EP_set_token_metadata, metadata_call)] h)"
proof -
  obtain L h where h: "reachable reference_host alice frozen_args h" "represents reference_host L h"
    and "l_metadata L Raw (u64_to_string 0) = Some ''tabby''" by (rule frozen_reachable)
  then have "get_dictionary_value_from_key reference_host (c_string reference_host)
      (get_metadata_dictionary_name (a_nft_metadata_kind frozen_args)) (u64_to_string 0) h
    = Inr (Some ''tabby'', h)"
    using reference.read_dictionaries(6) [OF h(2), of "u64_to_string 0" Raw] by simp
  with immutable_metadata_stays [OF reference.casper_host_axioms h(1) _ _ this] h(1)
  show ?thesis by (auto simp: get_metadata_dictionary_name_def simp del: run_calls.simps)
qed

end
