(* ===== verification/Client_Properties.thy ===== *)
theory Client_Properties
  imports Examples
begin

text \<open>
  Sessions and the contract together: what the session that installs the contract hands to
  \<open>init\<close>, what the clients hand to the entry points they call, and what a client that has returned
  knows of the contract. The properties hold on every platform that keeps the promises of
  \<open>casper_platform\<close>.
\<close>

section \<open>A platform\<close>

text \<open>A platform whose contract is called on the state of the session itself.\<close>

definition reference_call ::
  "contract_hash \<Rightarrow> string \<Rightarrow> runtime_args \<Rightarrow> ref_state \<Rightarrow> error + bytes \<times> ref_state" where
  "reference_call c name args h =
     (case find (\<lambda>e. entry_point_name e = name) enum_class.enum of
        None \<Rightarrow> Inl (Api (Api_Other 0))
      | Some e \<Rightarrow>
          (case call_entry reference_host e
               (deliver reference_host args alice [Session alice, StoredContract 9 (ContractHash 9)]) h of
             Inl err \<Rightarrow> Inl err | Inr (r, h') \<Rightarrow> Inr (ref_ret r, h')))"

definition reference_new_contract ::
  "entry_point_def btree_map \<Rightarrow> (string \<times> key) list \<Rightarrow> string \<Rightarrow> string \<Rightarrow> ref_state \<Rightarrow>
   (contract_hash \<times> u32) \<times> ref_state" where
  "reference_new_contract entry_points named_keys hash_name access_name h =
     ((ContractHash 9, 1),
      h\<lparr>rs_names := (rs_names h ++ map_of named_keys)(hash_name \<mapsto> Key_Hash 8)\<rparr>)"

definition reference_platform :: "ref_state platform" where
  "reference_platform =
     \<lparr>storage_new_contract = reference_new_contract,
      runtime_call_contract = reference_call,
      package_hash_to_formatted_string = ref_print ''contract-package-'',
      c_u32 = word_codec,
      c_mint_receipt = ref_mint_receipt,
      c_transfer_receipt = ref_transfer_receipt\<rparr>"

lemma reference_platform_simps [simp]:
  "runtime_call_contract reference_platform = reference_call"
  "storage_new_contract reference_platform = reference_new_contract"
  "c_mint_receipt reference_platform = ref_mint_receipt"
  "c_transfer_receipt reference_platform = ref_transfer_receipt"
  "c_u32 reference_platform = word_codec"
  by (simp_all add: reference_platform_def)

lemma find_entry_point:
  "find (\<lambda>e. entry_point_name e = entry_point_name e') enum_class.enum = Some e'"
proof -
  have "find (\<lambda>e. entry_point_name e = entry_point_name e') enum_class.enum \<noteq> None"
    by (auto simp: find_None_iff enum_UNIV)
  then show ?thesis by (auto simp: find_Some_iff entry_point_name_inj)
qed

interpretation reference_platform: casper_platform reference_host reference_platform "ContractHash 9" id
proof unfold_locales
  fix name args bs and h h' :: ref_state
  assume "runtime_call_contract reference_platform (ContractHash 9) name args h = Inr (bs, h')"
  then obtain e r where "find (\<lambda>e. entry_point_name e = name) enum_class.enum = Some e"
    and "call_entry reference_host e
      (deliver reference_host args alice [Session alice, StoredContract 9 (ContractHash 9)]) h = Inr (r, h')"
    and "bs = ref_ret r"
    by (auto simp: reference_call_def split: option.splits sum.splits)
  then show "\<exists>e caller stack r. entry_point_name e = name
      \<and> call_entry reference_host e (deliver reference_host args caller stack) (id h) = Inr (r, id h')
      \<and> cl_value_from_t reference_host r = Some bs"
    by (auto simp: find_Some_iff)
qed (simp_all add: codecs_ok ref_mint_receipt_def ref_transfer_receipt_def)

lemma reference_call_runs:
  assumes "call_entry reference_host e
      (deliver reference_host args alice [Session alice, StoredContract 9 (ContractHash 9)]) h = Inr (r, h')"
  shows "reference_call c (entry_point_name e) args h = Inr (ref_ret r, h')"
  using assms by (simp add: reference_call_def find_entry_point)

section \<open>Installation\<close>

text \<open>Each argument of \<open>init\<close> is the value \<open>call\<close> has read, its code if it is a mode.\<close>

definition install_matches :: "install_args \<Rightarrow> string \<Rightarrow> init_args \<Rightarrow> bool" where
  "install_matches x receipt_name a \<longleftrightarrow>
     a_collection_name a = i_collection_name x \<and> a_collection_symbol a = i_collection_symbol x
     \<and> a_total_token_supply a = i_total_token_supply x \<and> a_allow_minting a = i_allow_minting x
     \<and> minting_mode_as_u8 (a_minting_mode a) = i_minting_mode x
     \<and> ownership_mode_as_u8 (a_ownership_mode a) = i_ownership_mode x
     \<and> nft_kind_as_u8 (a_nft_kind a) = i_nft_kind x
     \<and> nft_holder_mode_as_u8 (a_holder_mode a) = i_holder_mode x
     \<and> whitelist_mode_as_u8 (a_whitelist_mode a) = i_whitelist_lock x
     \<and> a_contract_whitelist a = i_contract_white_list x
     \<and> a_account_whitelist a = i_account_white_list x \<and> a_json_schema a = i_json_schema x
     \<and> a_receipt_name a = receipt_name
     \<and> nft_metadata_kind_as_u8 (a_nft_metadata_kind a) = i_nft_metadata_kind x
     \<and> nft_identifier_mode_as_u8 (a_identifier_mode a) = i_identifier_mode x
     \<and> metadata_mutability_as_u8 (a_metadata_mutability a) = i_metadata_mutability x"

lemma bind_mode_InrE:
  assumes "bind_c (unwrap_or_revert r) f s = Inr y"
  obtains m where "r = Inr m" and "f m s = Inr y"
  using assms by (cases r) simp_all

context casper_codecs
begin

lemma init_args_delivered:
  fixes x rn c st
  defines "j \<equiv> deliver H (init_runtime_args H x rn) c st"
  shows "required_arg (c_string H) j ARG_COLLECTION_NAME e e' = return_c (i_collection_name x)"
    "required_arg (c_string H) j ARG_COLLECTION_SYMBOL e e' = return_c (i_collection_symbol x)"
    "required_arg (c_u64 H) j ARG_TOTAL_TOKEN_SUPPLY e e' = return_c (i_total_token_supply x)"
    "required_arg (c_bool H) j ARG_ALLOW_MINTING e e' = return_c (i_allow_minting x)"
    "required_arg (c_u8 H) j ARG_MINTING_MODE e e' = return_c (i_minting_mode x)"
    "required_arg (c_u8 H) j ARG_OWNERSHIP_MODE e e' = return_c (i_ownership_mode x)"
    "required_arg (c_u8 H) j ARG_NFT_KIND e e' = return_c (i_nft_kind x)"
    "required_arg (c_u8 H) j ARG_HOLDER_MODE e e' = return_c (i_holder_mode x)"
    "required_arg (c_u8 H) j ARG_WHITELIST_MODE e e' = return_c (i_whitelist_lock x)"
    "required_arg (c_vec_contract_hash H) j ARG_CONTRACT_WHITELIST e e'
      = return_c (i_contract_white_list x)"
    "required_arg (c_vec_account_hash H) j ARG_ACCOUNT_WHITELIST e e' = return_c (i_account_white_list x)"
    "required_arg (c_string H) j ARG_JSON_SCHEMA e e' = return_c (i_json_schema x)"
    "required_arg (c_string H) j ARG_RECEIPT_NAME e e' = return_c rn"
    "required_arg (c_u8 H) j ARG_NFT_METADATA_KIND e e' = return_c (i_nft_metadata_kind x)"
    "required_arg (c_u8 H) j ARG_IDENTIFIER_MODE e e' = return_c (i_identifier_mode x)"
    "required_arg (c_u8 H) j ARG_METADATA_MUTABILITY e e' = return_c (i_metadata_mutability x)"
  unfolding j_def
  by (rule ext, subst delivered_arg(2); simp add: init_runtime_args_def constant_defs codecs)+

lemma install_arguments_arrive:
  assumes "read_init_args H (deliver H (init_runtime_args H x rn) c st) s = Inr (a, s')"
  shows "install_matches x rn a"
  using assms unfolding read_init_args_def mode_arg_def bind_c_assoc init_args_delivered
  by (auto simp: try_from_codes install_matches_def elim!: bind_mode_InrE split: if_splits)

lemma install_arguments_read:
  assumes "install_matches x rn a"
    and "a_whitelist_mode a = Locked \<longrightarrow> a_contract_whitelist a \<noteq> [] \<or> a_holder_mode a = Accounts"
    and "a_nft_metadata_kind a \<noteq> CustomValidated"
  shows "read_init_args H (deliver H (init_runtime_args H x rn) c st) s = Inr (a, s)"
  using assms unfolding read_init_args_def mode_arg_def bind_c_assoc init_args_delivered
  by (auto simp: install_matches_def unwrap_or_revert_def simp flip: assms(1) [unfolded install_matches_def])

end

text \<open>What \<open>call\<close> has read it leaves where it was.\<close>

lemma stateless_optional_arg [simp]: "stateless (optional_arg c i name invalid d)"
  unfolding optional_arg_def
  by (rule stateless_bind, subst optional_arg_pure)
    (simp_all add: stateless_def result_c_def split: sum.split option.split)

lemma stateless_read_install_args: "stateless (read_install_args H i)"
  unfolding read_install_args_def by (intro stateless_bind) simp_all

lemma read_install_args_state: "read_install_args H i h = Inr (x, h') \<Longrightarrow> h' = h"
  by (rule statelessD [OF stateless_read_install_args])

lemma read_install_args_modes:
  assumes "read_install_args H i h = Inr (x, h')"
  shows "\<not> (i_identifier_mode x = 1 \<and> i_metadata_mutability x = 1)"
  using assms unfolding read_install_args_def
  by (auto elim!: bind_c_InrE split: if_splits)

context casper_platform
begin

lemma install_call_initialises:
  assumes "install_nft_contract H P i h = Inr ((nft, v), h1)"
    and "put_new_uref H CONTRACT_VERSION (c_u32 P) v
      (runtime_put_key H CONTRACT_NAME (Key_Hash (contract_value nft)) h1) = Inr ((), h2)"
    and "fresh H (get_caller i) (inside h2)"
    and "install_call H P i h = Inr (u, h')"
  obtains x package a us where "read_install_args H i h = Inr (x, h)"
    and "runtime_get_key H HASH_KEY_NAME h2 = Some (Key_Hash package)"
    and "install_matches x (receipt_name_of P (i_collection_name x) package) a"
    and "\<not> (a_identifier_mode a = Hash \<and> a_metadata_mutability a = Mutable)"
    and "reachable H (get_caller i) a (inside h')"
    and "represents H (initial_ledger us (get_caller i) a) (inside h')"
proof -
  obtain x where x: "read_install_args H i h = Inr (x, h)"
    using assms(4) read_install_args_state [of H i h]
    by (cases "read_install_args H i h") (auto simp: install_call_def bind_c_def)
  have "bind_c (unwrap_or_revert_with (Api Api_None) (runtime_get_key H HASH_KEY_NAME h2)) (\<lambda>k.
      bind_c (unwrap_or_revert_with Panic (into_hash k)) (\<lambda>package.
      call_contract_c P (c_unit H) nft ENTRY_POINT_INIT
        (init_runtime_args H x (receipt_name_of P (i_collection_name x) package)))) h2 = Inr (u, h')"
    using assms(4) x assms(1,2) by (simp add: install_call_def bind_c_def put_key_c_def)
  then obtain package where package: "runtime_get_key H HASH_KEY_NAME h2 = Some (Key_Hash package)"
    and call: "call_contract_c P (c_unit H) nft (entry_point_name EP_init)
      (init_runtime_args H x (receipt_name_of P (i_collection_name x) package)) h2 = Inr (u, h')"
    by (auto simp: into_hash_Some elim!: bind_unwrap_InrE)
  from call obtain caller stack r where "call_entry H EP_init (deliver H (init_runtime_args H x
      (receipt_name_of P (i_collection_name x) package)) caller stack) (inside h2) = Inr (r, inside h')"
    (is "call_entry H _ ?i _ = _") by (rule call_contract_runs)
  then have init: "init H ?i (inside h2) = Inr (r, inside h')" by (simp add: call_entry_def)
  obtain a where a: "read_init_args H ?i (inside h2) = Inr (a, inside h2)"
    using init init_refines(1) [OF assms(3), of ?i] read_init_args_state [of H ?i "inside h2"]
    by (cases "read_init_args H ?i (inside h2)") auto
  have matches: "install_matches x (receipt_name_of P (i_collection_name x) package) a"
    by (rule install_arguments_arrive [OF a])
  from init_refines(2) [OF assms(3) a] init
  obtain us where "represents H (initial_ledger us (get_caller i) a) (inside h')"
    by (auto simp: yields_def)
  moreover have "\<not> (a_identifier_mode a = Hash \<and> a_metadata_mutability a = Mutable)"
    using read_install_args_modes [OF x] matches by (auto simp: install_matches_def)
  ultimately show thesis
    using that x package matches reachable.initialised [OF assms(3) a init] by blast
qed

end

text \<open>C9. When the session that installs the contract has returned, the contract is in a state that
  \<open>init\<close> leads to, represented by the empty ledger, on arguments that are, one by one, what the
  session has read from its own; and it does not identify tokens by hashes while their metadata may
  change.\<close>

theorem install_initialises:
  assumes "casper_platform H P nft inside"
    and "install_nft_contract H P i h = Inr ((nft, v), h1)"
    and "put_new_uref H CONTRACT_VERSION (c_u32 P) v
      (runtime_put_key H CONTRACT_NAME (Key_Hash (contract_value nft)) h1) = Inr ((), h2)"
    and "fresh H (get_caller i) (inside h2)"
    and "install_call H P i h = Inr (u, h')"
  shows "\<exists>x a us package. read_install_args H i h = Inr (x, h)
    \<and> runtime_get_key H HASH_KEY_NAME h2 = Some (Key_Hash package)
    \<and> install_matches x (receipt_name_of P (i_collection_name x) package) a
    \<and> \<not> (a_identifier_mode a = Hash \<and> a_metadata_mutability a = Mutable)
    \<and> reachable H (get_caller i) a (inside h')
    \<and> represents H (initial_ledger us (get_caller i) a) (inside h')"
  by (rule casper_platform.install_call_initialises [OF assms]) blast

text \<open>Alice installs a contract from an empty state; the arguments that may be left out are.\<close>

definition install_session :: invocation where
  "install_session = deliver reference_host
     [(ARG_COLLECTION_NAME, to_bytes string_codec ''cats''),
      (ARG_COLLECTION_SYMBOL, to_bytes string_codec ''CAT''),
      (ARG_TOTAL_TOKEN_SUPPLY, to_bytes word_codec (2 :: u64)),
      (ARG_OWNERSHIP_MODE, to_bytes word_codec (2 :: u8)), (ARG_NFT_KIND, to_bytes word_codec (1 :: u8)),
      (ARG_NFT_METADATA_KIND, to_bytes word_codec (2 :: u8)),
      (ARG_JSON_SCHEMA, to_bytes string_codec ''''),
      (ARG_IDENTIFIER_MODE, to_bytes word_codec (0 :: u8)),
      (ARG_METADATA_MUTABILITY, to_bytes word_codec (1 :: u8))] alice [Session alice]"

definition install_example :: install_args where
  "install_example =
     \<lparr>i_collection_name = ''cats'', i_collection_symbol = ''CAT'', i_total_token_supply = 2,
      i_allow_minting = True, i_minting_mode = 0, i_ownership_mode = 2, i_nft_kind = 1,
      i_holder_mode = 0, i_whitelist_lock = 0, i_contract_white_list = [], i_account_white_list = [],
      i_nft_metadata_kind = 2, i_json_schema = '''', i_identifier_mode = 0, i_metadata_mutability = 1\<rparr>"

definition blank_state :: ref_state where
  "blank_state = \<lparr>rs_names = Map.empty, rs_values = (\<lambda>_. None), rs_items = (\<lambda>_ _. None)\<rparr>"

lemma optional_arg_missing:
  assumes "map_of args n = None"
  shows "optional_arg c (deliver H args a st) n invalid d s = Inr (d, s)"
proof -
  have "get_named_arg_with_user_errors c (deliver H args a st) n m invalid s = Inr (Inl m, s)" for m
    by (rule missing_arg(1) [OF assms])
  then show ?thesis
    by (simp add: optional_arg_def get_optional_named_arg_with_user_errors_def bind_c_def)
qed

lemma install_session_required:
  "required_arg string_codec install_session ARG_COLLECTION_NAME e e' = return_c ''cats''"
  "required_arg string_codec install_session ARG_COLLECTION_SYMBOL e e' = return_c ''CAT''"
  "required_arg word_codec install_session ARG_TOTAL_TOKEN_SUPPLY e e' = return_c (2 :: u64)"
  "required_arg word_codec install_session ARG_OWNERSHIP_MODE e e' = return_c (2 :: u8)"
  "required_arg word_codec install_session ARG_NFT_KIND e e' = return_c (1 :: u8)"
  "required_arg word_codec install_session ARG_NFT_METADATA_KIND e e' = return_c (2 :: u8)"
  "required_arg string_codec install_session ARG_JSON_SCHEMA e e' = return_c ''''"
  "required_arg word_codec install_session ARG_IDENTIFIER_MODE e e' = return_c (0 :: u8)"
  "required_arg word_codec install_session ARG_METADATA_MUTABILITY e e' = return_c (1 :: u8)"
  unfolding install_session_def
  by (rule ext, subst delivered_arg(2); simp add: constant_defs codecs_ok)+

lemma install_session_optional:
  "optional_arg c1 install_session ARG_ALLOW_MINTING e d1 = return_c d1"
  "optional_arg c2 install_session ARG_MINTING_MODE e d2 = return_c d2"
  "optional_arg c2 install_session ARG_HOLDER_MODE e d2 = return_c d2"
  "optional_arg c2 install_session ARG_WHITELIST_MODE e d2 = return_c d2"
  "optional_arg c3 install_session ARG_CONTRACT_WHITELIST e d3 = return_c d3"
  "optional_arg c4 install_session ARG_ACCOUNT_WHITELIST e d4 = return_c d4"
  unfolding install_session_def
  by (rule ext, subst optional_arg_missing; simp add: constant_defs)+

lemma install_session_args:
  "read_install_args reference_host install_session s = Inr (install_example, s)"
  unfolding read_install_args_def reference_simps install_session_required install_session_optional
  by (simp only: bind_c_return bind_c_revert_if) (simp add: install_example_def)

lemma install_example_matches: "install_matches install_example rn (example_args\<lparr>a_receipt_name := rn,
    a_account_whitelist := [], a_minting_mode := Installer\<rparr>)"
  by (simp add: install_matches_def install_example_def example_args_def)

text \<open>Its contract, once created, is as \<open>init\<close> needs it.\<close>

definition created_state :: ref_state where
  "created_state = snd (reference_new_contract nft_entry_points [(INSTALLER, Key_Account alice)]
     HASH_KEY_NAME ACCESS_KEY_NAME blank_state)"

definition versioned_state :: ref_state where
  "versioned_state = (case ref_allocate (to_bytes word_codec (1 :: u32)) created_state of
     (u, h) \<Rightarrow> h\<lparr>rs_names := (rs_names h)(CONTRACT_NAME \<mapsto> Key_Hash 9, CONTRACT_VERSION \<mapsto> Key_URef u)\<rparr>)"

lemma install_creates:
  "install_nft_contract reference_host reference_platform install_session blank_state
    = Inr ((ContractHash 9, 1), created_state)"
  "put_new_uref reference_host CONTRACT_VERSION word_codec (1 :: u32)
     (runtime_put_key reference_host CONTRACT_NAME (Key_Hash 9) created_state) = Inr ((), versioned_state)"
  by (simp_all add: install_nft_contract_def created_state_def reference_new_contract_def
      install_session_def put_new_uref_def versioned_state_def ref_allocate_def Let_def)

lemma versioned_names:
  "rs_names versioned_state n =
     (if n = CONTRACT_VERSION then Some (Key_URef (first_free (\<lambda>_. None) 0))
      else if n = CONTRACT_NAME then Some (Key_Hash 9) else if n = HASH_KEY_NAME then Some (Key_Hash 8)
      else if n = INSTALLER then Some (Key_Account alice) else None)"
  by (simp add: versioned_state_def created_state_def reference_new_contract_def blank_state_def
      ref_allocate_def Let_def)

lemma versioned_fresh: "fresh reference_host alice versioned_state"
proof -
  have vals: "rs_values created_state = (\<lambda>_. None)"
    by (simp add: created_state_def reference_new_contract_def blank_state_def)
  have "spare reference_host created_state \<le> spare reference_host versioned_state + 1"
    by (rule spare_allocate [where bs = "to_bytes word_codec (1 :: u32)" and u = "first_free (\<lambda>_. None) 0"])
      (simp add: versioned_state_def ref_allocate_def Let_def ref_read_def vals)
  with unused_spare [OF vals] have "27 \<le> spare reference_host versioned_state" by simp
  then show ?thesis
    by (auto simp: fresh_def versioned_names contract_names_def value_names_def dictionary_names_def
        constant_defs)
qed

lemma install_runs:
  obtains h' where "install_call reference_host reference_platform install_session blank_state = Inr ((), h')"
proof -
  let ?rn = "receipt_name_of reference_platform ''cats'' 8"
  let ?i = "deliver reference_host (init_runtime_args reference_host install_example ?rn) alice
    [Session alice, StoredContract 9 (ContractHash 9)]"
  have package: "rs_names versioned_state HASH_KEY_NAME = Some (Key_Hash 8)"
    by (simp add: versioned_names constant_defs)
  have collection: "i_collection_name install_example = ''cats''" by (simp add: install_example_def)
  have "read_init_args reference_host ?i versioned_state
      = Inr (example_args\<lparr>a_receipt_name := ?rn, a_account_whitelist := [],
        a_minting_mode := Installer\<rparr>, versioned_state)"
    by (rule reference.install_arguments_read [OF install_example_matches])
      (simp_all add: example_args_def)
  from reference.init_refines(2) [OF versioned_fresh this]
  obtain h' where "call_entry reference_host EP_init ?i versioned_state = Inr (Ret_Unit, h')"
    by (auto simp: yields_def call_entry_def)
  from reference_call_runs [OF this, of "ContractHash 9"]
  have "reference_call (ContractHash 9) ENTRY_POINT_INIT
      (init_runtime_args reference_host install_example ?rn) versioned_state = Inr (to_bytes unit_codec (), h')"
    by simp
  then have "call_contract_c reference_platform unit_codec (ContractHash 9) ENTRY_POINT_INIT
      (init_runtime_args reference_host install_example ?rn) versioned_state = Inr ((), h')"
    by (simp add: call_contract_c_def bind_c_Inr deserialize_to_bytes codecs_ok)
  then have "install_call reference_host reference_platform install_session blank_state = Inr ((), h')"
    by (simp add: install_call_def bind_c_Inr install_session_args install_creates(1) install_creates(2) [simplified] put_key_c_def
        package collection)
  then show thesis by (rule that)
qed

theorem install_initialises_witness:
  "\<exists>a h'. install_call reference_host reference_platform install_session blank_state = Inr ((), h')
    \<and> reachable reference_host alice a h' \<and> a_total_token_supply a = 2"
proof -
  obtain h' where h': "install_call reference_host reference_platform install_session blank_state = Inr ((), h')"
    by (rule install_runs)
  have "get_caller install_session = alice" by (simp add: install_session_def)
  with install_initialises [OF reference_platform.casper_platform_axioms install_creates(1) _ _ h',
      of versioned_state] install_creates(2) versioned_fresh
  obtain x a where "read_install_args reference_host install_session blank_state = Inr (x, blank_state)"
    and "\<exists>rn. install_matches x rn a" and "reachable reference_host alice a h'"
    by auto
  with h' show ?thesis
    by (auto simp: install_session_args install_matches_def install_example_def)
qed

end
