(* ===== verification/Journey_Properties.thy ===== *)
theory Journey_Properties
  imports Authority_Properties
begin

text \<open>
  What a caller sees: calls that must succeed, calls that must fail, and what the queries answer
  after a call that has returned.
\<close>

section \<open>Arguments and queries\<close>

lemma token_argument_of_mode:
  "get_token_identifier_from_runtime_args H i m s = Inr (t, s') \<Longrightarrow> of_mode m t"
  by (rule token_identifier_arg_of_mode)

definition within_bounds :: "ledger \<Rightarrow> token_identifier \<Rightarrow> bool" where
  "within_bounds L t \<longleftrightarrow> (case t of Index x \<Rightarrow> x < l_number_of_minted_tokens L | TokenHash _ \<Rightarrow> True)"

lemma within_boundsD:
  "within_bounds L t \<Longrightarrow> \<not> (case t of Index x \<Rightarrow> x \<ge> l_number_of_minted_tokens L | _ \<Rightarrow> False)"
  by (auto simp: within_bounds_def split: token_identifier.splits)

lemma numbered_within_bounds:
  assumes "consistent H L" and "numbered L" and "of_mode (l_identifier_mode L) t"
    and "l_token_owners L (get_dictionary_item_key t) = Some k"
  shows "within_bounds L t"
proof -
  obtain x where t: "t = Index x"
    using assms(2,3) by (cases t) (auto simp: of_mode_def numbered_def)
  then have "u64_to_string x \<in> dom (l_token_owners L)" using assms(4) by auto
  then show ?thesis using assms(2) by (auto simp: numbered_def within_bounds_def t)
qed

context casper_host
begin

lemma query_owner:
  assumes "represents H L h"
    and "get_token_identifier_from_runtime_args H j (l_identifier_mode L) s = Inr (t, s')"
    and "within_bounds L t" and "l_token_owners L (get_dictionary_item_key t) = Some k"
  shows "\<exists>h'. owner_of H j h = Inr (Ret_Key k, h')"
proof -
  have "ledger_owner_of H j L = Inr (Ret_Key k, L)"
    by (simp add: ledger_owner_of_def ledger_query_token_run assms(4) kept_fits(1) [OF assms(1,4)]
        bind_c_Inr token_argument_any_state [OF assms(2)] within_boundsD [OF assms(3)])
  with owner_of_refines [OF assms(1), of j] show ?thesis by (metis sim_leftD)
qed

lemma query_operator:
  assumes "represents H L h"
    and "get_token_identifier_from_runtime_args H j (l_identifier_mode L) s = Inr (t, s')"
    and "within_bounds L t" and "\<not> l_burnt_tokens L (get_dictionary_item_key t)"
    and "l_operator L (get_dictionary_item_key t) = Some k"
  shows "\<exists>h'. get_approved H j h = Inr (Ret_Option_Key k, h')"
proof -
  have "ledger_get_approved H j L = Inr (Ret_Option_Key k, L)"
    by (simp add: ledger_get_approved_def ledger_query_token_run assms(4,5) kept_fits(2) [OF assms(1,5)]
        bind_c_Inr token_argument_any_state [OF assms(2)] within_boundsD [OF assms(3)])
  with get_approved_refines [OF assms(1), of j] show ?thesis by (metis sim_leftD)
qed

lemma read_mint_token_owner:
  assumes "represents H L h" and "ledger_mint_owner i L = Inr owner"
  shows "mint_token_owner H i h = Inr (owner, h)"
  using mint_token_owner_run [OF assms(1), of i return_c] assms(2)
  by (auto simp: bind_c_def return_c_def result_c_def split: sum.splits)

end

section \<open>Minting\<close>

text \<open>C16. After a mint in a contract that numbers its tokens, the new token has the old counter as
  its number, the counter has grown by one without wrapping around, \<open>owner_of\<close> answers with the
  owner the call named, and that owner's balance has grown by one.\<close>

theorem minted_token_is_owned:
  assumes "casper_host H" and "reachable H installer a h" and "a_identifier_mode a = Ordinal"
    and "mint H i h = Inr (r, h')"
  shows "\<exists>owner item n counts.
    mint_token_owner H i h = Inr (owner, h) \<and> owner_item H owner = Inr item
    \<and> get_stored_value_with_user_errors H (c_u64 H) NUMBER_OF_MINTED_TOKENS
        MissingNumberOfMintedTokens InvalidNumberOfMintedTokens h = Inr (n, h)
    \<and> get_stored_value_with_user_errors H (c_u64 H) NUMBER_OF_MINTED_TOKENS
        MissingNumberOfMintedTokens InvalidNumberOfMintedTokens h' = Inr (n + 1, h')
    \<and> unat (n + 1) = Suc (unat n)
    \<and> get_dictionary_value_from_key H (c_u64 H) TOKEN_COUNTS item h = Inr (counts, h)
    \<and> get_dictionary_value_from_key H (c_u64 H) TOKEN_COUNTS item h'
        = Inr (Some (case counts of None \<Rightarrow> 1 | Some b \<Rightarrow> b + 1), h')
    \<and> (\<forall>j. get_token_identifier_from_runtime_args H j Ordinal h' = Inr (Index n, h') \<longrightarrow>
        (\<exists>h''. owner_of H j h' = Inr (Ret_Key owner, h'')))"
proof -
  obtain L where rep: "represents H L h" and mode: "l_identifier_mode L = Ordinal"
    using reachable_ledgerE [OF assms(1,2)] assms(3) by metis
  from casper_host.mint_refines [OF assms(1) rep, of i] assms(4)
  obtain L' where call: "ledger_mint H i L = Inr (r, L')" and rep': "represents H L' h'"
    by (auto dest: sim_InrD)
  from call obtain owner item t md where room: "l_number_of_minted_tokens L < l_total_token_supply L"
    and owner: "ledger_mint_owner i L = Inr owner" and t: "ledger_new_identifier i L = Inr t"
    and item: "owner_item H owner = Inr item" and L': "L' = add_token t owner item md L"
    by (rule ledger_mintE)
  have t: "t = Index (l_number_of_minted_tokens L)" using t mode by (simp add: ledger_new_identifier_def)
  have L'_fields: "l_identifier_mode L' = Ordinal"
    "l_number_of_minted_tokens L' = l_number_of_minted_tokens L + 1"
    "l_token_owners L' (get_dictionary_item_key t) = Some owner"
    "l_token_counts L' item = Some (balance L item + 1)"
    using mode by (simp_all add: L' add_token_def Let_def)
  have Suc: "unat (l_number_of_minted_tokens L + 1) = Suc (unat (l_number_of_minted_tokens L))"
    by (rule unat_Suc_u64 [OF room])
  then have bounds: "within_bounds L' t"
    by (simp add: within_bounds_def t L'_fields word_less_nat_alt)
  have queries: "\<forall>j. get_token_identifier_from_runtime_args H j Ordinal h' = Inr (t, h') \<longrightarrow>
      (\<exists>h''. owner_of H j h' = Inr (Ret_Key owner, h''))"
    using casper_host.query_owner [OF assms(1) rep' _ bounds L'_fields(3)] L'_fields(1) by metis
  have "balance L item + 1 = (case l_token_counts L item of None \<Rightarrow> 1 | Some b \<Rightarrow> b + 1)"
    by (simp add: balance_def split: option.split)
  then show ?thesis
    using casper_host.read_mint_token_owner [OF assms(1) rep owner] item Suc queries L'_fields t
      casper_host.read_values(7) [OF assms(1) rep] casper_host.read_values(7) [OF assms(1) rep']
      casper_host.read_dictionaries(5) [OF assms(1) rep casper_host.owner_item_fits [OF assms(1) item]]
      casper_host.read_dictionaries(5) [OF assms(1) rep' casper_host.owner_item_fits [OF assms(1) item]]
    by auto
qed

theorem minted_token_is_owned_witness:
  "\<exists>h h' r owner. mint reference_host mint_call h = Inr (r, h')
    \<and> mint_token_owner reference_host mint_call h = Inr (owner, h)"
proof -
  have "read_init_args reference_host init_call installed_state = Inr (example_args, installed_state)"
    by (rule example_init_args)
  then obtain h h' r where h: "reachable reference_host alice example_args h"
    "mint reference_host mint_call h = Inr (r, h')"
    by (rule reachable_first_mint) (simp_all add: example_args_def)
  have "a_identifier_mode example_args = Ordinal" by (simp add: example_args_def)
  from minted_token_is_owned [OF reference.casper_host_axioms h(1) this h(2)] h(2)
  show ?thesis by blast
qed

section \<open>Approving\<close>

text \<open>C33. After \<open>approve\<close> has returned, \<open>get_approved\<close> answers for that token with the operator the
  call named.\<close>

theorem approved_operator_is_found:
  assumes "casper_host H" and "reachable H installer a h" and "a_identifier_mode a = Ordinal"
    and "approve H i h = Inr (r, h')"
    and "get_token_identifier_from_runtime_args H i Ordinal h = Inr (t, h)"
    and "required_arg (c_key H) i ARG_OPERATOR MissingApprovedAccountHash InvalidApprovedAccountHash h
      = Inr (operator, h)"
    and "get_token_identifier_from_runtime_args H j Ordinal h' = Inr (t, h')"
  shows "\<exists>h''. get_approved H j h' = Inr (Ret_Option_Key (Some operator), h'')"
proof -
  let ?n = "get_dictionary_item_key t"
  obtain L where rep: "represents H L h" and L: "consistent H L" "numbered L"
    using casper_host.reachable_numbered [OF assms(1-3)] by metis
  then have mode: "l_identifier_mode L = Ordinal" by (simp add: numbered_def)
  from casper_host.approve_refines [OF assms(1) rep, of i] assms(4)
  obtain L' where call: "ledger_approve H i L = Inr (r, L')" and rep': "represents H L' h'"
    by (auto dest: sim_InrD)
  have after: "\<not> l_burnt_tokens L ?n \<and> within_bounds L t
    \<and> L' = L\<lparr>l_operator := (l_operator L)(?n \<mapsto> Some operator)\<rparr>"
    using call unfolding ledger_approve_def mode Let_def
    by (auto simp: bind_c_Inr token_argument_any_state [OF assms(5)]
        required_argument_any_state [OF assms(6)] within_bounds_def
        elim!: bind_result_InrE split: if_splits token_identifier.splits)
  then have "within_bounds L' t" by (simp add: within_bounds_def cong: token_identifier.case_cong)
  with after casper_host.query_operator [OF assms(1) rep', of j h' t h' "Some operator"] assms(7) mode
  show ?thesis by simp
qed

theorem approved_operator_is_found_witness:
  "\<exists>h h' h''. approve reference_host approve_call h = Inr (Ret_Unit, h')
    \<and> get_approved reference_host (token_call carol 0) h'
      = Inr (Ret_Option_Key (Some (Key_Account bob)), h'')"
proof -
  obtain us h where h: "reachable reference_host alice example_args h"
    "represents reference_host (minted_ledger\<lparr>l_urefs := us\<rparr>) h" by (rule example_reachable_minted)
  have "ledger_approve reference_host approve_call (minted_ledger\<lparr>l_urefs := us\<rparr>) =
      Inr (Ret_Unit, approved_ledger\<lparr>l_urefs := us\<rparr>)"
    by (simp add: ledger_approve_def approve_call_args bind_c_Inr approved_ledger_def)
  then obtain h' where h': "approve reference_host approve_call h = Inr (Ret_Unit, h')"
    using reference.approve_refines [OF h(2), of approve_call] by (metis sim_leftD)
  have mode: "a_identifier_mode example_args = Ordinal" by (simp add: example_args_def)
  have "\<exists>h''. get_approved reference_host (token_call carol 0) h'
      = Inr (Ret_Option_Key (Some (Key_Account bob)), h'')"
    by (rule approved_operator_is_found [OF reference.casper_host_axioms h(1) mode h'])
      (simp_all add: approve_call_args token_call_args)
  with h' show ?thesis by blast
qed

section \<open>Transfer\<close>

text \<open>C15. After \<open>transfer\<close> has returned, \<open>owner_of\<close> answers with the target, \<open>get_approved\<close> with no
  operator, and, if the two owners are kept under different items, one token has left the balance of
  the source for that of the target, which does not wrap around.\<close>

theorem transferred_token_changes_hands:
  assumes "casper_host H" and "reachable H installer a h" and "a_identifier_mode a = Ordinal"
    and "transfer H i h = Inr (r, h')"
    and "get_token_identifier_from_runtime_args H i Ordinal h = Inr (t, h)"
    and "required_arg (c_key H) i ARG_SOURCE_KEY MissingAccountHash InvalidAccountHash h = Inr (source, h)"
    and "required_arg (c_key H) i ARG_TARGET_KEY MissingAccountHash InvalidAccountHash h = Inr (target, h)"
    and "get_token_identifier_from_runtime_args H j Ordinal h' = Inr (t, h')"
    and "owner_item H source = Inr from_item" and "owner_item H target = Inr target_item"
    and "from_item \<noteq> target_item"
  shows "(\<exists>h''. owner_of H j h' = Inr (Ret_Key target, h''))
    \<and> (\<exists>h''. get_approved H j h' = Inr (Ret_Option_Key None, h''))
    \<and> (\<exists>b b'. get_dictionary_value_from_key H (c_u64 H) TOKEN_COUNTS from_item h = Inr (Some b, h)
        \<and> b > 0
        \<and> get_dictionary_value_from_key H (c_u64 H) TOKEN_COUNTS from_item h' = Inr (Some (b - 1), h')
        \<and> get_dictionary_value_from_key H (c_u64 H) TOKEN_COUNTS target_item h = Inr (b', h)
        \<and> get_dictionary_value_from_key H (c_u64 H) TOKEN_COUNTS target_item h'
          = Inr (Some (case b' of None \<Rightarrow> 1 | Some b' \<Rightarrow> b' + 1), h')
        \<and> b' \<noteq> Some (- 1))"
proof -
  let ?n = "get_dictionary_item_key t"
  obtain L where rep: "represents H L h" and L: "consistent H L" "numbered L"
    using casper_host.reachable_numbered [OF assms(1-3)] by metis
  then have mode: "l_identifier_mode L = Ordinal" by (simp add: numbered_def)
  have of_mode: "of_mode (l_identifier_mode L) t" using token_argument_of_mode [OF assms(5)] mode by simp
  from casper_host.transfer_refines [OF assms(1) rep, of i] assms(4)
  obtain L' where call: "ledger_transfer H i L = Inr (r, L')" and rep': "represents H L' h'"
    by (auto dest: sim_InrD)
  have "\<not> l_burnt_tokens L ?n \<and> l_token_owners L ?n = Some source
    \<and> ledger_move_token t target from_item target_item L = Inr ((), L')"
    using call assms(9,10) unfolding ledger_transfer_def mode Let_def
    by (auto simp: bind_c_Inr token_argument_any_state [OF assms(5)]
        required_argument_any_state [OF assms(6)] required_argument_any_state [OF assms(7)]
        elim!: bind_result_InrE bind_unwrap_InrE bind_move_InrE split: if_splits)
  then have unburnt: "\<not> l_burnt_tokens L ?n" and owner: "l_token_owners L ?n = Some source"
    and move: "ledger_move_token t target from_item target_item L = Inr ((), L')" by blast+
  from move have pos: "balance L from_item \<noteq> 0" and other: "t \<notin> set (tokens_of L target_item)"
    and L': "L' = move_token t target from_item target_item L"
    using assms(11) by (auto elim!: ledger_move_tokenE)
  have fields: "l_identifier_mode L' = Ordinal" "\<not> l_burnt_tokens L' ?n"
    "l_token_owners L' ?n = Some target" "l_operator L' ?n = Some None"
    "l_number_of_minted_tokens L' = l_number_of_minted_tokens L"
    "l_token_counts L' from_item = Some (balance L from_item - 1)"
    "l_token_counts L' target_item = Some (balance L target_item + 1)"
    using mode unburnt assms(11)
    by (simp_all add: L' move_token_def Let_def balance_def)
  have bounds: "within_bounds L' t"
    using numbered_within_bounds [OF L of_mode owner] fields(5)
    by (simp add: within_bounds_def cong: token_identifier.case_cong)
  have "balance L target_item < l_number_of_minted_tokens L"
    by (rule balance_below_other [OF L(1) of_mode _ other]) (simp add: owner)
  then have nowrap: "balance L target_item \<noteq> - 1"
    using word_order.extremum_strict by (metis word_order.not_eq_extremum)
  obtain b where b: "l_token_counts L from_item = Some b"
    using pos by (cases "l_token_counts L from_item") (simp_all add: balance_def)
  note from_fits = casper_host.owner_item_fits [OF assms(1,9)]
    and target_fits = casper_host.owner_item_fits [OF assms(1,10)]
  have "balance L target_item + 1 = (case l_token_counts L target_item of None \<Rightarrow> 1 | Some b \<Rightarrow> b + 1)"
    by (simp add: balance_def split: option.split)
  then show ?thesis
    using casper_host.query_owner [OF assms(1) rep' _ bounds fields(3), of j h' h'] assms(8)
      casper_host.query_operator [OF assms(1) rep' _ bounds fields(2,4), of j h' h'] fields
      casper_host.read_dictionaries(5) [OF assms(1) rep from_fits]
      casper_host.read_dictionaries(5) [OF assms(1) rep' from_fits]
      casper_host.read_dictionaries(5) [OF assms(1) rep target_fits]
      casper_host.read_dictionaries(5) [OF assms(1) rep' target_fits] pos b nowrap
    by (auto simp: balance_def word_gt_0)
qed

theorem transferred_token_changes_hands_witness:
  "\<exists>h h' h'' r. transfer reference_host (transfer_call bob) h = Inr (r, h')
    \<and> owner_of reference_host (token_call carol 0) h' = Inr (Ret_Key (Key_Account bob), h'')"
proof -
  obtain us h where h: "reachable reference_host alice example_args h"
    "represents reference_host (approved_ledger\<lparr>l_urefs := us\<rparr>) h" by (rule example_reachable_approved)
  have "\<exists>r L'. ledger_transfer reference_host (transfer_call bob) (approved_ledger\<lparr>l_urefs := us\<rparr>)
      = Inr (r, L')"
    by (simp add: ledger_transfer_def transfer_call_args bind_c_Inr may_transfer_def target_account_def
        ledger_move_token_def)
  then obtain r h' where r: "transfer reference_host (transfer_call bob) h = Inr (r, h')"
    using reference.transfer_refines [OF h(2), of "transfer_call bob"] by (metis sim_leftD)
  have mode: "a_identifier_mode example_args = Ordinal" by (simp add: example_args_def)
  have "\<exists>h''. owner_of reference_host (token_call carol 0) h' = Inr (Ret_Key (Key_Account bob), h'')"
    by (rule transferred_token_changes_hands [OF reference.casper_host_axioms h(1) mode r,
          of "Index 0" "Key_Account alice" "Key_Account bob" "token_call carol 0" alice_item bob_item,
          THEN conjunct1])
      (simp_all add: transfer_call_args token_call_args)
  with r show ?thesis by blast
qed

end
