(* ===== verification/Outcome_Properties.thy ===== *)
theory Outcome_Properties
  imports Journey_Properties
begin

text \<open>
  Calls that must return and calls that must not: an owner can move a token, a contract with room
  can mint one, a burnt token is refused; what a contract that identifies tokens by hashes does
  with a hash that is taken; and that approving all tokens is approving each.
\<close>

section \<open>Transfers that return\<close>

text \<open>C13. In a contract that numbers its tokens the owner of a token that is not burnt moves it to any
  account on the whitelist: \<open>transfer\<close> returns.\<close>

theorem owner_can_transfer:
  assumes "casper_host H" and "reachable H installer a h" and "a_identifier_mode a = Ordinal"
    and "a_ownership_mode a = Transferable"
    and "get_token_identifier_from_runtime_args H i Ordinal h = Inr (t, h)"
    and "required_arg (c_key H) i ARG_SOURCE_KEY MissingAccountHash InvalidAccountHash h = Inr (source, h)"
    and "required_arg (c_key H) i ARG_TARGET_KEY MissingAccountHash InvalidAccountHash h
      = Inr (Key_Account account, h)"
    and "get_dictionary_value_from_key H (c_key H) TOKEN_OWNERS (get_dictionary_item_key t) h
      = Inr (Some source, h)"
    and "is_burnt H t h = Inr (False, h)" and "verified_caller i (a_holder_mode a) = Inr source"
    and "get_stored_value_with_user_errors H (c_vec_account_hash H) ACCOUNT_WHITELIST
      MissingAccountWhiteList InvalidAccountWhitelist h = Inr (whitelist, h)"
    and "account \<in> set whitelist"
  shows "\<exists>r h'. transfer H i h = Inr (r, h')"
proof -
  let ?n = "get_dictionary_item_key t"
  obtain L us where rep: "represents H L h" and L: "consistent H L" "numbered L"
    and "same_configuration (initial_ledger us installer a) L"
    using casper_host.reachable_numbered [OF assms(1-3)] by metis
  then have modes: "l_identifier_mode L = Ordinal" "l_ownership_mode L = Transferable"
    "l_holder_mode L = a_holder_mode a"
    using assms(3,4) by (simp_all add: same_configuration_def initial_ledger_def)
  have state: "l_token_owners L ?n = Some source" "\<not> l_burnt_tokens L ?n" "account \<in> set (l_account_whitelist L)"
    and fits: "fits H ?n"
    using casper_host.readD(1) [OF assms(1) rep assms(8)] casper_host.readD(5) [OF assms(1) rep assms(9)]
      assms(11,12) casper_host.read_values(4) [OF assms(1) rep] by simp_all
  have "\<forall>n k. l_token_owners L n = Some k \<longrightarrow> (\<exists>item. owner_item H k = Inr item)"
    using L(1) by (simp add: consistent_defs)
  with state(1) obtain item where item: "owner_item H source = Inr item" by blast
  have "ledger_move_token t (Key_Account account) item (account_hash_to_string H account) L =
      Inr ((), move_token t (Key_Account account) item (account_hash_to_string H account) L)"
    by (rule move_token_succeeds [OF L(1) _ state(1,2) item])
      (use token_argument_of_mode [OF assms(5)] modes in simp)
  then have "\<exists>r L'. ledger_transfer H i L = Inr (r, L')"
    using state item assms(10)
    by (simp add: ledger_transfer_def modes fits bind_c_Inr token_argument_any_state [OF assms(5)]
        required_argument_any_state [OF assms(6)] required_argument_any_state [OF assms(7)]
        may_transfer_def target_account_def owner_item_def)
  then show ?thesis
    using casper_host.transfer_refines [OF assms(1) rep, of i] by (metis sim_leftD)
qed

theorem owner_can_transfer_witness:
  "\<exists>h r h'. reachable reference_host alice example_args h
    \<and> transfer reference_host (transfer_call alice) h = Inr (r, h')"
proof -
  obtain us h where h: "reachable reference_host alice example_args h"
    "represents reference_host (minted_ledger\<lparr>l_urefs := us\<rparr>) h" by (rule example_reachable_minted)
  have "\<exists>r h'. transfer reference_host (transfer_call alice) h = Inr (r, h')"
    by (rule owner_can_transfer [OF reference.casper_host_axioms h(1), of _ "Index 0" "Key_Account alice"
        bob "[bob]"])
      (use reference.read_is_burnt [OF h(2), of "Index 0"] reference.read_values(4) [OF h(2)]
        reference.read_dictionaries(1) [OF h(2), of "u64_to_string 0"]
        in \<open>simp_all add: transfer_call_args example_args_def\<close>)
  with h(1) show ?thesis by blast
qed

section \<open>Burnt tokens\<close>

text \<open>C30. In a contract that numbers its tokens a burnt token is out of reach. \<open>get_approved\<close> of it
  reverts with \<open>PreviouslyBurntToken\<close>, whoever asks, and so does, where tokens are transferable,
  \<open>transfer\<close>, whoever calls. Its owner can neither approve an operator for it nor, as the installer,
  burn it again: \<open>approve\<close> and \<open>burn\<close> revert with the same error.\<close>

theorem burnt_token_is_refused:
  assumes "casper_host H" and "reachable H installer a h" and "a_identifier_mode a = Ordinal"
    and "get_token_identifier_from_runtime_args H i Ordinal h = Inr (t, h)"
    and "is_burnt H t h = Inr (True, h)"
  shows "get_approved H i h = Inl (User PreviouslyBurntToken)
    \<and> (a_ownership_mode a = Transferable \<longrightarrow> transfer H i h = Inl (User PreviouslyBurntToken))
    \<and> (\<forall>owner. get_dictionary_value_from_key H (c_key H) TOKEN_OWNERS (get_dictionary_item_key t) h
          = Inr (Some owner, h)
        \<longrightarrow> verified_caller i (a_holder_mode a) = Inr owner
        \<longrightarrow> (a_ownership_mode a = Transferable \<longrightarrow> approve H i h = Inl (User PreviouslyBurntToken))
          \<and> (get_caller i = installer \<longrightarrow> burn H i h = Inl (User PreviouslyBurntToken)))"
proof -
  let ?n = "get_dictionary_item_key t"
  obtain L us where rep: "represents H L h" and L: "consistent H L" "numbered L"
    and "same_configuration (initial_ledger us installer a) L"
    using casper_host.reachable_numbered [OF assms(1-3)] by metis
  then have modes: "l_identifier_mode L = Ordinal" "l_ownership_mode L = a_ownership_mode a"
    "l_holder_mode L = a_holder_mode a" "l_installer L = installer"
    using assms(3) by (simp_all add: same_configuration_def initial_ledger_def)
  have burnt: "l_burnt_tokens L ?n" and fits: "fits H ?n"
    using casper_host.readD(5) [OF assms(1) rep assms(5)] by simp_all
  then obtain k where k: "l_token_owners L ?n = Some k" using L(1) by (auto simp: consistent_defs)
  have bounds: "within_bounds L t"
    by (rule numbered_within_bounds [OF L _ k])
      (use token_argument_of_mode [OF assms(4)] modes in simp)
  note run = bind_c_Inr token_argument_any_state [OF assms(4)] modes burnt fits within_boundsD [OF bounds]
  have "get_approved H i h = Inl (User PreviouslyBurntToken)"
    using casper_host.get_approved_refines [OF assms(1) rep, of i]
    by (simp add: sim_left_errorD ledger_get_approved_def ledger_query_token_run run)
  moreover have "transfer H i h = Inl (User PreviouslyBurntToken)" if "a_ownership_mode a = Transferable"
    using casper_host.transfer_refines [OF assms(1) rep, of i]
    by (simp add: sim_left_errorD ledger_transfer_def run that)
  moreover have "(a_ownership_mode a = Transferable \<longrightarrow> approve H i h = Inl (User PreviouslyBurntToken))
      \<and> (get_caller i = installer \<longrightarrow> burn H i h = Inl (User PreviouslyBurntToken))"
    if "get_dictionary_value_from_key H (c_key H) TOKEN_OWNERS ?n h = Inr (Some owner, h)"
      and caller: "verified_caller i (a_holder_mode a) = Inr owner" for owner
  proof -
    have owner: "l_token_owners L ?n = Some owner"
      using casper_host.readD(1) [OF assms(1) rep that(1)] by simp
    have "a_ownership_mode a = Transferable \<Longrightarrow> ledger_approve H i L = Inl (User PreviouslyBurntToken)"
      and "get_caller i = installer \<Longrightarrow> ledger_burn H i L = Inl (User PreviouslyBurntToken)"
      by (simp_all add: ledger_approve_def ledger_burn_def Let_def run owner caller)
    then show ?thesis
      using casper_host.approve_refines [OF assms(1) rep, of i] casper_host.burn_refines [OF assms(1) rep, of i]
      by (metis sim_left_errorD)
  qed
  ultimately show ?thesis by blast
qed

theorem burnt_token_is_refused_witness:
  "\<exists>h. is_burnt reference_host (Index 0) h = Inr (True, h)
    \<and> get_approved reference_host (token_call carol 0) h = Inl (User PreviouslyBurntToken)
    \<and> transfer reference_host (transfer_call bob) h = Inl (User PreviouslyBurntToken)
    \<and> burn reference_host (token_call alice 0) h = Inl (User PreviouslyBurntToken)"
proof -
  obtain us h where h: "reachable reference_host alice example_args h"
    "represents reference_host (burnt_ledger\<lparr>l_urefs := us\<rparr>) h" by (rule example_reachable_burnt)
  have burnt: "is_burnt reference_host (Index 0) h = Inr (True, h)"
    using reference.read_is_burnt [OF h(2), of "Index 0"] by (simp add: burnt_ledger_def)
  have owner: "get_dictionary_value_from_key reference_host key_codec TOKEN_OWNERS (u64_to_string 0) h
      = Inr (Some (Key_Account alice), h)"
    using reference.read_dictionaries(1) [OF h(2), of "u64_to_string 0"] by (simp add: burnt_ledger_def)
  have modes: "a_identifier_mode example_args = Ordinal" "a_ownership_mode example_args = Transferable"
    "a_holder_mode example_args = Accounts" by (simp_all add: example_args_def)
  note refused = burnt_token_is_refused [OF reference.casper_host_axioms h(1) modes(1) _ burnt]
  from burnt refused [OF token_call_args(3), of carol] refused [OF transfer_call_args(2), of bob]
    refused [OF token_call_args(3), of alice] owner show ?thesis
    by (auto simp: modes token_call_args)
qed

section \<open>Mints that return\<close>

text \<open>C14. In a contract that numbers its tokens and lets anyone mint, with raw metadata, a mint
  returns if minting is on, the supply is not used up, and the call names an account or a contract
  as the owner and some metadata.\<close>

theorem open_mint_returns:
  assumes "casper_host H" and "reachable H installer a h" and "a_identifier_mode a = Ordinal"
    and "a_minting_mode a = Public" and "a_nft_metadata_kind a = Raw" and "a_ownership_mode a \<noteq> Minter"
    and "get_stored_value_with_user_errors H (c_bool H) ALLOW_MINTING
      MissingAllowMinting InvalidAllowMinting h = Inr (True, h)"
    and "get_stored_value_with_user_errors H (c_u64 H) NUMBER_OF_MINTED_TOKENS
      MissingNumberOfMintedTokens InvalidNumberOfMintedTokens h = Inr (n, h)"
    and "n < a_total_token_supply a"
    and "verified_caller i (a_holder_mode a) = Inr caller"
    and "get_named_arg_key i ARG_TOKEN_OWNER = Inr owner" and "owner_item H owner = Inr item"
    and "required_arg (c_string H) i ARG_TOKEN_META_DATA MissingTokenMetaData InvalidTokenMetaData h
      = Inr (md, h)"
  shows "\<exists>h' key. mint H i h = Inr (Ret_Mint_Receipt (a_receipt_name a) key (u64_to_string n), h')"
proof -
  obtain L us where rep: "represents H L h" and L: "consistent H L" "numbered L"
    and "same_configuration (initial_ledger us installer a) L"
    using casper_host.reachable_numbered [OF assms(1-3)] by metis
  then have modes: "l_identifier_mode L = Ordinal" "l_minting_mode L = Public" "l_metadata_kind L = Raw"
    "l_holder_mode L = a_holder_mode a" "l_ownership_mode L \<noteq> Minter"
    "l_total_token_supply L = a_total_token_supply a" "l_receipt_name L = a_receipt_name a"
    using assms(3-6) by (simp_all add: same_configuration_def initial_ledger_def)
  have state: "l_allow_minting L" "l_number_of_minted_tokens L = n"
    using assms(7,8) casper_host.read_values(6,7) [OF assms(1) rep] by simp_all
  have t: "ledger_new_identifier i L = Inr (Index n)" by (simp add: ledger_new_identifier_def modes state)
  have "\<exists>L' key. ledger_mint H i L = Inr (Ret_Mint_Receipt (a_receipt_name a) key (u64_to_string n), L')"
    using assms(9) new_token_unlisted [OF L t] t
    by (simp add: ledger_mint_def ledger_check_minter_def ledger_mint_owner_def valid_metadata_def modes
        state bind_c_Inr required_argument_any_state [OF assms(13)] assms(10,11,12) not_le
        casper_host.index_fits [OF assms(1)])
  then show ?thesis
    using casper_host.mint_refines [OF assms(1) rep, of i] by (metis sim_leftD)
qed

theorem open_mint_returns_witness:
  "\<exists>h h' key. reachable reference_host alice example_args h
    \<and> mint reference_host mint_call h = Inr (Ret_Mint_Receipt ''nft-cats'' key (u64_to_string 1), h')"
proof -
  obtain us h where h: "reachable reference_host alice example_args h"
    "represents reference_host (minted_ledger\<lparr>l_urefs := us\<rparr>) h" by (rule example_reachable_minted)
  have "\<exists>h' key. mint reference_host mint_call h
      = Inr (Ret_Mint_Receipt (a_receipt_name example_args) key (u64_to_string 1), h')"
    by (rule open_mint_returns [OF reference.casper_host_axioms h(1), of 1 _ "Key_Account alice"
        "Key_Account alice" alice_item "''tabby''"])
      (use reference.read_values(6,7) [OF h(2)] in \<open>simp_all add: mint_call_args example_args_def\<close>)
  with h(1) show ?thesis by (auto simp: example_args_def)
qed

section \<open>Tokens named by hashes\<close>

text \<open>C21. In a contract that identifies tokens by hashes \<open>mint\<close> does not ask whether the hash is
  taken: a mint that returns makes the owner it names the owner and the issuer of the token, while
  the token stays in the list and in the balance of the owner it had.\<close>

theorem hash_mint_takes_over:
  assumes "casper_host H" and "reachable H installer a h" and "a_identifier_mode a = Hash"
    and "mint H i h = Inr (r, h')" and "get_named_arg_string i ARG_TOKEN_ID_HASH = Inr x"
    and "mint_token_owner H i h = Inr (new, h)" and "owner_item H new = Inr new_item"
    and "old_item \<noteq> new_item"
    and "get_token_identifiers_from_dictionary H Hash old_item h = Inr (tokens, h)"
    and "get_dictionary_value_from_key H (c_u64 H) TOKEN_COUNTS old_item h = Inr (count, h)"
  shows "get_dictionary_value_from_key H (c_key H) TOKEN_OWNERS x h' = Inr (Some new, h')
    \<and> get_dictionary_value_from_key H (c_key H) TOKEN_ISSUERS x h' = Inr (Some new, h')
    \<and> get_token_identifiers_from_dictionary H Hash old_item h' = Inr (tokens, h')
    \<and> get_dictionary_value_from_key H (c_u64 H) TOKEN_COUNTS old_item h' = Inr (count, h')"
proof -
  obtain L where rep: "represents H L h" and mode: "l_identifier_mode L = Hash"
    using reachable_ledgerE [OF assms(1,2)] assms(3) by metis
  from casper_host.mint_refines [OF assms(1) rep, of i] assms(4)
  obtain L' where call: "ledger_mint H i L = Inr (r, L')" and rep': "represents H L' h'"
    by (auto dest: sim_InrD)
  from call obtain owner item t md where owner: "ledger_mint_owner i L = Inr owner"
    and t: "ledger_new_identifier i L = Inr t" and item: "owner_item H owner = Inr item"
    and L': "L' = add_token t owner item md L" and fits: "fits H (get_dictionary_item_key t)"
    by (rule ledger_mintE)
  have "owner = new" and t: "t = TokenHash x"
    using casper_host.read_mint_token_owner [OF assms(1) rep owner] assms(5,6) t mode
    by (simp_all add: ledger_new_identifier_def)
  with item assms(7) have "item = new_item" by simp
  then have "l_identifier_mode L' = Hash" "l_token_owners L' x = Some new" "l_token_issuers L' x = Some new"
    "l_owned_tokens L' old_item = l_owned_tokens L old_item"
    "l_token_counts L' old_item = l_token_counts L old_item"
    using assms(8) mode by (simp_all add: L' \<open>owner = new\<close> t add_token_def Let_def)
  moreover have "fits H x" using fits by (simp add: t)
  moreover have "l_owned_tokens L old_item = tokens" "l_token_counts L old_item = count" "fits H old_item"
    using casper_host.readD(6) [OF assms(1) rep, unfolded mode, OF assms(9)]
      casper_host.readD(3) [OF assms(1) rep assms(10)] by simp_all
  ultimately show ?thesis
    using casper_host.read_dictionaries(1,2,5) [OF assms(1) rep']
      casper_host.read_owned_tokens [OF assms(1) rep', of old_item] by simp
qed

text \<open>Alice mints the token \<open>gem\<close>, and Bob mints it again.\<close>

definition hash_args :: init_args where
  "hash_args = example_args\<lparr>a_identifier_mode := Hash, a_metadata_mutability := Immutable\<rparr>"

lemma hash_args_read:
  "read_init_args reference_host (init_call_for alice hash_args) s = Inr (hash_args, s)"
  by (rule init_args_read) (simp_all add: hash_args_def example_args_def)

definition gem_call :: "account_hash \<Rightarrow> invocation" where
  "gem_call a = call_with (Session a) a
     [(ARG_TOKEN_OWNER, to_bytes key_codec (Key_Account a)),
      (ARG_TOKEN_META_DATA, to_bytes string_codec ''tabby''),
      (ARG_TOKEN_ID_HASH, to_bytes string_codec ''gem'')]"

lemma gem_call_args:
  "verified_caller (gem_call a) Accounts = Inr (Key_Account a)"
  "get_named_arg_key (gem_call a) ARG_TOKEN_OWNER = Inr (Key_Account a)"
  "get_named_arg_string (gem_call a) ARG_TOKEN_ID_HASH = Inr ''gem''"
  "required_arg string_codec (gem_call a) ARG_TOKEN_META_DATA e e' s = Inr (''tabby'', s)"
  unfolding gem_call_def
     apply simp
    apply (simp only: call_with_simps, rule call_with_arg(3); simp add: constant_defs codecs_ok)
   apply (simp only: call_with_simps, rule call_with_arg(3); simp add: constant_defs codecs_ok)
  apply (rule call_with_arg(2); simp add: constant_defs codecs_ok)
  done

lemma gem_fits [simp]: "fits reference_host ''gem''"
  by (simp add: fits_def reference_host_def)

lemma gem_minted:
  fixes us
  defines "L0 \<equiv> initial_ledger us alice hash_args"
  defines "L1 \<equiv> add_token (TokenHash ''gem'') (Key_Account alice) alice_item ''tabby'' L0"
  shows "\<exists>r. ledger_mint reference_host (gem_call alice) L0 = Inr (r, L1)"
    and "\<exists>r L2. ledger_mint reference_host (gem_call bob) L1 = Inr (r, L2)"
    and "l_token_owners L1 ''gem'' = Some (Key_Account alice)"
    and "l_owned_tokens L1 alice_item = Some [TokenHash ''gem'']" and "l_identifier_mode L1 = Hash"
    and "l_token_counts L1 alice_item = Some 1" and "ledger_mint_owner (gem_call bob) L1 = Inr (Key_Account bob)"
  by (simp_all add: L1_def L0_def ledger_mint_def ledger_check_minter_def ledger_mint_owner_def
      ledger_new_identifier_def valid_metadata_def gem_call_args bind_c_Inr add_token_def Let_def
      initial_ledger_def hash_args_def example_args_def tokens_of_def balance_def word_le_nat_alt)

theorem hash_mint_takes_over_witness:
  "\<exists>h r h'. reachable reference_host alice hash_args h
    \<and> get_dictionary_value_from_key reference_host key_codec TOKEN_OWNERS ''gem'' h
      = Inr (Some (Key_Account alice), h)
    \<and> mint reference_host (gem_call bob) h = Inr (r, h')
    \<and> get_dictionary_value_from_key reference_host key_codec TOKEN_OWNERS ''gem'' h'
      = Inr (Some (Key_Account bob), h')
    \<and> get_token_identifiers_from_dictionary reference_host Hash alice_item h'
      = Inr (Some [TokenHash ''gem''], h')"
proof -
  obtain us h0 where h0: "reachable reference_host alice hash_args h0"
    "represents reference_host (initial_ledger us alice hash_args) h0"
    by (rule reachable_initial [OF hash_args_read])
  let ?L = "add_token (TokenHash ''gem'') (Key_Account alice) alice_item ''tabby''
    (initial_ledger us alice hash_args)"
  note gem = gem_minted [of us]
  from gem(1) obtain r0 where "ledger_call reference_host EP_mint (gem_call alice)
      (initial_ledger us alice hash_args) = Inr (r0, ?L)" by (auto simp: ledger_call_def)
  from reachable_step [OF h0 this]
  obtain h where h: "reachable reference_host alice hash_args h" "represents reference_host ?L h" by metis
  obtain r h' where mint: "mint reference_host (gem_call bob) h = Inr (r, h')"
    using gem(2) reference.mint_refines [OF h(2), of "gem_call bob"] by (metis sim_leftD)
  have mode: "a_identifier_mode hash_args = Hash" by (simp add: hash_args_def)
  have owner: "mint_token_owner reference_host (gem_call bob) h = Inr (Key_Account bob, h)"
    by (rule reference.read_mint_token_owner [OF h(2) gem(7)])
  have list: "get_token_identifiers_from_dictionary reference_host Hash alice_item h
      = Inr (Some [TokenHash ''gem''], h)"
    using reference.read_owned_tokens [OF h(2), of alice_item] by (simp add: gem)
  have count: "get_dictionary_value_from_key reference_host (c_u64 reference_host) TOKEN_COUNTS alice_item h
      = Inr (Some 1, h)"
    using reference.read_dictionaries(5) [OF h(2) example_items_fit(1)] by (simp only: gem)
  have "alice_item \<noteq> bob_item" by simp
  from hash_mint_takes_over [OF reference.casper_host_axioms h(1) mode mint gem_call_args(3) owner
      example_items(2) this list count] h(1) mint
    reference.read_dictionaries(1) [OF h(2), of "''gem''"]
  show ?thesis by (auto simp: gem)
qed

section \<open>Approving all tokens\<close>

lemma approve_tokens_snoc:
  "(approve_tokens ts (Some k) L)\<lparr>l_operator :=
      (l_operator (approve_tokens ts (Some k) L))(get_dictionary_item_key t \<mapsto> Some k)\<rparr>
    = approve_tokens (ts @ [t]) (Some k) L"
  by (auto simp: approve_tokens_def fun_eq_iff)

text \<open>Approving the tokens of a list one after the other, each by a call that names it.\<close>

lemma approving_each:
  assumes "l_ownership_mode L = Transferable" and "operator \<noteq> caller"
    and "\<And>t (s :: ledger). t \<in> set ts \<Longrightarrow> verified_caller (f t) (l_holder_mode L) = Inr caller
      \<and> get_token_identifier_from_runtime_args H (f t) (l_identifier_mode L) s = Inr (t, s)
      \<and> required_arg (c_key H) (f t) ARG_OPERATOR MissingApprovedAccountHash
          InvalidApprovedAccountHash s = Inr (operator, s)
      \<and> within_bounds L t \<and> fits H (get_dictionary_item_key t)
      \<and> l_token_owners L (get_dictionary_item_key t) = Some caller
      \<and> \<not> l_burnt_tokens L (get_dictionary_item_key t)"
  shows "ledger_run_calls H (map (\<lambda>t. (EP_approve, f t)) ts) (approve_tokens us (Some operator) L)
    = approve_tokens (us @ ts) (Some operator) L"
  using assms(3)
proof (induction ts arbitrary: us)
  case (Cons t ts)
  let ?L = "approve_tokens us (Some operator) L"
  note t = Cons.prems [OF list.set_intros(1), of ?L]
  have "within_bounds ?L t"
    using Cons.prems [of t L] by (simp add: within_bounds_def approve_tokens_def split: token_identifier.splits)
  note bounds = within_boundsD [OF this]
  have "l_ownership_mode ?L = l_ownership_mode L" "l_holder_mode ?L = l_holder_mode L"
    "l_identifier_mode ?L = l_identifier_mode L" "l_token_owners ?L = l_token_owners L"
    "l_burnt_tokens ?L = l_burnt_tokens L"
    by (simp_all add: approve_tokens_def)
  then have "ledger_approve H (f t) ?L = Inr (Ret_Unit, approve_tokens (us @ [t]) (Some operator) L)"
    using assms(1,2) bounds t unfolding approve_tokens_snoc [symmetric]
    by (simp add: ledger_approve_def bind_c_Inr)
  with Cons.IH [of "us @ [t]"] Cons.prems show ?case by (simp add: ledger_call_def after_call_def)
qed simp

text \<open>C22. To approve an operator for all is to approve it for each: where the caller owns the tokens
  listed under its item and none is burnt, \<open>set_approval_for_all\<close> returns, and its state represents
  the same ledger as the state after one call of \<open>approve\<close> for each of them.\<close>

theorem approving_all_is_approving_each:
  assumes "casper_host H" and "reachable H installer a h" and "a_identifier_mode a = Ordinal"
    and "a_ownership_mode a = Transferable"
    and "required_arg (c_bool H) i ARG_APPROVE_ALL MissingApproveAll InvalidApproveAll h = Inr (True, h)"
    and "required_arg (c_key H) i ARG_OPERATOR MissingOperator InvalidOperator h = Inr (operator, h)"
    and "verified_caller i (a_holder_mode a) = Inr caller" and "operator \<noteq> caller"
    and "owner_item H caller = Inr item"
    and "get_token_identifiers_from_dictionary H Ordinal item h = Inr (Some ts, h)"
    and "\<And>t. t \<in> set ts \<Longrightarrow> get_dictionary_value_from_key H (c_key H) TOKEN_OWNERS
        (get_dictionary_item_key t) h = Inr (Some caller, h) \<and> is_burnt H t h = Inr (False, h)"
    and "\<And>t. t \<in> set ts \<Longrightarrow> verified_caller (f t) (a_holder_mode a) = Inr caller
      \<and> get_token_identifier_from_runtime_args H (f t) Ordinal h = Inr (t, h)
      \<and> required_arg (c_key H) (f t) ARG_OPERATOR MissingApprovedAccountHash
          InvalidApprovedAccountHash h = Inr (operator, h)"
  shows "\<exists>h' L. set_approval_for_all H i h = Inr (Ret_Unit, h') \<and> represents H L h'
    \<and> represents H L (run_calls H (map (\<lambda>t. (EP_approve, f t)) ts) h)"
proof -
  obtain L us where rep: "represents H L h" and L: "consistent H L" "numbered L"
    and "same_configuration (initial_ledger us installer a) L"
    using casper_host.reachable_numbered [OF assms(1-3)] by metis
  then have modes: "l_identifier_mode L = Ordinal" "l_ownership_mode L = Transferable"
    "l_holder_mode L = a_holder_mode a"
    using assms(3,4) by (simp_all add: same_configuration_def initial_ledger_def)
  have ts: "tokens_of L item = ts"
    using casper_host.readD(6) [OF assms(1) rep, unfolded modes, OF assms(10)] by (simp add: tokens_of_def)
  let ?L = "approve_tokens ts (Some operator) L"
  have "ledger_set_approval_for_all H i L = Inr (Ret_Unit, ?L)"
    using assms(7,9) by (simp add: ledger_set_approval_for_all_def modes ts bind_c_Inr
        required_argument_any_state [OF assms(5)] required_argument_any_state [OF assms(6)])
  with casper_host.set_approval_for_all_refines [OF assms(1) rep, of i] obtain h'
    where "set_approval_for_all H i h = Inr (Ret_Unit, h')" "represents H ?L h'" by (metis sim_leftD)
  moreover have "ledger_run_calls H (map (\<lambda>t. (EP_approve, f t)) ts) (approve_tokens [] (Some operator) L)
      = approve_tokens ([] @ ts) (Some operator) L"
  proof (rule approving_each [OF modes(2) assms(8)])
    fix t and s :: ledger
    assume t: "t \<in> set ts"
    let ?n = "get_dictionary_item_key t"
    have state: "l_token_owners L ?n = Some caller" "\<not> l_burnt_tokens L ?n" "fits H ?n"
      using casper_host.readD(1) [OF assms(1) rep assms(11) [OF t, THEN conjunct1]]
        casper_host.readD(5) [OF assms(1) rep assms(11) [OF t, THEN conjunct2]] by simp_all
    note arg = assms(12) [OF t, THEN conjunct2, THEN conjunct1]
    have "within_bounds L t"
      by (rule numbered_within_bounds [OF L _ state(1)]) (use token_argument_of_mode [OF arg] modes in simp)
    with state assms(12) [OF t] show "verified_caller (f t) (l_holder_mode L) = Inr caller
      \<and> get_token_identifier_from_runtime_args H (f t) (l_identifier_mode L) s = Inr (t, s)
      \<and> required_arg (c_key H) (f t) ARG_OPERATOR MissingApprovedAccountHash
          InvalidApprovedAccountHash s = Inr (operator, s)
      \<and> within_bounds L t \<and> fits H (get_dictionary_item_key t)
      \<and> l_token_owners L (get_dictionary_item_key t) = Some caller
      \<and> \<not> l_burnt_tokens L (get_dictionary_item_key t)"
      using token_argument_any_state [OF arg] required_argument_any_state by (auto simp: modes)
  qed
  then have "represents H ?L (run_calls H (map (\<lambda>t. (EP_approve, f t)) ts) h)"
    using casper_host.run_calls_refines [OF assms(1) rep] by (metis append_Nil approve_no_tokens)
  ultimately show ?thesis by blast
qed

theorem approving_all_is_approving_each_witness:
  "\<exists>h h' L. reachable reference_host alice example_args h
    \<and> set_approval_for_all reference_host approve_all_call h = Inr (Ret_Unit, h')
    \<and> represents reference_host L h'
    \<and> represents reference_host L (run_calls reference_host [(EP_approve, approve_call)] h)"
proof -
  obtain us h where h: "reachable reference_host alice example_args h"
    "represents reference_host (minted_ledger\<lparr>l_urefs := us\<rparr>) h" by (rule example_reachable_minted)
  have "\<exists>h' L. set_approval_for_all reference_host approve_all_call h = Inr (Ret_Unit, h')
    \<and> represents reference_host L h'
    \<and> represents reference_host L (run_calls reference_host (map (\<lambda>t. (EP_approve, approve_call)) [Index 0]) h)"
    by (rule approving_all_is_approving_each [OF reference.casper_host_axioms h(1), of _ "Key_Account bob"
        "Key_Account alice" alice_item "[Index 0]"])
      (use reference.read_is_burnt [OF h(2), of "Index 0"] reference.read_owned_tokens [OF h(2), of alice_item]
        reference.read_dictionaries(1) [OF h(2), of "u64_to_string 0"]
        in \<open>simp_all add: approve_all_call_args approve_call_args example_args_def\<close>)
  with h(1) show ?thesis by auto
qed

end
