(* ===== verification/Session_Properties.thy ===== *)
theory Session_Properties
  imports Client_Properties Outcome_Properties
begin

text \<open>
  The sessions under \<open>src/casper/client\<close> and the minting contract, run against a contract in any
  state that calls lead to: what a session that has returned has done there, and what it has left
  under the named keys of its caller.
\<close>

section \<open>A session and the ledger\<close>

text \<open>What \<open>put_new_uref\<close> leaves is found under the name.\<close>

definition stored_under :: "'h casper \<Rightarrow> string \<Rightarrow> bytes \<Rightarrow> 'h \<Rightarrow> bool" where
  "stored_under H name bs h \<longleftrightarrow>
     (\<exists>u. casper_get_key H name h = Inr (to_bytes (c_key H) (Key_URef u)) \<and> uref_bytes H u h = Inr bs)"

context casper_host
begin

lemma put_new_uref_stored:
  "put_new_uref H name c v h = Inr (u, h') \<Longrightarrow> stored_under H name (to_bytes c v) h'"
  by (auto simp: put_new_uref_def stored_under_def get_key_put_key bytes_put_key bytes_new_uref
      split: prod.splits)

end

text \<open>A session that calls the contract at \<open>nft\<close>.\<close>

abbreviation calls_contract :: "invocation \<Rightarrow> contract_hash \<Rightarrow> bool" where
  "calls_contract i nft \<equiv> get_named_arg_key i ARG_NFT_CONTRACT_HASH = Inr (Key_Hash (contract_value nft))"

context casper_platform
begin

text \<open>A call that has returned, on the contract and on its ledger.\<close>

lemma session_call:
  assumes "bind_c (call_contract_c P c nft (entry_point_name e) args) f h = Inr (u, h')"
    and "represents H L (inside h)"
  obtains caller stack r L' bs v h1
  where "call_entry H e (deliver H args caller stack) (inside h) = Inr (r, inside h1)"
    and "ledger_call H e (deliver H args caller stack) L = Inr (r, L')" and "represents H L' (inside h1)"
    and "cl_value_from_t H r = Some bs" and "deserialize c bs = Inr v" and "f v h1 = Inr (u, h')"
proof -
  from assms(1) obtain v h1 where call: "call_contract_c P c nft (entry_point_name e) args h = Inr (v, h1)"
    and f: "f v h1 = Inr (u, h')" by (rule bind_c_InrE)
  from call obtain caller stack r bs
    where entry: "call_entry H e (deliver H args caller stack) (inside h) = Inr (r, inside h1)"
      and r: "cl_value_from_t H r = Some bs" "deserialize c bs = Inr v" by (rule call_contract_runs)
  with call_refines [OF assms(2), of e "deliver H args caller stack"]
  obtain L' where "ledger_call H e (deliver H args caller stack) L = Inr (r, L')"
    and "represents H L' (inside h1)" by (auto dest: sim_InrD)
  with r entry f that show thesis by blast
qed

lemma contract_hash_arg_run:
  "calls_contract i nft \<Longrightarrow> bind_c (nft_contract_hash_arg i) f s = f nft s"
  by (simp add: nft_contract_hash_arg_def get_named_arg_c_def bind_c_assoc)

lemma mint_session_call:
  assumes "mint_session H P i h = Inr (u, h')" and "calls_contract i nft"
    and "represents H L (inside h)"
  obtains owner md idh caller stack rn k n L' h1
  where "get_named_arg_key i ARG_TOKEN_OWNER = Inr owner"
    and "call_entry H EP_mint (deliver H (mint_runtime_args H owner md idh) caller stack) (inside h)
      = Inr (Ret_Mint_Receipt rn k n, inside h1)"
    and "ledger_mint H (deliver H (mint_runtime_args H owner md idh) caller stack) L
      = Inr (Ret_Mint_Receipt rn k n, L')"
    and "represents H L' (inside h1)" and "h' = runtime_put_key H rn k h1"
proof -
  from assms(1) obtain owner md idh where owner: "get_named_arg_key i ARG_TOKEN_OWNER = Inr owner"
    and call: "bind_c (call_contract_c P (c_mint_receipt P) nft (entry_point_name EP_mint)
      (mint_runtime_args H owner md idh)) (\<lambda>(rn, k, _). put_key_c H rn k) h = Inr (u, h')"
    unfolding mint_session_def contract_hash_arg_run [OF assms(2)]
    by (auto elim!: get_named_arg_InrE)
  from call assms(3) obtain caller stack r L' bs v h1
    where entry: "call_entry H EP_mint (deliver H (mint_runtime_args H owner md idh) caller stack) (inside h)
        = Inr (r, inside h1)"
      and ledger: "ledger_call H EP_mint (deliver H (mint_runtime_args H owner md idh) caller stack) L
        = Inr (r, L')"
      and rep: "represents H L' (inside h1)"
      and v: "cl_value_from_t H r = Some bs" "deserialize (c_mint_receipt P) bs = Inr v"
        "(case v of (rn, k, _) \<Rightarrow> put_key_c H rn k) h1 = Inr (u, h')"
    by (rule session_call)
  from ledger obtain rn k n where r: "r = Ret_Mint_Receipt rn k n"
    by (auto simp: ledger_call_def elim: ledger_mintE)
then have "v = (rn, k, n)"
    using v(1,2) codec_mint_receipt by (auto simp: returned_mint_receipt deserialize_to_bytes)
  with v(3) have "h' = runtime_put_key H rn k h1" by (simp add: put_key_c_def)
  with that owner entry ledger rep show thesis by (simp add: r ledger_call_def)
qed

text \<open>The token a session names is the one the contract looks at, if it is of the contract's mode.\<close>

lemma token_arg_names: "fst (token_arg H t) \<in> {ARG_TOKEN_ID, ARG_TOKEN_HASH}"
  by (cases t) (simp_all add: token_arg_def)

lemma token_arg_alone:
  "get_token_identifier_from_runtime_args H (deliver H [token_arg H t] c st) m s =
    (if of_mode m t then Inr (t, s) else Inl (User MissingTokenID))"
  by (rule token_arg_arrives) (use token_arg_names [of t] in auto)

lemma token_arg_among:
  "get_token_identifier_from_runtime_args H (deliver H [token_arg H t, (ARG_TARGET_KEY, x),
      (ARG_SOURCE_KEY, y)] c st) m s =
    (if of_mode m t then Inr (t, s) else Inl (User MissingTokenID))"
  by (rule token_arg_arrives) (use token_arg_names [of t] in \<open>auto simp: constant_defs\<close>)

lemma bind_token_arg_among:
  "bind_c (get_token_identifier_from_runtime_args H (deliver H [token_arg H t, (ARG_TARGET_KEY, x),
      (ARG_SOURCE_KEY, y)] c st) m) f s =
    (if of_mode m t then f t s else Inl (User MissingTokenID))"
  by (simp add: bind_c_def token_arg_among)

lemma session_query:
  assumes "bind_c (ledger_query_token H (deliver H [token_arg H t] c st)) f L = Inr x"
  shows "of_mode (l_identifier_mode L) t" and "f t L = Inr x"
  using assms unfolding ledger_query_token_run
  by (auto simp: bind_c_def token_arg_alone split: if_splits sum.splits)

text \<open>The sessions that ask for the owner and the operator of a token.\<close>

lemma owner_of_session_call:
  assumes "owner_of_session H P i h = Inr (u, h')" and "calls_contract i nft"
    and "represents H L (inside h)"
  obtains t name owner where "session_token i = Some t" and "of_mode (l_identifier_mode L) t"
    and "get_named_arg_string i ARG_KEY_NAME = Inr name"
    and "l_token_owners L (get_dictionary_item_key t) = Some owner"
    and "stored_under H name (to_bytes (c_key H) owner) h'"
proof -
  from assms(1) obtain name t where name: "get_named_arg_string i ARG_KEY_NAME = Inr name"
    and t: "session_token i = Some t"
    and call: "bind_c (call_contract_c P (c_key H) nft (entry_point_name EP_owner_of) [token_arg H t])
      (\<lambda>owner. put_new_uref H name (c_key H) owner) h = Inr (u, h')"
    unfolding owner_of_session_def contract_hash_arg_run [OF assms(2)]
    by (auto elim!: get_named_arg_InrE token_runtime_arg_InrE)
  from call assms(3) obtain caller stack r L' bs v h1
    where ledger: "ledger_call H EP_owner_of (deliver H [token_arg H t] caller stack) L = Inr (r, L')"
      and v: "cl_value_from_t H r = Some bs" "deserialize (c_key H) bs = Inr v"
      and put: "put_new_uref H name (c_key H) v h1 = Inr (u, h')"
    by (rule session_call)
  note query = ledger [unfolded ledger_call_def entry_point.case ledger_owner_of_def, THEN session_query(1)]
    ledger [unfolded ledger_call_def entry_point.case ledger_owner_of_def, THEN session_query(2)]
  from query obtain owner where mode: "of_mode (l_identifier_mode L) t"
    and owner: "l_token_owners L (get_dictionary_item_key t) = Some owner" and r: "r = Ret_Key owner"
    by (auto elim!: bind_unwrap_InrE split: if_splits)
  have "v = owner" using v r codec_key by (auto simp: returned_key deserialize_to_bytes)
  with put_new_uref_stored [OF put] that t mode name owner show thesis by blast
qed

lemma get_approved_session_call:
  assumes "get_approved_session H P i h = Inr (u, h')" and "calls_contract i nft"
    and "represents H L (inside h)"
  obtains t name where "session_token i = Some t" and "of_mode (l_identifier_mode L) t"
    and "get_named_arg_string i ARG_KEY_NAME = Inr name"
    and "\<not> l_burnt_tokens L (get_dictionary_item_key t)" and "fits H (get_dictionary_item_key t)"
    and "stored_under H name (to_bytes (c_option_key H)
      (case l_operator L (get_dictionary_item_key t) of Some k \<Rightarrow> k | None \<Rightarrow> None)) h'"
proof -
  from assms(1) obtain name t where name: "get_named_arg_string i ARG_KEY_NAME = Inr name"
    and t: "session_token i = Some t"
    and call: "bind_c (call_contract_c P (c_option_key H) nft (entry_point_name EP_get_approved)
      [token_arg H t]) (\<lambda>operator. put_new_uref H name (c_option_key H) operator) h = Inr (u, h')"
    unfolding get_approved_session_def contract_hash_arg_run [OF assms(2)]
    by (auto elim!: get_named_arg_InrE token_runtime_arg_InrE)
  from call assms(3) obtain caller stack r L' bs v h1
    where ledger: "ledger_call H EP_get_approved (deliver H [token_arg H t] caller stack) L = Inr (r, L')"
      and v: "cl_value_from_t H r = Some bs" "deserialize (c_option_key H) bs = Inr v"
      and put: "put_new_uref H name (c_option_key H) v h1 = Inr (u, h')"
    by (rule session_call)
  note query = ledger [unfolded ledger_call_def entry_point.case ledger_get_approved_def, THEN session_query(1)]
    ledger [unfolded ledger_call_def entry_point.case ledger_get_approved_def, THEN session_query(2)]
  from query have mode: "of_mode (l_identifier_mode L) t" and fits: "fits H (get_dictionary_item_key t)"
    and burnt: "\<not> l_burnt_tokens L (get_dictionary_item_key t)"
    and r: "r = Ret_Option_Key (case l_operator L (get_dictionary_item_key t) of
      Some k \<Rightarrow> k | None \<Rightarrow> None)"
    by (auto split: if_splits)
  have "v = (case l_operator L (get_dictionary_item_key t) of Some k \<Rightarrow> k | None \<Rightarrow> None)"
    using v r codec_option_key by (auto simp: returned_option_key deserialize_to_bytes)
  with put_new_uref_stored [OF put] that t mode name burnt fits show thesis by blast
qed

text \<open>The session that asks for a balance.\<close>

lemma balance_of_session_call:
  assumes "balance_of_session H P i h = Inr (u, h')" and "calls_contract i nft"
    and "represents H L (inside h)"
  obtains name owner item where "get_named_arg_string i ARG_KEY_NAME = Inr name"
    and "get_named_arg_key i ARG_TOKEN_OWNER = Inr owner" and "owner_item H owner = Inr item"
    and "stored_under H name (to_bytes (c_u64 H) (balance L item)) h'"
proof -
  from assms(1) obtain name owner where name: "get_named_arg_string i ARG_KEY_NAME = Inr name"
    and owner: "get_named_arg_key i ARG_TOKEN_OWNER = Inr owner"
    and call: "bind_c (call_contract_c P (c_u64 H) nft (entry_point_name EP_balance_of)
      [(ARG_TOKEN_OWNER, to_bytes (c_key H) owner)])
      (\<lambda>b. put_new_uref H name (c_u64 H) b) h = Inr (u, h')"
    unfolding balance_of_session_def contract_hash_arg_run [OF assms(2)]
    by (auto elim!: get_named_arg_InrE)
  from call assms(3) obtain caller stack r L' bs v h1
    where ledger: "ledger_call H EP_balance_of
        (deliver H [(ARG_TOKEN_OWNER, to_bytes (c_key H) owner)] caller stack) L = Inr (r, L')"
      and v: "cl_value_from_t H r = Some bs" "deserialize (c_u64 H) bs = Inr v"
      and put: "put_new_uref H name (c_u64 H) v h1 = Inr (u, h')"
    by (rule session_call)
  have arg: "required_arg (c_key H) (deliver H [(ARG_TOKEN_OWNER, to_bytes (c_key H) owner)] caller stack)
      ARG_TOKEN_OWNER e e' s = Inr (owner, s)" for e e' s
    by (rule delivered_arg(2) [OF _ codec_key]) simp
  from ledger obtain item where item: "owner_item H owner = Inr item" and r: "r = Ret_U64 (balance L item)"
    by (auto simp: ledger_call_def ledger_balance_of_def arg bind_c_Inr elim!: bind_result_InrE)
  have "v = balance L item" using v r codec_u64 by (auto simp: returned_u64 deserialize_to_bytes)
  with put_new_uref_stored [OF put] that name owner item show thesis by blast
qed

lemma transfer_session_call:
  assumes "transfer_session H P i h = Inr (u, h')" and "calls_contract i nft"
    and "represents H L (inside h)"
  obtains t source target caller stack rn k L' h1
  where "session_token i = Some t" and "get_named_arg_key i ARG_SOURCE_KEY = Inr source"
    and "get_named_arg_key i ARG_TARGET_KEY = Inr target"
    and "call_entry H EP_transfer (deliver H [token_arg H t, (ARG_TARGET_KEY, to_bytes (c_key H) target),
        (ARG_SOURCE_KEY, to_bytes (c_key H) source)] caller stack) (inside h)
      = Inr (Ret_Transfer_Receipt rn k, inside h1)"
    and "ledger_transfer H (deliver H [token_arg H t, (ARG_TARGET_KEY, to_bytes (c_key H) target),
        (ARG_SOURCE_KEY, to_bytes (c_key H) source)] caller stack) L
      = Inr (Ret_Transfer_Receipt rn k, L')"
    and "represents H L' (inside h1)" and "h' = runtime_put_key H rn k h1"
proof -
  from assms(1) obtain source target t where args: "session_token i = Some t"
      "get_named_arg_key i ARG_SOURCE_KEY = Inr source" "get_named_arg_key i ARG_TARGET_KEY = Inr target"
    and call: "bind_c (call_contract_c P (c_transfer_receipt P) nft (entry_point_name EP_transfer)
      [token_arg H t, (ARG_TARGET_KEY, to_bytes (c_key H) target),
        (ARG_SOURCE_KEY, to_bytes (c_key H) source)]) (\<lambda>(rn, k). put_key_c H rn k) h = Inr (u, h')"
    unfolding transfer_session_def contract_hash_arg_run [OF assms(2)]
    by (auto elim!: get_named_arg_InrE token_runtime_arg_InrE)
  from call assms(3) obtain caller stack r L' bs v h1
    where entry: "call_entry H EP_transfer (deliver H [token_arg H t,
          (ARG_TARGET_KEY, to_bytes (c_key H) target), (ARG_SOURCE_KEY, to_bytes (c_key H) source)]
          caller stack) (inside h) = Inr (r, inside h1)"
      and ledger: "ledger_call H EP_transfer (deliver H [token_arg H t,
          (ARG_TARGET_KEY, to_bytes (c_key H) target), (ARG_SOURCE_KEY, to_bytes (c_key H) source)]
          caller stack) L = Inr (r, L')"
      and rep: "represents H L' (inside h1)"
      and v: "cl_value_from_t H r = Some bs" "deserialize (c_transfer_receipt P) bs = Inr v"
        "(case v of (rn, k) \<Rightarrow> put_key_c H rn k) h1 = Inr (u, h')"
    by (rule session_call)
  from ledger obtain rn k where r: "r = Ret_Transfer_Receipt rn k"
    by (auto simp: ledger_call_def elim: ledger_transferE)
  then have "v = (rn, k)"
    using v(1,2) codec_transfer_receipt by (auto simp: returned_transfer_receipt deserialize_to_bytes)
  with v(3) have "h' = runtime_put_key H rn k h1" by (simp add: put_key_c_def)
  with that args entry ledger rep show thesis by (simp add: r ledger_call_def)
qed

text \<open>What the transfer of a token changes, seen by the call the session makes.\<close>

lemma transfer_session_moved:
  assumes "ledger_transfer H (deliver H [token_arg H t, (ARG_TARGET_KEY, to_bytes (c_key H) target),
      (ARG_SOURCE_KEY, to_bytes (c_key H) source)] caller stack) L = Inr (Ret_Transfer_Receipt rn k, L')"
  shows "l_token_owners L (get_dictionary_item_key t) = Some source"
    and "\<not> l_burnt_tokens L (get_dictionary_item_key t)"
    and "l_token_owners L' (get_dictionary_item_key t) = Some target"
    and "rn = l_receipt_name L"
proof -
  let ?i = "deliver H [token_arg H t, (ARG_TARGET_KEY, to_bytes (c_key H) target),
      (ARG_SOURCE_KEY, to_bytes (c_key H) source)] caller stack"
  have names: "fst (token_arg H t) \<noteq> ARG_TARGET_KEY" "fst (token_arg H t) \<noteq> ARG_SOURCE_KEY"
    using token_arg_names [of t] by (auto simp: constant_defs)
  have args: "required_arg (c_key H) ?i ARG_SOURCE_KEY e e' s = Inr (source, s)"
    "required_arg (c_key H) ?i ARG_TARGET_KEY e e' s = Inr (target, s)" for e e' and s :: ledger
    using names by (auto intro!: delivered_arg(2) [OF _ codec_key] simp: map_of_Cons_code constant_defs)
  from assms have *: "l_token_owners L (get_dictionary_item_key t) = Some source
    \<and> \<not> l_burnt_tokens L (get_dictionary_item_key t)
    \<and> (\<exists>from_item target_item L1. ledger_move_token t target from_item target_item L = Inr ((), L1)
        \<and> L' = L1 \<and> rn = l_receipt_name L1)"
    unfolding ledger_transfer_def Let_def
    by (auto simp: bind_token_arg_among bind_c_Inr args elim!: bind_result_InrE bind_unwrap_InrE bind_move_InrE split: if_splits)
      blast
  then show "l_token_owners L (get_dictionary_item_key t) = Some source"
    and "\<not> l_burnt_tokens L (get_dictionary_item_key t)" by blast+
  from * show "l_token_owners L' (get_dictionary_item_key t) = Some target" and "rn = l_receipt_name L"
    by (auto elim!: ledger_move_tokenE simp: move_token_def Let_def)
qed

end

text \<open>The state the contract is in: on the platform, what calls can lead to.\<close>

lemma platform_ledgerE:
  assumes "casper_platform H P nft inside" and "reachable H installer a (inside h)"
  obtains L where "represents H L (inside h)" and "l_identifier_mode L = a_identifier_mode a"
    and "l_ownership_mode L = a_ownership_mode a" and "l_receipt_name L = a_receipt_name a"
proof -
  obtain L us where "represents H L (inside h)" "same_configuration (initial_ledger us installer a) L"
    using casper_host.reachable_configuration [OF casper_platform.axioms(1) [OF assms(1)] assms(2)]
    by metis
  then show thesis by (intro that [of L]) (simp_all add: same_configuration_def initial_ledger_def)
qed

lemma reachable_called:
  "reachable H installer a h \<Longrightarrow> call_entry H e i h = Inr (r, h') \<Longrightarrow> reachable H installer a h'"
  using reachable.called [of H installer a h e i] by (simp add: after_call_def)

text \<open>The number a mint gives out has no owner yet.\<close>

lemma numbered_mint_new:
  assumes "casper_host H" and "reachable H installer a h" and "a_identifier_mode a = Ordinal"
    and "represents H L h" and "l_identifier_mode L = Ordinal"
    and "ledger_new_identifier i L = Inr t" and "n = get_dictionary_item_key t"
  shows "get_dictionary_value_from_key H (c_key H) TOKEN_OWNERS n h = Inr (None, h)"
proof -
  obtain L1 where rep: "represents H L1 h" and L1: "numbered L1"
    using casper_host.reachable_numbered [OF assms(1-3)] by metis
  have "l_number_of_minted_tokens L1 = l_number_of_minted_tokens L"
    using casper_host.read_values(7) [OF assms(1) rep] casper_host.read_values(7) [OF assms(1,4)] by simp
  moreover have "n = get_dictionary_item_key (Index (l_number_of_minted_tokens L))"
    using assms(5-7) by (simp add: ledger_new_identifier_def)
  ultimately show ?thesis
    using numbered_new [OF L1] casper_host.read_dictionaries(1) [OF assms(1) rep, of n]
      casper_host.index_fits [OF assms(1)] by simp
qed

section \<open>Sessions that act\<close>

text \<open>C18. When the mint session has returned, in a contract where tokens are not bound to their
  minters, the contract has been left in a state that calls lead to, with a token owned and issued
  by the account or contract the session's arguments name, which in a contract that numbers its
  tokens had no owner before; the caller finds, under the contract's receipt name, the address of
  that owner's list of tokens, and nothing else has changed outside.\<close>

theorem mint_session_mints:
  assumes "casper_platform H P nft inside" and "reachable H installer a (inside h)"
    and "a_ownership_mode a \<noteq> Minter" and "calls_contract i nft"
    and "mint_session H P i h = Inr (u, h')"
  shows "\<exists>owner item lists token h1. get_named_arg_key i ARG_TOKEN_OWNER = Inr owner
    \<and> owner_item H owner = Inr item
    \<and> get_uref H OWNED_TOKENS MissingOwnedTokens InvalidOwnedTokens (inside h) = Inr (lists, inside h)
    \<and> h' = runtime_put_key H (a_receipt_name a) (key_dictionary H lists item) h1
    \<and> reachable H installer a (inside h1)
    \<and> get_dictionary_value_from_key H (c_key H) TOKEN_OWNERS token (inside h1)
      = Inr (Some owner, inside h1)
    \<and> get_dictionary_value_from_key H (c_key H) TOKEN_ISSUERS token (inside h1)
      = Inr (Some owner, inside h1)
    \<and> (a_identifier_mode a = Ordinal \<longrightarrow>
        get_dictionary_value_from_key H (c_key H) TOKEN_OWNERS token (inside h) = Inr (None, inside h))"
proof -
  note host = casper_platform.axioms(1) [OF assms(1)]
  obtain L where rep: "represents H L (inside h)" and L: "l_ownership_mode L = a_ownership_mode a"
    "l_receipt_name L = a_receipt_name a" "l_identifier_mode L = a_identifier_mode a"
    using platform_ledgerE [OF assms(1,2)] by metis
  obtain owner md idh caller stack rn k n L' h1
    where arg: "get_named_arg_key i ARG_TOKEN_OWNER = Inr owner"
      and entry: "call_entry H EP_mint (deliver H (mint_runtime_args H owner md idh) caller stack) (inside h)
        = Inr (Ret_Mint_Receipt rn k n, inside h1)"
      and mint: "ledger_mint H (deliver H (mint_runtime_args H owner md idh) caller stack) L
        = Inr (Ret_Mint_Receipt rn k n, L')"
      and rep': "represents H L' (inside h1)" and h': "h' = runtime_put_key H rn k h1"
    by (rule casper_platform.mint_session_call [OF assms(1,5,4) rep])
  have codec: "codec_ok (c_key H)" by (rule casper_codecs.codec_key [OF casper_host.axioms(1) [OF host]])
  have "arg_value (mint_runtime_args H owner md idh) (c_key H) ARG_TOKEN_OWNER = Inr owner"
    by (rule delivered_arg(3) [OF _ codec]) (simp add: mint_runtime_args_def)
  with mint assms(3) L(1) obtain item t s where item: "owner_item H owner = Inr item"
    and L': "L' = add_token t owner item s L"
    and t: "ledger_new_identifier (deliver H (mint_runtime_args H owner md idh) caller stack) L = Inr t"
    and r: "Ret_Mint_Receipt rn k n = Ret_Mint_Receipt (l_receipt_name L)
      (key_dictionary H (l_urefs L OWNED_TOKENS) item) (get_dictionary_item_key t)"
    by (auto simp: ledger_mint_owner_def elim!: ledger_mintE split: sum.splits if_splits)
  then have kept: "l_token_owners L' n = Some owner" "l_token_issuers L' n = Some owner"
    by (simp_all add: add_token_def Let_def)
  moreover have "fits H n" by (rule casper_host.kept_fits(1) [OF host rep' kept(1)])
  moreover have "OWNED_TOKENS \<in> set contract_names" by (simp add: contract_names_def dictionary_names_def)
  moreover have "get_dictionary_value_from_key H (c_key H) TOKEN_OWNERS n (inside h) = Inr (None, inside h)"
    if "a_identifier_mode a = Ordinal"
    by (rule numbered_mint_new [OF host assms(2) that rep]) (use t r L(3) that in auto)
  ultimately show ?thesis
    using arg item r h' L(2) reachable_called [OF assms(2) entry]
      casper_host.read_dictionaries(1,2) [OF host rep', of n]
      casper_host.read_uref [OF host rep, of OWNED_TOKENS MissingOwnedTokens InvalidOwnedTokens]
    by auto
qed

text \<open>C19. When the transfer session has returned, the token it names was owned by the source and
  not burnt, is owned by the target, and the caller finds the address of a list of tokens under the
  contract's receipt name.\<close>

theorem transfer_session_moves:
  assumes "casper_platform H P nft inside" and "reachable H installer a (inside h)"
    and "calls_contract i nft" and "transfer_session H P i h = Inr (u, h')"
  shows "\<exists>t source target k h1. session_token i = Some t
    \<and> get_named_arg_key i ARG_SOURCE_KEY = Inr source \<and> get_named_arg_key i ARG_TARGET_KEY = Inr target
    \<and> get_dictionary_value_from_key H (c_key H) TOKEN_OWNERS (get_dictionary_item_key t) (inside h)
      = Inr (Some source, inside h)
    \<and> is_burnt H t (inside h) = Inr (False, inside h)
    \<and> get_dictionary_value_from_key H (c_key H) TOKEN_OWNERS (get_dictionary_item_key t) (inside h1)
      = Inr (Some target, inside h1)
    \<and> reachable H installer a (inside h1) \<and> h' = runtime_put_key H (a_receipt_name a) k h1"
proof -
  note host = casper_platform.axioms(1) [OF assms(1)]
  obtain L where rep: "represents H L (inside h)" and L: "l_receipt_name L = a_receipt_name a"
    using platform_ledgerE [OF assms(1,2)] by metis
  obtain t source target caller stack rn k L' h1
  where args: "session_token i = Some t" "get_named_arg_key i ARG_SOURCE_KEY = Inr source"
      "get_named_arg_key i ARG_TARGET_KEY = Inr target"
    and entry: "call_entry H EP_transfer (deliver H [token_arg H t, (ARG_TARGET_KEY, to_bytes (c_key H) target),
        (ARG_SOURCE_KEY, to_bytes (c_key H) source)] caller stack) (inside h)
      = Inr (Ret_Transfer_Receipt rn k, inside h1)"
    and move: "ledger_transfer H (deliver H [token_arg H t, (ARG_TARGET_KEY, to_bytes (c_key H) target),
        (ARG_SOURCE_KEY, to_bytes (c_key H) source)] caller stack) L
      = Inr (Ret_Transfer_Receipt rn k, L')"
    and rep': "represents H L' (inside h1)" and h': "h' = runtime_put_key H rn k h1"
    by (rule casper_platform.transfer_session_call [OF assms(1,4,3) rep])
  note moved = casper_platform.transfer_session_moved [OF assms(1) move]
  note fits = casper_host.kept_fits(1) [OF host rep moved(1)]
  show ?thesis
    using args moved L h' reachable_called [OF assms(2) entry]
      casper_host.read_dictionaries(1) [OF host rep fits] casper_host.read_dictionaries(1) [OF host rep' fits]
      casper_host.read_is_burnt [OF host rep fits]
    by auto
qed

section \<open>Sessions on the reference platform\<close>

text \<open>The call the contract serves when a session of Alice calls it.\<close>

definition contract_side :: "runtime_args \<Rightarrow> invocation" where
  "contract_side args = deliver reference_host args alice [Session alice, StoredContract 9 (ContractHash 9)]"

lemma contract_side_fields [simp]:
  "get_caller (contract_side args) = alice"
  "verified_caller (contract_side args) Accounts = Inr (Key_Account alice)"
  "get_named_arg_key (contract_side args) = arg_value args key_codec"
  by (simp_all add: contract_side_def verified_caller_def nth_back_1_def)

lemma reference_call_contract:
  assumes "represents reference_host L h"
    and "ledger_call reference_host e (contract_side args) L = Inr (r, L')"
    and "ref_ret r = to_bytes c v" and "codec_ok c"
  obtains h1 where "represents reference_host L' h1"
    and "call_contract_c reference_platform c (ContractHash 9) (entry_point_name e) args h = Inr (v, h1)"
proof -
  obtain h1 where h1: "represents reference_host L' h1"
    and "call_entry reference_host e (contract_side args) h = Inr (r, h1)"
    using reference.call_refines [OF assms(1), of e "contract_side args"] assms(2) by (metis sim_leftD)
  from reference_call_runs [OF this(2) [unfolded contract_side_def], of "ContractHash 9"]
  have "call_contract_c reference_platform c (ContractHash 9) (entry_point_name e) args h = Inr (v, h1)"
    by (simp add: call_contract_c_def bind_c_def assms(3) deserialize_to_bytes [OF assms(4)])
  with h1 show thesis by (rule that)
qed

lemma receipts_ok: "codec_ok ref_mint_receipt" "codec_ok ref_transfer_receipt"
  using reference_platform.codec_mint_receipt reference_platform.codec_transfer_receipt
  by (simp_all only: reference_platform_simps)

definition session_with :: "runtime_args \<Rightarrow> invocation" where
  "session_with args = deliver reference_host
     ((ARG_NFT_CONTRACT_HASH, to_bytes key_codec (Key_Hash 9)) # args) alice [Session alice]"

lemma session_with_calls [simp]:
  "get_named_arg_key (session_with args) ARG_NFT_CONTRACT_HASH = Inr (Key_Hash 9)"
  by (simp add: session_with_def delivered_arg(3) codecs_ok)

lemma bind_session_contract:
  "bind_c (nft_contract_hash_arg (session_with args)) f s = f (ContractHash 9) s"
  by (simp add: nft_contract_hash_arg_def get_named_arg_c_def bind_c_assoc)

definition mint_session_args :: runtime_args where
  "mint_session_args = mint_runtime_args reference_host (Key_Account alice) ''tabby'' ''''"

lemma mint_session_side:
  "arg_value mint_session_args key_codec ARG_TOKEN_OWNER = Inr (Key_Account alice)"
  "required_arg string_codec (contract_side mint_session_args) ARG_TOKEN_META_DATA e e' s = Inr (''tabby'', s)"
  unfolding mint_session_args_def mint_runtime_args_def contract_side_def
  by (rule delivered_arg(2,3); simp add: constant_defs codecs_ok)+

lemma mint_session_inputs:
  "get_named_arg_key (session_with mint_session_args) ARG_TOKEN_OWNER = Inr (Key_Account alice)"
  "get_named_arg_string (session_with mint_session_args) ARG_TOKEN_META_DATA = Inr ''tabby''"
  "get_named_arg_string (session_with mint_session_args) ARG_TOKEN_ID_HASH = Inr ''''"
  unfolding session_with_def mint_session_args_def mint_runtime_args_def deliver_fields reference_simps
  by (rule delivered_arg(3); simp add: constant_defs codecs_ok)+

lemma mint_session_runs:
  obtains h h' where "reachable reference_host alice example_args h"
    and "mint_session reference_host reference_platform (session_with mint_session_args) h = Inr ((), h')"
proof -
  obtain us h where h: "reachable reference_host alice example_args h"
    "represents reference_host (empty_ledger\<lparr>l_urefs := us\<rparr>) h" by (rule example_reachable_empty)
  let ?k = "key_dictionary reference_host (us OWNED_TOKENS) alice_item"
  have "ledger_call reference_host EP_mint (contract_side mint_session_args) (empty_ledger\<lparr>l_urefs := us\<rparr>)
      = Inr (Ret_Mint_Receipt ''nft-cats'' ?k (u64_to_string 0), minted_ledger\<lparr>l_urefs := us\<rparr>)"
    by (simp add: ledger_call_def ledger_mint_def ledger_check_minter_def ledger_mint_owner_def
        ledger_new_identifier_def valid_metadata_def mint_session_side bind_c_Inr minted_ledger_def)
  then obtain h1 where "call_contract_c reference_platform ref_mint_receipt (ContractHash 9)
      (entry_point_name EP_mint) mint_session_args h = Inr ((''nft-cats'', ?k, u64_to_string 0), h1)"
    by (rule reference_call_contract [OF h(2) _ _ receipts_ok(1)]) simp_all
  then have "mint_session reference_host reference_platform (session_with mint_session_args) h
      = Inr ((), h1\<lparr>rs_names := (rs_names h1)(''nft-cats'' \<mapsto> ?k)\<rparr>)"
    by (simp add: mint_session_def bind_session_contract mint_session_inputs get_named_arg_c_def
        bind_c_Inr mint_session_args_def [symmetric] put_key_c_def)
  with h(1) show thesis by (rule that)
qed

theorem mint_session_mints_witness:
  "\<exists>h h' token h1. mint_session reference_host reference_platform (session_with mint_session_args) h
      = Inr ((), h')
    \<and> get_dictionary_value_from_key reference_host key_codec TOKEN_OWNERS token h1
      = Inr (Some (Key_Account alice), h1)"
proof -
  obtain h h' where h: "reachable reference_host alice example_args h"
    "mint_session reference_host reference_platform (session_with mint_session_args) h = Inr ((), h')"
    by (rule mint_session_runs)
  have r: "reachable reference_host alice example_args (id h)" and "a_ownership_mode example_args \<noteq> Minter"
    using h(1) by (simp_all add: example_args_def)
  from mint_session_mints [OF reference_platform.casper_platform_axioms this _ h(2)] h(2)
  show ?thesis by (auto simp: mint_session_inputs)
qed

definition move_session_args :: runtime_args where
  "move_session_args = [token_arg reference_host (Index 0), (ARG_TARGET_KEY, to_bytes key_codec (Key_Account bob)),
     (ARG_SOURCE_KEY, to_bytes key_codec (Key_Account alice))]"

definition move_session :: invocation where
  "move_session = session_with
     ((ARG_IS_HASH_IDENTIFIER_MODE, to_bytes bool_codec False) # (ARG_KEY_NAME, to_bytes string_codec ''answer'')
       # (ARG_TOKEN_OWNER, to_bytes key_codec (Key_Account alice)) # move_session_args)"

lemma bind_move_contract:
  "bind_c (nft_contract_hash_arg move_session) f s = f (ContractHash 9) s"
  by (simp add: move_session_def bind_session_contract)

lemma move_session_inputs:
  "get_named_arg_bool move_session ARG_IS_HASH_IDENTIFIER_MODE = Inr False"
  "get_named_arg_u64 move_session ARG_TOKEN_ID = Inr 0"
  "get_named_arg_string move_session ARG_KEY_NAME = Inr ''answer''"
  "get_named_arg_key move_session ARG_TOKEN_OWNER = Inr (Key_Account alice)"
  "get_named_arg_key move_session ARG_SOURCE_KEY = Inr (Key_Account alice)"
  "get_named_arg_key move_session ARG_TARGET_KEY = Inr (Key_Account bob)"
  unfolding session_with_def move_session_def move_session_args_def deliver_fields reference_simps
  by (rule delivered_arg(3); simp add: constant_defs codecs_ok token_arg_def)+

lemma move_session_token: "token_runtime_arg reference_host move_session s
    = Inr (token_arg reference_host (Index 0), s)"
  "session_token move_session = Some (Index 0)"
  by (simp_all add: token_runtime_arg_def get_named_arg_c_def move_session_inputs token_arg_def
      session_token_def)

lemma move_session_side:
  "get_token_identifier_from_runtime_args reference_host (contract_side move_session_args) Ordinal s
    = Inr (Index 0, s)"
  "required_arg key_codec (contract_side move_session_args) ARG_SOURCE_KEY e e' s
    = Inr (Key_Account alice, s)"
  "required_arg key_codec (contract_side move_session_args) ARG_TARGET_KEY e e' s
    = Inr (Key_Account bob, s)"
  unfolding contract_side_def move_session_args_def
    apply (simp add: reference_platform.token_arg_among of_mode_def)
   apply (rule delivered_arg(2); simp add: constant_defs codecs_ok token_arg_def)
  apply (rule delivered_arg(2); simp add: constant_defs codecs_ok token_arg_def)
  done

lemma transfer_session_runs:
  obtains h h' where "reachable reference_host alice example_args h"
    and "transfer_session reference_host reference_platform move_session h = Inr ((), h')"
proof -
  obtain us h where h: "reachable reference_host alice example_args h"
    "represents reference_host (minted_ledger\<lparr>l_urefs := us\<rparr>) h" by (rule example_reachable_minted)
  have "\<exists>L'. ledger_transfer reference_host (contract_side move_session_args) (minted_ledger\<lparr>l_urefs := us\<rparr>)
      = Inr (Ret_Transfer_Receipt ''nft-cats'' (key_dictionary reference_host (us OWNED_TOKENS) bob_item), L')"
    by (simp add: ledger_transfer_def move_session_side bind_c_Inr may_transfer_def target_account_def
        ledger_move_token_def move_token_def Let_def)
  then obtain L' where "ledger_call reference_host EP_transfer (contract_side move_session_args)
      (minted_ledger\<lparr>l_urefs := us\<rparr>)
      = Inr (Ret_Transfer_Receipt ''nft-cats'' (key_dictionary reference_host (us OWNED_TOKENS) bob_item), L')"
    by (auto simp: ledger_call_def)
  then obtain h1 where "call_contract_c reference_platform ref_transfer_receipt (ContractHash 9)
      (entry_point_name EP_transfer) move_session_args h
      = Inr ((''nft-cats'', key_dictionary reference_host (us OWNED_TOKENS) bob_item), h1)"
    by (rule reference_call_contract [OF h(2) _ _ receipts_ok(2)]) simp_all
  then have "\<exists>h'. transfer_session reference_host reference_platform move_session h = Inr ((), h')"
    by (simp add: transfer_session_def bind_move_contract move_session_inputs
        get_named_arg_c_def bind_c_Inr move_session_token move_session_args_def [symmetric] put_key_c_def)
  with h(1) that show thesis by blast
qed

theorem transfer_session_moves_witness:
  "\<exists>h h' h1. transfer_session reference_host reference_platform move_session h = Inr ((), h')
    \<and> get_dictionary_value_from_key reference_host key_codec TOKEN_OWNERS (u64_to_string 0) h1
      = Inr (Some (Key_Account bob), h1)"
proof -
  obtain h h' where h: "reachable reference_host alice example_args h"
    "transfer_session reference_host reference_platform move_session h = Inr ((), h')"
    by (rule transfer_session_runs)
  have r: "reachable reference_host alice example_args (id h)" using h(1) by simp
  have c: "calls_contract move_session (ContractHash 9)" by (simp add: move_session_def)
  from transfer_session_moves [OF reference_platform.casper_platform_axioms r c h(2)] h(2)
  show ?thesis by (auto simp: move_session_inputs move_session_token)
qed

section \<open>Sessions that ask\<close>

text \<open>C29. When a session that asks has returned, its caller finds the answer behind the name it has
  chosen: the owner the contract has on record for the token the session names, the token's
  operator, or none, where the token is not burnt, and the balance of the owner it names.\<close>

theorem asking_sessions_report:
  assumes "casper_platform H P nft inside" and "reachable H installer a (inside h)"
    and "calls_contract i nft"
  shows "(owner_of_session H P i h = Inr (u, h') \<longrightarrow>
      (\<exists>t name owner. session_token i = Some t \<and> get_named_arg_string i ARG_KEY_NAME = Inr name
        \<and> get_dictionary_value_from_key H (c_key H) TOKEN_OWNERS (get_dictionary_item_key t) (inside h)
          = Inr (Some owner, inside h)
        \<and> stored_under H name (to_bytes (c_key H) owner) h'))
    \<and> (get_approved_session H P i h = Inr (u, h') \<longrightarrow>
      (\<exists>t name operator. session_token i = Some t \<and> get_named_arg_string i ARG_KEY_NAME = Inr name
        \<and> is_burnt H t (inside h) = Inr (False, inside h)
        \<and> get_dictionary_value_from_key H (c_option_key H) OPERATOR (get_dictionary_item_key t) (inside h)
          = Inr (operator, inside h)
        \<and> stored_under H name (to_bytes (c_option_key H)
            (case operator of Some k \<Rightarrow> k | None \<Rightarrow> None)) h'))
    \<and> (balance_of_session H P i h = Inr (u, h') \<longrightarrow>
      (\<exists>name owner item count. get_named_arg_string i ARG_KEY_NAME = Inr name
        \<and> get_named_arg_key i ARG_TOKEN_OWNER = Inr owner \<and> owner_item H owner = Inr item
        \<and> get_dictionary_value_from_key H (c_u64 H) TOKEN_COUNTS item (inside h) = Inr (count, inside h)
        \<and> stored_under H name (to_bytes (c_u64 H) (case count of Some b \<Rightarrow> b | None \<Rightarrow> 0)) h'))"
proof (intro conjI impI)
  note host = casper_platform.axioms(1) [OF assms(1)]
  obtain L where rep: "represents H L (inside h)" using platform_ledgerE [OF assms(1,2)] by metis
  note read = casper_host.read_dictionaries [OF host rep] casper_host.read_is_burnt [OF host rep]
  show "\<exists>t name owner. session_token i = Some t \<and> get_named_arg_string i ARG_KEY_NAME = Inr name
      \<and> get_dictionary_value_from_key H (c_key H) TOKEN_OWNERS (get_dictionary_item_key t) (inside h)
        = Inr (Some owner, inside h)
      \<and> stored_under H name (to_bytes (c_key H) owner) h'"
    if "owner_of_session H P i h = Inr (u, h')"
    by (rule casper_platform.owner_of_session_call [OF assms(1) that assms(3) rep])
      (auto simp: read casper_host.kept_fits(1) [OF host rep])
  show "\<exists>t name operator. session_token i = Some t \<and> get_named_arg_string i ARG_KEY_NAME = Inr name
      \<and> is_burnt H t (inside h) = Inr (False, inside h)
      \<and> get_dictionary_value_from_key H (c_option_key H) OPERATOR (get_dictionary_item_key t) (inside h)
        = Inr (operator, inside h)
      \<and> stored_under H name (to_bytes (c_option_key H) (case operator of Some k \<Rightarrow> k | None \<Rightarrow> None)) h'"
    if "get_approved_session H P i h = Inr (u, h')"
    by (rule casper_platform.get_approved_session_call [OF assms(1) that assms(3) rep]) (auto simp: read)
  show "\<exists>name owner item count. get_named_arg_string i ARG_KEY_NAME = Inr name
      \<and> get_named_arg_key i ARG_TOKEN_OWNER = Inr owner \<and> owner_item H owner = Inr item
      \<and> get_dictionary_value_from_key H (c_u64 H) TOKEN_COUNTS item (inside h) = Inr (count, inside h)
      \<and> stored_under H name (to_bytes (c_u64 H) (case count of Some b \<Rightarrow> b | None \<Rightarrow> 0)) h'"
    if "balance_of_session H P i h = Inr (u, h')"
    by (rule casper_platform.balance_of_session_call [OF assms(1) that assms(3) rep])
      (auto simp: read casper_host.owner_item_fits [OF host] balance_def)
qed

lemma asking_sessions_run:
  obtains h h1 h2 h3 where "reachable reference_host alice example_args h"
    and "owner_of_session reference_host reference_platform move_session h = Inr ((), h1)"
    and "get_approved_session reference_host reference_platform move_session h = Inr ((), h2)"
    and "balance_of_session reference_host reference_platform move_session h = Inr ((), h3)"
proof -
  obtain us h where h: "reachable reference_host alice example_args h"
    "represents reference_host (minted_ledger\<lparr>l_urefs := us\<rparr>) h" by (rule example_reachable_minted)
  let ?L = "minted_ledger\<lparr>l_urefs := us\<rparr>" and ?t = "[token_arg reference_host (Index 0)]"
  let ?o = "[(ARG_TOKEN_OWNER, to_bytes key_codec (Key_Account alice))]"
  have t: "get_token_identifier_from_runtime_args reference_host (contract_side ?t) Ordinal s
      = Inr (Index 0, s)" for s :: ledger
    by (simp add: contract_side_def reference_platform.token_arg_alone of_mode_def)
  have o: "required_arg key_codec (contract_side ?o) ARG_TOKEN_OWNER e e' s = Inr (Key_Account alice, s)"
    for e e' and s :: ledger
    unfolding contract_side_def by (rule delivered_arg(2)) (simp_all add: key_codec_ok)
  have "ledger_call reference_host EP_owner_of (contract_side ?t) ?L = Inr (Ret_Key (Key_Account alice), ?L)"
    and "ledger_call reference_host EP_get_approved (contract_side ?t) ?L = Inr (Ret_Option_Key None, ?L)"
    and "ledger_call reference_host EP_balance_of (contract_side ?o) ?L = Inr (Ret_U64 1, ?L)"
    by (simp_all add: ledger_call_def ledger_owner_of_def ledger_get_approved_def ledger_balance_of_def
        ledger_query_token_run bind_c_Inr t o)
  note ran = reference_call_contract [OF h(2) this(1) _ key_codec_ok]
    reference_call_contract [OF h(2) this(2) _ reference.codec_option_key]
    reference_call_contract [OF h(2) this(3) _ reference.codec_u64]
  obtain h1 where h1: "call_contract_c reference_platform key_codec (ContractHash 9)
      (entry_point_name EP_owner_of) ?t h = Inr (Key_Account alice, h1)" by (rule ran(1)) simp_all
  obtain h2 where h2: "call_contract_c reference_platform (option_codec key_codec) (ContractHash 9)
      (entry_point_name EP_get_approved) ?t h = Inr (None, h2)" by (rule ran(2)) simp_all
  obtain h3 where h3: "call_contract_c reference_platform word_codec (ContractHash 9)
      (entry_point_name EP_balance_of) ?o h = Inr (1 :: u64, h3)" by (rule ran(3)) simp_all
  have "\<exists>h'. owner_of_session reference_host reference_platform move_session h = Inr ((), h')"
    "\<exists>h'. get_approved_session reference_host reference_platform move_session h = Inr ((), h')"
    "\<exists>h'. balance_of_session reference_host reference_platform move_session h = Inr ((), h')"
    using h1 h2 h3
    by (simp_all add: owner_of_session_def get_approved_session_def balance_of_session_def
        bind_move_contract move_session_inputs get_named_arg_c_def bind_c_Inr move_session_token
        put_new_uref_def split: prod.split)
  with h(1) that show thesis by blast
qed

theorem asking_sessions_report_witness:
  "\<exists>h h1. owner_of_session reference_host reference_platform move_session h = Inr ((), h1)
    \<and> (\<exists>owner. stored_under reference_host ''answer'' (to_bytes key_codec owner) h1)"
proof -
  obtain h h1 h2 h3 where h: "reachable reference_host alice example_args h"
    "owner_of_session reference_host reference_platform move_session h = Inr ((), h1)"
    by (rule asking_sessions_run)
  have r: "reachable reference_host alice example_args (id h)" using h(1) by simp
  have c: "calls_contract move_session (ContractHash 9)" by (simp add: move_session_def)
  from asking_sessions_report [OF reference_platform.casper_platform_axioms r c, of "()" h1] h(2)
  show ?thesis by (auto simp: move_session_inputs)
qed

section \<open>The minting contract\<close>

lemma numbered_arg_misses_hash:
  "get_token_identifier_from_runtime_args H (deliver H [(ARG_TOKEN_ID, x)] c st) Hash s
    = Inl (User MissingTokenID)"
  "get_token_identifier_from_runtime_args H (deliver H [(ARG_TOKEN_ID, x), (ARG_SOURCE_KEY, y),
    (ARG_TARGET_KEY, z)] c st) Hash s = Inl (User MissingTokenID)"
  by (simp_all add: get_token_identifier_from_runtime_args_def bind_c_def missing_arg(1) constant_defs
      unwrap_or_revert_def)

text \<open>C38. The minting contract passes on numbers only: of a contract that identifies its tokens by
  hashes it moves and burns none, whatever its arguments.\<close>

theorem minting_contract_moves_no_hash:
  assumes "casper_platform H P nft inside" and "reachable H installer a (inside h)"
    and "a_identifier_mode a = Hash" and "calls_contract i nft"
  shows "minting_contract_transfer H P i h \<noteq> Inr x \<and> minting_contract_burn H P i h \<noteq> Inr y"
proof -
  obtain L where rep: "represents H L (inside h)" and mode: "l_identifier_mode L = Hash"
    using platform_ledgerE [OF assms(1,2)] assms(3) by metis
  have "minting_contract_transfer H P i h \<noteq> Inr (u, h')" for u h'
  proof
    assume "minting_contract_transfer H P i h = Inr (u, h')"
    then obtain n y z where call: "bind_c (call_contract_c P (c_transfer_receipt P) nft
        (entry_point_name EP_transfer) [(ARG_TOKEN_ID, n), (ARG_SOURCE_KEY, y), (ARG_TARGET_KEY, z)])
        (\<lambda>(rn, k). put_key_c H rn k) h = Inr (u, h')"
      unfolding minting_contract_transfer_def casper_platform.contract_hash_arg_run [OF assms(1,4)]
      by (auto elim!: get_named_arg_InrE)
    show False
      by (rule casper_platform.session_call [OF assms(1) call rep])
        (auto simp: ledger_call_def ledger_transfer_def mode numbered_arg_misses_hash bind_c_Inl
          split: if_splits)
  qed
  moreover have "minting_contract_burn H P i h \<noteq> Inr (u, h')" for u h'
  proof
    assume "minting_contract_burn H P i h = Inr (u, h')"
    then obtain n where call: "call_contract_c P (c_unit H) nft (entry_point_name EP_burn)
        [(ARG_TOKEN_ID, n)] h = Inr (u, h')"
      unfolding minting_contract_burn_def casper_platform.contract_hash_arg_run [OF assms(1,4)]
      by (auto elim!: get_named_arg_InrE)
    show False
      by (rule casper_platform.call_contract_ledger [OF assms(1) call rep])
        (auto simp: ledger_call_def ledger_burn_def mode numbered_arg_misses_hash bind_c_Inl
          split: if_splits)
  qed
  ultimately show ?thesis by (cases x; cases y) blast
qed

theorem minting_contract_moves_no_hash_witness:
  "\<exists>h. reachable reference_host alice hash_args h
    \<and> (\<forall>x. minting_contract_transfer reference_host reference_platform move_session h \<noteq> Inr x)"
proof -
  obtain us h where h: "reachable reference_host alice hash_args h"
    "represents reference_host (initial_ledger us alice hash_args) h"
    by (rule reachable_initial [OF hash_args_read])
  have r: "reachable reference_host alice hash_args (id h)" using h(1) by simp
  have m: "a_identifier_mode hash_args = Hash" by (simp add: hash_args_def)
  have c: "calls_contract move_session (ContractHash 9)" by (simp add: move_session_def)
  from minting_contract_moves_no_hash [OF reference_platform.casper_platform_axioms r m c] h(1)
  show ?thesis by blast
qed

end
