(* ===== verification/Data_Properties.thy ===== *)
theory Data_Properties
  imports Client_Properties
begin

text \<open>
  The data of the contract: the metadata it keeps and the serialisation of schemas.
\<close>

section \<open>Metadata\<close>

text \<open>What validation makes of metadata is valid, and validation leaves it alone.\<close>

context casper_json
begin

lemma valid_metadata_stable:
  assumes "valid_metadata H kind schema s = Inr md"
  shows "valid_metadata H kind schema md = Inr md"
proof (cases kind)
  case CEP78
  with assms obtain m where "\<not> (cep78_name m = [] \<or> cep78_token_uri m = [] \<or> cep78_checksum m = [])"
    and "to_string_pretty_cep78 H m = Some md"
    by (auto simp: valid_metadata_def jsonified_def split: option.splits if_splits)
  then show ?thesis by (simp add: CEP78 valid_metadata_def jsonified_def json_cep78)
next
  case NFT721
  with assms obtain m where "\<not> (nft721_name m = [] \<or> nft721_token_uri m = [] \<or> nft721_symbol m = [])"
    and "to_string_pretty_nft721 H m = Some md"
    by (auto simp: valid_metadata_def jsonified_def split: option.splits if_splits)
  then show ?thesis by (simp add: NFT721 valid_metadata_def jsonified_def json_nft721)
next
  case CustomValidated
  with assms obtain sc m where "from_str_schema H schema = Some sc" and "has_required sc m"
    and m: "from_str_attributes H s = Some m" "to_string_pretty_attributes H m = Some md"
    by (auto simp: valid_metadata_def jsonified_def split: option.splits if_splits)
  then show ?thesis
    by (simp add: CustomValidated valid_metadata_def jsonified_def json_attributes [OF m])
qed (simp add: valid_metadata_def)

end

lemma validate_metadata_Inr:
  assumes "casper_host H" and "represents H L h"
    and "valid_metadata H kind (l_json_schema L) s = Inr md"
  shows "validate_metadata H kind s h = Inr (Inr md, h)"
proof -
  have "bind_c (validate_metadata H kind s) (\<lambda>r. bind_c (unwrap_or_revert r) return_c) h = Inr (md, h)"
    using casper_host.validate_metadata_run [OF assms(1,2), of kind s return_c] assms(3) by simp
  then show ?thesis by (auto simp: bind_c_def unwrap_or_revert_def split: sum.splits)
qed

text \<open>C17. In every state that calls lead to, the metadata a contract keeps is valid for its kind of
  metadata, and in the form that validation gives it: validated again, it is accepted unchanged.\<close>

theorem stored_metadata_is_valid:
  assumes "casper_host H" and "casper_json H" and "reachable H installer a h"
    and "get_dictionary_value_from_key H (c_string H)
      (get_metadata_dictionary_name (a_nft_metadata_kind a)) n h = Inr (Some md, h)"
  shows "validate_metadata H (a_nft_metadata_kind a) md h = Inr (Inr md, h)"
proof -
  obtain us cs where rep: "represents H (ledger_run_calls H cs (initial_ledger us installer a)) h"
    (is "represents H ?L h") using casper_host.reachable_represents [OF assms(1,3)] by blast
  have "validated H ?L"
    by (rule ledger_run_calls_induct [OF _ effect_validated]) (simp_all add: validated_def initial_ledger_def)
  moreover have kind: "l_metadata_kind ?L = a_nft_metadata_kind a"
    using run_calls_configuration [of "initial_ledger us installer a" H cs]
    by (simp add: same_configuration_def initial_ledger_def)
  moreover have "l_metadata ?L (a_nft_metadata_kind a) n = Some md"
    using casper_host.readD(4) [OF assms(1) rep assms(4)] by simp
  ultimately obtain s where "valid_metadata H (a_nft_metadata_kind a) (l_json_schema ?L) s = Inr md"
    unfolding validated_def by metis
  then show ?thesis
    by (rule validate_metadata_Inr [OF assms(1) rep casper_json.valid_metadata_stable [OF assms(2)]])
qed

theorem stored_metadata_is_valid_witness:
  "\<exists>h. get_dictionary_value_from_key reference_host string_codec METADATA_RAW (u64_to_string 0) h
      = Inr (Some ''tabby'', h)
    \<and> validate_metadata reference_host Raw ''tabby'' h = Inr (Inr ''tabby'', h)"
proof -
  obtain us h where h: "reachable reference_host alice example_args h"
    "represents reference_host (minted_ledger\<lparr>l_urefs := us\<rparr>) h" by (rule example_reachable_minted)
  have kind: "a_nft_metadata_kind example_args = Raw" by (simp add: example_args_def)
  have found: "get_dictionary_value_from_key reference_host string_codec
      (get_metadata_dictionary_name (a_nft_metadata_kind example_args)) (u64_to_string 0) h
      = Inr (Some ''tabby'', h)"
    using reference.read_dictionaries(6) [OF h(2), of "u64_to_string 0" Raw]
    by (simp add: kind minted_ledger_def add_token_def Let_def)
  from stored_metadata_is_valid [OF reference.casper_host_axioms reference_json.casper_json_axioms h(1)]
    found show ?thesis by (auto simp: kind get_metadata_dictionary_name_def)
qed

section \<open>Schemas\<close>

lemma property_codec:
  assumes "casper_codecs H"
  shows "property_from_bytes H (property_to_bytes H p @ r) = Inr (p, r)"
  using casper_codecs.codec_string [OF assms] casper_codecs.codec_bool [OF assms]
  by (simp add: property_from_bytes_def property_to_bytes_def codec_ok_def)

text \<open>C40. A property of a schema, and a schema, are read back from their bytes as they were written,
  with what follows them.\<close>

theorem schemas_round_trip:
  assumes "casper_codecs H"
  shows "property_from_bytes H (property_to_bytes H p @ r) = Inr (p, r)
    \<and> schema_from_bytes H (schema_to_bytes H s @ r) = Inr (s, r)"
proof -
  have "codec_ok (Codec (property_to_bytes H) (property_from_bytes H))"
    by (simp add: codec_ok_def property_codec [OF assms])
  from casper_codecs.codec_btree_map [OF assms this] property_codec [OF assms, of p r]
  show ?thesis by (simp add: schema_from_bytes_def schema_to_bytes_def codec_ok_def)
qed

theorem schemas_round_trip_witness:
  "schema_from_bytes reference_host (schema_to_bytes reference_host nft721_schema) = Inr (nft721_schema, [])"
  using schemas_round_trip [OF reference.casper_codecs_axioms, of _ "[]" nft721_schema] by simp

end
