(* ===== verification/Spec2Isabelle.thy ===== *)
theory Spec2Isabelle
  imports Refinement_Properties Token_Properties Session_Properties Data_Properties
begin

text \<open>
  A verification of the NFT contract of \<open>src/casper\<close>: a CEP-78 contract for the Casper chain, with a
  whitelist of the accounts that may receive tokens, and the sessions that install and call it.

  \<^bold>\<open>The program.\<close> \<open>contract/src/main.rs\<close> has the entry points of the contract and, in \<open>call\<close>, the
  session that installs it; \<open>utils.rs\<close> the modes, the access to named keys, dictionaries and
  arguments, token identifiers and metadata; \<open>error.rs\<close> and \<open>constants.rs\<close> the errors and the names.
  \<open>client/*/src/main.rs\<close> are five sessions and a second contract that call the first. The state of
  the contract is on the chain: a URef under each of its named keys with the bytes of one value, and
  ten dictionaries from strings to bytes. An entry point that reverts has no effect.

  \<^bold>\<open>The model.\<close> The code of the contract is a function from a host state to an error or to a value and
  the next state (\<open>bind_c\<close>, \<open>revert_c\<close> in Prelude). What is not in the repository is a parameter: the
  record \<open>casper\<close> has the functions of the host, of \<open>casper_types\<close> and of the JSON library that the
  contract calls, over an unknown type of host states; the record \<open>platform\<close> those that only sessions
  call. The record \<open>invocation\<close> is what the host tells the code about the call. The locales
  \<open>casper_codecs\<close>, \<open>casper_host\<close>, \<open>casper_json\<close> (Casper) and \<open>casper_platform\<close> (Platform) state
  what their documentation promises; \<open>Reference_Host\<close> and \<open>Client_Properties\<close> interpret each of them
  on a host and a platform that compute, on which every property is tried. Integers have their width
  (\<open>u64\<close> is a 64-bit word and wraps around, as in a release build). A dictionary takes keys up to a
  length that is a parameter (\<open>dictionary_item_key_max_length\<close>): reading or writing under a longer one
  reverts, so that a call that names a token by a long hash does (\<open>fits\<close>, \<open>too_long\<close>); numbers and
  printed hashes of accounts and contracts are short enough.

  The theories, in the order in which they import each other, and what they model:
  \<^item> Prelude: computations, lists, decimal numerals. Errors: \<open>error.rs\<close>. Casper: the interface.
    Constants: \<open>constants.rs\<close>. Utils: \<open>utils.rs\<close> but for the metadata, which is in Metadata.
  \<^item> Admin, Mint, Token_Ops, Queries: the entry points of \<open>main.rs\<close>: \<open>init\<close>, \<open>set_variables\<close> and the
    account whitelist; \<open>mint\<close>; \<open>burn\<close>, \<open>approve\<close>, \<open>set_approval_for_all\<close>, \<open>transfer\<close> and
    \<open>set_token_metadata\<close>; \<open>owner_of\<close>, \<open>balance_of\<close>, \<open>get_approved\<close> and \<open>metadata\<close>. Long
    functions are cut into the steps their comments name; each step is one definition.
  \<^item> Install: the table of entry points, \<open>install_nft_contract\<close> and \<open>call\<close>. Clients: the sessions and
    the minting contract under \<open>client\<close>.
  \<^item> Ledger: the abstract contract. A \<open>ledger\<close> has the typed contents of all named keys and
    dictionaries, and each entry point is a guarded update of it (\<open>ledger_mint\<close> and the others).
  \<^item> Representation, Steps, Updates, Refinement, Refine_Moves, Initialisation: \<open>represents\<close> relates a
    ledger and a host state; \<open>sim\<close> says that two outcomes agree. The lemmas \<open>mint_refines\<close> and the
    others show that the code, on a state that represents a ledger, reverts with the ledger's error
    or returns the ledger's value in a state that represents the next ledger; \<open>init_refines\<close> that
    \<open>init\<close> leads from a fresh state to the empty ledger.
  \<^item> Invariant, Contract, Progress: \<open>consistent\<close> (owners, lists, balances, issuers, metadata and the
    counter agree) and \<open>numbered\<close>; a call of an entry point (\<open>call_entry\<close>), sequences of calls, the
    relation \<open>effect\<close> of what calls do, the states that calls lead to (\<open>reachable\<close>), and what the
    invariant gives: guards that never fail, balances that add up.
  \<^item> Refusals: the errors each entry point can end with (\<open>refusals\<close>), that there are no others, and
    what holds of the call where an error has more than one source in the code (\<open>explained\<close>).
  \<^item> Platform: the interface between sessions and the contract.
  \<^item> Reference_Host, Reference_Ledger, Examples: the host on which properties are tried, and calls.
  \<^item> Refinement_Properties, Token_Properties, Authority_Properties, Journey_Properties,
    Outcome_Properties, Client_Properties, Session_Properties, Data_Properties: the properties.

  \<^bold>\<open>What is shown.\<close>
  \<^item> Refinement_Properties: each entry point, on every branch, implements the ledger; \<open>init\<close> establishes
    it and runs once; the query \<open>metadata\<close> never answers, since \<open>init\<close> does not bind the name it reads.
  \<^item> Token_Properties: in a contract that numbers its tokens the state agrees with itself after any
    calls, the balances and the burnt tokens add up to the minted ones, no call fails because storage
    is ill-formed or disagrees with itself, the supply bounds the counter, and what is burnt, issued,
    immutable or configured stays.
  \<^item> Authority_Properties: who mints, transfers and administers, who can receive a token by transfer,
    and the modes in which \<open>transfer\<close> does not ask who calls it.
  \<^item> Journey_Properties and Outcome_Properties: what the queries answer after a call, which calls must
    return and which must not, how a mint takes over a token that is named by a hash, and that
    approving all tokens of an owner is approving each of them.
  \<^item> Client_Properties and Session_Properties: on every platform, what the installing session and the
    clients have done when they have returned, and what the minting contract cannot do.
  \<^item> Data_Properties: stored metadata is valid and stays so when it is validated again; the
    serialisation of schemas.

  Most of the invariants are about contracts that number their tokens. In a contract that names them
  by hashes a mint under a name that is taken replaces owner, issuer and metadata and leaves the lists
  and balances as they were (\<open>hash_mint_takes_over\<close>); \<open>call_keeps_consistent\<close> says that this is the
  only call that breaks the invariant. The table of entry points is a constant: Install has its
  translation, and no property is about it but that \<open>install_call\<close> installs it.

  \<^bold>\<open>Bounds.\<close> No fuel is used: the loops of the code run over lists and are recursive functions on
  them. A fresh state must have as many unused URefs as the contract binds names (27). The counter of
  minted tokens cannot wrap around, since it stays below the supply, a \<open>u64\<close>; balances cannot, since
  they stay below the counter in a contract that numbers its tokens.

  \<^bold>\<open>Not modelled.\<close> The chain: gas, the rights on URefs and contract versions, which the code does not
  read; the types that \<open>CLValue\<close> carries beside the bytes, and \<open>CLTyped\<close> instances; the raw pointers
  in the calls of the host, of which the model has the results; the text of JSON, left to the parser.
  The integration tests, which run the compiled contract, and the services in Kotlin and in the
  Noumena protocol language under \<open>src/api\<close> and \<open>src/npl\<close> have no code of the contract.
\<close>

end
